(* ===== verification/Prelude.thy ===== *)
theory Prelude
  imports Complex_Main "HOL-Library.AList"
begin

text \<open>
  Shared vocabulary of the development. A JavaScript number is modelled as a
  \<open>real\<close> (finite IEEE doubles without rounding; \<open>NaN\<close> and infinities are
  outside the model). A JavaScript object used as a dictionary
  (\<open>Record<string, V>\<close>, and what \<open>snapshot.val()\<close> returns for a
  Firebase node) is an association list \<open>(string \<times> 'v) list\<close>: its
  entries in \<open>Object.entries\<close> order, with distinct keys. Writing
  \<open>obj[k] = v\<close> is \<open>AList.update\<close> (an existing key keeps its place, a new
  key is appended, as in JavaScript), deleting a key is \<open>AList.delete\<close>, and
  \<open>arr.reduce((acc, x) => acc + f x, 0)\<close> is a left fold. The lemmas below
  relate these to sums and to the map \<open>map_of\<close> the dictionary denotes.
\<close>

named_theorems obj_simps "equations of the dictionary model, used by the component proofs"

type_synonym js_number = real
type_synonym 'v js_object = "(string \<times> 'v) list"

definition obj_wf :: "('k \<times> 'v) list \<Rightarrow> bool" where
  "obj_wf xs \<longleftrightarrow> distinct (map fst xs)"

abbreviation obj_get :: "('k \<times> 'v) list \<Rightarrow> 'k \<Rightarrow> 'v option" where
  "obj_get xs k \<equiv> map_of xs k"

abbreviation obj_set :: "'k \<Rightarrow> 'v \<Rightarrow> ('k \<times> 'v) list \<Rightarrow> ('k \<times> 'v) list" where
  "obj_set k v xs \<equiv> AList.update k v xs"

abbreviation obj_delete :: "'k \<Rightarrow> ('k \<times> 'v) list \<Rightarrow> ('k \<times> 'v) list" where
  "obj_delete k xs \<equiv> AList.delete k xs"

text \<open>Every entry is stored under the key its value names (\<open>f\<close> reads that key).\<close>

definition keyed :: "('v \<Rightarrow> 'k) \<Rightarrow> ('k \<times> 'v) list \<Rightarrow> bool" where
  "keyed f xs \<longleftrightarrow> list_all (\<lambda>(j, x). f x = j) xs"

text \<open>\<open>Array.prototype.reduce\<close> with an additive step, started at \<open>a\<close>.\<close>

definition js_sum_by :: "('v \<Rightarrow> 'a::comm_monoid_add) \<Rightarrow> 'a \<Rightarrow> 'v list \<Rightarrow> 'a" where
  "js_sum_by f a xs = foldl (\<lambda>acc x. acc + f x) a xs"

text \<open>The contribution of key \<open>k\<close> to a sum over the entries: nothing when absent.\<close>

definition entry_or_zero :: "('v \<Rightarrow> 'a::zero) \<Rightarrow> ('k \<times> 'v) list \<Rightarrow> 'k \<Rightarrow> 'a" where
  "entry_or_zero f xs k = (case map_of xs k of None \<Rightarrow> 0 | Some v \<Rightarrow> f v)"

subsection \<open>Folds as sums\<close>

lemma js_sum_by_sum_list [obj_simps]:
  "js_sum_by f a xs = a + sum_list (map f xs)"
proof (induction xs arbitrary: a)
  case Nil
  then show ?case by (simp add: js_sum_by_def)
next
  case (Cons x xs)
  then show ?case by (simp add: js_sum_by_def add.assoc)
qed

subsection \<open>Well-formed dictionaries\<close>

lemma obj_wf_Nil [simp, intro]: "obj_wf []"
  by (simp add: obj_wf_def)

lemma obj_wf_update [simp, intro]: "obj_wf xs \<Longrightarrow> obj_wf (AList.update k v xs)"
  by (simp add: obj_wf_def distinct_update)

lemma obj_wf_delete [simp, intro]: "obj_wf xs \<Longrightarrow> obj_wf (AList.delete k xs)"
  by (simp add: obj_wf_def distinct_delete)

lemma set_update_subset: "set (AList.update k v xs) \<subseteq> insert (k, v) (set xs)"
  by (induction xs) auto

lemma keys_update [obj_simps]: "fst ` set (AList.update k v xs) = insert k (fst ` set xs)"
  by (simp add: dom_update)

lemma keys_delete [obj_simps]:
  "fst ` set (AList.delete k xs) = fst ` set xs - {k}"
  by (auto simp: AList.delete_eq)

lemma keyed_Nil [simp]: "keyed f []"
  by (simp add: keyed_def)

lemma keyed_Cons [simp]: "keyed f ((j, x) # xs) \<longleftrightarrow> f x = j \<and> keyed f xs"
  by (simp add: keyed_def)

lemma keyed_update [simp]: "keyed f xs \<Longrightarrow> keyed f (AList.update (f v) v xs)"
  by (induction xs) (auto simp: keyed_def)

lemma keyed_delete [simp]: "keyed f xs \<Longrightarrow> keyed f (AList.delete k xs)"
  by (induction xs) (auto simp: keyed_def)

lemma keyed_entry: "keyed f xs \<Longrightarrow> (j, x) \<in> set xs \<Longrightarrow> f x = j"
  by (auto simp: keyed_def list_all_iff)

lemma map_of_entry: "obj_wf xs \<Longrightarrow> (k, v) \<in> set xs \<Longrightarrow> map_of xs k = Some v"
  by (simp add: obj_wf_def)

lemma entry_or_zero_Nil [simp]: "entry_or_zero f [] k = 0"
  by (simp add: entry_or_zero_def)

lemma entry_or_zero_Cons [simp]:
  "entry_or_zero f ((j, v) # xs) k = (if j = k then f v else entry_or_zero f xs k)"
  by (simp add: entry_or_zero_def)

subsection \<open>Sums over dictionary values\<close>

text \<open>
  Writing a key changes a sum over the values by the new value minus the old one;
  deleting a key subtracts the old one. Both need distinct keys.
\<close>

lemma sum_update [obj_simps]:
  fixes f :: "'v \<Rightarrow> 'a::ab_group_add"
  assumes "obj_wf xs"
  shows "sum_list (map (f \<circ> snd) (AList.update k v xs))
       = sum_list (map (f \<circ> snd) xs) - entry_or_zero f xs k + f v"
  using assms
proof (induction xs)
  case Nil
  then show ?case by simp
next
  case (Cons p xs)
  then show ?case by (cases p) (auto simp: obj_wf_def algebra_simps)
qed

lemma sum_delete [obj_simps]:
  fixes f :: "'v \<Rightarrow> 'a::ab_group_add"
  assumes "obj_wf xs"
  shows "sum_list (map (f \<circ> snd) (AList.delete k xs))
       = sum_list (map (f \<circ> snd) xs) - entry_or_zero f xs k"
  using assms
proof (induction xs)
  case Nil
  then show ?case by simp
next
  case (Cons p xs)
  then show ?case
    by (cases p) (auto simp: obj_wf_def algebra_simps entry_or_zero_def
        map_of_eq_None_iff)
qed

text \<open>The sum over the entries except one key.\<close>

lemma sum_except_absent:
  "k \<notin> fst ` set xs \<Longrightarrow>
   sum_list (map (\<lambda>(j, v). if j \<noteq> k then f v else 0) xs) = sum_list (map (f \<circ> snd) xs)"
  by (induction xs) auto

lemma sum_except [obj_simps]:
  fixes f :: "'v \<Rightarrow> 'a::ab_group_add"
  assumes "obj_wf xs"
  shows "sum_list (map (\<lambda>(j, v). if j \<noteq> k then f v else 0) xs)
       = sum_list (map (f \<circ> snd) xs) - entry_or_zero f xs k"
  using assms
proof (induction xs)
  case Nil
  then show ?case by simp
next
  case (Cons p xs)
  obtain j v where p: "p = (j, v)" by (cases p)
  with Cons.prems have wf: "obj_wf xs" and notin: "j \<notin> fst ` set xs"
    by (auto simp: obj_wf_def)
  show ?case
  proof (cases "j = k")
    case True
    with notin p show ?thesis by (simp add: sum_except_absent comp_def)
  next
    case False
    with Cons.IH wf p show ?thesis by simp
  qed
qed

text \<open>
  A sum over the entries of a well-formed dictionary is a sum over the keys of
  the map it denotes: the abstraction of an entry list to its map.
\<close>

lemma sum_entries_dom [obj_simps]:
  fixes g :: "'k \<Rightarrow> 'v \<Rightarrow> 'a::comm_monoid_add"
  assumes "obj_wf xs"
  shows "sum_list (map (\<lambda>(k, v). g k v) xs)
       = (\<Sum>k \<in> dom (map_of xs). g k (the (map_of xs k)))"
  using assms
proof (induction xs)
  case Nil
  then show ?case by simp
next
  case (Cons p xs)
  obtain k v where p: "p = (k, v)" by (cases p)
  with Cons.prems have wf: "obj_wf xs" and notin: "k \<notin> dom (map_of xs)"
    by (auto simp: obj_wf_def dom_map_of_conv_image_fst)
  have dom: "dom (map_of (p # xs)) = insert k (dom (map_of xs))"
    using p by auto
  have rest: "(\<Sum>j \<in> dom (map_of xs). g j (the (map_of (p # xs) j)))
      = (\<Sum>j \<in> dom (map_of xs). g j (the (map_of xs j)))"
    using notin p by (intro sum.cong) auto
  have big: "(\<Sum>j \<in> dom (map_of (p # xs)). g j (the (map_of (p # xs) j)))
      = g k v + (\<Sum>j \<in> dom (map_of xs). g j (the (map_of (p # xs) j)))"
    unfolding dom using notin p by (simp add: finite_dom_map_of)
  have "sum_list (map (\<lambda>(k, v). g k v) (p # xs))
      = g k v + (\<Sum>j \<in> dom (map_of xs). g j (the (map_of xs j)))"
    using Cons.IH wf p by simp
  also have "\<dots> = (\<Sum>j \<in> dom (map_of (p # xs)). g j (the (map_of (p # xs) j)))"
    by (simp only: big rest)
  finally show ?case .
qed

end
