(* ===== verification/RatesWeights.thy ===== *)
theory RatesWeights
  imports Prelude "HOL-Library.Multiset"
begin

text \<open>
  The rates-and-weights engine of \<open>src/src/lib/ratesAndWeights.ts\<close> over the
  types of \<open>src/src/types/ratesAndWeights.ts\<close>: \<open>normalizeValue\<close> (the
  normaliser), \<open>calculateDailyRate\<close> (the weighted daily rate, its
  \<open>forEach\<close> loop as the recursion \<open>daily_rate_loop\<close>) and
  \<open>validateWeights\<close> (the weight-sum check). The lemmas give the unit-interval
  bound and clamping of the normaliser, the equivalence of the loop with a sum of
  per-weight terms, the refinement of the loop to a sum over the abstract maps,
  the skipping of orphaned weights and of metrics without a reading, bounds on the
  rate, and the order-independence of the weight check.
\<close>

section \<open>Data model\<close>

datatype MetricCategory = UserActivity | Transactions | Revenue | Network | Market

text \<open>The label a category is stored and displayed under.\<close>

fun categoryLabel :: "MetricCategory \<Rightarrow> string" where
  "categoryLabel UserActivity = ''User Activity''"
| "categoryLabel Transactions = ''Transactions''"
| "categoryLabel Revenue = ''Revenue''"
| "categoryLabel Network = ''Network''"
| "categoryLabel Market = ''Market''"

text \<open>
  The \<open>Metric\<close> interface. Its \<open>id\<close> field is \<open>metric_id\<close> here
  (\<open>id\<close> is the identity function of HOL); \<open>currentValue?\<close> is optional.
\<close>

record metric =
  metric_id :: string
  name :: string
  description :: string
  category :: MetricCategory
  minValue :: js_number
  maxValue :: js_number
  currentValue :: "js_number option"

record weight =
  metricId :: string
  "value" :: js_number

record rates_and_weights_state =
  metrics :: "metric js_object"
  weights :: "weight js_object"
  baselineRate :: js_number

section \<open>Operations\<close>

definition normalizeValue :: "js_number \<Rightarrow> js_number \<Rightarrow> js_number \<Rightarrow> js_number" where
  "normalizeValue v mn mx =
     (if mn = mx then 0 else max 0 (min 1 ((v - mn) / (mx - mn))))"

text \<open>
  One pass of the \<open>forEach\<close> over \<open>Object.entries(weights)\<close>: the metric is
  looked up under the entry's key; the term is added only when the metric exists
  and has a \<open>currentValue\<close>.
\<close>

fun daily_rate_loop :: "metric js_object \<Rightarrow> js_number \<Rightarrow> weight js_object \<Rightarrow> js_number" where
  "daily_rate_loop ms weightedSum [] = weightedSum"
| "daily_rate_loop ms weightedSum ((k, w) # es) =
     daily_rate_loop ms
       (case map_of ms k of
          None \<Rightarrow> weightedSum
        | Some m \<Rightarrow>
            (case currentValue m of
               None \<Rightarrow> weightedSum
             | Some cv \<Rightarrow>
                 weightedSum + normalizeValue cv (minValue m) (maxValue m) * (value w / 100)))
       es"

definition calculateDailyRate ::
  "metric js_object \<Rightarrow> weight js_object \<Rightarrow> js_number \<Rightarrow> js_number" where
  "calculateDailyRate ms ws baseline = baseline + daily_rate_loop ms 0 ws"

definition validateWeights :: "weight js_object \<Rightarrow> bool" where
  "validateWeights ws = (\<bar>js_sum_by value 0 (map snd ws) - 100\<bar> < 0.01)"

section \<open>Reference definitions\<close>

text \<open>
  What one weight contributes, given the (optional) metric it refers to: the
  reference reading of the loop body, and the abstract specification of the rate
  as a sum over the keys of the weights map.
\<close>

definition weight_term :: "metric option \<Rightarrow> weight \<Rightarrow> js_number" where
  "weight_term om w =
     (case om of
        None \<Rightarrow> 0
      | Some m \<Rightarrow>
          (case currentValue m of
             None \<Rightarrow> 0
           | Some cv \<Rightarrow> normalizeValue cv (minValue m) (maxValue m) * (value w / 100)))"

definition daily_rate_spec ::
  "(string \<rightharpoonup> metric) \<Rightarrow> (string \<rightharpoonup> weight) \<Rightarrow> js_number \<Rightarrow> js_number" where
  "daily_rate_spec M W baseline = baseline + (\<Sum>k \<in> dom W. weight_term (M k) (the (W k)))"

definition weight_sum :: "weight js_object \<Rightarrow> js_number" where
  "weight_sum ws = sum_list (map (value \<circ> snd) ws)"

section \<open>Normaliser\<close>

lemma normalizeValue_in_unit_aux: "0 \<le> normalizeValue v mn mx \<and> normalizeValue v mn mx \<le> 1"
  by (simp add: normalizeValue_def)

lemma normalizeValue_linear:
  assumes "mn < mx" "mn \<le> v" "v \<le> mx"
  shows "normalizeValue v mn mx = (v - mn) / (mx - mn)"
proof -
  have "0 \<le> (v - mn) / (mx - mn)" using assms by simp
  moreover have "(v - mn) / (mx - mn) \<le> 1" using assms by (simp add: divide_le_eq_1)
  ultimately show ?thesis using assms by (simp add: normalizeValue_def)
qed

section \<open>The daily-rate loop\<close>

lemma daily_rate_loop_sum:
  "daily_rate_loop ms acc ws = acc + sum_list (map (\<lambda>(k, w). weight_term (map_of ms k) w) ws)"
proof (induction ms acc ws rule: daily_rate_loop.induct)
  case (1 ms weightedSum)
  then show ?case by simp
next
  case (2 ms weightedSum k w es)
  then show ?case
    by (simp add: weight_term_def algebra_simps split: option.splits)
qed

lemma weight_term_nonneg: "0 \<le> value w \<Longrightarrow> 0 \<le> weight_term om w"
  using normalizeValue_in_unit_aux
  by (auto simp: weight_term_def split: option.splits)

lemma weight_term_le: "0 \<le> value w \<Longrightarrow> weight_term om w \<le> value w / 100"
proof -
  assume nn: "0 \<le> value w"
  have "\<And>x. 0 \<le> x \<Longrightarrow> x \<le> 1 \<Longrightarrow> x * (value w / 100) \<le> value w / 100"
    using nn by (simp add: mult_left_le_one_le)
  then show ?thesis
    using nn normalizeValue_in_unit_aux
    by (auto simp: weight_term_def split: option.splits)
qed

lemma weight_sum_js_sum: "js_sum_by value 0 (map snd ws) = weight_sum ws"
  by (simp add: js_sum_by_sum_list weight_sum_def comp_def)

lemma weight_sum_nonneg_bound:
  assumes "\<forall>w \<in> snd ` set ws. 0 \<le> value w"
  shows "0 \<le> sum_list (map (\<lambda>(k, w). weight_term (map_of ms k) w) ws)
    \<and> sum_list (map (\<lambda>(k, w). weight_term (map_of ms k) w) ws) \<le> weight_sum ws / 100"
  using assms
proof (induction ws)
  case Nil
  then show ?case by (simp add: weight_sum_def)
next
  case (Cons p ws)
  obtain k w where p: "p = (k, w)" by (cases p)
  with Cons.prems have nn: "0 \<le> value w" by auto
  then have "0 \<le> weight_term (map_of ms k) w" by (rule weight_term_nonneg)
  moreover from nn have "weight_term (map_of ms k) w \<le> value w / 100" by (rule weight_term_le)
  ultimately show ?case using Cons p by (auto simp: weight_sum_def add_divide_distrib)
qed

lemma daily_rate_loop_skip:
  "weight_term (map_of ms k) w = 0 \<Longrightarrow>
   daily_rate_loop ms a (xs @ (k, w) # ys) = daily_rate_loop ms a (xs @ ys)"
  by (simp add: daily_rate_loop_sum)

lemmas rate_simps = calculateDailyRate_def daily_rate_loop_sum weight_term_def normalizeValue_def

section \<open>Properties\<close>

text \<open>
  C1. The normaliser always returns a value in the closed unit interval, whatever
  the reading and the range, degenerate or inverted ranges included.
\<close>

theorem normalizeValue_unit_interval:
  "0 \<le> normalizeValue v mn mx \<and> normalizeValue v mn mx \<le> 1"
  by (simp add: normalizeValue_def)

text \<open>
  A degenerate range (\<open>min = max\<close>) normalises every reading to 0.
\<close>

theorem normalizeValue_degenerate: "normalizeValue v m m = 0"
  by (simp add: normalizeValue_def)

text \<open>
  On a proper range the normaliser maps the minimum to 0 and the maximum to 1.
\<close>

theorem normalizeValue_endpoints:
  "mn \<noteq> mx \<Longrightarrow> normalizeValue mn mn mx = 0 \<and> normalizeValue mx mn mx = 1"
  by (simp add: normalizeValue_def)

theorem normalizeValue_endpoints_witness:
  "(0::real) \<noteq> 100 \<and> normalizeValue 0 0 100 = 0 \<and> normalizeValue 100 0 100 = 1"
  using normalizeValue_endpoints [of "0::real" 100] by simp

text \<open>
  On a range with \<open>min < max\<close>, readings at or below the minimum clamp to
  0 and readings at or above the maximum clamp to 1.
\<close>

theorem normalizeValue_clamp:
  "mn < mx \<Longrightarrow> (v \<le> mn \<longrightarrow> normalizeValue v mn mx = 0)
                 \<and> (mx \<le> v \<longrightarrow> normalizeValue v mn mx = 1)"
  by (auto simp: normalizeValue_def divide_nonpos_pos le_divide_eq_1)

theorem normalizeValue_clamp_witness:
  "(0::real) < 100 \<and> normalizeValue (-5) 0 100 = 0 \<and> normalizeValue 250 0 100 = 1"
  using normalizeValue_clamp [of "0::real" 100 "-5"] normalizeValue_clamp [of "0::real" 100 250]
  by simp

text \<open>
  An inverted range is not rejected: with \<open>min > max\<close> a reading below
  the minimum normalises to 1, not to 0 as the clamping rule for readings below
  the minimum would suggest (the metric form accepts such a range).
\<close>

theorem normalizeValue_inverted_range:
  "(-5::real) < 10 \<and> normalizeValue (-5) 10 0 = 1"
  by (simp add: normalizeValue_def)

text \<open>
  C2. The accumulating \<open>forEach\<close> loop of \<open>calculateDailyRate\<close> computes the
  baseline plus the sum, over the weight entries, of each entry's term.
\<close>

theorem calculateDailyRate_equiv_sum:
  "calculateDailyRate ms ws b = b + sum_list (map (\<lambda>(k, w). weight_term (map_of ms k) w) ws)"
  by (simp add: calculateDailyRate_def daily_rate_loop_sum)

text \<open>
  Refinement: on a weights object with distinct keys, the rate is the abstract
  rate over the maps the two objects denote (a sum over the keys of the weights
  map, independent of the entry order).
\<close>

theorem calculateDailyRate_refines_spec:
  "obj_wf ws \<Longrightarrow> calculateDailyRate ms ws b = daily_rate_spec (map_of ms) (map_of ws) b"
  by (simp add: calculateDailyRate_def daily_rate_loop_sum daily_rate_spec_def
      sum_entries_dom [where g = "\<lambda>k w. weight_term (map_of ms k) w"])

theorem calculateDailyRate_refines_spec_witness:
  "obj_wf [(''a'', \<lparr>metricId = ''a'', value = 60\<rparr>), (''b'', \<lparr>metricId = ''b'', value = 40\<rparr>)]
   \<and> calculateDailyRate [] [(''a'', \<lparr>metricId = ''a'', value = 60\<rparr>), (''b'', \<lparr>metricId = ''b'', value = 40\<rparr>)] 2
     = daily_rate_spec Map.empty
         (map_of [(''a'', \<lparr>metricId = ''a'', value = 60\<rparr>), (''b'', \<lparr>metricId = ''b'', value = 40\<rparr>)]) 2"
  using calculateDailyRate_refines_spec
    [of "[(''a'', \<lparr>metricId = ''a'', value = 60\<rparr>), (''b'', \<lparr>metricId = ''b'', value = 40\<rparr>)]" "[]" 2]
  by (simp add: obj_wf_def)

text \<open>
  A weight whose key names no metric is skipped: removing it leaves the rate
  unchanged.
\<close>

theorem calculateDailyRate_orphan_weight:
  "map_of ms k = None \<Longrightarrow>
   calculateDailyRate ms (xs @ (k, w) # ys) b = calculateDailyRate ms (xs @ ys) b"
  by (simp add: calculateDailyRate_def daily_rate_loop_skip weight_term_def)

theorem calculateDailyRate_orphan_weight_witness:
  "map_of [] ''gone'' = (None :: metric option)
   \<and> calculateDailyRate [] [(''gone'', \<lparr>metricId = ''gone'', value = 100\<rparr>)] 1
     = calculateDailyRate [] [] 1"
  using calculateDailyRate_orphan_weight [of "[]" "''gone''" "[]" _ "[]" 1] by simp

text \<open>
  A weight whose metric exists but has no \<open>currentValue\<close> is skipped, even
  though a zero reading could contribute: the metric is not read as 0.
\<close>

theorem calculateDailyRate_no_reading:
  "map_of ms k = Some m \<Longrightarrow> currentValue m = None \<Longrightarrow>
   calculateDailyRate ms (xs @ (k, w) # ys) b = calculateDailyRate ms (xs @ ys) b"
  by (simp add: calculateDailyRate_def daily_rate_loop_skip weight_term_def)

theorem calculateDailyRate_no_reading_witness:
  "map_of [(''m'', \<lparr>metric_id = ''m'', name = ''M'', description = ''d'', category = Market,
             minValue = -10, maxValue = 10, currentValue = None\<rparr>)] ''m''
     = Some \<lparr>metric_id = ''m'', name = ''M'', description = ''d'', category = Market,
             minValue = -10, maxValue = 10, currentValue = None\<rparr>
   \<and> currentValue \<lparr>metric_id = ''m'', name = ''M'', description = ''d'', category = Market,
             minValue = -10, maxValue = 10, currentValue = None\<rparr> = None
   \<and> calculateDailyRate [(''m'', \<lparr>metric_id = ''m'', name = ''M'', description = ''d'',
             category = Market, minValue = -10, maxValue = 10, currentValue = None\<rparr>)]
       [(''m'', \<lparr>metricId = ''m'', value = 100\<rparr>)] 1 = 1"
  using calculateDailyRate_no_reading
    [of "[(''m'', \<lparr>metric_id = ''m'', name = ''M'', description = ''d'', category = Market,
             minValue = -10, maxValue = 10, currentValue = None\<rparr>)]" "''m''"
        "\<lparr>metric_id = ''m'', name = ''M'', description = ''d'', category = Market,
             minValue = -10, maxValue = 10, currentValue = None\<rparr>" "[]" _ "[]" 1]
  by (simp add: calculateDailyRate_def)

text \<open>
  C3. With non-negative weights the rate lies between the baseline and the
  baseline plus the weight total over 100: each weight adds at most its share.
\<close>

theorem calculateDailyRate_bounds:
  "\<forall>w \<in> snd ` set ws. 0 \<le> value w \<Longrightarrow>
   b \<le> calculateDailyRate ms ws b \<and> calculateDailyRate ms ws b \<le> b + weight_sum ws / 100"
  using weight_sum_nonneg_bound [of ws ms]
  by (simp add: calculateDailyRate_def daily_rate_loop_sum)

theorem calculateDailyRate_bounds_witness:
  "2 \<le> calculateDailyRate [] [(''a'', \<lparr>metricId = ''a'', value = 30\<rparr>)] 2
   \<and> calculateDailyRate [] [(''a'', \<lparr>metricId = ''a'', value = 30\<rparr>)] 2
       \<le> 2 + weight_sum [(''a'', \<lparr>metricId = ''a'', value = 30\<rparr>)] / 100"
  using calculateDailyRate_bounds [of "[(''a'', \<lparr>metricId = ''a'', value = 30\<rparr>)]" 2 "[]"]
  by simp

text \<open>
  A validated, non-negative weight set moves the rate by less than
  1.0001 above the baseline, and never below it.
\<close>

theorem calculateDailyRate_validated_bounds:
  "\<forall>w \<in> snd ` set ws. 0 \<le> value w \<Longrightarrow> validateWeights ws \<Longrightarrow>
   b \<le> calculateDailyRate ms ws b \<and> calculateDailyRate ms ws b < b + 1.0001"
proof -
  assume nn: "\<forall>w \<in> snd ` set ws. 0 \<le> value w" and ok: "validateWeights ws"
  from ok have "\<bar>weight_sum ws - 100\<bar> * 100 < 1"
    by (simp add: validateWeights_def weight_sum_js_sum)
  then have "weight_sum ws * 100 < 10001" by (auto simp: abs_if split: if_splits)
  with weight_sum_nonneg_bound [OF nn, of ms] show ?thesis
    by (simp add: calculateDailyRate_def daily_rate_loop_sum)
qed

theorem calculateDailyRate_validated_bounds_witness:
  "validateWeights [(''a'', \<lparr>metricId = ''a'', value = 100\<rparr>)]
   \<and> 0 \<le> calculateDailyRate [] [(''a'', \<lparr>metricId = ''a'', value = 100\<rparr>)] 0
   \<and> calculateDailyRate [] [(''a'', \<lparr>metricId = ''a'', value = 100\<rparr>)] 0 < 0 + 1.0001"
  using calculateDailyRate_validated_bounds [of "[(''a'', \<lparr>metricId = ''a'', value = 100\<rparr>)]" 0 "[]"]
  by (simp add: validateWeights_def js_sum_by_def)

text \<open>
  The weight check does not depend on the order of the entries: two weight
  objects with the same entries (as multisets) are validated alike.
\<close>

theorem validateWeights_order_independent:
  "mset ws = mset ws' \<Longrightarrow> validateWeights ws = validateWeights ws'"
proof -
  assume "mset ws = mset ws'"
  then have "mset (map (value \<circ> snd) ws) = mset (map (value \<circ> snd) ws')"
    by (simp add: mset_map)
  then have "sum_list (map (value \<circ> snd) ws) = sum_list (map (value \<circ> snd) ws')"
    by (metis sum_mset_sum_list)
  then show ?thesis
    by (simp add: validateWeights_def weight_sum_js_sum weight_sum_def)
qed

theorem validateWeights_order_independent_witness:
  "mset [(''a'', \<lparr>metricId = ''a'', value = 40\<rparr>), (''b'', \<lparr>metricId = ''b'', value = 60\<rparr>)]
     = mset [(''b'', \<lparr>metricId = ''b'', value = 60\<rparr>), (''a'', \<lparr>metricId = ''a'', value = 40\<rparr>)]
   \<and> validateWeights [(''a'', \<lparr>metricId = ''a'', value = 40\<rparr>), (''b'', \<lparr>metricId = ''b'', value = 60\<rparr>)]
     = validateWeights [(''b'', \<lparr>metricId = ''b'', value = 60\<rparr>), (''a'', \<lparr>metricId = ''a'', value = 40\<rparr>)]"
  using validateWeights_order_independent
    [of "[(''a'', \<lparr>metricId = ''a'', value = 40\<rparr>), (''b'', \<lparr>metricId = ''b'', value = 60\<rparr>)]"
        "[(''b'', \<lparr>metricId = ''b'', value = 60\<rparr>), (''a'', \<lparr>metricId = ''a'', value = 40\<rparr>)]"]
  by simp

text \<open>
  The weight check on the specification's examples and at its tolerance:
  a single weight of 100 passes, 50 and 49 fail, a total of 99.995 passes and a
  total of 99.99 (exactly 0.01 away) fails, the bound being strict.
\<close>

theorem validateWeights_examples:
  "validateWeights [(''a'', \<lparr>metricId = ''a'', value = 100\<rparr>)]
   \<and> \<not> validateWeights [(''a'', \<lparr>metricId = ''a'', value = 50\<rparr>), (''b'', \<lparr>metricId = ''b'', value = 49\<rparr>)]
   \<and> validateWeights [(''a'', \<lparr>metricId = ''a'', value = 33.33\<rparr>), (''b'', \<lparr>metricId = ''b'', value = 66.665\<rparr>)]
   \<and> \<not> validateWeights [(''a'', \<lparr>metricId = ''a'', value = 33.33\<rparr>), (''b'', \<lparr>metricId = ''b'', value = 66.66\<rparr>)]"
  by (simp add: validateWeights_def js_sum_by_def)

text \<open>
  The specification's end-to-end scenarios: one metric at the middle of its
  range with weight 100 and baseline 1 gives 1.5; two metrics normalising to 0.2
  and 0.8, each weighted 50, with baseline 0, give 0.5.
\<close>

theorem calculateDailyRate_scenarios:
  "calculateDailyRate
     [(''m1'', \<lparr>metric_id = ''m1'', name = ''Users'', description = ''d'', category = UserActivity,
                minValue = 0, maxValue = 100, currentValue = Some 50\<rparr>)]
     [(''m1'', \<lparr>metricId = ''m1'', value = 100\<rparr>)] 1 = 1.5
   \<and> calculateDailyRate
     [(''m1'', \<lparr>metric_id = ''m1'', name = ''A'', description = ''d'', category = Revenue,
                minValue = 0, maxValue = 10, currentValue = Some 2\<rparr>),
      (''m2'', \<lparr>metric_id = ''m2'', name = ''B'', description = ''d'', category = Network,
                minValue = 0, maxValue = 10, currentValue = Some 8\<rparr>)]
     [(''m1'', \<lparr>metricId = ''m1'', value = 50\<rparr>), (''m2'', \<lparr>metricId = ''m2'', value = 50\<rparr>)] 0 = 0.5"
  by (simp add: calculateDailyRate_def normalizeValue_def)

end
