(* ===== verification/RatesStore.thy ===== *)
theory RatesStore
  imports RatesWeights
begin

text \<open>
  The persisted rates-and-weights aggregate, \<open>src/src/lib/ratesAndWeights.ts\<close>
  lines 42--73, and the calls to the engine on what it returns. The database node
  \<open>ratesAndWeights\<close> is \<open>store_node\<close>. In a Firebase Realtime Database an
  object with no children does not exist, so an empty \<open>metrics\<close> or
  \<open>weights\<close> child is simply absent. \<open>fetchRatesAndWeights\<close> returns the
  default aggregate when the node does not exist, and otherwise
  \<open>snapshot.val()\<close>, whose absent children read as \<open>undefined\<close> (\<open>None\<close>
  in \<open>fetched_state\<close>). The writes \<open>saveMetric\<close>, \<open>saveWeight\<close>,
  \<open>updateBaselineRate\<close> and \<open>deleteMetric\<close> are updates of the node. They
  are modelled for keys that are plain Firebase keys, as the UUIDs and the id
  \<open>initial\<close> the forms produce are. \<open>store_step\<close> runs them as a datatype of
  operations. \<open>calculateDailyRate_call\<close> is the engine called on a fetched
  aggregate with JavaScript's \<open>undefined\<close> handling: \<open>Object.entries\<close> of
  \<open>undefined\<close> raises a \<open>TypeError\<close>.
\<close>

section \<open>Store state\<close>

record store_node =
  node_metrics :: "metric js_object"
  node_weights :: "weight js_object"
  node_baseline :: "js_number option"

record fetched_state =
  fs_metrics :: "metric js_object option"
  fs_weights :: "weight js_object option"
  fs_baseline :: "js_number option"

datatype js_error = TypeError

definition present :: "'v js_object \<Rightarrow> 'v js_object option" where
  "present xs = (if xs = [] then None else Some xs)"

definition node_exists :: "store_node \<Rightarrow> bool" where
  "node_exists n \<longleftrightarrow> node_metrics n \<noteq> [] \<or> node_weights n \<noteq> [] \<or> node_baseline n \<noteq> None"

definition empty_node :: store_node where
  "empty_node = \<lparr>node_metrics = [], node_weights = [], node_baseline = None\<rparr>"

section \<open>Operations\<close>

definition fetchRatesAndWeights :: "store_node \<Rightarrow> fetched_state" where
  "fetchRatesAndWeights n =
     (if \<not> node_exists n
      then \<lparr>fs_metrics = Some [], fs_weights = Some [], fs_baseline = Some 0\<rparr>
      else \<lparr>fs_metrics = present (node_metrics n), fs_weights = present (node_weights n),
            fs_baseline = node_baseline n\<rparr>)"

definition saveMetric :: "metric \<Rightarrow> store_node \<Rightarrow> store_node" where
  "saveMetric m n = n\<lparr>node_metrics := AList.update (metric_id m) m (node_metrics n)\<rparr>"

definition saveWeight :: "weight \<Rightarrow> store_node \<Rightarrow> store_node" where
  "saveWeight w n = n\<lparr>node_weights := AList.update (metricId w) w (node_weights n)\<rparr>"

definition updateBaselineRate :: "js_number \<Rightarrow> store_node \<Rightarrow> store_node" where
  "updateBaselineRate r n = n\<lparr>node_baseline := Some r\<rparr>"

text \<open>One multi-path \<open>update\<close> writing \<open>null\<close> under both paths.\<close>

definition deleteMetric :: "string \<Rightarrow> store_node \<Rightarrow> store_node" where
  "deleteMetric k n =
     n\<lparr>node_metrics := AList.delete k (node_metrics n),
       node_weights := AList.delete k (node_weights n)\<rparr>"

text \<open>
  \<open>handleInitialSetup\<close> of \<open>src/src/pages/TokenOperations/index.tsx\<close>: the whole
  node is replaced by one metric \<open>initial\<close> and its weight, the two numbers
  being the parsed form inputs.
\<close>

definition initial_metric :: "js_number \<Rightarrow> metric" where
  "initial_metric r =
     \<lparr>metric_id = ''initial'', name = ''Initial Metric'', description = ''Initial system metric'',
      category = Market, minValue = 0, maxValue = 100, currentValue = Some r\<rparr>"

definition initialSetup :: "js_number \<Rightarrow> js_number \<Rightarrow> store_node \<Rightarrow> store_node" where
  "initialSetup r w n =
     \<lparr>node_metrics = [(''initial'', initial_metric r)],
      node_weights = [(''initial'', \<lparr>metricId = ''initial'', value = w\<rparr>)],
      node_baseline = Some 0\<rparr>"

datatype store_op =
    SaveMetric metric
  | SaveWeight weight
  | UpdateBaselineRate js_number
  | DeleteMetric string
  | InitialSetup js_number js_number

fun store_step :: "store_node \<Rightarrow> store_op \<Rightarrow> store_node" where
  "store_step n (SaveMetric m) = saveMetric m n"
| "store_step n (SaveWeight w) = saveWeight w n"
| "store_step n (UpdateBaselineRate r) = updateBaselineRate r n"
| "store_step n (DeleteMetric k) = deleteMetric k n"
| "store_step n (InitialSetup r w) = initialSetup r w n"

text \<open>The guard a write needs to keep the invariant below: a weight must name a metric.\<close>

fun store_guard :: "store_node \<Rightarrow> store_op \<Rightarrow> bool" where
  "store_guard n (SaveWeight w) = (metricId w \<in> fst ` set (node_metrics n))"
| "store_guard n _ = True"

fun store_run_ok :: "store_node \<Rightarrow> store_op list \<Rightarrow> bool" where
  "store_run_ok n [] = True"
| "store_run_ok n (op # ops) = (store_guard n op \<and> store_run_ok (store_step n op) ops)"

fun store_run :: "store_node \<Rightarrow> store_op list \<Rightarrow> store_node" where
  "store_run n [] = n"
| "store_run n (op # ops) = store_run (store_step n op) ops"

text \<open>
  The engine called on a fetched aggregate, as the page does. \<open>Object.entries\<close>
  raises on an absent \<open>weights\<close>. Looking a metric up in an absent
  \<open>metrics\<close> raises as soon as there is a weight. An absent baseline makes the
  sum \<open>NaN\<close> (\<open>Inr None\<close>).
\<close>

definition calculateDailyRate_call ::
  "metric js_object option \<Rightarrow> weight js_object option \<Rightarrow> js_number option \<Rightarrow> js_error + js_number option" where
  "calculateDailyRate_call oms ows ob =
     (case ows of
        None \<Rightarrow> Inl TypeError
      | Some ws \<Rightarrow>
          (case oms of
             None \<Rightarrow> (if ws = [] then Inr (map_option (\<lambda>b. b) ob) else Inl TypeError)
           | Some ms \<Rightarrow> Inr (map_option (\<lambda>b. calculateDailyRate ms ws b) ob)))"

section \<open>Invariant\<close>

text \<open>
  Every entry sits under its own id, and every weight names a stored metric: the
  aggregate the engine expects.
\<close>

definition store_inv :: "store_node \<Rightarrow> bool" where
  "store_inv n \<longleftrightarrow>
     obj_wf (node_metrics n) \<and> obj_wf (node_weights n)
     \<and> keyed metric_id (node_metrics n) \<and> keyed metricId (node_weights n)
     \<and> fst ` set (node_weights n) \<subseteq> fst ` set (node_metrics n)"

lemma store_inv_saveMetric: "store_inv n \<Longrightarrow> store_inv (saveMetric m n)"
  by (auto simp: store_inv_def saveMetric_def keys_update)

lemma store_inv_saveWeight:
  "store_inv n \<Longrightarrow> metricId w \<in> fst ` set (node_metrics n) \<Longrightarrow> store_inv (saveWeight w n)"
  by (auto simp: store_inv_def saveWeight_def keys_update)

lemma store_inv_updateBaselineRate: "store_inv n \<Longrightarrow> store_inv (updateBaselineRate r n)"
  by (simp add: store_inv_def updateBaselineRate_def)

lemma store_inv_deleteMetric: "store_inv n \<Longrightarrow> store_inv (deleteMetric k n)"
  by (auto simp: store_inv_def deleteMetric_def keys_delete)

lemma store_inv_initialSetup: "store_inv (initialSetup r w n)"
  by (simp add: store_inv_def initialSetup_def initial_metric_def obj_wf_def)

lemma store_inv_empty: "store_inv empty_node"
  by (simp add: store_inv_def empty_node_def)

lemma store_step_inv: "store_inv n \<Longrightarrow> store_guard n op \<Longrightarrow> store_inv (store_step n op)"
  by (cases op)
     (simp_all add: store_inv_saveMetric store_inv_saveWeight store_inv_updateBaselineRate
       store_inv_deleteMetric store_inv_initialSetup)

lemma fetch_present:
  "node_weights n \<noteq> [] \<Longrightarrow>
   fetchRatesAndWeights n = \<lparr>fs_metrics = present (node_metrics n),
     fs_weights = Some (node_weights n), fs_baseline = node_baseline n\<rparr>"
  by (simp add: fetchRatesAndWeights_def node_exists_def present_def)

section \<open>Properties\<close>

text \<open>
  C4. Any sequence of store writes in which every saved weight names a stored
  metric keeps the store invariant: entries under their own ids, every weight
  naming a metric.
\<close>

theorem store_run_keeps_inv:
  "store_inv n \<Longrightarrow> store_run_ok n ops \<Longrightarrow> store_inv (store_run n ops)"
proof (induction ops arbitrary: n)
  case Nil
  then show ?case by simp
next
  case (Cons op ops)
  from Cons.prems have "store_inv (store_step n op)" by (simp add: store_step_inv)
  with Cons.IH Cons.prems show ?case by simp
qed

theorem store_run_keeps_inv_witness:
  "store_inv (store_run empty_node
     [InitialSetup 10 100, SaveMetric ((initial_metric 20)\<lparr>metric_id := ''m2''\<rparr>),
      SaveWeight \<lparr>metricId = ''m2'', value = 0\<rparr>, UpdateBaselineRate 3, DeleteMetric ''initial''])"
  by (rule store_run_keeps_inv)
     (simp_all add: store_inv_empty initialSetup_def saveMetric_def saveWeight_def
       updateBaselineRate_def initial_metric_def)

text \<open>
  C5. \<open>deleteMetric\<close> cascades: the metric and the weight stored under its id
  are both removed, and no other key of either object is touched.
\<close>

theorem deleteMetric_cascades:
  "map_of (node_metrics (deleteMetric k n)) = (map_of (node_metrics n))(k := None)
   \<and> map_of (node_weights (deleteMetric k n)) = (map_of (node_weights n))(k := None)"
  by (simp add: deleteMetric_def delete_conv')

text \<open>
  Round trip: after \<open>saveMetric m\<close>, fetching the aggregate yields a metrics
  object that maps \<open>m\<close>'s id to \<open>m\<close> and every other id as before.
\<close>

theorem saveMetric_fetch_roundtrip:
  "map_option map_of (fs_metrics (fetchRatesAndWeights (saveMetric m n)))
     = Some ((map_of (node_metrics n))(metric_id m \<mapsto> m))"
proof -
  have ne: "node_metrics (saveMetric m n) \<noteq> []"
    using keys_update [of "metric_id m" m "node_metrics n"] by (auto simp: saveMetric_def)
  then have "node_exists (saveMetric m n)" by (simp add: node_exists_def)
  with ne show ?thesis
    by (simp add: fetchRatesAndWeights_def present_def saveMetric_def update_conv')
qed

text \<open>
  C6. \<open>saveWeight\<close> does not check that its metric exists: on a store that keeps
  the invariant, saving a weight keeps it exactly when a metric with the weight's
  id is stored. The guard of \<open>store_run_ok\<close> is needed, and the weight form does
  not impose it.
\<close>

theorem saveWeight_unguarded_breaks_inv:
  assumes "store_inv n"
  shows "store_inv (saveWeight w n) \<longleftrightarrow> metricId w \<in> fst ` set (node_metrics n)"
proof
  assume "store_inv (saveWeight w n)"
  then have "fst ` set (node_weights (saveWeight w n)) \<subseteq> fst ` set (node_metrics n)"
    by (simp add: store_inv_def saveWeight_def)
  then show "metricId w \<in> fst ` set (node_metrics n)"
    by (simp add: saveWeight_def keys_update)
next
  assume "metricId w \<in> fst ` set (node_metrics n)"
  with assms show "store_inv (saveWeight w n)" by (rule store_inv_saveWeight)
qed

theorem saveWeight_unguarded_breaks_inv_witness:
  "\<not> store_inv (saveWeight \<lparr>metricId = ''x'', value = 10\<rparr> empty_node)"
  using saveWeight_unguarded_breaks_inv [OF store_inv_empty, of "\<lparr>metricId = ''x'', value = 10\<rparr>"]
  by (simp add: empty_node_def)

text \<open>
  After the initial setup, deleting its metric leaves the node with a baseline
  and no \<open>weights\<close> child: the fetched aggregate has \<open>weights\<close> undefined and
  computing the page's rate raises a \<open>TypeError\<close>.
\<close>

theorem delete_last_metric_rate_TypeError:
  "calculateDailyRate_call
     (fs_metrics (fetchRatesAndWeights (deleteMetric ''initial'' (initialSetup r w n))))
     (fs_weights (fetchRatesAndWeights (deleteMetric ''initial'' (initialSetup r w n))))
     (fs_baseline (fetchRatesAndWeights (deleteMetric ''initial'' (initialSetup r w n))))
   = Inl TypeError"
  by (simp add: calculateDailyRate_call_def fetchRatesAndWeights_def deleteMetric_def
      initialSetup_def node_exists_def present_def)

text \<open>
  On a store satisfying the invariant, with at least one weight and a
  baseline, the page's rate computation on the fetched aggregate succeeds and is
  the engine's rate on the stored objects.
\<close>

theorem fetched_rate_ok:
  "store_inv n \<Longrightarrow> node_weights n \<noteq> [] \<Longrightarrow> node_baseline n = Some b \<Longrightarrow>
   calculateDailyRate_call (fs_metrics (fetchRatesAndWeights n)) (fs_weights (fetchRatesAndWeights n))
     (fs_baseline (fetchRatesAndWeights n))
   = Inr (Some (calculateDailyRate (node_metrics n) (node_weights n) b))"
proof -
  assume inv: "store_inv n" and ne: "node_weights n \<noteq> []" and b: "node_baseline n = Some b"
  from ne obtain p where "p \<in> set (node_weights n)" by (cases "node_weights n") auto
  with inv have "fst p \<in> fst ` set (node_metrics n)" by (auto simp: store_inv_def)
  then have "node_metrics n \<noteq> []" by auto
  with ne b show ?thesis
    by (simp add: fetch_present calculateDailyRate_call_def present_def)
qed

theorem fetched_rate_ok_witness:
  "calculateDailyRate_call (fs_metrics (fetchRatesAndWeights (initialSetup 50 100 empty_node)))
     (fs_weights (fetchRatesAndWeights (initialSetup 50 100 empty_node)))
     (fs_baseline (fetchRatesAndWeights (initialSetup 50 100 empty_node)))
   = Inr (Some (calculateDailyRate (node_metrics (initialSetup 50 100 empty_node))
                 (node_weights (initialSetup 50 100 empty_node)) 0))"
  by (rule fetched_rate_ok)
     (simp_all add: initialSetup_def store_inv_def initial_metric_def obj_wf_def)

end
