(* ===== verification/WeightForm.thy ===== *)
theory WeightForm
  imports RatesStore
begin

text \<open>
  The weight editor \<open>src/src/components/RatesAndWeights/WeightForm.tsx\<close>. Its
  props are the fetched \<open>metrics\<close> and \<open>weights\<close> objects and an optional
  \<open>initialWeight\<close> (editing rather than adding). Its state is the partial weight
  being edited (\<open>weight_form_state\<close>). \<open>getCurrentTotal\<close> is the running total
  of the other metrics' weights. \<open>weight_form_submit\<close> is \<open>handleSubmit\<close>,
  with its two error branches and the store write (\<open>saveWeight\<close> of theory
  \<open>RatesStore\<close>). \<open>weight_form_view\<close> is what the component renders: the
  current-weights rows, the total, the remaining share, the metric options and the
  bounds of the number input. Parsing of the input (\<open>parseFloat\<close>) is outside this
  theory: the handlers receive the number.
\<close>

section \<open>State and operations\<close>

record weight_form_state =
  wf_metricId :: string
  wf_value :: js_number

definition weight_form_init :: "weight option \<Rightarrow> weight_form_state" where
  "weight_form_init iw =
     (case iw of
        None \<Rightarrow> \<lparr>wf_metricId = '''', wf_value = 0\<rparr>
      | Some w \<Rightarrow> \<lparr>wf_metricId = metricId w, wf_value = value w\<rparr>)"

definition getCurrentTotal :: "weight js_object \<Rightarrow> string \<Rightarrow> js_number" where
  "getCurrentTotal ws sel = foldl (\<lambda>s (i, w). s + (if i \<noteq> sel then value w else 0)) 0 ws"

datatype weight_form_error =
    PleaseSelectMetric
  | TotalExceeds js_number  \<comment> \<open>the message names the current total\<close>
  | WriteFailed string      \<comment> \<open>the message \<open>saveWeight\<close> rejected with\<close>

definition weight_form_error_prefix :: "weight_form_error \<Rightarrow> string" where
  "weight_form_error_prefix e =
     (case e of
        PleaseSelectMetric \<Rightarrow> ''Please select a metric''
      | TotalExceeds _ \<Rightarrow> ''Total weights cannot exceed 100%. Current total: ''
      | WriteFailed msg \<Rightarrow> msg)"

text \<open>
  \<open>handleSubmit\<close>: an empty selection is refused, then a new total above 100;
  otherwise the weight is written. \<open>write\<close> is the outcome of the awaited
  \<open>saveWeight\<close> (\<open>None\<close>: accepted): a rejection is caught and toasted with its
  message; on success, when adding, the form is reset.
\<close>

definition weight_form_submit ::
  "string option \<Rightarrow> weight js_object \<Rightarrow> weight option \<Rightarrow> weight_form_state \<Rightarrow> store_node
   \<Rightarrow> weight_form_error + (store_node \<times> weight_form_state)" where
  "weight_form_submit write ws iw st n =
     (if wf_metricId st = '''' then Inl PleaseSelectMetric
      else
        let currentTotal = getCurrentTotal ws (wf_metricId st);
            newTotal = currentTotal + wf_value st
        in if newTotal > 100 then Inl (TotalExceeds currentTotal)
           else (case write of
                   Some msg \<Rightarrow> Inl (WriteFailed msg)
                 | None \<Rightarrow> Inr (saveWeight \<lparr>metricId = wf_metricId st, value = wf_value st\<rparr> n,
                                (if iw = None then \<lparr>wf_metricId = '''', wf_value = 0\<rparr> else st))))"

definition wf_select_metric :: "string \<Rightarrow> weight_form_state \<Rightarrow> weight_form_state" where
  "wf_select_metric k st = st\<lparr>wf_metricId := k\<rparr>"

definition wf_set_value :: "js_number \<Rightarrow> weight_form_state \<Rightarrow> weight_form_state" where
  "wf_set_value v st = st\<lparr>wf_value := v\<rparr>"

text \<open>
  The browser's constraint validation, run before the submit event reaches
  \<open>handleSubmit\<close>: the select and the number input are \<open>required\<close>, and the
  number must lie between the input's \<open>min\<close> and \<open>max\<close> attributes (its
  \<open>step\<close> is not modelled).
\<close>

definition weight_form_browser_valid :: "weight js_object \<Rightarrow> weight_form_state \<Rightarrow> bool" where
  "weight_form_browser_valid ws st \<longleftrightarrow>
     wf_metricId st \<noteq> '''' \<and> 0 \<le> wf_value st
     \<and> wf_value st \<le> 100 - getCurrentTotal ws (wf_metricId st) + entry_or_zero value ws (wf_metricId st)"

section \<open>View\<close>

record weight_form_view =
  wv_rows :: "(string \<times> js_number) list"
  wv_total :: js_number
  wv_remaining :: js_number
  wv_options :: "(string \<times> string) list"
  wv_max_label :: js_number
  wv_input_min :: js_number
  wv_input_max :: js_number
  wv_button :: string

definition metric_label :: "metric js_object \<Rightarrow> string \<Rightarrow> string" where
  "metric_label ms k =
     (case map_of ms k of
        None \<Rightarrow> ''Unknown Metric''
      | Some m \<Rightarrow> (if name m = '''' then ''Unknown Metric'' else name m))"

definition weight_form_view ::
  "metric js_object \<Rightarrow> weight js_object \<Rightarrow> weight option \<Rightarrow> weight_form_state \<Rightarrow> weight_form_view" where
  "weight_form_view ms ws iw st =
     (let t = getCurrentTotal ws (wf_metricId st)
      in \<lparr>wv_rows = map (\<lambda>(i, w). (metric_label ms i, value w)) ws,
          wv_total = t,
          wv_remaining = 100 - t,
          wv_options = map (\<lambda>(i, m). (i, name m)) ms,
          wv_max_label = 100 - t,
          wv_input_min = 0,
          wv_input_max = 100 - t + entry_or_zero value ws (wf_metricId st),
          wv_button = (if iw = None then ''Add Weight'' else ''Update Weight'')\<rparr>)"

section \<open>Lemmas\<close>

lemma getCurrentTotal_sum:
  "obj_wf ws \<Longrightarrow> getCurrentTotal ws sel = weight_sum ws - entry_or_zero value ws sel"
proof -
  assume wf: "obj_wf ws"
  have "getCurrentTotal ws sel = sum_list (map (\<lambda>(i, w). if i \<noteq> sel then value w else 0) ws)"
    unfolding getCurrentTotal_def
    using js_sum_by_sum_list [of "\<lambda>(i, w). if i \<noteq> sel then value w else 0" 0 ws]
    by (simp add: js_sum_by_def case_prod_unfold)
  also have "\<dots> = weight_sum ws - entry_or_zero value ws sel"
    using sum_except [OF wf] by (simp add: weight_sum_def)
  finally show ?thesis .
qed

lemma weight_form_submit_Inr:
  "weight_form_submit write ws iw st n = Inr (n', st') \<Longrightarrow>
   wf_metricId st \<noteq> '''' \<and> getCurrentTotal ws (wf_metricId st) + wf_value st \<le> 100
   \<and> write = None \<and> n' = saveWeight \<lparr>metricId = wf_metricId st, value = wf_value st\<rparr> n"
  by (auto simp: weight_form_submit_def Let_def split: if_splits option.splits)

lemma weight_sum_saveWeight:
  "obj_wf (node_weights n) \<Longrightarrow>
   weight_sum (node_weights (saveWeight w n))
     = weight_sum (node_weights n) - entry_or_zero value (node_weights n) (metricId w) + value w"
  by (simp add: saveWeight_def weight_sum_def sum_update)

section \<open>Properties\<close>

text \<open>
  C8. When the form's \<open>weights\<close> prop is the stored weights object, an accepted
  submission leaves the stored weights summing to at most 100, whatever the total
  before it: the running total excludes the edited metric and adds its new value.
\<close>

theorem weight_form_total_le_100:
  "obj_wf (node_weights n) \<Longrightarrow> weight_form_submit write (node_weights n) iw st n = Inr (n', st') \<Longrightarrow>
   weight_sum (node_weights n') \<le> 100"
proof -
  assume wf: "obj_wf (node_weights n)"
    and ok: "weight_form_submit write (node_weights n) iw st n = Inr (n', st')"
  from weight_form_submit_Inr [OF ok]
  have guard: "getCurrentTotal (node_weights n) (wf_metricId st) + wf_value st \<le> 100"
    and n': "n' = saveWeight \<lparr>metricId = wf_metricId st, value = wf_value st\<rparr> n"
    by auto
  from wf n' have "weight_sum (node_weights n')
      = getCurrentTotal (node_weights n) (wf_metricId st) + wf_value st"
    by (simp add: weight_sum_saveWeight getCurrentTotal_sum)
  with guard show ?thesis by simp
qed

theorem weight_form_total_le_100_witness:
  "weight_sum (node_weights (fst (projr (weight_form_submit None
      [(''a'', \<lparr>metricId = ''a'', value = 60\<rparr>)] None \<lparr>wf_metricId = ''b'', wf_value = 40\<rparr>
      \<lparr>node_metrics = [], node_weights = [(''a'', \<lparr>metricId = ''a'', value = 60\<rparr>)],
       node_baseline = None\<rparr>)))) \<le> 100"
proof -
  let ?n = "\<lparr>node_metrics = [], node_weights = [(''a'', \<lparr>metricId = ''a'', value = 60\<rparr>)],
            node_baseline = None\<rparr> :: store_node"
  let ?st = "\<lparr>wf_metricId = ''b'', wf_value = 40\<rparr>"
  let ?r = "weight_form_submit None (node_weights ?n) None ?st ?n"
  have wf: "obj_wf (node_weights ?n)" by (simp add: obj_wf_def)
  have "?r = Inr (fst (projr ?r), snd (projr ?r))"
    by (simp add: weight_form_submit_def getCurrentTotal_def)
  from weight_form_total_le_100 [OF wf this] show ?thesis by simp
qed

text \<open>
  C9. The form's refusals are exact: with the stored weights as the prop and a
  metric selected, a submission is refused exactly when writing it would bring the
  stored total above 100 or the database rejects the write.
\<close>

theorem weight_form_rejects_iff:
  "obj_wf ws \<Longrightarrow> wf_metricId st \<noteq> '''' \<Longrightarrow>
   (\<exists>e. weight_form_submit write ws iw st n = Inl e)
   \<longleftrightarrow> weight_sum ws - entry_or_zero value ws (wf_metricId st) + wf_value st > 100 \<or> write \<noteq> None"
  by (auto simp: weight_form_submit_def Let_def getCurrentTotal_sum split: option.split)

theorem weight_form_rejects_iff_witness:
  "(\<exists>e. weight_form_submit None [(''a'', \<lparr>metricId = ''a'', value = 70\<rparr>)] None
          \<lparr>wf_metricId = ''b'', wf_value = 40\<rparr> empty_node = Inl e)
   \<and> (\<exists>e. weight_form_submit (Some ''PERMISSION_DENIED'') [(''a'', \<lparr>metricId = ''a'', value = 70\<rparr>)] None
          \<lparr>wf_metricId = ''a'', wf_value = 40\<rparr> empty_node = Inl e)
   \<and> \<not> (\<exists>e. weight_form_submit None [(''a'', \<lparr>metricId = ''a'', value = 70\<rparr>)] None
          \<lparr>wf_metricId = ''a'', wf_value = 40\<rparr> empty_node = Inl e)"
proof -
  have wf: "obj_wf [(''a'', \<lparr>metricId = ''a'', value = 70::real\<rparr>)]" by (simp add: obj_wf_def)
  show ?thesis
    using weight_form_rejects_iff [OF wf, of "\<lparr>wf_metricId = ''b'', wf_value = 40\<rparr>" None None empty_node]
      weight_form_rejects_iff [OF wf, of "\<lparr>wf_metricId = ''a'', wf_value = 40\<rparr>" "Some ''PERMISSION_DENIED''" None empty_node]
      weight_form_rejects_iff [OF wf, of "\<lparr>wf_metricId = ''a'', wf_value = 40\<rparr>" None None empty_node]
    by (simp add: weight_sum_def)
qed

text \<open>
  While a metric that already has a weight \<open>e\<close> is selected, the panel's
  "Total" omits \<open>e\<close>, and the number input's \<open>max\<close> exceeds the "Maximum
  Available" label (the largest value the submit guard accepts) by \<open>e\<close>: the
  running total already excludes the selected weight and the \<open>max\<close> adds it back
  a second time.
\<close>

theorem weight_form_view_bounds:
  "obj_wf ws \<Longrightarrow> map_of ws (wf_metricId st) = Some w \<Longrightarrow>
   wv_total (weight_form_view ms ws iw st) = weight_sum ws - value w
   \<and> wv_max_label (weight_form_view ms ws iw st) = 100 - weight_sum ws + value w
   \<and> wv_input_max (weight_form_view ms ws iw st) = wv_max_label (weight_form_view ms ws iw st) + value w"
  by (simp add: weight_form_view_def Let_def getCurrentTotal_sum entry_or_zero_def)

theorem weight_form_view_bounds_witness:
  "wv_total (weight_form_view [] [(''a'', \<lparr>metricId = ''a'', value = 30\<rparr>)] None
       \<lparr>wf_metricId = ''a'', wf_value = 30\<rparr>) = 0
   \<and> wv_max_label (weight_form_view [] [(''a'', \<lparr>metricId = ''a'', value = 30\<rparr>)] None
       \<lparr>wf_metricId = ''a'', wf_value = 30\<rparr>) = 100
   \<and> wv_input_max (weight_form_view [] [(''a'', \<lparr>metricId = ''a'', value = 30\<rparr>)] None
       \<lparr>wf_metricId = ''a'', wf_value = 30\<rparr>) = 130"
  using weight_form_view_bounds [of "[(''a'', \<lparr>metricId = ''a'', value = 30\<rparr>)]"
      "\<lparr>wf_metricId = ''a'', wf_value = 30\<rparr>" "\<lparr>metricId = ''a'', value = 30\<rparr>" "[]" None]
  by (simp add: obj_wf_def weight_sum_def)

end
