(* ===== verification/Json.thy ===== *)
theory Json
  imports Prelude
begin

text \<open>
  The JSON text that \<open>JSON.stringify\<close> produces, for the values the code stores
  in the browser's \<open>localStorage\<close>: \<open>json\<close> is a JSON value and
  \<open>render_json\<close> its text. Integers print as decimal digits (\<open>show_int\<close>), as
  JavaScript prints a safe integer. Strings are quoted with the escapes of
  \<open>JSON.stringify\<close> (\<open>json_quote\<close>): quote and backslash, the short
  escapes of five control characters, and \<open>\u00XX\<close> for the other control
  characters. Characters are bytes here, so non-ASCII text passes through as its
  UTF-8 bytes, as the stringified text would encode it. \<open>read_nat\<close> reads
  digits back; reading what \<open>show_nat\<close> prints returns the number.
\<close>

section \<open>Decimal numbers\<close>

text \<open>The digits of \<open>n\<close> in base \<open>b\<close>, most significant first (\<open>Number.toString(b)\<close>).\<close>

fun base_digits :: "nat \<Rightarrow> nat \<Rightarrow> nat list" where
  "base_digits b n = (if n < b \<or> b < 2 then [n] else base_digits b (n div b) @ [n mod b])"

declare base_digits.simps [simp del]

abbreviation nat_digits :: "nat \<Rightarrow> nat list" where
  "nat_digits n \<equiv> base_digits 10 n"

definition digits_value :: "nat \<Rightarrow> nat list \<Rightarrow> nat" where
  "digits_value b ds = foldl (\<lambda>a d. b * a + d) 0 ds"

definition digit_char :: "nat \<Rightarrow> char" where
  "digit_char d = ''0123456789'' ! d"

definition show_nat :: "nat \<Rightarrow> string" where
  "show_nat n = map digit_char (nat_digits n)"

definition show_int :: "int \<Rightarrow> string" where
  "show_int i = (if i < 0 then CHR ''-'' # show_nat (nat (- i)) else show_nat (nat i))"

definition read_nat :: "string \<Rightarrow> nat" where
  "read_nat cs = foldl (\<lambda>a c. 10 * a + (of_char c - 48)) 0 cs"

text \<open>JavaScript's white space, as \<open>parseInt\<close> and \<open>parseFloat\<close> skip it (ASCII part).\<close>

definition js_space :: "char \<Rightarrow> bool" where
  "js_space c \<longleftrightarrow> of_char c \<in> {9, 10, 11, 12, 13, 32 :: nat}"

definition is_digit :: "char \<Rightarrow> bool" where
  "is_digit c \<longleftrightarrow> 48 \<le> (of_char c :: nat) \<and> (of_char c :: nat) \<le> 57"

definition digit_val :: "char \<Rightarrow> nat" where
  "digit_val c = of_char c - 48"

text \<open>
  \<open>parseFloat\<close>: after leading white space, the longest prefix of the form
  \<open>[+-] digits [. digits] [(e|E) [+-] digits]\<close> with at least one digit before
  the exponent, read exactly; \<open>None\<close> is \<open>NaN\<close> (no digits). The prefix
  \<open>Infinity\<close> is not modelled: the inputs it is applied to are
  \<open>type="number"\<close> fields, whose value is empty or a valid floating-point
  number.
\<close>

definition parse_sign :: "string \<Rightarrow> bool \<times> string" where
  "parse_sign s = (case s of
                     c # r \<Rightarrow> (if c = CHR ''-'' then (True, r) else if c = CHR ''+'' then (False, r) else (False, s))
                   | [] \<Rightarrow> (False, []))"

definition parse_exponent :: "string \<Rightarrow> int" where
  "parse_exponent s =
     (case s of
        c # r \<Rightarrow>
          (if c = CHR ''e'' \<or> c = CHR ''E'' then
             (let (neg, r1) = parse_sign r; ds = takeWhile is_digit r1
              in if ds = [] then 0
                 else (if neg then -1 else 1) * int (digits_value 10 (map digit_val ds)))
           else 0)
      | [] \<Rightarrow> 0)"

definition parseFloat :: "string \<Rightarrow> real option" where
  "parseFloat s =
     (let (neg, s2) = parse_sign (dropWhile js_space s);
          ds1 = takeWhile is_digit s2;
          r1 = dropWhile is_digit s2;
          (ds2, r2) = (case r1 of
                         c # r \<Rightarrow> (if c = CHR ''.'' then (takeWhile is_digit r, dropWhile is_digit r)
                                  else ([], r1))
                       | [] \<Rightarrow> ([], []));
          e = parse_exponent r2;
          m = real (digits_value 10 (map digit_val (ds1 @ ds2))) / 10 ^ length ds2
      in if ds1 = [] \<and> ds2 = [] then None
         else Some ((if neg then -1 else 1) * m * (if 0 \<le> e then 10 ^ nat e else 1 / 10 ^ nat (- e))))"

text \<open>
  \<open>parseInt(s)\<close> without a radix, on decimal text: after white space and a sign,
  the longest run of digits; \<open>None\<close> is \<open>NaN\<close>. (The \<open>0x\<close> prefix, which
  switches to hexadecimal, does not occur in the number inputs it is applied to.)
\<close>

definition parseInt10 :: "string \<Rightarrow> int option" where
  "parseInt10 s =
     (let (neg, s2) = parse_sign (dropWhile js_space s);
          ds = takeWhile is_digit s2
      in if ds = [] then None
         else Some ((if neg then -1 else 1) * int (digits_value 10 (map digit_val ds))))"

section \<open>Strings\<close>

definition hex_digit :: "nat \<Rightarrow> char" where
  "hex_digit d = ''0123456789abcdef'' ! d"

definition json_escape_char :: "char \<Rightarrow> string" where
  "json_escape_char c =
     (let n = of_char c :: nat in
      if n = 34 then [CHR 0x5C, CHR 0x22]
      else if n = 92 then [CHR 0x5C, CHR 0x5C]
      else if n = 8 then [CHR 0x5C, CHR ''b'']
      else if n = 12 then [CHR 0x5C, CHR ''f'']
      else if n = 10 then [CHR 0x5C, CHR ''n'']
      else if n = 13 then [CHR 0x5C, CHR ''r'']
      else if n = 9 then [CHR 0x5C, CHR ''t'']
      else if n < 32 then [CHR 0x5C, CHR ''u'', CHR ''0'', CHR ''0'', hex_digit (n div 16), hex_digit (n mod 16)]
      else [c])"

definition json_quote :: "string \<Rightarrow> string" where
  "json_quote s = CHR 0x22 # concat (map json_escape_char s) @ [CHR 0x22]"

section \<open>Values\<close>

datatype json =
    JNull
  | JBool bool
  | JNum int
  | JStr string
  | JArr "json list"
  | JObj "(string \<times> json) list"

fun join_with :: "string \<Rightarrow> string list \<Rightarrow> string" where
  "join_with sep [] = []"
| "join_with sep [x] = x"
| "join_with sep (x # y # zs) = x @ sep @ join_with sep (y # zs)"

fun render_json :: "json \<Rightarrow> string" where
  "render_json JNull = ''null''"
| "render_json (JBool b) = (if b then ''true'' else ''false'')"
| "render_json (JNum i) = show_int i"
| "render_json (JStr s) = json_quote s"
| "render_json (JArr vs) = CHR ''['' # join_with '','' (map render_json vs) @ '']''"
| "render_json (JObj kvs) =
     CHR ''{'' # join_with '','' (map (\<lambda>(k, v). json_quote k @ '':'' @ render_json v) kvs) @ ''}''"

section \<open>Lemmas\<close>

lemma base_digits_lt: "2 \<le> b \<Longrightarrow> d \<in> set (base_digits b n) \<Longrightarrow> d < b"
proof (induction b n rule: base_digits.induct)
  case (1 b n)
  then show ?case
    by (cases "n < b") (auto simp: base_digits.simps [of b n])
qed

lemma digits_value_snoc: "digits_value b (ds @ [d]) = b * digits_value b ds + d"
  by (simp add: digits_value_def)

lemma digits_value_base_digits: "2 \<le> b \<Longrightarrow> digits_value b (base_digits b n) = n"
proof (induction b n rule: base_digits.induct)
  case (1 b n)
  show ?case
  proof (cases "n < b")
    case True
    then show ?thesis by (simp add: base_digits.simps [of b n] digits_value_def)
  next
    case False
    with "1.prems" have "base_digits b n = base_digits b (n div b) @ [n mod b]"
      by (simp add: base_digits.simps [of b n])
    with False "1.IH" "1.prems" show ?thesis
      by (simp add: digits_value_snoc)
  qed
qed

text \<open>Reading characters whose values are the digits gives the digits' value.\<close>

lemma foldl_read_digits:
  assumes "\<forall>d \<in> set ds. val (dig d) = d"
  shows "foldl (\<lambda>a c. b * a + val c) acc (map dig ds) = foldl (\<lambda>a d. b * a + d) acc ds"
  using assms by (induction ds arbitrary: acc) auto

lemma of_char_digit: "d < 10 \<Longrightarrow> of_char (digit_char d) = 48 + d"
proof -
  assume "d < 10"
  then have "d \<in> {0, 1, 2, 3, 4, 5, 6, 7, 8, 9}" by auto
  then show ?thesis by (auto simp: digit_char_def)
qed

lemma read_show_nat: "read_nat (show_nat n) = n"
proof -
  have "\<forall>d \<in> set (nat_digits n). of_char (digit_char d) - 48 = d"
    using base_digits_lt [of 10] of_char_digit by fastforce
  then have "read_nat (show_nat n) = digits_value 10 (nat_digits n)"
    unfolding read_nat_def show_nat_def digits_value_def
    by (rule foldl_read_digits [where val = "\<lambda>c. of_char c - 48"])
  then show ?thesis by (simp add: digits_value_base_digits)
qed

lemma length_escape_char: "1 \<le> length (json_escape_char c)"
  by (simp add: json_escape_char_def Let_def)

lemma length_concat_escape: "length s \<le> length (concat (map json_escape_char s))"
proof (induction s)
  case Nil
  then show ?case by simp
next
  case (Cons c s)
  then show ?case using length_escape_char [of c] by simp
qed

lemma length_json_quote: "length s + 2 \<le> length (json_quote s)"
  using length_concat_escape [of s] by (simp add: json_quote_def)

lemma json_quote_hd: "hd (json_quote s) = CHR 0x22"
  by (simp add: json_quote_def)

end
