(* ===== verification/TokenOps.thy ===== *)
theory TokenOps
  imports WeightForm MetricForm
begin

text \<open>
  The token operations page, \<open>src/src/pages/TokenOperations/index.tsx\<close>, with the
  two forms it mounts on its rates tab (\<open>MetricForm\<close>, \<open>WeightForm\<close>). The
  system state \<open>tokenops_sys\<close> is the stored rates-and-weights node, the stored
  \<open>xlc\<close> price, the page's React state and the last toast. \<open>tokenops_step\<close>
  runs one user event through the handler it triggers, with the outcome of each
  database write as a parameter of the event (reads succeed). The page computes
  \<open>calculatedRate\<close> on every render; when that raises a \<open>TypeError\<close> (an
  \<open>undefined\<close> child of a partial node), or when the rates tab renders the weight
  form over an \<open>undefined\<close> object, the render fails, and with no error boundary
  the application unmounts: no further event is handled
  (\<open>tokenops_crashed\<close>). \<open>tokenops_reachable\<close> is the set of states reachable
  from mounting the page, by rule induction.
\<close>

section \<open>State\<close>

datatype tab_type = TabToken | TabRates

text \<open>A JavaScript value held in a number-typed state: a number, \<open>NaN\<close> or \<open>undefined\<close>.\<close>

datatype js_val = JsNumber real | JsNaN | JsUndefined

definition js_of_parse :: "real option \<Rightarrow> js_val" where
  "js_of_parse r = (case r of Some x \<Rightarrow> JsNumber x | None \<Rightarrow> JsNaN)"

definition js_of_field :: "real option \<Rightarrow> js_val" where
  "js_of_field r = (case r of Some x \<Rightarrow> JsNumber x | None \<Rightarrow> JsUndefined)"

text \<open>
  The values the database's \<open>set\<close> accepts as a number: its argument validation
  throws on \<open>NaN\<close> and on \<open>undefined\<close>.
\<close>

definition firebase_number :: "js_val \<Rightarrow> real option" where
  "firebase_number v = (case v of JsNumber x \<Rightarrow> Some x | _ \<Rightarrow> None)"

text \<open>\<open>crypto.randomUUID()\<close> returns a version-4 UUID: 36 characters, hyphens at four fixed places.\<close>

definition uuid_dashes :: "bool list" where
  "uuid_dashes = replicate 8 False @ [True] @ replicate 4 False @ [True] @ replicate 4 False @ [True]
                 @ replicate 4 False @ [True] @ replicate 12 False"

definition is_uuid :: "string \<Rightarrow> bool" where
  "is_uuid s \<longleftrightarrow> map (\<lambda>c. c = CHR ''-'') s = uuid_dashes
                 \<and> list_all (\<lambda>c. c = CHR ''-'' \<or> is_digit c \<or> (97 \<le> (of_char c :: nat) \<and> (of_char c :: nat) \<le> 102)) s"

record tokenops_page =
  to_activeTab :: tab_type
  to_price :: string
  to_baselineRate :: js_val
  to_initialRate :: string
  to_initialWeight :: string
  to_rw :: fetched_state
  to_forms :: "(metric_form_state \<times> weight_form_state) option"

datatype toast = ToastSuccess string | ToastError string | ToastWeightError weight_form_error

record tokenops_sys =
  tp_node :: store_node
  tp_xlc :: "js_number option"
  tp_page :: tokenops_page
  tp_toast :: "toast option"

definition tokenops_page_init :: tokenops_page where
  "tokenops_page_init =
     \<lparr>to_activeTab = TabToken, to_price = '''', to_baselineRate = JsNumber 0,
      to_initialRate = ''0'', to_initialWeight = ''0'',
      to_rw = \<lparr>fs_metrics = Some [], fs_weights = Some [], fs_baseline = Some 0\<rparr>,
      to_forms = None\<rparr>"

section \<open>Handlers\<close>

text \<open>The mount effect \<open>loadRatesAndWeights\<close>, and \<open>refreshRatesAndWeights\<close>.\<close>

definition tokenops_load :: "store_node \<Rightarrow> tokenops_page \<Rightarrow> tokenops_page" where
  "tokenops_load n p =
     p\<lparr>to_rw := fetchRatesAndWeights n,
       to_baselineRate := js_of_field (fs_baseline (fetchRatesAndWeights n))\<rparr>"

definition tokenops_refresh :: "store_node \<Rightarrow> tokenops_page \<Rightarrow> tokenops_page" where
  "tokenops_refresh n p = p\<lparr>to_rw := fetchRatesAndWeights n\<rparr>"

definition tokenops_mount :: "store_node \<Rightarrow> js_number option \<Rightarrow> tokenops_sys" where
  "tokenops_mount n x =
     \<lparr>tp_node = n, tp_xlc = x, tp_page = tokenops_load n tokenops_page_init, tp_toast = None\<rparr>"

text \<open>
  \<open>setActiveTab\<close>. The forms exist only while the rates tab is shown, so
  leaving the tab unmounts them and coming back mounts them afresh.
\<close>

definition set_active_tab :: "tab_type \<Rightarrow> tokenops_page \<Rightarrow> tokenops_page" where
  "set_active_tab t p =
     p\<lparr>to_activeTab := t,
       to_forms := (if t = TabRates
                    then (if to_activeTab p = TabRates then to_forms p
                          else Some (metric_form_init None, weight_form_init None))
                    else None)\<rparr>"

definition handlePriceSubmit :: "bool \<Rightarrow> tokenops_sys \<Rightarrow> tokenops_sys" where
  "handlePriceSubmit ok s =
     (case parseFloat (to_price (tp_page s)) of
        Some p \<Rightarrow>
          (if ok then s\<lparr>tp_xlc := Some p, tp_page := (tp_page s)\<lparr>to_price := ''''\<rparr>,
                        tp_toast := Some (ToastSuccess ''Price updated successfully'')\<rparr>
           else s\<lparr>tp_toast := Some (ToastError ''Failed to update price'')\<rparr>)
      | None \<Rightarrow> s\<lparr>tp_toast := Some (ToastError ''Failed to update price'')\<rparr>)"

definition handleInitialSetup :: "bool \<Rightarrow> tokenops_sys \<Rightarrow> tokenops_sys" where
  "handleInitialSetup ok s =
     (case (parseFloat (to_initialRate (tp_page s)), parseFloat (to_initialWeight (tp_page s))) of
        (Some r, Some w) \<Rightarrow>
          (if ok then
             (let n' = initialSetup r w (tp_node s)
              in s\<lparr>tp_node := n', tp_page := tokenops_refresh n' (tp_page s),
                   tp_toast := Some (ToastSuccess ''Initial rates and weights set successfully'')\<rparr>)
           else s\<lparr>tp_toast := Some (ToastError ''Failed to set initial rates and weights'')\<rparr>)
      | _ \<Rightarrow> s\<lparr>tp_toast := Some (ToastError ''Failed to set initial rates and weights'')\<rparr>)"

definition handleBaselineRateSubmit :: "bool \<Rightarrow> tokenops_sys \<Rightarrow> tokenops_sys" where
  "handleBaselineRateSubmit ok s =
     (case firebase_number (to_baselineRate (tp_page s)) of
        Some b \<Rightarrow>
          (if ok then
             s\<lparr>tp_node := updateBaselineRate b (tp_node s),
               tp_page := (tp_page s)\<lparr>to_rw := (to_rw (tp_page s))\<lparr>fs_baseline := Some b\<rparr>\<rparr>,
               tp_toast := Some (ToastSuccess ''Baseline rate updated successfully'')\<rparr>
           else s\<lparr>tp_toast := Some (ToastError ''Failed to update baseline rate'')\<rparr>)
      | None \<Rightarrow> s\<lparr>tp_toast := Some (ToastError ''Failed to update baseline rate'')\<rparr>)"

text \<open>
  The render of the page: \<open>calculatedRate\<close> (\<open>None\<close> for \<open>NaN\<close>), or the
  \<open>TypeError\<close> that either the page or, on the rates tab, the weight form
  (\<open>Object.entries(weights)\<close>, \<open>Object.entries(metrics)\<close>) raises.
\<close>

definition tokenops_render :: "tokenops_page \<Rightarrow> js_error + js_number option" where
  "tokenops_render p =
     (let rw = to_rw p
      in case calculateDailyRate_call (fs_metrics rw) (fs_weights rw) (fs_baseline rw) of
           Inl e \<Rightarrow> Inl e
         | Inr r \<Rightarrow> (if to_forms p \<noteq> None \<and> fs_metrics rw = None then Inl TypeError else Inr r))"

definition tokenops_crashed :: "tokenops_page \<Rightarrow> bool" where
  "tokenops_crashed p \<longleftrightarrow> isl (tokenops_render p)"

section \<open>Events\<close>

text \<open>
  The events of the page. Write outcomes are parameters: \<open>True\<close> (or
  \<open>None\<close>) for a write the database accepts. \<open>SubmitMetric\<close> carries the
  UUID \<open>crypto.randomUUID()\<close> returns. \<open>SubmitWeight\<close> carries the outcome
  of the weight form's \<open>saveWeight\<close>.
\<close>

datatype tokenops_event =
    ClickTab tab_type
  | InputPrice string
  | SubmitPrice bool
  | InputInitialRate string
  | InputInitialWeight string
  | SubmitInitialSetup bool
  | InputBaseline string
  | SubmitBaseline bool
  | MetricInput metric_form_input
  | SubmitMetric string "string option"
  | WeightSelect string
  | WeightValue js_number
  | SubmitWeight "string option"

text \<open>
  One event on a live page. Controls exist only on their tab, so an event for the
  other tab's controls changes nothing. A submit the browser's validation blocks
  changes nothing either.
\<close>

fun tokenops_event_step :: "tokenops_sys \<Rightarrow> tokenops_event \<Rightarrow> tokenops_sys" where
  "tokenops_event_step s (ClickTab t) = s\<lparr>tp_page := set_active_tab t (tp_page s)\<rparr>"
| "tokenops_event_step s (InputPrice v) =
     (if to_activeTab (tp_page s) = TabToken then s\<lparr>tp_page := (tp_page s)\<lparr>to_price := v\<rparr>\<rparr> else s)"
| "tokenops_event_step s (SubmitPrice ok) =
     (if to_activeTab (tp_page s) = TabToken then handlePriceSubmit ok s else s)"
| "tokenops_event_step s (InputInitialRate v) =
     (if to_activeTab (tp_page s) = TabRates then s\<lparr>tp_page := (tp_page s)\<lparr>to_initialRate := v\<rparr>\<rparr> else s)"
| "tokenops_event_step s (InputInitialWeight v) =
     (if to_activeTab (tp_page s) = TabRates then s\<lparr>tp_page := (tp_page s)\<lparr>to_initialWeight := v\<rparr>\<rparr> else s)"
| "tokenops_event_step s (SubmitInitialSetup ok) =
     (if to_activeTab (tp_page s) = TabRates then handleInitialSetup ok s else s)"
| "tokenops_event_step s (InputBaseline v) =
     (if to_activeTab (tp_page s) = TabRates
      then s\<lparr>tp_page := (tp_page s)\<lparr>to_baselineRate := js_of_parse (parseFloat v)\<rparr>\<rparr> else s)"
| "tokenops_event_step s (SubmitBaseline ok) =
     (if to_activeTab (tp_page s) = TabRates then handleBaselineRateSubmit ok s else s)"
| "tokenops_event_step s (MetricInput i) =
     (case to_forms (tp_page s) of
        Some (mf, wst) \<Rightarrow> s\<lparr>tp_page := (tp_page s)\<lparr>to_forms := Some (metric_form_change i mf, wst)\<rparr>\<rparr>
      | None \<Rightarrow> s)"
| "tokenops_event_step s (SubmitMetric uuid write) =
     (case to_forms (tp_page s) of
        Some (mf, wst) \<Rightarrow>
          (if is_uuid uuid \<and> metric_form_browser_valid mf then
             (case metric_form_submit uuid write None mf (tp_node s) of
                Inl msg \<Rightarrow> s\<lparr>tp_toast := Some (ToastError msg)\<rparr>
              | Inr (n', mf') \<Rightarrow>
                  s\<lparr>tp_node := n',
                    tp_page := tokenops_refresh n' ((tp_page s)\<lparr>to_forms := Some (mf', wst)\<rparr>),
                    tp_toast := Some (ToastSuccess ''Metric saved successfully'')\<rparr>)
           else s)
      | None \<Rightarrow> s)"
| "tokenops_event_step s (WeightSelect k) =
     (case to_forms (tp_page s) of
        Some (mf, wst) \<Rightarrow> s\<lparr>tp_page := (tp_page s)\<lparr>to_forms := Some (mf, wf_select_metric k wst)\<rparr>\<rparr>
      | None \<Rightarrow> s)"
| "tokenops_event_step s (WeightValue v) =
     (case to_forms (tp_page s) of
        Some (mf, wst) \<Rightarrow> s\<lparr>tp_page := (tp_page s)\<lparr>to_forms := Some (mf, wf_set_value v wst)\<rparr>\<rparr>
      | None \<Rightarrow> s)"
| "tokenops_event_step s (SubmitWeight write) =
     (case to_forms (tp_page s) of
        Some (mf, wst) \<Rightarrow>
          (let ws = (case fs_weights (to_rw (tp_page s)) of Some ws \<Rightarrow> ws | None \<Rightarrow> [])
           in if weight_form_browser_valid ws wst then
                (case weight_form_submit write ws None wst (tp_node s) of
                   Inl e \<Rightarrow> s\<lparr>tp_toast := Some (ToastWeightError e)\<rparr>
                 | Inr (n', wst') \<Rightarrow>
                     s\<lparr>tp_node := n',
                       tp_page := tokenops_refresh n' ((tp_page s)\<lparr>to_forms := Some (mf, wst')\<rparr>),
                       tp_toast := Some (ToastSuccess ''Weight saved successfully'')\<rparr>)
              else s)
      | None \<Rightarrow> s)"

text \<open>After a failed render the application is gone and no event reaches the page.\<close>

definition tokenops_step :: "tokenops_sys \<Rightarrow> tokenops_event \<Rightarrow> tokenops_sys" where
  "tokenops_step s e = (if tokenops_crashed (tp_page s) then s else tokenops_event_step s e)"

definition tokenops_run :: "tokenops_sys \<Rightarrow> tokenops_event list \<Rightarrow> tokenops_sys" where
  "tokenops_run s evs = foldl tokenops_step s evs"

inductive tokenops_reachable :: "store_node \<Rightarrow> tokenops_sys \<Rightarrow> bool" where
  mount: "tokenops_reachable n (tokenops_mount n x)"
| step: "tokenops_reachable n s \<Longrightarrow> tokenops_reachable n (tokenops_step s e)"

section \<open>Invariant\<close>

text \<open>
  Only the metric stored under \<open>initial\<close> can carry a reading: the initial
  setup writes it with one, and the metric form writes new metrics without one.
\<close>

definition reads_ok :: "metric js_object \<Rightarrow> bool" where
  "reads_ok ms \<longleftrightarrow> list_all (\<lambda>(k, m). k = ''initial'' \<or> currentValue m = None) ms"

definition initial_only :: "metric js_object \<Rightarrow> metric js_object" where
  "initial_only ms = filter (\<lambda>(k, m). k = ''initial'') ms"

definition tokenops_inv :: "tokenops_sys \<Rightarrow> bool" where
  "tokenops_inv s \<longleftrightarrow>
     reads_ok (node_metrics (tp_node s)) \<and> pred_option reads_ok (fs_metrics (to_rw (tp_page s)))
     \<and> pred_option (\<lambda>(mf, _). mf_currentValue mf = None) (to_forms (tp_page s))"

section \<open>Lemmas\<close>

lemma reads_ok_update:
  "reads_ok ms \<Longrightarrow> k = ''initial'' \<or> currentValue m = None \<Longrightarrow> reads_ok (AList.update k m ms)"
  by (induction ms) (auto simp: reads_ok_def)

lemma is_uuid_not_initial: "is_uuid s \<Longrightarrow> s \<noteq> ''initial''"
proof
  assume "is_uuid s" "s = ''initial''"
  then have "length (map (\<lambda>c. c = CHR ''-'') s) = length uuid_dashes" by (simp add: is_uuid_def)
  with \<open>s = ''initial''\<close> show False by (simp add: uuid_dashes_def)
qed

lemma reads_ok_fetch: "reads_ok (node_metrics n) \<Longrightarrow> pred_option reads_ok (fs_metrics (fetchRatesAndWeights n))"
  by (simp add: fetchRatesAndWeights_def present_def reads_ok_def)

lemma reads_ok_node_ops [simp]:
  "node_metrics (saveWeight w n) = node_metrics n"
  "node_metrics (updateBaselineRate b n) = node_metrics n"
  "reads_ok (node_metrics (initialSetup r v n))"
  by (simp_all add: saveWeight_def updateBaselineRate_def initialSetup_def reads_ok_def)

lemma map_of_initial_only:
  "map_of (initial_only ms) k = (if k = ''initial'' then map_of ms k else None)"
  by (induction ms) (auto simp: initial_only_def)

lemma weight_term_initial_only:
  assumes "reads_ok ms"
  shows "weight_term (map_of (initial_only ms) k) w = weight_term (map_of ms k) w"
proof (cases "k = ''initial''")
  case True
  then show ?thesis by (simp add: map_of_initial_only)
next
  case False
  show ?thesis
  proof (cases "map_of ms k")
    case (Some m)
    then have "(k, m) \<in> set ms" by (rule map_of_SomeD)
    with assms False have "currentValue m = None" by (auto simp: reads_ok_def list_all_iff)
    with Some False show ?thesis by (simp add: map_of_initial_only weight_term_def)
  qed (simp add: map_of_initial_only False)
qed

lemma calculateDailyRate_initial_only:
  "reads_ok ms \<Longrightarrow> calculateDailyRate (initial_only ms) ws b = calculateDailyRate ms ws b"
  by (simp add: calculateDailyRate_def daily_rate_loop_sum weight_term_initial_only)

lemma tokenops_inv_mount: "reads_ok (node_metrics n) \<Longrightarrow> tokenops_inv (tokenops_mount n x)"
  by (simp add: tokenops_inv_def tokenops_mount_def tokenops_load_def tokenops_page_init_def reads_ok_fetch)

lemma tokenops_inv_handlers:
  assumes "tokenops_inv s"
  shows "tokenops_inv (handlePriceSubmit ok s)" "tokenops_inv (handleInitialSetup ok s)"
    "tokenops_inv (handleBaselineRateSubmit ok s)"
  using assms
  by (auto simp: tokenops_inv_def handlePriceSubmit_def handleInitialSetup_def handleBaselineRateSubmit_def
      tokenops_refresh_def Let_def reads_ok_fetch split: option.splits)

lemma tokenops_inv_tab: "tokenops_inv s \<Longrightarrow> tokenops_inv (s\<lparr>tp_page := set_active_tab t (tp_page s)\<rparr>)"
  by (simp add: tokenops_inv_def set_active_tab_def metric_form_init_def)

lemma tokenops_inv_metric_submit:
  assumes inv: "tokenops_inv s" and forms: "to_forms (tp_page s) = Some (mf, wst)"
    and uuid: "is_uuid uuid" and ok: "metric_form_submit uuid write None mf (tp_node s) = Inr (n', mf')"
  shows "tokenops_inv (s\<lparr>tp_node := n', tp_page := tokenops_refresh n' ((tp_page s)\<lparr>to_forms := Some (mf', wst)\<rparr>),
                         tp_toast := t\<rparr>)"
proof -
  from ok have n': "n' = saveMetric (metric_form_new_metric uuid None mf) (tp_node s)"
    and mf': "mf' = metric_form_blank"
    using metric_form_submit_Inr [OF ok] by simp_all
  from inv forms have "mf_currentValue mf = None" by (simp add: tokenops_inv_def)
  with uuid have "metric_form_new_metric uuid None mf \<in> {m. metric_id m \<noteq> ''initial'' \<and> currentValue m = None}"
    using metric_form_new_metric_create is_uuid_not_initial by simp
  with inv have "reads_ok (node_metrics n')"
    unfolding n' saveMetric_def by (auto simp: tokenops_inv_def intro: reads_ok_update)
  then show ?thesis
    by (simp add: tokenops_inv_def tokenops_refresh_def reads_ok_fetch mf')
qed

lemma tokenops_inv_weight_submit:
  assumes inv: "tokenops_inv s" and forms: "to_forms (tp_page s) = Some (mf, wst)"
    and ok: "weight_form_submit wr ws None wst (tp_node s) = Inr (n', wst')"
  shows "tokenops_inv (s\<lparr>tp_node := n', tp_page := tokenops_refresh n' ((tp_page s)\<lparr>to_forms := Some (mf, wst')\<rparr>),
                         tp_toast := t\<rparr>)"
proof -
  from weight_form_submit_Inr [OF ok] have "node_metrics n' = node_metrics (tp_node s)" by simp
  with inv forms show ?thesis by (simp add: tokenops_inv_def tokenops_refresh_def reads_ok_fetch)
qed

lemma tokenops_inv_event_step:
  assumes inv: "tokenops_inv s"
  shows "tokenops_inv (tokenops_event_step s e)"
proof (cases e)
  case (SubmitMetric uuid wr)
  show ?thesis
  proof (cases "to_forms (tp_page s)")
    case (Some p)
    then obtain mf wst where forms: "to_forms (tp_page s) = Some (mf, wst)" by (cases p) auto
    show ?thesis
    proof (cases "metric_form_submit uuid wr None mf (tp_node s)")
      case (Inr r)
      then obtain n' mf' where "metric_form_submit uuid wr None mf (tp_node s) = Inr (n', mf')"
        by (cases r) auto
      with inv forms show ?thesis
        by (auto simp: SubmitMetric tokenops_inv_metric_submit)
    qed (use inv forms SubmitMetric in \<open>simp_all add: tokenops_inv_def\<close>)
  qed (use inv SubmitMetric in simp)
next
  case (SubmitWeight wr)
  show ?thesis
  proof (cases "to_forms (tp_page s)")
    case (Some p)
    then obtain mf wst where forms: "to_forms (tp_page s) = Some (mf, wst)" by (cases p) auto
    define ws where "ws = (case fs_weights (to_rw (tp_page s)) of Some ws \<Rightarrow> ws | None \<Rightarrow> [])"
    show ?thesis
    proof (cases "weight_form_submit wr ws None wst (tp_node s)")
      case (Inr r)
      then obtain n' wst' where "weight_form_submit wr ws None wst (tp_node s) = Inr (n', wst')"
        by (cases r) auto
      with inv forms show ?thesis
        by (auto simp: SubmitWeight ws_def Let_def tokenops_inv_weight_submit)
    qed (use inv forms SubmitWeight in \<open>simp_all add: tokenops_inv_def ws_def Let_def\<close>)
  qed (use inv SubmitWeight in simp)
qed (use inv in \<open>auto simp: tokenops_inv_handlers tokenops_inv_tab split: option.splits,
     auto simp: tokenops_inv_def\<close>)

lemma tokenops_inv_step: "tokenops_inv s \<Longrightarrow> tokenops_inv (tokenops_step s e)"
  by (simp add: tokenops_step_def tokenops_inv_event_step)

lemma tokenops_reachable_inv: "tokenops_reachable n s \<Longrightarrow> reads_ok (node_metrics n) \<Longrightarrow> tokenops_inv s"
  by (induction rule: tokenops_reachable.induct) (simp_all add: tokenops_inv_mount tokenops_inv_step)

lemma calculateDailyRate_initial_only_fun:
  "reads_ok ms \<Longrightarrow> calculateDailyRate (initial_only ms) ws = calculateDailyRate ms ws"
  by (rule ext) (rule calculateDailyRate_initial_only)

text \<open>
  C7. From an empty store, opening the rates tab and adding a first metric through the
  form makes the next render fail: the stored node now has metrics but no
  \<open>weights\<close> child, so the refreshed state's \<open>weights\<close> is \<open>undefined\<close>
  and \<open>calculateDailyRate\<close> (and the weight form) raise a \<open>TypeError\<close>.
  After that no event has an effect.
\<close>

theorem tokenops_first_metric_crashes:
  assumes "is_uuid u" and "nm \<noteq> []" and "d \<noteq> []"
  shows "tokenops_crashed (tp_page (tokenops_run (tokenops_mount empty_node x)
           [ClickTab TabRates, MetricInput (MfName nm), MetricInput (MfDescription d), SubmitMetric u None]))
         \<and> tokenops_step (tokenops_run (tokenops_mount empty_node x)
           [ClickTab TabRates, MetricInput (MfName nm), MetricInput (MfDescription d), SubmitMetric u None]) e
           = tokenops_run (tokenops_mount empty_node x)
           [ClickTab TabRates, MetricInput (MfName nm), MetricInput (MfDescription d), SubmitMetric u None]"
  using assms
  by (simp add: tokenops_run_def tokenops_step_def tokenops_crashed_def tokenops_render_def
      tokenops_mount_def tokenops_load_def tokenops_page_init_def empty_node_def fetchRatesAndWeights_def
      node_exists_def present_def calculateDailyRate_call_def set_active_tab_def metric_form_init_def
      metric_form_blank_def mf_set_name_def mf_set_description_def metric_form_browser_valid_def
      metric_form_submit_def saveMetric_def tokenops_refresh_def weight_form_init_def)

theorem tokenops_first_metric_crashes_witness:
  "tokenops_crashed (tp_page (tokenops_run (tokenops_mount empty_node None)
      [ClickTab TabRates, MetricInput (MfName ''Users''), MetricInput (MfDescription ''Daily users''),
       SubmitMetric ''123e4567-e89b-42d3-a456-426614174000'' None]))
   \<and> tokenops_step (tokenops_run (tokenops_mount empty_node None)
      [ClickTab TabRates, MetricInput (MfName ''Users''), MetricInput (MfDescription ''Daily users''),
       SubmitMetric ''123e4567-e89b-42d3-a456-426614174000'' None]) (SubmitWeight None)
     = tokenops_run (tokenops_mount empty_node None)
      [ClickTab TabRates, MetricInput (MfName ''Users''), MetricInput (MfDescription ''Daily users''),
       SubmitMetric ''123e4567-e89b-42d3-a456-426614174000'' None]"
  by (rule tokenops_first_metric_crashes) (simp_all add: is_uuid_def uuid_dashes_def is_digit_def eval_nat_numeral)

section \<open>Properties\<close>

text \<open>
  C22. On a page mounted over a store in which only the \<open>initial\<close> metric has a
  reading (an empty store, say), the daily rate the page shows is, in every
  reachable state, the rate computed from the \<open>initial\<close> metric alone: metrics
  added through the metric form never carry a \<open>currentValue\<close>, and no handler
  of the application sets one, so their weights never count.
\<close>

theorem tokenops_rate_initial_only:
  assumes "tokenops_reachable n s" and "reads_ok (node_metrics n)"
  shows "tokenops_render (tp_page s)
         = tokenops_render ((tp_page s)\<lparr>to_rw := (to_rw (tp_page s))\<lparr>fs_metrics :=
              map_option initial_only (fs_metrics (to_rw (tp_page s)))\<rparr>\<rparr>)"
proof -
  from tokenops_reachable_inv [OF assms] have "pred_option reads_ok (fs_metrics (to_rw (tp_page s)))"
    by (simp add: tokenops_inv_def)
  then show ?thesis
    by (auto simp: tokenops_render_def calculateDailyRate_call_def Let_def
        calculateDailyRate_initial_only_fun split: option.splits)
qed

theorem tokenops_rate_initial_only_witness:
  "tokenops_render (tp_page (tokenops_mount empty_node None))
   = tokenops_render ((tp_page (tokenops_mount empty_node None))\<lparr>to_rw := (to_rw (tp_page (tokenops_mount empty_node None)))\<lparr>fs_metrics :=
        map_option initial_only (fs_metrics (to_rw (tp_page (tokenops_mount empty_node None))))\<rparr>\<rparr>)"
  by (rule tokenops_rate_initial_only [of empty_node]) (simp_all add: tokenops_reachable.mount empty_node_def reads_ok_def)

end
