(* ===== verification/Auth.thy ===== *)
theory Auth
  imports Json
begin

text \<open>
  The session layer. \<open>auth_service\<close> is the singleton of
  \<open>src/src/auth/authService.ts\<close> (token and user). \<open>local_storage\<close> is the
  part of the browser's \<open>localStorage\<close> it owns: the three keys, holding the
  values it stringified. The text stored under \<open>auth_token\<close> is
  \<open>render_json (json_of_token t)\<close>. \<open>JSON.parse\<close> of that text gives back
  the same token; this is the contract of the JSON library, so the model reads the
  stored value directly. Each method is a function on the pair, with the current
  time \<open>now\<close> (\<open>Date.now()\<close>) and the HTTP outcome of the login request as
  inputs. \<open>auth_ctx\<close> is the React state of \<open>src/src/auth/AuthContext.tsx\<close>.
  \<open>protected_route\<close> and \<open>login_page\<close> are the decisions of
  \<open>components/ProtectedRoute.tsx\<close> and \<open>pages/Login/index.tsx\<close>.
  \<open>user_menu_logout\<close> is the sign-out of \<open>components/Header/UserMenu.tsx\<close>.
  \<open>api_auth_header\<close> is the request interceptor of \<open>lib/api.ts\<close>.
  \<open>auth_step\<close> runs the whole application's session events; \<open>auth_reachable\<close>
  is the set of states reachable from a first page load.
\<close>

section \<open>State\<close>

record auth_token =
  token :: string
  expiresAt :: int
  refreshToken :: "string option"

text \<open>
  The user object the service builds on login: \<open>{id, role}\<close>. The declared
  \<open>AuthUser\<close> type also has an \<open>email\<close>, which login never sets.
\<close>

record auth_user =
  user_id :: string
  role :: string

record local_storage =
  ls_token :: "auth_token option"
  ls_refresh :: "string option"
  ls_user :: "auth_user option"

record auth_service =
  svc_token :: "auth_token option"
  svc_user :: "auth_user option"

definition empty_storage :: local_storage where
  "empty_storage = \<lparr>ls_token = None, ls_refresh = None, ls_user = None\<rparr>"

definition json_of_token :: "auth_token \<Rightarrow> json" where
  "json_of_token t =
     JObj ([(''token'', JStr (token t)), (''expiresAt'', JNum (expiresAt t))]
           @ (case refreshToken t of None \<Rightarrow> [] | Some r \<Rightarrow> [(''refreshToken'', JStr r)]))"

definition json_of_user :: "auth_user \<Rightarrow> json" where
  "json_of_user u = JObj [(''id'', JStr (user_id u)), (''role'', JStr (role u))]"

text \<open>\<open>localStorage.getItem('auth_token')\<close>: the stored text.\<close>

definition stored_token_text :: "local_storage \<Rightarrow> string option" where
  "stored_token_text ls = map_option (\<lambda>t. render_json (json_of_token t)) (ls_token ls)"

section \<open>The authentication service\<close>

definition clearAuth :: "auth_service \<times> local_storage \<Rightarrow> auth_service \<times> local_storage" where
  "clearAuth p = (\<lparr>svc_token = None, svc_user = None\<rparr>, empty_storage)"

definition saveToStorage :: "auth_service \<times> local_storage \<Rightarrow> auth_service \<times> local_storage" where
  "saveToStorage p =
     (let (s, ls) = p;
          ls1 = (case svc_token s of None \<Rightarrow> ls | Some t \<Rightarrow> ls\<lparr>ls_token := Some t\<rparr>);
          ls2 = (case svc_user s of None \<Rightarrow> ls1 | Some u \<Rightarrow> ls1\<lparr>ls_user := Some u\<rparr>)
      in (s, ls2))"

text \<open>
  The constructor's \<open>loadFromStorage\<close>, on a fresh service: an expired token
  clears everything and stops; otherwise the token and then the user are read.
\<close>

definition loadFromStorage :: "int \<Rightarrow> local_storage \<Rightarrow> auth_service \<times> local_storage" where
  "loadFromStorage now ls =
     (case ls_token ls of
        Some t \<Rightarrow>
          (if expiresAt t < now then clearAuth (\<lparr>svc_token = Some t, svc_user = None\<rparr>, ls)
           else (\<lparr>svc_token = Some t, svc_user = ls_user ls\<rparr>, ls))
      | None \<Rightarrow> (\<lparr>svc_token = None, svc_user = ls_user ls\<rparr>, ls))"

datatype login_response =
    LoginOk string string "string option"   \<comment> \<open>\<open>data.token\<close>, \<open>data.userId\<close>, \<open>data.role\<close>\<close>
  | LoginHttpError nat "string option"      \<comment> \<open>status and \<open>errorData.message\<close>\<close>
  | LoginNetworkError string                \<comment> \<open>the message \<open>fetch\<close> rejected with\<close>

definition js_or_str :: "string option \<Rightarrow> string \<Rightarrow> string" where
  "js_or_str s d = (case s of Some x \<Rightarrow> (if x = [] then d else x) | None \<Rightarrow> d)"

definition http_error_message :: "nat \<Rightarrow> string" where
  "http_error_message st = ''HTTP error! status: '' @ show_nat st"

definition session_ms :: int where
  "session_ms = 3600000"

text \<open>
  \<open>login\<close>: the response's outcome and the new service and storage. The result is
  \<open>{user, error}\<close>.
\<close>

definition login ::
  "int \<Rightarrow> login_response \<Rightarrow> auth_service \<times> local_storage
   \<Rightarrow> (auth_user option \<times> string option) \<times> auth_service \<times> local_storage" where
  "login now resp p =
     (case resp of
        LoginOk tok uid r \<Rightarrow>
          (let t = \<lparr>token = tok, expiresAt = now + session_ms, refreshToken = None\<rparr>;
               u = \<lparr>user_id = uid, role = js_or_str r ''user''\<rparr>
           in ((Some u, None), saveToStorage (\<lparr>svc_token = Some t, svc_user = Some u\<rparr>, snd p)))
      | LoginHttpError st msg \<Rightarrow>
          ((None, Some (js_or_str (Some (js_or_str msg (http_error_message st))) ''Login failed'')),
           clearAuth p)
      | LoginNetworkError msg \<Rightarrow>
          ((None, Some (js_or_str (Some msg) ''Login failed'')), clearAuth p))"

text \<open>\<open>logout\<close>: the request's outcome is ignored; \<open>finally\<close> clears.\<close>

definition logout :: "auth_service \<times> local_storage \<Rightarrow> auth_service \<times> local_storage" where
  "logout p = clearAuth p"

definition getToken :: "auth_service \<Rightarrow> string option" where
  "getToken s = (case svc_token s of None \<Rightarrow> None | Some t \<Rightarrow> (if token t = [] then None else Some (token t)))"

definition isAuthenticated :: "auth_service \<Rightarrow> bool" where
  "isAuthenticated s \<longleftrightarrow> svc_token s \<noteq> None \<and> svc_user s \<noteq> None"

definition hasRole :: "auth_service \<Rightarrow> string \<Rightarrow> bool" where
  "hasRole s r = (case svc_user s of None \<Rightarrow> False | Some u \<Rightarrow> role u = r)"

definition isAdmin :: "auth_service \<Rightarrow> bool" where
  "isAdmin s \<longleftrightarrow> hasRole s ''admin'' \<or> hasRole s ''super_admin''"

definition isSuperAdmin :: "auth_service \<Rightarrow> bool" where
  "isSuperAdmin s \<longleftrightarrow> hasRole s ''super_admin''"

section \<open>API client\<close>

text \<open>The request interceptor: the raw stored text follows \<open>Bearer\<close>.\<close>

definition api_auth_header :: "local_storage \<Rightarrow> string option" where
  "api_auth_header ls = map_option (\<lambda>s. ''Bearer '' @ s) (stored_token_text ls)"

datatype api_failure = HttpStatus nat "string option" | NoResponse | RequestSetupError

definition api_error_message :: "api_failure \<Rightarrow> string" where
  "api_error_message f =
     (case f of
        HttpStatus st msg \<Rightarrow>
          (if st = 401 then ''Authentication required. Please log in again.''
           else if st = 403 then ''You do not have permission to perform this action.''
           else if st = 429 then ''Rate limit exceeded. Please try again later.''
           else js_or_str msg ''An error occurred'')
      | NoResponse \<Rightarrow> ''Network error. Please check your connection.''
      | RequestSetupError \<Rightarrow> ''An unexpected error occurred.'')"

section \<open>React context, route guard and pages\<close>

record auth_ctx =
  ctx_user :: "auth_user option"
  ctx_token :: "auth_token option"
  ctx_isLoading :: bool
  ctx_error :: "string option"

definition ctx_init :: "auth_service \<Rightarrow> auth_ctx" where
  "ctx_init s = \<lparr>ctx_user = svc_user s, ctx_token = None, ctx_isLoading = False, ctx_error = None\<rparr>"

definition ctx_login_begin :: "auth_ctx \<Rightarrow> auth_ctx" where
  "ctx_login_begin c = c\<lparr>ctx_isLoading := True, ctx_error := None\<rparr>"

definition ctx_login_end :: "auth_user option \<times> string option \<Rightarrow> auth_ctx \<Rightarrow> auth_ctx" where
  "ctx_login_end r c = c\<lparr>ctx_user := fst r, ctx_isLoading := False, ctx_error := snd r\<rparr>"

definition ctx_logout_begin :: "auth_ctx \<Rightarrow> auth_ctx" where
  "ctx_logout_begin c = c\<lparr>ctx_isLoading := True\<rparr>"

definition ctx_logout_end :: "auth_ctx" where
  "ctx_logout_end = \<lparr>ctx_user = None, ctx_token = None, ctx_isLoading = False, ctx_error = None\<rparr>"

datatype route_decision = ShowLoading | NavigateLogin | NavigateHome | RenderChildren

definition protected_route :: "auth_ctx \<Rightarrow> auth_service \<Rightarrow> bool \<Rightarrow> bool \<Rightarrow> route_decision" where
  "protected_route c s requireAdmin requireSuperAdmin =
     (if ctx_isLoading c then ShowLoading
      else if ctx_user c = None then NavigateLogin
      else if requireSuperAdmin \<and> \<not> isSuperAdmin s then NavigateHome
      else if requireAdmin \<and> \<not> isAdmin s then NavigateHome
      else RenderChildren)"

definition login_page :: "auth_ctx \<Rightarrow> route_decision" where
  "login_page c =
     (if ctx_isLoading c then ShowLoading
      else if ctx_user c \<noteq> None then NavigateHome
      else RenderChildren)"

record login_hook =
  lh_error :: "string option"
  lh_isLoading :: bool

text \<open>\<open>useLogin\<close>'s \<open>handleLogin\<close>: it calls the service directly.\<close>

definition useLogin_handleLogin ::
  "int \<Rightarrow> login_response \<Rightarrow> login_hook \<times> auth_service \<times> local_storage
   \<Rightarrow> bool \<times> login_hook \<times> auth_service \<times> local_storage" where
  "useLogin_handleLogin now resp st =
     (let (h, p) = (fst st, snd st);
          (r, p') = login now resp p
      in (case snd r of
            Some e \<Rightarrow> (False, \<lparr>lh_error = Some e, lh_isLoading = False\<rparr>, p')
          | None \<Rightarrow> (True, \<lparr>lh_error = None, lh_isLoading = False\<rparr>, p')))"

section \<open>The application's session events\<close>

record auth_sys =
  sys_svc :: auth_service
  sys_ls :: local_storage
  sys_ctx :: auth_ctx
  sys_fb_signed_in :: bool

datatype auth_event =
    PageLoad int                    \<comment> \<open>a (re)load: new service, constructor, provider\<close>
  | LoginBegin
  | LoginEnd int login_response
  | LogoutBegin
  | LogoutEnd
  | MenuSignOut                     \<comment> \<open>the user menu's sign-out\<close>
  | HookLogin int login_response    \<comment> \<open>\<open>useLogin\<close>'s \<open>handleLogin\<close>, from the login page\<close>

definition page_load :: "int \<Rightarrow> local_storage \<Rightarrow> bool \<Rightarrow> auth_sys" where
  "page_load now ls fb =
     (let (s, ls') = loadFromStorage now ls
      in \<lparr>sys_svc = s, sys_ls = ls', sys_ctx = ctx_init s, sys_fb_signed_in = fb\<rparr>)"

text \<open>\<open>useLogin\<close>'s initial state: \<open>useState(null)\<close>, \<open>useState(false)\<close>.\<close>

definition login_hook_init :: login_hook where
  "login_hook_init = \<lparr>lh_error = None, lh_isLoading = False\<rparr>"

text \<open>\<open>handleLogout\<close> of the user menu: Firebase sign-out and navigation only.\<close>

definition user_menu_logout :: "auth_sys \<Rightarrow> auth_sys" where
  "user_menu_logout x = x\<lparr>sys_fb_signed_in := False\<rparr>"

fun auth_step :: "auth_sys \<Rightarrow> auth_event \<Rightarrow> auth_sys" where
  "auth_step x (PageLoad now) = page_load now (sys_ls x) (sys_fb_signed_in x)"
| "auth_step x LoginBegin = x\<lparr>sys_ctx := ctx_login_begin (sys_ctx x)\<rparr>"
| "auth_step x (LoginEnd now resp) =
     (let (r, s, ls) = login now resp (sys_svc x, sys_ls x)
      in x\<lparr>sys_svc := s, sys_ls := ls, sys_ctx := ctx_login_end r (sys_ctx x)\<rparr>)"
| "auth_step x LogoutBegin = x\<lparr>sys_ctx := ctx_logout_begin (sys_ctx x)\<rparr>"
| "auth_step x LogoutEnd =
     (let (s, ls) = logout (sys_svc x, sys_ls x)
      in x\<lparr>sys_svc := s, sys_ls := ls, sys_ctx := ctx_logout_end\<rparr>)"
| "auth_step x MenuSignOut = user_menu_logout x"
| "auth_step x (HookLogin now resp) =
     (if login_page (sys_ctx x) \<noteq> RenderChildren then x
      else (case useLogin_handleLogin now resp (login_hook_init, sys_svc x, sys_ls x) of
              (_, _, s, ls) \<Rightarrow> x\<lparr>sys_svc := s, sys_ls := ls\<rparr>))"

inductive auth_reachable :: "auth_sys \<Rightarrow> bool" where
  first_load: "auth_reachable (page_load now empty_storage fb)"
| step: "auth_reachable x \<Longrightarrow> auth_reachable (auth_step x e)"

section \<open>Invariant\<close>

text \<open>
  Storage mirrors the service, the token and the user are set together, and the
  context, when it holds a user, holds the service's.
\<close>

definition auth_inv :: "auth_sys \<Rightarrow> bool" where
  "auth_inv x \<longleftrightarrow>
     ls_token (sys_ls x) = svc_token (sys_svc x) \<and> ls_user (sys_ls x) = svc_user (sys_svc x)
     \<and> (svc_token (sys_svc x) = None \<longleftrightarrow> svc_user (sys_svc x) = None)
     \<and> (ctx_user (sys_ctx x) = None \<or> ctx_user (sys_ctx x) = svc_user (sys_svc x))"

lemma clearAuth_parts [simp]:
  "svc_token (fst (clearAuth p)) = None" "svc_user (fst (clearAuth p)) = None"
  "snd (clearAuth p) = empty_storage"
  by (simp_all add: clearAuth_def)

lemma empty_storage_parts [simp]:
  "ls_token empty_storage = None" "ls_user empty_storage = None" "ls_refresh empty_storage = None"
  by (simp_all add: empty_storage_def)

lemma login_ok_parts:
  "login now (LoginOk tok uid r) p =
     ((Some \<lparr>user_id = uid, role = js_or_str r ''user''\<rparr>, None),
      \<lparr>svc_token = Some \<lparr>token = tok, expiresAt = now + session_ms, refreshToken = None\<rparr>,
       svc_user = Some \<lparr>user_id = uid, role = js_or_str r ''user''\<rparr>\<rparr>,
      (snd p)\<lparr>ls_token := Some \<lparr>token = tok, expiresAt = now + session_ms, refreshToken = None\<rparr>,
               ls_user := Some \<lparr>user_id = uid, role = js_or_str r ''user''\<rparr>\<rparr>)"
  by (simp add: login_def saveToStorage_def Let_def)

lemma login_fail_parts:
  "(\<And>tok uid r. resp \<noteq> LoginOk tok uid r) \<Longrightarrow>
   fst (fst (login now resp p)) = None \<and> snd (login now resp p) = clearAuth p"
  by (cases resp) (auto simp: login_def)

lemma login_storage_mirror:
  "ls_token (snd (snd (login now resp p))) = svc_token (fst (snd (login now resp p)))
   \<and> ls_user (snd (snd (login now resp p))) = svc_user (fst (snd (login now resp p)))
   \<and> (svc_token (fst (snd (login now resp p))) = None \<longleftrightarrow> svc_user (fst (snd (login now resp p))) = None)"
  by (cases resp) (simp_all add: login_def saveToStorage_def clearAuth_def Let_def)

lemma useLogin_handleLogin_service:
  "snd (snd (useLogin_handleLogin now resp (h, p))) = snd (login now resp p)"
  by (simp add: useLogin_handleLogin_def split: prod.split option.split)

lemma auth_step_hook_login_service:
  "login_page (sys_ctx x) = RenderChildren \<Longrightarrow>
   sys_svc (auth_step x (HookLogin now resp)) = fst (snd (login now resp (sys_svc x, sys_ls x)))
   \<and> sys_ls (auth_step x (HookLogin now resp)) = snd (snd (login now resp (sys_svc x, sys_ls x)))
   \<and> sys_fb_signed_in (auth_step x (HookLogin now resp)) = sys_fb_signed_in x"
  using useLogin_handleLogin_service [of now resp login_hook_init "(sys_svc x, sys_ls x)"]
  by (cases "useLogin_handleLogin now resp (login_hook_init, sys_svc x, sys_ls x)") (auto simp: case_prod_beta)

lemma auth_step_hook_login:
  "login_page (sys_ctx x) = RenderChildren \<Longrightarrow>
   auth_step x (HookLogin now resp)
     = x\<lparr>sys_svc := fst (snd (login now resp (sys_svc x, sys_ls x))),
         sys_ls := snd (snd (login now resp (sys_svc x, sys_ls x)))\<rparr>"
  using useLogin_handleLogin_service [of now resp login_hook_init "(sys_svc x, sys_ls x)"]
  by (cases "useLogin_handleLogin now resp (login_hook_init, sys_svc x, sys_ls x)") (auto simp: case_prod_beta)

lemma page_load_inv:
  "ls_token ls = None \<longleftrightarrow> ls_user ls = None \<Longrightarrow> auth_inv (page_load now ls fb)"
  by (auto simp: page_load_def loadFromStorage_def auth_inv_def ctx_init_def clearAuth_def
      split: option.splits)

lemma auth_step_inv: "auth_inv x \<Longrightarrow> auth_inv (auth_step x e)"
proof (cases e)
  case (PageLoad now)
  assume "auth_inv x"
  then have "ls_token (sys_ls x) = None \<longleftrightarrow> ls_user (sys_ls x) = None"
    by (simp add: auth_inv_def)
  with PageLoad show ?thesis by (simp add: page_load_inv)
next
  case (LoginEnd now resp)
  show ?thesis
  proof (cases "\<exists>tok uid r. resp = LoginOk tok uid r")
    case True
    with LoginEnd show ?thesis
      by (auto simp: auth_inv_def login_ok_parts ctx_login_end_def)
  next
    case False
    let ?p = "(sys_svc x, sys_ls x)"
    from False have f: "fst (fst (login now resp ?p)) = None \<and> snd (login now resp ?p) = clearAuth ?p"
      by (intro login_fail_parts) blast
    then obtain m where "login now resp ?p
        = ((None, m), \<lparr>svc_token = None, svc_user = None\<rparr>, empty_storage)"
      by (cases "login now resp ?p") (auto simp: clearAuth_def)
    with LoginEnd show ?thesis
      by (simp add: auth_inv_def ctx_login_end_def)
  qed
next
  case (HookLogin now resp)
  assume i: "auth_inv x"
  show ?thesis
  proof (cases "login_page (sys_ctx x) = RenderChildren")
    case False
    with HookLogin i show ?thesis by simp
  next
    case True
    then have "ctx_user (sys_ctx x) = None" by (simp add: login_page_def split: if_splits)
    with True HookLogin login_storage_mirror [of now resp "(sys_svc x, sys_ls x)"] show ?thesis
      by (simp add: auth_step_hook_login [OF True] auth_inv_def del: auth_step.simps)
  qed
qed (auto simp: auth_inv_def ctx_login_begin_def ctx_logout_begin_def ctx_logout_end_def
       logout_def clearAuth_def user_menu_logout_def)

lemma auth_reachable_inv_aux: "auth_reachable x \<Longrightarrow> auth_inv x"
proof (induction rule: auth_reachable.induct)
  case (first_load now fb)
  show ?case by (rule page_load_inv) simp
next
  case (step x e)
  from step.IH show ?case by (rule auth_step_inv)
qed

lemma length_join_with_hd: "length x \<le> length (join_with sep (x # xs))"
  by (cases xs) simp_all

lemma length_render_token: "length (token t) + 2 < length (render_json (json_of_token t))"
proof -
  let ?e = "json_quote ''token'' @ '':'' @ json_quote (token t)"
  let ?rest = "map (\<lambda>(k, v). json_quote k @ '':'' @ render_json v)
      ((''expiresAt'', JNum (expiresAt t))
       # (case refreshToken t of None \<Rightarrow> [] | Some r \<Rightarrow> [(''refreshToken'', JStr r)]))"
  have q: "length (token t) + 2 \<le> length (json_quote (token t))" by (rule length_json_quote)
  have e: "length (json_quote (token t)) < length ?e" by simp
  have j: "length ?e \<le> length (join_with '','' (?e # ?rest))" by (rule length_join_with_hd)
  have r: "render_json (json_of_token t) = CHR ''{'' # join_with '','' (?e # ?rest) @ ''}''"
    by (simp add: json_of_token_def)
  have "length (render_json (json_of_token t)) = length (join_with '','' (?e # ?rest)) + 2"
    by (simp only: r) simp
  with q e j show ?thesis by linarith
qed

section \<open>Properties\<close>

text \<open>
  C10. In every state reachable from a first page load, by any sequence of
  reloads, context logins and logouts, logins through \<open>useLogin\<close> on the login
  page and user-menu sign-outs, the stored token and user are the service's, the
  token and user are set together, and the context, when it shows a user, shows
  the service's.
\<close>

theorem auth_reachable_inv: "auth_reachable x \<Longrightarrow> auth_inv x"
proof (induction rule: auth_reachable.induct)
  case (first_load now fb)
  show ?case by (rule page_load_inv) simp
next
  case (step x e)
  from step.IH show ?case by (rule auth_step_inv)
qed

theorem auth_reachable_inv_witness:
  "auth_inv (auth_step (page_load 0 empty_storage True) (LoginEnd 5 (LoginOk ''t'' ''u'' None)))"
  by (rule auth_reachable_inv) (rule auth_reachable.step, rule auth_reachable.first_load)

text \<open>
  C11. In every reachable state the protected layout renders its page only for
  an authenticated service whose user the context shows, and an admin-only route
  only when that user is an admin or a super admin.
\<close>

theorem protected_route_sound:
  assumes "auth_reachable x"
    and "protected_route (sys_ctx x) (sys_svc x) requireAdmin requireSuperAdmin = RenderChildren"
  shows "isAuthenticated (sys_svc x) \<and> ctx_user (sys_ctx x) = svc_user (sys_svc x)
         \<and> (requireAdmin \<longrightarrow> isAdmin (sys_svc x))"
  using auth_reachable_inv_aux [OF assms(1)] assms(2)
  by (auto simp: protected_route_def isAuthenticated_def auth_inv_def split: if_splits)

theorem protected_route_sound_witness:
  "isAuthenticated (sys_svc (auth_step (page_load 0 empty_storage True) (LoginEnd 5 (LoginOk ''t'' ''u'' (Some ''admin'')))))"
proof -
  let ?x = "auth_step (page_load 0 empty_storage True) (LoginEnd 5 (LoginOk ''t'' ''u'' (Some ''admin'')))"
  have r: "auth_reachable ?x" by (rule auth_reachable.step, rule auth_reachable.first_load)
  have "protected_route (sys_ctx ?x) (sys_svc ?x) True False = RenderChildren"
    by (simp add: page_load_def loadFromStorage_def ctx_init_def ctx_login_end_def login_ok_parts
        protected_route_def isAdmin_def hasRole_def js_or_str_def)
  with protected_route_sound [OF r] show ?thesis by simp
qed

text \<open>
  Logging out through the context clears the service and all three storage
  keys, the API client sends no \<open>Authorization\<close> header, and the protected route
  redirects to the login page.
\<close>

theorem logout_clears_session:
  "svc_token (sys_svc (auth_step x LogoutEnd)) = None
   \<and> sys_ls (auth_step x LogoutEnd) = empty_storage
   \<and> api_auth_header (sys_ls (auth_step x LogoutEnd)) = None
   \<and> protected_route (sys_ctx (auth_step x LogoutEnd)) (sys_svc (auth_step x LogoutEnd)) a b = NavigateLogin"
  by (simp add: logout_def clearAuth_def api_auth_header_def stored_token_text_def
      protected_route_def ctx_logout_end_def)

text \<open>
  C12. The user menu's "Sign out" only signs out of Firebase. From a reachable
  authenticated state in which the menu is shown (it is part of the protected
  layout, so the context holds a user) the service stays authenticated, the
  protected pages still render, and the login page it navigates to redirects
  straight back home.
\<close>

theorem menu_signout_keeps_session:
  "auth_reachable x \<Longrightarrow> isAuthenticated (sys_svc x) \<Longrightarrow> \<not> ctx_isLoading (sys_ctx x) \<Longrightarrow>
   ctx_user (sys_ctx x) \<noteq> None \<Longrightarrow>
   isAuthenticated (sys_svc (auth_step x MenuSignOut))
   \<and> login_page (sys_ctx (auth_step x MenuSignOut)) = NavigateHome
   \<and> protected_route (sys_ctx (auth_step x MenuSignOut)) (sys_svc (auth_step x MenuSignOut)) False False
       = RenderChildren"
  using auth_reachable_inv_aux [of x]
  by (auto simp: user_menu_logout_def login_page_def protected_route_def isAuthenticated_def auth_inv_def)

theorem menu_signout_keeps_session_witness:
  "login_page (sys_ctx (auth_step (auth_step (page_load 0 empty_storage True)
      (LoginEnd 5 (LoginOk ''t'' ''u'' None))) MenuSignOut)) = NavigateHome"
proof -
  let ?x = "auth_step (page_load 0 empty_storage True) (LoginEnd 5 (LoginOk ''t'' ''u'' None))"
  have r: "auth_reachable ?x" by (rule auth_reachable.step, rule auth_reachable.first_load)
  have "\<not> ctx_isLoading (sys_ctx ?x)" "isAuthenticated (sys_svc ?x)" "ctx_user (sys_ctx ?x) \<noteq> None"
    by (simp_all add: page_load_def loadFromStorage_def ctx_init_def ctx_login_end_def
        login_ok_parts isAuthenticated_def empty_storage_def)
  with menu_signout_keeps_session [OF r] show ?thesis by simp
qed

text \<open>
  C13. A successful login through \<open>useLogin\<close> on the login page authenticates the
  service and stores the session, but the context is not told: the protected
  pages still redirect to the login page, which keeps showing its form. Only a
  reload, which reads the stored session into a new context, lets the user in.
\<close>

theorem hook_login_not_routed:
  assumes "auth_reachable x" and "login_page (sys_ctx x) = RenderChildren"
  shows "let y = auth_step x (HookLogin now (LoginOk tok uid r))
         in auth_reachable y \<and> isAuthenticated (sys_svc y)
            \<and> protected_route (sys_ctx y) (sys_svc y) a b = NavigateLogin
            \<and> login_page (sys_ctx y) = RenderChildren
            \<and> protected_route (sys_ctx (auth_step y (PageLoad now))) (sys_svc (auth_step y (PageLoad now)))
                  False False = RenderChildren"
proof -
  let ?y = "auth_step x (HookLogin now (LoginOk tok uid r))"
  have c: "\<not> ctx_isLoading (sys_ctx x) \<and> ctx_user (sys_ctx x) = None"
    using assms(2) by (simp add: login_page_def split: if_splits)
  have s: "sys_svc ?y = fst (snd (login now (LoginOk tok uid r) (sys_svc x, sys_ls x)))
           \<and> sys_ls ?y = snd (snd (login now (LoginOk tok uid r) (sys_svc x, sys_ls x)))"
    using auth_step_hook_login_service [OF assms(2)] by blast
  have ctx: "sys_ctx ?y = sys_ctx x"
    using assms(2) by (cases "useLogin_handleLogin now (LoginOk tok uid r) (login_hook_init, sys_svc x, sys_ls x)")
      (simp add: case_prod_beta)
  have "auth_reachable ?y" using assms(1) by (rule auth_reachable.step)
  moreover have "isAuthenticated (sys_svc ?y)"
    using s by (simp add: login_ok_parts isAuthenticated_def)
  moreover have "protected_route (sys_ctx ?y) (sys_svc ?y) a b = NavigateLogin
                 \<and> login_page (sys_ctx ?y) = RenderChildren"
    using c ctx by (simp add: protected_route_def login_page_def)
  moreover have "protected_route (sys_ctx (auth_step ?y (PageLoad now))) (sys_svc (auth_step ?y (PageLoad now)))
                   False False = RenderChildren"
    using s by (simp add: login_ok_parts page_load_def loadFromStorage_def ctx_init_def protected_route_def
        session_ms_def del: auth_step.simps(7))
  ultimately show ?thesis by (simp add: Let_def)
qed

theorem hook_login_not_routed_witness:
  "protected_route (sys_ctx (auth_step (page_load 0 empty_storage True) (HookLogin 5 (LoginOk ''t'' ''u'' None))))
     (sys_svc (auth_step (page_load 0 empty_storage True) (HookLogin 5 (LoginOk ''t'' ''u'' None)))) False False
   = NavigateLogin"
proof -
  have r: "auth_reachable (page_load 0 empty_storage True)" by (rule auth_reachable.first_load)
  have "login_page (sys_ctx (page_load 0 empty_storage True)) = RenderChildren"
    by (simp add: page_load_def loadFromStorage_def ctx_init_def login_page_def)
  from hook_login_not_routed [OF r this, of 5 "''t''" "''u''" None False False]
  show ?thesis by (simp add: Let_def)
qed

text \<open>
  After a successful login the API client sends \<open>Authorization: Bearer\<close>
  followed by the whole stored JSON text of the token object, never
  \<open>Bearer\<close> followed by the token itself: the interceptor reads the
  stringified object under \<open>auth_token\<close> as if it were the bare token.
\<close>

theorem api_header_not_bearer_token:
  "api_auth_header (sys_ls (auth_step x (LoginEnd now (LoginOk tok uid r))))
     = Some (''Bearer '' @ render_json (json_of_token \<lparr>token = tok, expiresAt = now + session_ms, refreshToken = None\<rparr>))
   \<and> api_auth_header (sys_ls (auth_step x (LoginEnd now (LoginOk tok uid r)))) \<noteq> Some (''Bearer '' @ tok)"
proof -
  let ?t = "\<lparr>token = tok, expiresAt = now + session_ms, refreshToken = None\<rparr>"
  have h: "api_auth_header (sys_ls (auth_step x (LoginEnd now (LoginOk tok uid r))))
      = Some (''Bearer '' @ render_json (json_of_token ?t))"
    by (simp add: login_ok_parts api_auth_header_def stored_token_text_def)
  have "length tok < length (render_json (json_of_token ?t))"
    using length_render_token [of ?t] by simp
  then have "render_json (json_of_token ?t) \<noteq> tok" by auto
  with h show ?thesis by simp
qed

text \<open>
  C14. Round trip through storage: a service holding a token and a user, saved and
  then loaded by a new service before the token expires, is restored exactly.
\<close>

theorem save_load_roundtrip:
  "svc_token s = Some t \<Longrightarrow> svc_user s = Some u \<Longrightarrow> now \<le> expiresAt t \<Longrightarrow>
   fst (loadFromStorage now (snd (saveToStorage (s, ls)))) = s"
  by (simp add: saveToStorage_def loadFromStorage_def)

theorem save_load_roundtrip_witness:
  "fst (loadFromStorage 10 (snd (saveToStorage
      (\<lparr>svc_token = Some \<lparr>token = ''t'', expiresAt = 20, refreshToken = None\<rparr>,
        svc_user = Some \<lparr>user_id = ''u'', role = ''admin''\<rparr>\<rparr>, empty_storage))))
   = \<lparr>svc_token = Some \<lparr>token = ''t'', expiresAt = 20, refreshToken = None\<rparr>,
      svc_user = Some \<lparr>user_id = ''u'', role = ''admin''\<rparr>\<rparr>"
  by (rule save_load_roundtrip) simp+

text \<open>
  Loading with an expired stored token clears the service and every storage
  key, so the next page load is unauthenticated.
\<close>

theorem load_expired_clears:
  "ls_token ls = Some t \<Longrightarrow> expiresAt t < now \<Longrightarrow>
   loadFromStorage now ls = (\<lparr>svc_token = None, svc_user = None\<rparr>, empty_storage)"
  by (simp add: loadFromStorage_def clearAuth_def)

theorem load_expired_clears_witness:
  "loadFromStorage 100 \<lparr>ls_token = Some \<lparr>token = ''t'', expiresAt = 20, refreshToken = None\<rparr>,
      ls_refresh = Some ''r'', ls_user = Some \<lparr>user_id = ''u'', role = ''admin''\<rparr>\<rparr>
   = (\<lparr>svc_token = None, svc_user = None\<rparr>, empty_storage)"
  by (rule load_expired_clears) simp+

text \<open>
  The error a failed login reports: the server's message when it has a
  non-empty one, otherwise \<open>HTTP error! status: N\<close>; a network failure's own
  message, or \<open>Login failed\<close> when that is empty.
\<close>

theorem login_error_messages:
  "snd (fst (login now (LoginHttpError 401 None) p)) = Some ''HTTP error! status: 401''
   \<and> snd (fst (login now (LoginHttpError 500 (Some [])) p)) = Some ''HTTP error! status: 500''
   \<and> snd (fst (login now (LoginHttpError 401 (Some ''Invalid credentials'')) p)) = Some ''Invalid credentials''
   \<and> snd (fst (login now (LoginNetworkError []) p)) = Some ''Login failed''"
  by (simp add: login_def js_or_str_def http_error_message_def show_nat_def base_digits.simps
      digit_char_def)

text \<open>
  A login response without a role yields a user with role \<open>user\<close>, outside
  the declared \<open>'admin' | 'super_admin'\<close>: the session is authenticated but not
  an administrator's.
\<close>

theorem login_default_role:
  "fst (fst (login now (LoginOk tok uid None) p)) = Some \<lparr>user_id = uid, role = ''user''\<rparr>
   \<and> isAuthenticated (fst (snd (login now (LoginOk tok uid None) p)))
   \<and> \<not> isAdmin (fst (snd (login now (LoginOk tok uid None) p)))"
  by (simp add: login_ok_parts js_or_str_def isAuthenticated_def isAdmin_def hasRole_def)

end
