(* ===== verification/Wallet.thy ===== *)
theory Wallet
  imports Json
begin

text \<open>
  The wallet state of \<open>src/src/web3\<close>. \<open>WalletContext.tsx\<close> (used by
  \<open>components/WalletConnect\<close>) and \<open>hooks/useWallet.ts\<close> (used by
  \<open>web3/components/AccountSelector.tsx\<close>) hold the same reducer over
  \<open>WalletState\<close>, each in its own React state. Each operation is a function on
  \<open>wallet_state\<close>; the provider's answers (\<open>eth_requestAccounts\<close>,
  \<open>eth_chainId\<close>, the chain switch and add, the permission request) are inputs.
  \<open>parseInt16\<close> is JavaScript's \<open>parseInt(s, 16)\<close> (\<open>None\<close> for \<open>NaN\<close>)
  and \<open>show_hex\<close> is \<open>Number.prototype.toString(16)\<close>. \<open>wallet_app\<close>
  composes the two instances. The context's instance lives as long as the page.
  The selector's instance is mounted while \<open>WalletConnect\<close> shows an address and
  no error. Both register listeners on \<open>window.ethereum\<close>, and unmounting the
  selector runs its cleanup, \<open>removeAllListeners()\<close>.
\<close>

section \<open>Hexadecimal numbers\<close>

definition hex_val :: "char \<Rightarrow> nat option" where
  "hex_val c =
     (let n = of_char c :: nat in
      if 48 \<le> n \<and> n \<le> 57 then Some (n - 48)
      else if 97 \<le> n \<and> n \<le> 102 then Some (n - 87)
      else if 65 \<le> n \<and> n \<le> 70 then Some (n - 55)
      else None)"

definition parseInt16 :: "string \<Rightarrow> int option" where
  "parseInt16 s =
     (let s1 = dropWhile js_space s;
          (neg, s2) = (case s1 of
                         c # r \<Rightarrow> (if c = CHR ''-'' then (True, r)
                                  else if c = CHR ''+'' then (False, r) else (False, s1))
                       | [] \<Rightarrow> (False, []));
          s3 = (case s2 of
                  c1 # c2 # r \<Rightarrow> (if c1 = CHR ''0'' \<and> (c2 = CHR ''x'' \<or> c2 = CHR ''X'') then r else s2)
                | _ \<Rightarrow> s2);
          ds = takeWhile (\<lambda>c. hex_val c \<noteq> None) s3
      in if ds = [] then None
         else Some ((if neg then -1 else 1) * int (digits_value 16 (map (the \<circ> hex_val) ds))))"

definition show_hex :: "nat \<Rightarrow> string" where
  "show_hex n = map hex_digit (base_digits 16 n)"

section \<open>Constants\<close>

definition BSC_CHAIN_ID :: int where
  "BSC_CHAIN_ID = 56"

definition BSC_CHAIN_CONFIG_chainId :: string where
  "BSC_CHAIN_CONFIG_chainId = ''0x'' @ show_hex (nat BSC_CHAIN_ID)"

section \<open>State and operations\<close>

record wallet_error =
  err_code :: "int option"
  err_message :: string

record wallet_state =
  address :: "string option"
  accounts :: "string list"
  chainId :: "int option option"   \<comment> \<open>\<open>null\<close>, or a parsed number (\<open>None\<close> for \<open>NaN\<close>)\<close>
  isConnecting :: bool
  error :: "wallet_error option"

definition initialState :: wallet_state where
  "initialState = \<lparr>address = None, accounts = [], chainId = None, isConnecting = False, error = None\<rparr>"

definition metamask_missing :: wallet_error where
  "metamask_missing = \<lparr>err_code = None, err_message = ''MetaMask is not installed''\<rparr>"

text \<open>The provider's answers to the requests \<open>connectWallet\<close> makes, in order.\<close>

record connect_answers =
  ans_accounts :: "wallet_error + string list"
  ans_chainId :: "wallet_error + string"
  ans_switch :: "wallet_error option"     \<comment> \<open>\<open>None\<close>: the switch succeeded\<close>
  ans_add :: "wallet_error option"

definition first_account :: "string list \<Rightarrow> string option" where
  "first_account xs = (case xs of [] \<Rightarrow> None | a # _ \<Rightarrow> Some a)"

text \<open>\<open>accounts[0] || null\<close>: an empty first account also reads as \<open>null\<close>.\<close>

definition first_account_or_null :: "string list \<Rightarrow> string option" where
  "first_account_or_null xs = (case xs of a # _ \<Rightarrow> (if a = [] then None else Some a) | [] \<Rightarrow> None)"

definition connectWallet :: "bool \<Rightarrow> connect_answers \<Rightarrow> wallet_state \<Rightarrow> wallet_state" where
  "connectWallet has_eth ans st =
     (if \<not> has_eth then st\<lparr>error := Some metamask_missing\<rparr>
      else
        let st1 = st\<lparr>isConnecting := True, error := None\<rparr>;
            fail = (\<lambda>e. st1\<lparr>error := Some e, isConnecting := False\<rparr>)
        in (case ans_accounts ans of
              Inl e \<Rightarrow> fail e
            | Inr accts \<Rightarrow>
                (case ans_chainId ans of
                   Inl e \<Rightarrow> fail e
                 | Inr cid \<Rightarrow>
                     let ok = st1\<lparr>address := first_account accts, accounts := accts,
                                  chainId := Some (parseInt16 cid), isConnecting := False\<rparr>
                     in if parseInt16 cid \<noteq> Some BSC_CHAIN_ID then
                          (case ans_switch ans of
                             None \<Rightarrow> ok
                           | Some e \<Rightarrow>
                               (if err_code e = Some 4902 then
                                  (case ans_add ans of None \<Rightarrow> ok | Some e' \<Rightarrow> fail e')
                                else fail e))
                        else ok)))"

text \<open>
  \<open>switchAccount\<close> and \<open>addAccount\<close> have the same body: a permission request,
  then \<open>eth_accounts\<close>. \<open>switchAccount\<close> ignores its \<open>account\<close> argument.
\<close>

definition switchAccount :: "string \<Rightarrow> wallet_error + string list \<Rightarrow> wallet_state \<Rightarrow> wallet_state" where
  "switchAccount account ans st =
     (case ans of
        Inl e \<Rightarrow> st\<lparr>error := Some e\<rparr>
      | Inr accts \<Rightarrow> st\<lparr>address := first_account accts, accounts := accts\<rparr>)"

definition addAccount :: "wallet_error + string list \<Rightarrow> wallet_state \<Rightarrow> wallet_state" where
  "addAccount ans st =
     (case ans of
        Inl e \<Rightarrow> st\<lparr>error := Some e\<rparr>
      | Inr accts \<Rightarrow> st\<lparr>address := first_account accts, accounts := accts\<rparr>)"

definition disconnectWallet :: "wallet_state \<Rightarrow> wallet_state" where
  "disconnectWallet st = initialState"

definition on_accountsChanged :: "string list \<Rightarrow> wallet_state \<Rightarrow> wallet_state" where
  "on_accountsChanged accts st = st\<lparr>address := first_account_or_null accts, accounts := accts\<rparr>"

definition on_chainChanged :: "string \<Rightarrow> wallet_state \<Rightarrow> wallet_state" where
  "on_chainChanged cid st = st\<lparr>chainId := Some (parseInt16 cid)\<rparr>"

definition on_disconnect :: "wallet_state \<Rightarrow> wallet_state" where
  "on_disconnect st = initialState"

datatype provider_event =
    AccountsChanged "string list"
  | ChainChanged string
  | ProviderDisconnect

fun on_provider_event :: "provider_event \<Rightarrow> wallet_state \<Rightarrow> wallet_state" where
  "on_provider_event (AccountsChanged accts) st = on_accountsChanged accts st"
| "on_provider_event (ChainChanged cid) st = on_chainChanged cid st"
| "on_provider_event ProviderDisconnect st = on_disconnect st"

section \<open>Views\<close>

definition formatAddress :: "string \<Rightarrow> string" where
  "formatAddress a = take 6 a @ ''...'' @ drop (length a - 4) a"

datatype wallet_connect_view =
    ShowError string
  | ShowAccount                      \<comment> \<open>\<open>AccountSelector\<close> and a Disconnect button\<close>
  | ConnectButton bool string        \<comment> \<open>disabled, label\<close>

definition wallet_connect_view :: "wallet_state \<Rightarrow> wallet_connect_view" where
  "wallet_connect_view st =
     (case error st of
        Some e \<Rightarrow> ShowError (err_message e)
      | None \<Rightarrow>
          (if address st \<noteq> None \<and> address st \<noteq> Some [] then ShowAccount
           else ConnectButton (isConnecting st)
                  (if isConnecting st then ''Connecting...'' else ''Connect Wallet'')))"

record account_selector_view =
  sel_label :: string
  sel_items :: "(string \<times> bool) list"   \<comment> \<open>formatted account, highlighted\<close>

definition account_selector_view :: "wallet_state \<Rightarrow> account_selector_view" where
  "account_selector_view st =
     \<lparr>sel_label = (case address st of Some a \<Rightarrow> (if a = [] then ''Select Account'' else formatAddress a)
                  | None \<Rightarrow> ''Select Account''),
      sel_items = map (\<lambda>a. (formatAddress a, Some a = address st)) (accounts st)\<rparr>"

section \<open>The two instances on one page\<close>

record wallet_app =
  app_ctx :: wallet_state
  app_ctx_listening :: bool
  app_sel :: "wallet_state option"   \<comment> \<open>the selector's instance, while mounted\<close>
  app_sel_listening :: bool
  app_has_eth :: bool

text \<open>
  After every change React re-renders \<open>WalletConnect\<close>: the selector mounts with
  a fresh instance (registering its listeners) when an address is shown, and
  unmounts (removing every listener) when it is not.
\<close>

definition rerender :: "wallet_app \<Rightarrow> wallet_app" where
  "rerender a =
     (if wallet_connect_view (app_ctx a) = ShowAccount then
        (if app_sel a = None then a\<lparr>app_sel := Some initialState, app_sel_listening := app_has_eth a\<rparr> else a)
      else
        (if app_sel a \<noteq> None
         then a\<lparr>app_sel := None, app_sel_listening := False, app_ctx_listening := False\<rparr> else a))"

definition app_init :: "bool \<Rightarrow> wallet_app" where
  "app_init has_eth =
     \<lparr>app_ctx = initialState, app_ctx_listening = has_eth, app_sel = None,
      app_sel_listening = False, app_has_eth = has_eth\<rparr>"

datatype wallet_event =
    ClickConnect connect_answers
  | ClickDisconnect
  | SelectorAdd "wallet_error + string list"
  | SelectorSwitch string "wallet_error + string list"
  | Provider provider_event

fun wallet_event_step :: "wallet_app \<Rightarrow> wallet_event \<Rightarrow> wallet_app" where
  "wallet_event_step a (ClickConnect ans) = a\<lparr>app_ctx := connectWallet (app_has_eth a) ans (app_ctx a)\<rparr>"
| "wallet_event_step a ClickDisconnect = a\<lparr>app_ctx := disconnectWallet (app_ctx a)\<rparr>"
| "wallet_event_step a (SelectorAdd ans) = a\<lparr>app_sel := map_option (addAccount ans) (app_sel a)\<rparr>"
| "wallet_event_step a (SelectorSwitch acc ans) = a\<lparr>app_sel := map_option (switchAccount acc ans) (app_sel a)\<rparr>"
| "wallet_event_step a (Provider ev) =
     a\<lparr>app_ctx := (if app_ctx_listening a then on_provider_event ev (app_ctx a) else app_ctx a),
       app_sel := (if app_sel_listening a then map_option (on_provider_event ev) (app_sel a) else app_sel a)\<rparr>"

definition wallet_step :: "wallet_app \<Rightarrow> wallet_event \<Rightarrow> wallet_app" where
  "wallet_step a e = rerender (wallet_event_step a e)"

fun wallet_run :: "wallet_app \<Rightarrow> wallet_event list \<Rightarrow> wallet_app" where
  "wallet_run a [] = a"
| "wallet_run a (e # es) = wallet_run (wallet_step a e) es"

section \<open>Lemmas\<close>

definition addr_ok :: "wallet_state \<Rightarrow> bool" where
  "addr_ok st = (case address st of None \<Rightarrow> True | Some a \<Rightarrow> accounts st \<noteq> [] \<and> a = hd (accounts st))"

definition wallet_app_ok :: "wallet_app \<Rightarrow> bool" where
  "wallet_app_ok a \<longleftrightarrow> addr_ok (app_ctx a) \<and> pred_option addr_ok (app_sel a)"

lemma addr_ok_initial [simp]: "addr_ok initialState"
  by (simp add: addr_ok_def initialState_def)

lemma addr_ok_frame [simp]:
  "addr_ok (st\<lparr>error := e\<rparr>) = addr_ok st" "addr_ok (st\<lparr>chainId := c\<rparr>) = addr_ok st"
  "addr_ok (st\<lparr>isConnecting := b\<rparr>) = addr_ok st"
  by (simp_all add: addr_ok_def split: option.splits)

lemma addr_ok_first_account: "addr_ok (st\<lparr>address := first_account xs, accounts := xs\<rparr>)"
  by (simp add: addr_ok_def first_account_def split: list.splits)

lemma addr_ok_connectWallet: "addr_ok st \<Longrightarrow> addr_ok (connectWallet h ans st)"
  by (auto simp: connectWallet_def Let_def addr_ok_first_account
      split: sum.splits option.splits)

lemma addr_ok_provider: "addr_ok st \<Longrightarrow> addr_ok (on_provider_event ev st)"
proof (cases ev)
  case (AccountsChanged accts)
  then show ?thesis
    by (auto simp: on_accountsChanged_def addr_ok_def first_account_or_null_def split: list.splits)
qed (simp_all add: on_chainChanged_def on_disconnect_def)

lemma addr_ok_selector:
  "addr_ok st \<Longrightarrow> addr_ok (addAccount ans st) \<and> addr_ok (switchAccount acc ans st)"
  by (simp add: addAccount_def switchAccount_def addr_ok_first_account split: sum.splits)

lemma wallet_app_ok_rerender: "wallet_app_ok a \<Longrightarrow> wallet_app_ok (rerender a)"
  by (simp add: rerender_def wallet_app_ok_def)

lemma wallet_app_ok_step: "wallet_app_ok a \<Longrightarrow> wallet_app_ok (wallet_step a e)"
  unfolding wallet_step_def
proof (rule wallet_app_ok_rerender)
  assume ok: "wallet_app_ok a"
  show "wallet_app_ok (wallet_event_step a e)"
  proof (cases e)
    case (ClickConnect ans)
    with ok show ?thesis by (simp add: wallet_app_ok_def addr_ok_connectWallet)
  next
    case ClickDisconnect
    with ok show ?thesis by (simp add: wallet_app_ok_def disconnectWallet_def)
  next
    case (SelectorAdd ans)
    with ok show ?thesis
      by (auto simp: wallet_app_ok_def addr_ok_selector option.pred_map elim: option.pred_mono_strong)
  next
    case (SelectorSwitch acc ans)
    with ok show ?thesis
      by (auto simp: wallet_app_ok_def addr_ok_selector option.pred_map elim: option.pred_mono_strong)
  next
    case (Provider ev)
    with ok show ?thesis
      by (auto simp: wallet_app_ok_def addr_ok_provider option.pred_map elim: option.pred_mono_strong)
  qed
qed

lemma hex_val_digit: "d < 16 \<Longrightarrow> hex_val (hex_digit d) = Some d"
proof -
  assume "d < 16"
  then have "d = 0 \<or> d = 1 \<or> d = 2 \<or> d = 3 \<or> d = 4 \<or> d = 5 \<or> d = 6 \<or> d = 7 \<or> d = 8
      \<or> d = 9 \<or> d = 10 \<or> d = 11 \<or> d = 12 \<or> d = 13 \<or> d = 14 \<or> d = 15" by arith
  then show ?thesis by (elim disjE) (simp_all add: hex_val_def hex_digit_def)
qed

lemma base_digits_ne: "base_digits b n \<noteq> []"
  by (subst base_digits.simps) simp

lemma parseInt16_hex_prefix:
  assumes "ds \<noteq> []" "\<forall>c \<in> set ds. hex_val c \<noteq> None"
  shows "parseInt16 (''0x'' @ ds) = Some (int (digits_value 16 (map (the \<circ> hex_val) ds)))"
proof -
  have tw: "takeWhile (\<lambda>c. \<exists>y. hex_val c = Some y) ds = ds"
    using assms(2) by (auto simp: takeWhile_eq_all_conv)
  show ?thesis unfolding parseInt16_def Let_def using assms(1) by (simp add: js_space_def tw)
qed

lemma parseInt16_show_hex: "parseInt16 (''0x'' @ show_hex n) = Some (int n)"
proof -
  have lt: "\<forall>d \<in> set (base_digits 16 n). d < 16" using base_digits_lt [of 16] by auto
  then have vals: "\<forall>c \<in> set (show_hex n). hex_val c \<noteq> None"
    by (auto simp: show_hex_def hex_val_digit)
  have "map (the \<circ> hex_val) (show_hex n) = base_digits 16 n"
    unfolding show_hex_def map_map using lt by (intro map_idI) (simp add: hex_val_digit)
  then show ?thesis
    using parseInt16_hex_prefix [OF _ vals] base_digits_ne [of 16 n]
    by (simp add: show_hex_def digits_value_base_digits)
qed

section \<open>Properties\<close>

text \<open>
  For the context's instance and the selector's, any sequence of clicks,
  selector actions and provider events keeps the address either unset or equal to
  the first of the listed accounts.
\<close>

theorem wallet_run_address_ok:
  "wallet_app_ok a \<Longrightarrow> wallet_app_ok (wallet_run a es)"
proof (induction es arbitrary: a)
  case Nil
  then show ?case by simp
next
  case (Cons e es)
  from Cons.prems have "wallet_app_ok (wallet_step a e)" by (rule wallet_app_ok_step)
  then show ?case by (simp add: Cons.IH)
qed

theorem wallet_run_address_ok_witness:
  "wallet_app_ok (wallet_run (app_init True)
     [ClickConnect \<lparr>ans_accounts = Inr [''0xA1'', ''0xB2''], ans_chainId = Inr ''0x38'',
                    ans_switch = None, ans_add = None\<rparr>,
      Provider (AccountsChanged [''0xB2'']), SelectorAdd (Inr [''0xC3''])])"
  by (rule wallet_run_address_ok) (simp add: wallet_app_ok_def app_init_def)

text \<open>
  Connecting from another chain records that chain's id even when the
  switch to BNB Smart Chain succeeds: the state reports the old chain until a
  \<open>chainChanged\<close> event arrives.
\<close>

theorem connect_keeps_old_chainId:
  "parseInt16 cid = Some c \<Longrightarrow> c \<noteq> BSC_CHAIN_ID \<Longrightarrow>
   connectWallet True \<lparr>ans_accounts = Inr accts, ans_chainId = Inr cid, ans_switch = None, ans_add = add\<rparr> st
   = st\<lparr>address := first_account accts, accounts := accts, chainId := Some (Some c),
        isConnecting := False, error := None\<rparr>"
  by (simp add: connectWallet_def Let_def)

theorem connect_keeps_old_chainId_witness:
  "connectWallet True \<lparr>ans_accounts = Inr [''0xA1''], ans_chainId = Inr ''0x1'', ans_switch = None,
       ans_add = None\<rparr> initialState
   = initialState\<lparr>address := Some ''0xA1'', accounts := [''0xA1''], chainId := Some (Some 1),
        isConnecting := False, error := None\<rparr>"
proof -
  have p: "parseInt16 ''0x1'' = Some 1"
    by (simp add: parseInt16_def js_space_def hex_val_def digits_value_def)
  have "(1::int) \<noteq> BSC_CHAIN_ID" by (simp add: BSC_CHAIN_ID_def)
  from connect_keeps_old_chainId [OF p this] show ?thesis by (simp add: first_account_def)
qed

lemma wallet_run_append: "wallet_run a (xs @ ys) = wallet_run (wallet_run a xs) ys"
  by (induction xs arbitrary: a) simp_all

lemma deaf_step: "\<not> app_ctx_listening a \<Longrightarrow> \<not> app_ctx_listening (wallet_step a e)"
  by (cases e) (simp_all add: wallet_step_def rerender_def)

lemma deaf_run: "\<not> app_ctx_listening a \<Longrightarrow> \<not> app_ctx_listening (wallet_run a evs)"
  by (induction evs arbitrary: a) (simp_all add: deaf_step)

lemma deaf_provider: "\<not> app_ctx_listening a \<Longrightarrow> app_ctx (wallet_step a (Provider ev)) = app_ctx a"
  by (simp add: wallet_step_def rerender_def)

text \<open>
  C17. Unmounting the selector removes the context's provider listeners too: a
  Disconnect click while the selector is mounted leaves the context deaf for
  good. Whatever happens afterwards, reconnecting included, no provider event
  (\<open>accountsChanged\<close>, \<open>chainChanged\<close>, \<open>disconnect\<close>) changes the context's state.
\<close>

theorem listeners_lost_after_disconnect:
  assumes "app_sel a \<noteq> None"
  shows "\<not> app_ctx_listening (wallet_step a ClickDisconnect)
         \<and> app_ctx (wallet_run (wallet_step a ClickDisconnect) (evs @ [Provider ev]))
           = app_ctx (wallet_run (wallet_step a ClickDisconnect) evs)"
proof -
  have d: "\<not> app_ctx_listening (wallet_step a ClickDisconnect)"
    using assms by (simp add: wallet_step_def rerender_def wallet_connect_view_def disconnectWallet_def
        initialState_def)
  then have "\<not> app_ctx_listening (wallet_run (wallet_step a ClickDisconnect) evs)" by (rule deaf_run)
  with d show ?thesis by (simp add: wallet_run_append deaf_provider)
qed

theorem listeners_lost_after_disconnect_witness:
  "chainId (app_ctx (wallet_run (wallet_step (wallet_step (app_init True)
       (ClickConnect \<lparr>ans_accounts = Inr [''0xA1''], ans_chainId = Inr ''0x38'', ans_switch = None, ans_add = None\<rparr>))
       ClickDisconnect)
     [ClickConnect \<lparr>ans_accounts = Inr [''0xA1''], ans_chainId = Inr ''0x38'', ans_switch = None, ans_add = None\<rparr>,
      Provider (ChainChanged ''0x1'')])) = Some (Some 56)"
proof -
  let ?c = "ClickConnect \<lparr>ans_accounts = Inr [''0xA1''], ans_chainId = Inr ''0x38'', ans_switch = None, ans_add = None\<rparr>"
  have p: "parseInt16 ''0x38'' = Some 56"
    by (simp add: parseInt16_def js_space_def hex_val_def digits_value_def)
  have m: "app_sel (wallet_step (app_init True) ?c) \<noteq> None"
    using p by (simp add: wallet_step_def connectWallet_def Let_def app_init_def rerender_def
        wallet_connect_view_def first_account_def initialState_def BSC_CHAIN_ID_def)
  have "app_ctx (wallet_run (wallet_step (wallet_step (app_init True) ?c) ClickDisconnect) ([?c] @ [Provider (ChainChanged ''0x1'')]))
        = app_ctx (wallet_run (wallet_step (wallet_step (app_init True) ?c) ClickDisconnect) [?c])"
    using listeners_lost_after_disconnect [OF m] by blast
  then show ?thesis
    using p by (simp add: wallet_step_def connectWallet_def Let_def app_init_def rerender_def
        wallet_connect_view_def first_account_def initialState_def disconnectWallet_def BSC_CHAIN_ID_def)
qed

text \<open>
  Chain ids round-trip through hexadecimal: \<open>parseInt(s, 16)\<close> of
  \<open>0x\<close> followed by \<open>n.toString(16)\<close> is \<open>n\<close>. In particular the configured
  chain id string \<open>BSC_CHAIN_CONFIG.chainId\<close> parses back to \<open>BSC_CHAIN_ID\<close>.
\<close>

theorem chainId_hex_roundtrip:
  "parseInt16 (''0x'' @ show_hex n) = Some (int n)
   \<and> parseInt16 BSC_CHAIN_CONFIG_chainId = Some BSC_CHAIN_ID"
  using parseInt16_show_hex [of n] parseInt16_show_hex [of 56]
  by (simp add: BSC_CHAIN_CONFIG_chainId_def BSC_CHAIN_ID_def)

end
