(* ===== verification/WalletRace.thy ===== *)
theory WalletRace
  imports Wallet
begin

text \<open>
  The wallet widget with its requests in flight. \<open>connectWallet\<close>
  (\<open>web3/hooks/useWallet.ts\<close>, the same code as in \<open>web3/WalletContext.tsx\<close>)
  is an async callback. Its first \<open>setState\<close> runs on the click
  (\<open>connect_begin\<close>). The rest runs when the provider's requests settle
  (\<open>connect_settle\<close>), on the state of that moment, since every update has the
  form \<open>setState(prev => ...)\<close>. Between the two, other events reach the same
  state. The clicks are guarded by what \<open>components/WalletConnect\<close> renders:
  Connect only on an enabled Connect button, and Disconnect only next to an
  address. Provider events are inputs. A listener removed by the selector's
  unmount is an event that is not fed, so statements over all event sequences
  cover it.
\<close>

section \<open>connectWallet in two halves\<close>

definition connect_begin :: "bool \<Rightarrow> wallet_state \<Rightarrow> wallet_state" where
  "connect_begin has_eth st =
     (if \<not> has_eth then st\<lparr>error := Some metamask_missing\<rparr> else st\<lparr>isConnecting := True, error := None\<rparr>)"

definition connect_settle :: "connect_answers \<Rightarrow> wallet_state \<Rightarrow> wallet_state" where
  "connect_settle ans prev =
     (let fail = (\<lambda>e. prev\<lparr>error := Some e, isConnecting := False\<rparr>)
      in (case ans_accounts ans of
            Inl e \<Rightarrow> fail e
          | Inr accts \<Rightarrow>
              (case ans_chainId ans of
                 Inl e \<Rightarrow> fail e
               | Inr cid \<Rightarrow>
                   let ok = prev\<lparr>address := first_account accts, accounts := accts,
                                  chainId := Some (parseInt16 cid), isConnecting := False\<rparr>
                   in if parseInt16 cid \<noteq> Some BSC_CHAIN_ID then
                        (case ans_switch ans of
                           None \<Rightarrow> ok
                         | Some e \<Rightarrow>
                             (if err_code e = Some 4902 then
                                (case ans_add ans of None \<Rightarrow> ok | Some e' \<Rightarrow> fail e')
                              else fail e))
                      else ok)))"

section \<open>The widget with pending requests\<close>

record wallet_async =
  wa_app :: wallet_app
  wa_pending :: nat     \<comment> \<open>connect requests not yet settled\<close>

datatype async_event =
    AConnectClick
  | AConnectSettles connect_answers
  | ADisconnectClick
  | ASelectorAdd "wallet_error + string list"
  | ASelectorSwitch string "wallet_error + string list"
  | AProvider provider_event

definition connect_enabled :: "wallet_state \<Rightarrow> bool" where
  "connect_enabled st \<longleftrightarrow> (\<exists>l. wallet_connect_view st = ConnectButton False l)"

fun async_event_step :: "wallet_async \<Rightarrow> async_event \<Rightarrow> wallet_async" where
  "async_event_step w AConnectClick =
     (let a = wa_app w in
      if \<not> connect_enabled (app_ctx a) then w
      else if app_has_eth a then
        w\<lparr>wa_app := a\<lparr>app_ctx := connect_begin True (app_ctx a)\<rparr>, wa_pending := Suc (wa_pending w)\<rparr>
      else w\<lparr>wa_app := a\<lparr>app_ctx := connect_begin False (app_ctx a)\<rparr>\<rparr>)"
| "async_event_step w (AConnectSettles ans) =
     (if wa_pending w = 0 then w
      else w\<lparr>wa_app := (wa_app w)\<lparr>app_ctx := connect_settle ans (app_ctx (wa_app w))\<rparr>,
             wa_pending := wa_pending w - 1\<rparr>)"
| "async_event_step w ADisconnectClick =
     (if wallet_connect_view (app_ctx (wa_app w)) = ShowAccount
      then w\<lparr>wa_app := wallet_event_step (wa_app w) ClickDisconnect\<rparr> else w)"
| "async_event_step w (ASelectorAdd ans) = w\<lparr>wa_app := wallet_event_step (wa_app w) (SelectorAdd ans)\<rparr>"
| "async_event_step w (ASelectorSwitch acc ans) =
     w\<lparr>wa_app := wallet_event_step (wa_app w) (SelectorSwitch acc ans)\<rparr>"
| "async_event_step w (AProvider ev) = w\<lparr>wa_app := wallet_event_step (wa_app w) (Provider ev)\<rparr>"

definition async_step :: "wallet_async \<Rightarrow> async_event \<Rightarrow> wallet_async" where
  "async_step w e = (let w' = async_event_step w e in w'\<lparr>wa_app := rerender (wa_app w')\<rparr>)"

definition async_run :: "wallet_async \<Rightarrow> async_event list \<Rightarrow> wallet_async" where
  "async_run w evs = foldl async_step w evs"

definition async_init :: "bool \<Rightarrow> wallet_async" where
  "async_init has_eth = \<lparr>wa_app = app_init has_eth, wa_pending = 0\<rparr>"

section \<open>The context hook\<close>

text \<open>\<open>useWallet()\<close> of \<open>WalletContext.tsx\<close>: the provider's value, or the error it throws outside one.\<close>

definition useWallet_context :: "'a option \<Rightarrow> string + 'a" where
  "useWallet_context ctx =
     (case ctx of None \<Rightarrow> Inl ''useWallet must be used within a WalletProvider'' | Some c \<Rightarrow> Inr c)"

section \<open>The other copies of the account requests\<close>

text \<open>
  \<open>switchAccount\<close> of \<open>WalletContext.tsx\<close> and \<open>addAccount\<close> of
  \<open>hooks/useWallet.ts\<close>: the same permission request and \<open>eth_accounts\<close> read
  as their counterparts in \<open>Wallet\<close>.
\<close>

definition ctx_switchAccount :: "string \<Rightarrow> wallet_error + string list \<Rightarrow> wallet_state \<Rightarrow> wallet_state" where
  "ctx_switchAccount account ans st =
     (case ans of
        Inl e \<Rightarrow> st\<lparr>error := Some e\<rparr>
      | Inr accts \<Rightarrow> st\<lparr>address := first_account accts, accounts := accts\<rparr>)"

definition hook_addAccount :: "wallet_error + string list \<Rightarrow> wallet_state \<Rightarrow> wallet_state" where
  "hook_addAccount ans st =
     (case ans of
        Inl e \<Rightarrow> st\<lparr>error := Some e\<rparr>
      | Inr accts \<Rightarrow> st\<lparr>address := first_account accts, accounts := accts\<rparr>)"

section \<open>Lemmas\<close>

lemma connectWallet_halves:
  "connectWallet h ans st = (if h then connect_settle ans (connect_begin True st) else connect_begin False st)"
  by (cases st) (simp add: connectWallet_def connect_settle_def connect_begin_def Let_def
      split: sum.split option.split)

text \<open>The copies agree: every account request has one meaning, whichever instance runs it.\<close>

lemma account_request_copies:
  "ctx_switchAccount acc ans st = switchAccount acc ans st \<and> hook_addAccount ans st = addAccount ans st
   \<and> switchAccount acc ans st = addAccount ans st"
  by (simp add: ctx_switchAccount_def switchAccount_def hook_addAccount_def addAccount_def)

lemma addr_ok_connect_begin: "addr_ok st \<Longrightarrow> addr_ok (connect_begin h st)"
  by (simp add: connect_begin_def)

lemma addr_ok_connect_settle: "addr_ok st \<Longrightarrow> addr_ok (connect_settle ans st)"
  by (auto simp: connect_settle_def Let_def addr_ok_first_account split: sum.splits option.splits)

lemma wallet_app_ok_async_step: "wallet_app_ok (wa_app w) \<Longrightarrow> wallet_app_ok (wa_app (async_step w e))"
proof (cases e)
  case AConnectClick
  assume "wallet_app_ok (wa_app w)"
  with AConnectClick show ?thesis
    by (auto simp: async_step_def Let_def wallet_app_ok_def addr_ok_connect_begin
        intro!: wallet_app_ok_rerender [unfolded wallet_app_ok_def])
next
  case (AConnectSettles ans)
  assume "wallet_app_ok (wa_app w)"
  with AConnectSettles show ?thesis
    by (auto simp: async_step_def Let_def wallet_app_ok_def addr_ok_connect_settle
        intro!: wallet_app_ok_rerender [unfolded wallet_app_ok_def])
next
  case ADisconnectClick
  assume ok: "wallet_app_ok (wa_app w)"
  then show ?thesis using ADisconnectClick wallet_app_ok_step [OF ok, of ClickDisconnect] wallet_app_ok_rerender [OF ok]
    by (simp add: async_step_def wallet_step_def)
next
  case (ASelectorAdd ans)
  assume ok: "wallet_app_ok (wa_app w)"
  then show ?thesis using ASelectorAdd wallet_app_ok_step [OF ok, of "SelectorAdd ans"]
    by (simp add: async_step_def wallet_step_def)
next
  case (ASelectorSwitch acc ans)
  assume ok: "wallet_app_ok (wa_app w)"
  then show ?thesis using ASelectorSwitch wallet_app_ok_step [OF ok, of "SelectorSwitch acc ans"]
    by (simp add: async_step_def wallet_step_def)
next
  case (AProvider ev)
  assume ok: "wallet_app_ok (wa_app w)"
  then show ?thesis using AProvider wallet_app_ok_step [OF ok, of "Provider ev"]
    by (simp add: async_step_def wallet_step_def)
qed

lemma rerender_ctx [simp]: "app_ctx (rerender a) = app_ctx a"
  by (simp add: rerender_def)

lemma error_view: "error st = Some e \<Longrightarrow> wallet_connect_view st = ShowError (err_message e)"
  by (simp add: wallet_connect_view_def)

lemma error_kept_async_step:
  assumes "error (app_ctx (wa_app w)) \<noteq> None" "e \<noteq> AProvider ProviderDisconnect"
  shows "error (app_ctx (wa_app (async_step w e))) \<noteq> None"
proof -
  from assms(1) obtain er where er: "error (app_ctx (wa_app w)) = Some er" by blast
  then have "\<not> connect_enabled (app_ctx (wa_app w))" "wallet_connect_view (app_ctx (wa_app w)) \<noteq> ShowAccount"
    by (simp_all add: connect_enabled_def error_view)
  with er assms(2) show ?thesis
  proof (cases e)
    case (AProvider ev)
    with er assms(2) show ?thesis
      by (cases ev) (simp_all add: async_step_def on_accountsChanged_def on_chainChanged_def)
  qed (auto simp: async_step_def Let_def connect_settle_def split: sum.splits option.splits)
qed

lemma async_step_click:
  "connect_enabled (app_ctx (wa_app w)) \<Longrightarrow> app_has_eth (wa_app w) \<Longrightarrow>
   wa_app (async_step w AConnectClick) = rerender ((wa_app w)\<lparr>app_ctx := connect_begin True (app_ctx (wa_app w))\<rparr>)
   \<and> wa_pending (async_step w AConnectClick) = Suc (wa_pending w)"
  by (simp add: async_step_def Let_def)

lemma async_step_settles:
  "0 < wa_pending w \<Longrightarrow>
   wa_app (async_step w (AConnectSettles ans)) = rerender ((wa_app w)\<lparr>app_ctx := connect_settle ans (app_ctx (wa_app w))\<rparr>)
   \<and> wa_pending (async_step w (AConnectSettles ans)) = wa_pending w - 1"
  by (simp add: async_step_def)

lemma async_step_disconnect:
  "wallet_connect_view (app_ctx (wa_app w)) = ShowAccount \<Longrightarrow>
   wa_app (async_step w ADisconnectClick) = wallet_step (wa_app w) ClickDisconnect
   \<and> wa_pending (async_step w ADisconnectClick) = wa_pending w"
  by (simp add: async_step_def wallet_step_def)

lemma async_step_provider:
  "wa_app (async_step w (AProvider ev)) = wallet_step (wa_app w) (Provider ev)
   \<and> wa_pending (async_step w (AProvider ev)) = wa_pending w"
  by (simp add: async_step_def wallet_step_def)

lemma async_run_snoc: "async_run w (evs @ [e]) = async_step (async_run w evs) e"
  by (simp add: async_run_def)

lemma error_kept_async_run:
  "error (app_ctx (wa_app w)) \<noteq> None \<Longrightarrow> AProvider ProviderDisconnect \<notin> set evs \<Longrightarrow>
   error (app_ctx (wa_app (async_run w evs))) \<noteq> None"
proof (induction evs rule: rev_induct)
  case Nil
  then show ?case by (simp add: async_run_def)
next
  case (snoc e evs)
  then have "error (app_ctx (wa_app (async_run w evs))) \<noteq> None" by simp
  moreover from snoc.prems(2) have "e \<noteq> AProvider ProviderDisconnect" by auto
  ultimately have "error (app_ctx (wa_app (async_step (async_run w evs) e))) \<noteq> None"
    by (rule error_kept_async_step)
  then show ?case by (simp add: async_run_snoc)
qed

section \<open>Properties\<close>

text \<open>
  C16. Whatever the order in which clicks, provider events and the settling of
  connect requests arrive, the context's address and the selector's address are
  each unset or the first of their accounts.
\<close>

theorem async_run_address_ok: "wallet_app_ok (wa_app (async_run (async_init h) evs))"
proof (induction evs rule: rev_induct)
  case Nil
  then show ?case by (simp add: async_run_def async_init_def app_init_def wallet_app_ok_def)
next
  case (snoc e evs)
  then show ?case by (simp add: async_run_snoc wallet_app_ok_async_step)
qed

text \<open>
  C18. A Disconnect click does not cancel a pending connect. The user clicks
  Connect, MetaMask reports the account before the request resolves, and the user
  clicks Disconnect. When the request then resolves, the wallet is connected again.
  The selector's unmount has removed the context's listeners, so the reconnected
  wallet no longer hears provider events.
\<close>

theorem disconnect_during_connect_reconnects:
  assumes "a \<noteq> []" "b \<noteq> []" "ans_accounts ans = Inr (b # bs)" "ans_chainId ans = Inr cid"
    "parseInt16 cid = Some BSC_CHAIN_ID"
  shows "let r = wa_app (async_run (async_init True)
                   [AConnectClick, AProvider (AccountsChanged (a # as)), ADisconnectClick, AConnectSettles ans])
         in address (app_ctx r) = Some b \<and> wallet_connect_view (app_ctx r) = ShowAccount
            \<and> \<not> app_ctx_listening r"
proof -
  define w0 where "w0 = async_init True"
  define w1 where "w1 = async_step w0 AConnectClick"
  define w2 where "w2 = async_step w1 (AProvider (AccountsChanged (a # as)))"
  define w3 where "w3 = async_step w2 ADisconnectClick"
  have run: "async_run (async_init True)
      [AConnectClick, AProvider (AccountsChanged (a # as)), ADisconnectClick, AConnectSettles ans]
      = async_step w3 (AConnectSettles ans)"
    by (simp only: async_run_def foldl_Cons foldl_Nil w0_def w1_def w2_def w3_def)
  have "connect_enabled (app_ctx (wa_app w0))" "app_has_eth (wa_app w0)"
    by (simp_all add: w0_def async_init_def app_init_def connect_enabled_def wallet_connect_view_def
        initialState_def)
  from async_step_click [OF this] have w1:
    "wa_app w1 = (app_init True)\<lparr>app_ctx := initialState\<lparr>isConnecting := True\<rparr>\<rparr>" "wa_pending w1 = 1"
    by (simp_all add: w1_def w0_def async_init_def app_init_def connect_begin_def rerender_def
        wallet_connect_view_def initialState_def)
  from async_step_provider [of w1] w1 assms(1) have w2:
    "app_ctx (wa_app w2) = initialState\<lparr>isConnecting := True, address := Some a, accounts := a # as\<rparr>"
    "app_sel (wa_app w2) = Some initialState" "wa_pending w2 = 1"
    by (simp_all add: w2_def wallet_step_def app_init_def rerender_def on_accountsChanged_def
        first_account_or_null_def wallet_connect_view_def initialState_def)
  have "wallet_connect_view (app_ctx (wa_app w2)) = ShowAccount"
    using w2(1) assms(1) by (simp add: wallet_connect_view_def initialState_def)
  from async_step_disconnect [OF this] w2 have w3:
    "app_ctx (wa_app w3) = initialState" "\<not> app_ctx_listening (wa_app w3)" "wa_pending w3 = 1"
    by (simp_all add: w3_def wallet_step_def rerender_def disconnectWallet_def wallet_connect_view_def
        initialState_def)
  have settle: "connect_settle ans initialState
      = initialState\<lparr>address := Some b, accounts := b # bs, chainId := Some (Some BSC_CHAIN_ID)\<rparr>"
    using assms(3-5) by (simp add: connect_settle_def first_account_def initialState_def)
  have view: "wallet_connect_view (connect_settle ans initialState) = ShowAccount"
    using assms(2) unfolding settle by (simp add: wallet_connect_view_def initialState_def)
  from async_step_settles [of w3 ans] w3 have
    "wa_app (async_step w3 (AConnectSettles ans)) = rerender ((wa_app w3)\<lparr>app_ctx := connect_settle ans initialState\<rparr>)"
    by simp
  with run w3 settle view show ?thesis by (simp add: rerender_def Let_def)
qed

theorem disconnect_during_connect_reconnects_witness:
  "let r = wa_app (async_run (async_init True)
         [AConnectClick, AProvider (AccountsChanged [''0xA1'']), ADisconnectClick,
          AConnectSettles \<lparr>ans_accounts = Inr [''0xA1''], ans_chainId = Inr ''0x38'', ans_switch = None,
                           ans_add = None\<rparr>])
   in address (app_ctx r) = Some ''0xA1'' \<and> wallet_connect_view (app_ctx r) = ShowAccount
      \<and> \<not> app_ctx_listening r"
proof -
  have p: "parseInt16 ''0x38'' = Some BSC_CHAIN_ID"
    by (simp add: parseInt16_def js_space_def hex_val_def digits_value_def BSC_CHAIN_ID_def)
  show ?thesis
    by (rule disconnect_during_connect_reconnects [of "''0xA1''" "''0xA1''" _ "[]" "''0x38''" "[]", OF _ _ _ _ p])
      simp_all
qed

text \<open>
  C19. Once the context holds an error, the widget shows only the error message,
  with neither a Connect nor a Disconnect button, after any sequence of events
  without a provider \<open>disconnect\<close>. A rejected connection request thus locks the
  widget until MetaMask disconnects or the page reloads.
\<close>

theorem error_locks_widget:
  "error (app_ctx (wa_app w)) \<noteq> None \<Longrightarrow> AProvider ProviderDisconnect \<notin> set evs \<Longrightarrow>
   \<exists>m. wallet_connect_view (app_ctx (wa_app (async_run w evs))) = ShowError m"
  using error_kept_async_run [of w evs] by (auto simp: error_view)

theorem error_locks_widget_witness:
  "\<exists>m. wallet_connect_view (app_ctx (wa_app (async_run
     (async_run (async_init True)
        [AConnectClick, AConnectSettles \<lparr>ans_accounts = Inl \<lparr>err_code = Some 4001, err_message = ''User rejected''\<rparr>,
                                         ans_chainId = Inr ''0x38'', ans_switch = None, ans_add = None\<rparr>])
     [AConnectClick, AProvider (AccountsChanged [''0xA1''])]))) = ShowError m"
proof -
  let ?w = "async_run (async_init True)
        [AConnectClick, AConnectSettles \<lparr>ans_accounts = Inl \<lparr>err_code = Some 4001, err_message = ''User rejected''\<rparr>,
                                         ans_chainId = Inr ''0x38'', ans_switch = None, ans_add = None\<rparr>]"
  have "error (app_ctx (wa_app ?w)) \<noteq> None"
    by (simp add: async_run_def async_step_def async_init_def app_init_def connect_enabled_def
        wallet_connect_view_def initialState_def connect_begin_def connect_settle_def rerender_def)
  moreover have "AProvider ProviderDisconnect \<notin> set [AConnectClick, AProvider (AccountsChanged [''0xA1''])]"
    by simp
  ultimately show ?thesis by (rule error_locks_widget)
qed

end
