(* ===== verification/Tokenomics.thy ===== *)
theory Tokenomics
  imports Prelude
begin

text \<open>
  The tokenomics page (\<open>src/src/pages/Tokenomics\<close>): the \<open>Tokenomics\<close>
  record of seventeen display strings (\<open>types.ts\<close>), the editing form
  (\<open>TokenomicsForm.tsx\<close>: its state, \<open>handleChange\<close>, \<open>handleSubmit\<close> and
  the list of its inputs) and the live display (\<open>TokenomicsDisplay.tsx\<close>: the
  \<open>onValue\<close> listener and the sections it renders). \<open>tokenomics_sys\<close> puts
  the stored node, the form and the display together, and \<open>tokenomics_step\<close>
  runs the page's events. The lemmas show that the form's inputs cover every field
  once, that a change writes exactly one field, that the display follows the store,
  and that saving the form writes all seventeen fields, the ones never edited as
  empty strings.
\<close>

section \<open>Data\<close>

record tokenomics =
  totalSupply :: string
  circulatingSupply :: string
  burned :: string
  marketCap :: string
  fullyDilutedMarketCap :: string
  holders :: string
  transferTax :: string
  liquidityTax :: string
  marketingTax :: string
  devTax :: string
  liquidityPair :: string
  liquidityLocked :: string
  contractAddress :: string
  launchDate :: string
  initialPrice :: string
  allTimeHigh :: string
  allTimeLow :: string

text \<open>The keys of the record, the values an input's \<open>name\<close> attribute takes.\<close>

datatype tokenomics_key =
    K_totalSupply | K_circulatingSupply | K_burned | K_marketCap | K_fullyDilutedMarketCap
  | K_holders | K_transferTax | K_liquidityTax | K_marketingTax | K_devTax
  | K_liquidityPair | K_liquidityLocked | K_contractAddress | K_launchDate
  | K_initialPrice | K_allTimeHigh | K_allTimeLow

fun tokenomics_get :: "tokenomics_key \<Rightarrow> tokenomics \<Rightarrow> string" where
  "tokenomics_get K_totalSupply t = totalSupply t"
| "tokenomics_get K_circulatingSupply t = circulatingSupply t"
| "tokenomics_get K_burned t = burned t"
| "tokenomics_get K_marketCap t = marketCap t"
| "tokenomics_get K_fullyDilutedMarketCap t = fullyDilutedMarketCap t"
| "tokenomics_get K_holders t = holders t"
| "tokenomics_get K_transferTax t = transferTax t"
| "tokenomics_get K_liquidityTax t = liquidityTax t"
| "tokenomics_get K_marketingTax t = marketingTax t"
| "tokenomics_get K_devTax t = devTax t"
| "tokenomics_get K_liquidityPair t = liquidityPair t"
| "tokenomics_get K_liquidityLocked t = liquidityLocked t"
| "tokenomics_get K_contractAddress t = contractAddress t"
| "tokenomics_get K_launchDate t = launchDate t"
| "tokenomics_get K_initialPrice t = initialPrice t"
| "tokenomics_get K_allTimeHigh t = allTimeHigh t"
| "tokenomics_get K_allTimeLow t = allTimeLow t"

text \<open>\<open>{...prev, [name]: value}\<close>: the computed-key update of \<open>handleChange\<close>.\<close>

fun tokenomics_set :: "tokenomics_key \<Rightarrow> string \<Rightarrow> tokenomics \<Rightarrow> tokenomics" where
  "tokenomics_set K_totalSupply v t = t\<lparr>totalSupply := v\<rparr>"
| "tokenomics_set K_circulatingSupply v t = t\<lparr>circulatingSupply := v\<rparr>"
| "tokenomics_set K_burned v t = t\<lparr>burned := v\<rparr>"
| "tokenomics_set K_marketCap v t = t\<lparr>marketCap := v\<rparr>"
| "tokenomics_set K_fullyDilutedMarketCap v t = t\<lparr>fullyDilutedMarketCap := v\<rparr>"
| "tokenomics_set K_holders v t = t\<lparr>holders := v\<rparr>"
| "tokenomics_set K_transferTax v t = t\<lparr>transferTax := v\<rparr>"
| "tokenomics_set K_liquidityTax v t = t\<lparr>liquidityTax := v\<rparr>"
| "tokenomics_set K_marketingTax v t = t\<lparr>marketingTax := v\<rparr>"
| "tokenomics_set K_devTax v t = t\<lparr>devTax := v\<rparr>"
| "tokenomics_set K_liquidityPair v t = t\<lparr>liquidityPair := v\<rparr>"
| "tokenomics_set K_liquidityLocked v t = t\<lparr>liquidityLocked := v\<rparr>"
| "tokenomics_set K_contractAddress v t = t\<lparr>contractAddress := v\<rparr>"
| "tokenomics_set K_launchDate v t = t\<lparr>launchDate := v\<rparr>"
| "tokenomics_set K_initialPrice v t = t\<lparr>initialPrice := v\<rparr>"
| "tokenomics_set K_allTimeHigh v t = t\<lparr>allTimeHigh := v\<rparr>"
| "tokenomics_set K_allTimeLow v t = t\<lparr>allTimeLow := v\<rparr>"

section \<open>The form\<close>

text \<open>The form's initial state: every field the empty string.\<close>

definition tokenomics_form_init :: tokenomics where
  "tokenomics_form_init =
     \<lparr>totalSupply = '''', circulatingSupply = '''', burned = '''', marketCap = '''',
      fullyDilutedMarketCap = '''', holders = '''', transferTax = '''', liquidityTax = '''',
      marketingTax = '''', devTax = '''', liquidityPair = '''', liquidityLocked = '''',
      contractAddress = '''', launchDate = '''', initialPrice = '''', allTimeHigh = '''',
      allTimeLow = ''''\<rparr>"

text \<open>
  The form's text inputs in the order the markup lists them: label, \<open>name\<close>
  and placeholder.
\<close>

definition tokenomics_supply_inputs :: "(string \<times> tokenomics_key \<times> string) list" where
  "tokenomics_supply_inputs =
     [(''Total Supply'', K_totalSupply, ''e.g. 1,000,000,000''),
      (''Circulating Supply'', K_circulatingSupply, ''e.g. 750,000,000''),
      (''Burned Tokens'', K_burned, ''e.g. 250,000,000''),
      (''Number of Holders'', K_holders, ''e.g. 10,000'')]"

definition tokenomics_market_inputs :: "(string \<times> tokenomics_key \<times> string) list" where
  "tokenomics_market_inputs =
     [(''Market Cap'', K_marketCap, ''e.g. $1,000,000''),
      (''Fully Diluted Market Cap'', K_fullyDilutedMarketCap, ''e.g. $1,500,000'')]"

definition tokenomics_tax_inputs :: "(string \<times> tokenomics_key \<times> string) list" where
  "tokenomics_tax_inputs =
     [(''Transfer Tax (%)'', K_transferTax, ''e.g. 2''),
      (''Liquidity Tax (%)'', K_liquidityTax, ''e.g. 2''),
      (''Marketing Tax (%)'', K_marketingTax, ''e.g. 1''),
      (''Development Tax (%)'', K_devTax, ''e.g. 1'')]"

definition tokenomics_liquidity_inputs :: "(string \<times> tokenomics_key \<times> string) list" where
  "tokenomics_liquidity_inputs =
     [(''Liquidity Pair'', K_liquidityPair, ''e.g. XLC/WBNB''),
      (''Liquidity Locked Until'', K_liquidityLocked, ''e.g. 2025-12-31''),
      (''Contract Address'', K_contractAddress, ''e.g. 0x...'')]"

definition tokenomics_price_inputs :: "(string \<times> tokenomics_key \<times> string) list" where
  "tokenomics_price_inputs =
     [(''Initial Price'', K_initialPrice, ''e.g. $0.001''),
      (''Launch Date'', K_launchDate, ''e.g. 2023-01-01''),
      (''All Time High'', K_allTimeHigh, ''e.g. $0.01''),
      (''All Time Low'', K_allTimeLow, ''e.g. $0.0001'')]"

text \<open>The form's grid, section by section, and its submit button's label.\<close>

definition tokenomics_form_inputs :: "(string \<times> tokenomics_key \<times> string) list" where
  "tokenomics_form_inputs =
     tokenomics_supply_inputs @ tokenomics_market_inputs @ tokenomics_tax_inputs
     @ tokenomics_liquidity_inputs @ tokenomics_price_inputs"

definition tokenomics_submit_label :: string where
  "tokenomics_submit_label = ''Save Changes''"

definition tokenomics_handleChange :: "tokenomics_key \<Rightarrow> string \<Rightarrow> tokenomics \<Rightarrow> tokenomics" where
  "tokenomics_handleChange name v prev = tokenomics_set name v prev"


text \<open>
  \<open>handleSubmit\<close>: \<open>set(ref(db, 'tokenomics'), tokenomics)\<close> replaces the
  stored node by the whole form state. The write's outcome comes from the database
  (\<open>write_ok\<close>); the result is the stored node and the toast shown.
\<close>

definition tokenomics_handleSubmit ::
  "bool \<Rightarrow> tokenomics \<Rightarrow> tokenomics option \<Rightarrow> tokenomics option \<times> string" where
  "tokenomics_handleSubmit write_ok form stored =
     (if write_ok then (Some form, ''Tokenomics updated successfully'')
      else (stored, ''Failed to update tokenomics''))"

section \<open>The display\<close>

text \<open>
  The \<open>onValue\<close> callback: a snapshot that exists replaces the displayed value;
  a snapshot of a removed node leaves the old value on screen.
\<close>

definition display_on_value :: "tokenomics option \<Rightarrow> tokenomics option \<Rightarrow> tokenomics option" where
  "display_on_value snap shown = (case snap of Some t \<Rightarrow> Some t | None \<Rightarrow> shown)"

record tokenomics_sections =
  tv_stats :: "(string \<times> string) list"
  tv_market :: "(string \<times> string) list"
  tv_taxes :: "(string \<times> string) list"
  tv_price :: "(string \<times> string) list"
  tv_additional :: "(string \<times> string) list"

datatype tokenomics_display = NoTokenomicsData | CurrentTokenomics tokenomics_sections

text \<open>
  What \<open>TokenomicsDisplay\<close> renders: the placeholder text while nothing has been
  received, otherwise its five sections as (label, text) pairs. Tax values are
  printed with a \<open>%\<close> appended.
\<close>

definition tokenomics_display_view :: "tokenomics option \<Rightarrow> tokenomics_display" where
  "tokenomics_display_view shown =
     (case shown of
        None \<Rightarrow> NoTokenomicsData
      | Some t \<Rightarrow> CurrentTokenomics
          \<lparr>tv_stats = [(''Total Supply'', totalSupply t), (''Circulating Supply'', circulatingSupply t),
                      (''Burned'', burned t), (''Holders'', holders t)],
           tv_market = [(''Market Cap'', marketCap t),
                        (''Fully Diluted Market Cap'', fullyDilutedMarketCap t)],
           tv_taxes = [(''Transfer Tax'', transferTax t @ ''%''), (''Liquidity Tax'', liquidityTax t @ ''%''),
                       (''Marketing Tax'', marketingTax t @ ''%''), (''Development Tax'', devTax t @ ''%'')],
           tv_price = [(''Initial Price'', initialPrice t), (''All Time High'', allTimeHigh t),
                       (''All Time Low'', allTimeLow t)],
           tv_additional = [(''Contract Address'', contractAddress t), (''Launch Date'', launchDate t),
                            (''Liquidity Locked Until'', liquidityLocked t)]\<rparr>)"

section \<open>The page\<close>

text \<open>
  The page mounts the form and the display side by side
  (\<open>pages/Tokenomics/index.tsx\<close>). The system state is the stored node, the
  form's state, the display's state and the last toast. Other writers of the node
  (another administrator's form) are the remote events.
\<close>

record tokenomics_sys =
  ts_db :: "tokenomics option"
  ts_form :: tokenomics
  ts_display :: "tokenomics option"
  ts_toast :: "string option"

datatype tokenomics_event =
    TkChange tokenomics_key string
  | TkSubmit bool
  | TkRemoteSet tokenomics
  | TkRemoteRemove

text \<open>Mounting: the form starts empty; \<open>onValue\<close> fires once with the current node.\<close>

definition tokenomics_mount :: "tokenomics option \<Rightarrow> tokenomics_sys" where
  "tokenomics_mount stored =
     \<lparr>ts_db = stored, ts_form = tokenomics_form_init,
      ts_display = display_on_value stored None, ts_toast = None\<rparr>"

fun tokenomics_step :: "tokenomics_sys \<Rightarrow> tokenomics_event \<Rightarrow> tokenomics_sys" where
  "tokenomics_step s (TkChange k v) = s\<lparr>ts_form := tokenomics_handleChange k v (ts_form s)\<rparr>"
| "tokenomics_step s (TkSubmit ok) =
     (let (stored, msg) = tokenomics_handleSubmit ok (ts_form s) (ts_db s)
      in s\<lparr>ts_db := stored, ts_toast := Some msg,
           ts_display := (if ok then display_on_value stored (ts_display s) else ts_display s)\<rparr>)"
| "tokenomics_step s (TkRemoteSet t) =
     s\<lparr>ts_db := Some t, ts_display := display_on_value (Some t) (ts_display s)\<rparr>"
| "tokenomics_step s TkRemoteRemove =
     s\<lparr>ts_db := None, ts_display := display_on_value None (ts_display s)\<rparr>"

definition tokenomics_run :: "tokenomics_sys \<Rightarrow> tokenomics_event list \<Rightarrow> tokenomics_sys" where
  "tokenomics_run s evs = foldl tokenomics_step s evs"

section \<open>Lemmas\<close>

lemma tokenomics_get_set [simp]:
  "tokenomics_get k (tokenomics_set k' v t) = (if k = k' then v else tokenomics_get k t)"
  by (cases k; cases k'; simp)

lemma tokenomics_eqI:
  assumes "\<And>k. tokenomics_get k t = tokenomics_get k t'"
  shows "t = t'"
proof -
  have "\<forall>k. tokenomics_get k t = tokenomics_get k t'" using assms by blast
  then show ?thesis
    by (cases t, cases t') (auto dest: spec [of _ K_totalSupply] spec [of _ K_circulatingSupply]
        spec [of _ K_burned] spec [of _ K_marketCap] spec [of _ K_fullyDilutedMarketCap]
        spec [of _ K_holders] spec [of _ K_transferTax] spec [of _ K_liquidityTax]
        spec [of _ K_marketingTax] spec [of _ K_devTax] spec [of _ K_liquidityPair]
        spec [of _ K_liquidityLocked] spec [of _ K_contractAddress] spec [of _ K_launchDate]
        spec [of _ K_initialPrice] spec [of _ K_allTimeHigh] spec [of _ K_allTimeLow])
qed

lemma tokenomics_get_init [simp]: "tokenomics_get k tokenomics_form_init = ''''"
  by (cases k) (simp_all add: tokenomics_form_init_def)

lemmas tokenomics_inputs_defs = tokenomics_supply_inputs_def tokenomics_market_inputs_def
  tokenomics_tax_inputs_def tokenomics_liquidity_inputs_def tokenomics_price_inputs_def

lemma tokenomics_form_inputs_keys:
  "distinct (map (fst \<circ> snd) tokenomics_form_inputs) \<and> set (map (fst \<circ> snd) tokenomics_form_inputs) = UNIV"
proof -
  have "k \<in> set (map (fst \<circ> snd) tokenomics_form_inputs)" for k
    by (cases k) (simp_all add: tokenomics_form_inputs_def tokenomics_inputs_defs)
  then show ?thesis by (auto simp: tokenomics_form_inputs_def tokenomics_inputs_defs)
qed

lemma foldl_tokenomics_set_get:
  "tokenomics_get k (foldl (\<lambda>t (k, v). tokenomics_set k v t) t cs)
   = (case map_of (rev cs) k of Some v \<Rightarrow> v | None \<Rightarrow> tokenomics_get k t)"
  by (induction cs arbitrary: t) (auto split: option.splits)

lemma tokenomics_run_append:
  "tokenomics_run s (xs @ ys) = tokenomics_run (tokenomics_run s xs) ys"
  by (simp add: tokenomics_run_def)

lemma tokenomics_run_changes:
  "tokenomics_run s (map (\<lambda>(k, v). TkChange k v) cs)
   = s\<lparr>ts_form := foldl (\<lambda>t (k, v). tokenomics_set k v t) (ts_form s) cs\<rparr>"
  by (induction cs arbitrary: s) (auto simp: tokenomics_run_def tokenomics_handleChange_def)

text \<open>The display shows the stored node whenever there is one.\<close>

definition tokenomics_inv :: "tokenomics_sys \<Rightarrow> bool" where
  "tokenomics_inv s \<longleftrightarrow> ts_db s = None \<or> ts_display s = ts_db s"

lemma tokenomics_inv_mount: "tokenomics_inv (tokenomics_mount stored)"
  by (cases stored) (simp_all add: tokenomics_inv_def tokenomics_mount_def display_on_value_def)

lemma tokenomics_inv_step: "tokenomics_inv s \<Longrightarrow> tokenomics_inv (tokenomics_step s e)"
  by (cases e) (auto simp: tokenomics_inv_def tokenomics_handleSubmit_def display_on_value_def)

lemma tokenomics_inv_run: "tokenomics_inv s \<Longrightarrow> tokenomics_inv (tokenomics_run s evs)"
  unfolding tokenomics_run_def
  by (induction evs arbitrary: s) (simp_all add: tokenomics_inv_step)

lemma tokenomics_submit_ok:
  "ts_db (tokenomics_step s (TkSubmit True)) = Some (ts_form s)
   \<and> ts_display (tokenomics_step s (TkSubmit True)) = Some (ts_form s)
   \<and> ts_toast (tokenomics_step s (TkSubmit True)) = Some ''Tokenomics updated successfully''"
  by (simp add: tokenomics_handleSubmit_def display_on_value_def)

lemma tokenomics_submit_failed:
  "tokenomics_step s (TkSubmit False) = s\<lparr>ts_toast := Some ''Failed to update tokenomics''\<rparr>"
  by (simp add: tokenomics_handleSubmit_def)

text \<open>
  C20. Saving the tokenomics form after editing some fields stores, and displays,
  the empty string in every field that was not edited, whatever the node held
  before: the form never loads the stored values, and \<open>handleSubmit\<close> writes
  the whole record.
\<close>

theorem tokenomics_save_blanks_unedited:
  assumes "k \<notin> fst ` set cs"
  shows "\<exists>t. ts_db (tokenomics_run (tokenomics_mount stored)
                 (map (\<lambda>(k, v). TkChange k v) cs @ [TkSubmit True])) = Some t
           \<and> ts_display (tokenomics_run (tokenomics_mount stored)
                 (map (\<lambda>(k, v). TkChange k v) cs @ [TkSubmit True])) = Some t
           \<and> tokenomics_get k t = ''''"
proof -
  let ?s = "tokenomics_run (tokenomics_mount stored) (map (\<lambda>(k, v). TkChange k v) cs)"
  have run: "tokenomics_run (tokenomics_mount stored) (map (\<lambda>(k, v). TkChange k v) cs @ [TkSubmit True])
             = tokenomics_step ?s (TkSubmit True)"
    by (simp add: tokenomics_run_def)
  have form: "ts_form ?s = foldl (\<lambda>t (k, v). tokenomics_set k v t) tokenomics_form_init cs"
    by (simp add: tokenomics_run_changes tokenomics_mount_def)
  have "map_of (rev cs) k = None" using assms by (simp add: map_of_eq_None_iff)
  then have "tokenomics_get k (ts_form ?s) = ''''"
    by (simp only: form foldl_tokenomics_set_get) simp
  then show ?thesis
    using tokenomics_submit_ok [of ?s] by (simp only: run) blast
qed

theorem tokenomics_save_blanks_unedited_witness:
  "\<exists>t. ts_db (tokenomics_run (tokenomics_mount (Some (tokenomics_set K_burned ''250,000,000'' tokenomics_form_init)))
            [TkChange K_transferTax ''5'', TkSubmit True]) = Some t
      \<and> ts_display (tokenomics_run (tokenomics_mount (Some (tokenomics_set K_burned ''250,000,000'' tokenomics_form_init)))
            [TkChange K_transferTax ''5'', TkSubmit True]) = Some t
      \<and> tokenomics_get K_burned t = ''''"
  using tokenomics_save_blanks_unedited [of K_burned "[(K_transferTax, ''5'')]"
      "Some (tokenomics_set K_burned ''250,000,000'' tokenomics_form_init)"]
  by simp

end
