(* ===== verification/Collections.thy ===== *)
theory Collections
  imports Prelude
begin

text \<open>
  The list-and-form pattern that \<open>OffersManagement.tsx\<close> and
  \<open>StakingDashboard.tsx\<close> (\<open>src/src/pages/Distribution/components\<close>) share,
  stated once over the type \<open>'v\<close> of the stored records and the type \<open>'f\<close> of
  the form's state. A collection of the database is a dictionary under push keys.
  The page lists it through an \<open>onValue\<close> listener, opens a form to create or to
  edit an entry, and deletes entries. \<open>handleSave\<close> pushes a new entry under a
  fresh key, or \<open>update\<close>s the selected entry. The records are written whole, so
  the update replaces the entry; on a key that no longer exists it creates the
  entry. The outcome of each write is a parameter. The lemmas give the effect of
  each operation on the map the collection denotes, and the invariant that the
  listed entries are the stored ones.
\<close>

section \<open>State and operations\<close>

record ('v, 'f) collection_page =
  cp_items :: "'v js_object"
  cp_form :: "'f option"
  cp_selected :: "(string \<times> 'v) option"

definition collection_page_init :: "('v, 'f) collection_page" where
  "collection_page_init = \<lparr>cp_items = [], cp_form = None, cp_selected = None\<rparr>"

text \<open>The \<open>onValue\<close> callback: an existing snapshot's value, or \<open>{}\<close>.\<close>

definition coll_on_value :: "'v js_object \<Rightarrow> ('v, 'f) collection_page \<Rightarrow> ('v, 'f) collection_page" where
  "coll_on_value snap p = p\<lparr>cp_items := snap\<rparr>"

text \<open>The create button: \<open>setIsEditing(true)\<close>, which mounts an empty form.\<close>

definition coll_open_new :: "('v option \<Rightarrow> 'f) \<Rightarrow> ('v, 'f) collection_page \<Rightarrow> ('v, 'f) collection_page" where
  "coll_open_new init p = p\<lparr>cp_form := Some (init None)\<rparr>"

text \<open>An entry's edit button: \<open>setSelected({id, v})\<close> and \<open>setIsEditing(true)\<close>.\<close>

definition coll_open_edit ::
  "('v option \<Rightarrow> 'f) \<Rightarrow> string \<Rightarrow> 'v \<Rightarrow> ('v, 'f) collection_page \<Rightarrow> ('v, 'f) collection_page" where
  "coll_open_edit init k v p = p\<lparr>cp_selected := Some (k, v), cp_form := Some (init (Some v))\<rparr>"

definition coll_cancel :: "('v, 'f) collection_page \<Rightarrow> ('v, 'f) collection_page" where
  "coll_cancel p = p\<lparr>cp_form := None, cp_selected := None\<rparr>"

datatype save_outcome = Created | Updated | SaveFailed

text \<open>
  \<open>handleSave(data)\<close>: \<open>update\<close> of the selected entry, or \<open>push\<close> under the
  key the database generates (\<open>key\<close>); on success the form closes and the
  selection is cleared, on failure both stay.
\<close>

definition coll_save ::
  "string \<Rightarrow> bool \<Rightarrow> 'v \<Rightarrow> 'v js_object \<times> ('v, 'f) collection_page
   \<Rightarrow> ('v js_object \<times> ('v, 'f) collection_page) \<times> save_outcome" where
  "coll_save key ok v st =
     (let (db, p) = st in
      if \<not> ok then ((db, p), SaveFailed)
      else (case cp_selected p of
              Some (k, _) \<Rightarrow> ((AList.update k v db, p\<lparr>cp_form := None, cp_selected := None\<rparr>), Updated)
            | None \<Rightarrow> ((db @ [(key, v)], p\<lparr>cp_form := None, cp_selected := None\<rparr>), Created)))"

text \<open>\<open>handleDelete(id)\<close>: \<open>remove\<close> of the entry; \<open>True\<close> when the write succeeded.\<close>

definition coll_delete :: "bool \<Rightarrow> string \<Rightarrow> 'v js_object \<Rightarrow> 'v js_object \<times> bool" where
  "coll_delete ok k db = (if ok then (AList.delete k db, True) else (db, False))"

section \<open>The page as a step function\<close>

text \<open>
  The events of a collection page. \<open>'i\<close> is the type of the form's input
  events. \<open>Submit key ok\<close> carries the key \<open>push\<close> would generate and the
  write's outcome; \<open>Remote db\<close> is a write by another client, which the listener
  delivers.
\<close>

datatype ('v, 'i) coll_event =
    OpenNew
  | OpenEdit string
  | Cancel
  | FormInput 'i
  | Submit string bool
  | Delete string bool
  | Remote "'v js_object"

datatype coll_toast = SaveToast save_outcome | DeleteToast bool

record ('v, 'f) coll_sys =
  cs_db :: "'v js_object"
  cs_page :: "('v, 'f) collection_page"
  cs_toast :: "coll_toast option"

text \<open>
  One event, for a form given by its initial state \<open>init\<close>, its input handler
  \<open>input\<close>, the browser's validation \<open>valid\<close> and the record \<open>val\<close> its
  \<open>handleSubmit\<close> passes to \<open>onSave\<close>. The list's buttons exist only while no
  form is shown, and the form's only while it is; a push key is fresh. After each
  write the listener delivers the new collection.
\<close>

fun coll_step ::
  "('v option \<Rightarrow> 'f) \<Rightarrow> ('i \<Rightarrow> 'f \<Rightarrow> 'f) \<Rightarrow> ('f \<Rightarrow> bool) \<Rightarrow> ('f \<Rightarrow> 'v)
   \<Rightarrow> ('v, 'f) coll_sys \<Rightarrow> ('v, 'i) coll_event \<Rightarrow> ('v, 'f) coll_sys" where
  "coll_step init input valid val s OpenNew =
     (if cp_form (cs_page s) = None then s\<lparr>cs_page := coll_open_new init (cs_page s)\<rparr> else s)"
| "coll_step init input valid val s (OpenEdit k) =
     (case (cp_form (cs_page s), map_of (cp_items (cs_page s)) k) of
        (None, Some v) \<Rightarrow> s\<lparr>cs_page := coll_open_edit init k v (cs_page s)\<rparr>
      | _ \<Rightarrow> s)"
| "coll_step init input valid val s Cancel =
     (if cp_form (cs_page s) \<noteq> None then s\<lparr>cs_page := coll_cancel (cs_page s)\<rparr> else s)"
| "coll_step init input valid val s (FormInput i) =
     (case cp_form (cs_page s) of
        Some f \<Rightarrow> s\<lparr>cs_page := (cs_page s)\<lparr>cp_form := Some (input i f)\<rparr>\<rparr>
      | None \<Rightarrow> s)"
| "coll_step init input valid val s (Submit key ok) =
     (case cp_form (cs_page s) of
        Some f \<Rightarrow>
          (if valid f \<and> key \<notin> fst ` set (cs_db s) then
             (let ((db', p'), r) = coll_save key ok (val f) (cs_db s, cs_page s)
              in s\<lparr>cs_db := db', cs_page := coll_on_value db' p', cs_toast := Some (SaveToast r)\<rparr>)
           else s)
      | None \<Rightarrow> s)"
| "coll_step init input valid val s (Delete k ok) =
     (if cp_form (cs_page s) = None \<and> k \<in> fst ` set (cp_items (cs_page s)) then
        (let (db', r) = coll_delete ok k (cs_db s)
         in s\<lparr>cs_db := db', cs_page := coll_on_value db' (cs_page s), cs_toast := Some (DeleteToast r)\<rparr>)
      else s)"
| "coll_step init input valid val s (Remote db') =
     s\<lparr>cs_db := db', cs_page := coll_on_value db' (cs_page s)\<rparr>"

definition coll_mount :: "'v js_object \<Rightarrow> ('v, 'f) coll_sys" where
  "coll_mount db = \<lparr>cs_db = db, cs_page = coll_on_value db collection_page_init, cs_toast = None\<rparr>"

definition coll_run ::
  "('v option \<Rightarrow> 'f) \<Rightarrow> ('i \<Rightarrow> 'f \<Rightarrow> 'f) \<Rightarrow> ('f \<Rightarrow> bool) \<Rightarrow> ('f \<Rightarrow> 'v)
   \<Rightarrow> ('v, 'f) coll_sys \<Rightarrow> ('v, 'i) coll_event list \<Rightarrow> ('v, 'f) coll_sys" where
  "coll_run init input valid val s evs = foldl (coll_step init input valid val) s evs"

text \<open>The listed entries are the stored ones, a dictionary with distinct keys.\<close>

definition coll_inv :: "('v, 'f) coll_sys \<Rightarrow> bool" where
  "coll_inv s \<longleftrightarrow> obj_wf (cs_db s) \<and> cp_items (cs_page s) = cs_db s"

text \<open>Remote writers also write dictionaries.\<close>

fun coll_event_ok :: "('v, 'i) coll_event \<Rightarrow> bool" where
  "coll_event_ok (Remote db') = obj_wf db'"
| "coll_event_ok _ = True"

section \<open>Lemmas\<close>

lemma coll_save_failed: "coll_save key False v st = (st, SaveFailed)"
  by (simp add: coll_save_def split: prod.splits)

lemma coll_save_create:
  assumes "cp_selected p = None"
  shows "coll_save key True v (db, p) = ((db @ [(key, v)], p\<lparr>cp_form := None\<rparr>), Created)"
  using assms by (simp add: coll_save_def)

lemma coll_save_update:
  assumes "cp_selected p = Some (k, old)"
  shows "coll_save key True v (db, p)
         = ((AList.update k v db, p\<lparr>cp_form := None, cp_selected := None\<rparr>), Updated)"
  using assms by (simp add: coll_save_def)

lemma obj_wf_append_fresh: "obj_wf db \<Longrightarrow> key \<notin> fst ` set db \<Longrightarrow> obj_wf (db @ [(key, v)])"
  by (simp add: obj_wf_def)

lemma map_of_append_fresh:
  "key \<notin> fst ` set db \<Longrightarrow> map_of (db @ [(key, v)]) = (map_of db)(key \<mapsto> v)"
proof -
  assume "key \<notin> fst ` set db"
  then have "map_of db key = None" by (simp add: map_of_eq_None_iff)
  then show ?thesis by (auto simp: fun_eq_iff map_add_def split: option.splits)
qed

lemma coll_delete_map: "map_of (fst (coll_delete True k db)) = (map_of db)(k := None)"
  by (simp add: coll_delete_def delete_conv')

lemma coll_inv_mount: "obj_wf db \<Longrightarrow> coll_inv (coll_mount db)"
  by (simp add: coll_inv_def coll_mount_def coll_on_value_def)

lemma coll_inv_step:
  assumes "coll_inv s" "coll_event_ok e"
  shows "coll_inv (coll_step init input valid val s e)"
  using assms
  by (cases e)
     (auto simp: coll_inv_def coll_save_def coll_delete_def coll_on_value_def coll_open_new_def
        coll_open_edit_def coll_cancel_def Let_def obj_wf_append_fresh
        split: option.splits prod.splits if_splits)

lemma coll_inv_run:
  "coll_inv s \<Longrightarrow> list_all coll_event_ok evs \<Longrightarrow> coll_inv (coll_run init input valid val s evs)"
  unfolding coll_run_def
  by (induction evs arbitrary: s) (simp_all add: coll_inv_step)

lemma coll_submit_ok:
  assumes "cp_form (cs_page s) = Some f" "valid f" "key \<notin> fst ` set (cs_db s)"
  shows "cs_db (coll_step init input valid val s (Submit key True))
           = (case cp_selected (cs_page s) of
                Some (k, _) \<Rightarrow> AList.update k (val f) (cs_db s)
              | None \<Rightarrow> cs_db s @ [(key, val f)])
         \<and> cp_form (cs_page (coll_step init input valid val s (Submit key True))) = None
         \<and> cp_items (cs_page (coll_step init input valid val s (Submit key True)))
           = cs_db (coll_step init input valid val s (Submit key True))"
  using assms
  by (auto simp: coll_save_def coll_on_value_def split: option.splits)

lemma coll_submit_map:
  assumes "cp_form (cs_page s) = Some f" "valid f" "key \<notin> fst ` set (cs_db s)"
  shows "map_of (cs_db (coll_step init input valid val s (Submit key True)))
         = (map_of (cs_db s))(case cp_selected (cs_page s) of Some (k, _) \<Rightarrow> k | None \<Rightarrow> key \<mapsto> val f)"
proof -
  have e: "cs_db (coll_step init input valid val s (Submit key True))
           = (case cp_selected (cs_page s) of
                Some (k, _) \<Rightarrow> AList.update k (val f) (cs_db s)
              | None \<Rightarrow> cs_db s @ [(key, val f)])"
    using coll_submit_ok [of s f valid key init input val, OF assms] by (rule conjunct1)
  show ?thesis
    by (subst e) (use assms(3) in \<open>auto simp: update_conv' map_of_append_fresh simp del: map_of_append split: option.splits\<close>)
qed

lemma coll_delete_step_map:
  assumes "cp_form (cs_page s) = None" "k \<in> fst ` set (cp_items (cs_page s))"
  shows "map_of (cs_db (coll_step init input valid val s (Delete k True))) = (map_of (cs_db s))(k := None)"
  using assms by (simp add: coll_delete_def delete_conv')

text \<open>
  An edit that races with a deletion brings the entry back: the form keeps the
  selected key while another client removes the entry, and saving \<open>update\<close>s
  the removed key, which recreates it.
\<close>

lemma coll_stale_edit_resurrects:
  assumes "cp_form (cs_page s) = None" "map_of (cp_items (cs_page s)) k = Some v"
    "valid (init (Some v))" "key \<notin> fst ` set (AList.delete k (cs_db s))"
  shows "map_of (cs_db (coll_run init input valid val s
            [OpenEdit k, Remote (AList.delete k (cs_db s)), Submit key True])) k
         = Some (val (init (Some v)))"
  using assms
  by (simp add: coll_run_def coll_open_edit_def coll_on_value_def coll_save_def update_conv')

end
