(* ===== verification/Offers.thy ===== *)
theory Offers
  imports Collections Json
begin

text \<open>
  Offers and loyalty (\<open>src/src/pages/Distribution\<close>): the \<open>Offer\<close> record of
  \<open>types.ts\<close>, the offer form of \<open>OfferForm.tsx\<close> (its state, its input
  handlers, the requirement list it edits, the browser's validation of its
  \<open>required\<close> controls, and what it renders) and the offers page of
  \<open>OffersManagement.tsx\<close> as an instance of the collection page of theory
  \<open>Collections\<close>, with the card it renders for each offer. The database drops
  an empty array, so an absent \<open>requirements\<close> field and an empty list are the
  same value here.
\<close>

section \<open>Data\<close>

datatype offer_type = Standard | Premium | Exclusive

fun offer_type_value :: "offer_type \<Rightarrow> string" where
  "offer_type_value Standard = ''standard''"
| "offer_type_value Premium = ''premium''"
| "offer_type_value Exclusive = ''exclusive''"

record offer =
  title :: string
  description :: string
  rewardAmount :: string
  duration :: string
  maxParticipants :: string
  requirements :: "string list"
  active :: bool
  startDate :: string
  endDate :: string
  kind :: offer_type

section \<open>The form\<close>

record offer_form_state =
  of_offer :: offer
  of_newRequirement :: string

definition offer_blank :: offer where
  "offer_blank =
     \<lparr>title = '''', description = '''', rewardAmount = '''', duration = '''', maxParticipants = '''',
      requirements = [], active = True, startDate = '''', endDate = '''', kind = Standard\<rparr>"

definition offer_form_init :: "offer option \<Rightarrow> offer_form_state" where
  "offer_form_init d =
     \<lparr>of_offer = (case d of Some ofr \<Rightarrow> ofr | None \<Rightarrow> offer_blank), of_newRequirement = ''''\<rparr>"

text \<open>\<open>String.prototype.trim\<close> (ASCII white space).\<close>

definition js_trim :: "string \<Rightarrow> string" where
  "js_trim s = rev (dropWhile js_space (rev (dropWhile js_space s)))"

definition addRequirement :: "offer_form_state \<Rightarrow> offer_form_state" where
  "addRequirement st =
     (if js_trim (of_newRequirement st) \<noteq> [] then
        st\<lparr>of_offer := (of_offer st)\<lparr>requirements := requirements (of_offer st) @ [js_trim (of_newRequirement st)]\<rparr>,
           of_newRequirement := ''''\<rparr>
      else st)"

text \<open>\<open>requirements.filter((_, i) => i !== index)\<close>.\<close>

definition removeRequirement :: "nat \<Rightarrow> offer_form_state \<Rightarrow> offer_form_state" where
  "removeRequirement i st =
     st\<lparr>of_offer := (of_offer st)\<lparr>requirements :=
        map snd (filter (\<lambda>(j, _). j \<noteq> i) (enumerate 0 (requirements (of_offer st))))\<rparr>\<rparr>"

datatype offer_input =
    OfTitle string | OfType offer_type | OfDescription string | OfRewardAmount string
  | OfDuration string | OfMaxParticipants string | OfActive string | OfStartDate string
  | OfEndDate string | OfNewRequirement string | OfAddRequirement | OfRemoveRequirement nat

text \<open>The controls' handlers; the status select stores \<open>value === 'true'\<close>.\<close>

fun offer_form_input :: "offer_input \<Rightarrow> offer_form_state \<Rightarrow> offer_form_state" where
  "offer_form_input (OfTitle v) st = st\<lparr>of_offer := (of_offer st)\<lparr>title := v\<rparr>\<rparr>"
| "offer_form_input (OfType t) st = st\<lparr>of_offer := (of_offer st)\<lparr>kind := t\<rparr>\<rparr>"
| "offer_form_input (OfDescription v) st = st\<lparr>of_offer := (of_offer st)\<lparr>description := v\<rparr>\<rparr>"
| "offer_form_input (OfRewardAmount v) st = st\<lparr>of_offer := (of_offer st)\<lparr>rewardAmount := v\<rparr>\<rparr>"
| "offer_form_input (OfDuration v) st = st\<lparr>of_offer := (of_offer st)\<lparr>duration := v\<rparr>\<rparr>"
| "offer_form_input (OfMaxParticipants v) st = st\<lparr>of_offer := (of_offer st)\<lparr>maxParticipants := v\<rparr>\<rparr>"
| "offer_form_input (OfActive v) st = st\<lparr>of_offer := (of_offer st)\<lparr>active := (v = ''true'')\<rparr>\<rparr>"
| "offer_form_input (OfStartDate v) st = st\<lparr>of_offer := (of_offer st)\<lparr>startDate := v\<rparr>\<rparr>"
| "offer_form_input (OfEndDate v) st = st\<lparr>of_offer := (of_offer st)\<lparr>endDate := v\<rparr>\<rparr>"
| "offer_form_input (OfNewRequirement v) st = st\<lparr>of_newRequirement := v\<rparr>"
| "offer_form_input OfAddRequirement st = addRequirement st"
| "offer_form_input (OfRemoveRequirement i) st = removeRequirement i st"

text \<open>The seven \<open>required\<close> controls must be non-empty for the submit event to fire.\<close>

definition offer_form_valid :: "offer_form_state \<Rightarrow> bool" where
  "offer_form_valid st \<longleftrightarrow>
     (let ofr = of_offer st in
      title ofr \<noteq> [] \<and> description ofr \<noteq> [] \<and> rewardAmount ofr \<noteq> [] \<and> duration ofr \<noteq> []
      \<and> maxParticipants ofr \<noteq> [] \<and> startDate ofr \<noteq> [] \<and> endDate ofr \<noteq> [])"

record offer_form_view =
  ofv_heading :: string
  ofv_requirements :: "string list"
  ofv_submit :: string

definition offer_form_view :: "bool \<Rightarrow> offer_form_state \<Rightarrow> offer_form_view" where
  "offer_form_view editing st =
     \<lparr>ofv_heading = (if editing then ''Edit Offer'' else ''Create New Offer''),
      ofv_requirements = requirements (of_offer st),
      ofv_submit = (if editing then ''Update Offer'' else ''Create Offer'')\<rparr>"

section \<open>The offers page\<close>

type_synonym offers_sys = "(offer, offer_form_state) coll_sys"

definition offers_step :: "offers_sys \<Rightarrow> (offer, offer_input) coll_event \<Rightarrow> offers_sys" where
  "offers_step = coll_step offer_form_init offer_form_input offer_form_valid of_offer"

definition offers_run :: "offers_sys \<Rightarrow> (offer, offer_input) coll_event list \<Rightarrow> offers_sys" where
  "offers_run = coll_run offer_form_init offer_form_input offer_form_valid of_offer"

fun offer_toast :: "coll_toast \<Rightarrow> string" where
  "offer_toast (SaveToast Created) = ''Offer created successfully''"
| "offer_toast (SaveToast Updated) = ''Offer updated successfully''"
| "offer_toast (SaveToast SaveFailed) = ''Failed to save offer''"
| "offer_toast (DeleteToast b) = (if b then ''Offer deleted successfully'' else ''Failed to delete offer'')"

record offer_card =
  oc_title :: string
  oc_description :: string
  oc_reward :: string
  oc_duration :: string
  oc_participants :: string
  oc_status :: string
  oc_requirements :: "string list option"

text \<open>One offer's card; the requirements block appears when the list is present.\<close>

definition offer_card :: "offer \<Rightarrow> offer_card" where
  "offer_card ofr =
     \<lparr>oc_title = title ofr, oc_description = description ofr,
      oc_reward = rewardAmount ofr @ '' XLC'', oc_duration = duration ofr @ '' days'',
      oc_participants = maxParticipants ofr,
      oc_status = (if active ofr then ''Active'' else ''Inactive''),
      oc_requirements = (if requirements ofr = [] then None else Some (requirements ofr))\<rparr>"

datatype offers_view = OffersList "(string \<times> offer_card) list" | OfferFormShown offer_form_view

definition offers_view :: "offers_sys \<Rightarrow> offers_view" where
  "offers_view s =
     (case cp_form (cs_page s) of
        Some f \<Rightarrow> OfferFormShown (offer_form_view (cp_selected (cs_page s) \<noteq> None) f)
      | None \<Rightarrow> OffersList (map (\<lambda>(k, ofr). (k, offer_card ofr)) (cp_items (cs_page s))))"

section \<open>Lemmas\<close>

lemma filter_index_from:
  "map snd (filter (\<lambda>(j, _). j \<noteq> i) (enumerate m xs))
   = (if m \<le> i \<and> i < m + length xs then take (i - m) xs @ drop (Suc (i - m)) xs else xs)"
proof (induction xs arbitrary: m)
  case Nil
  then show ?case by simp
next
  case (Cons x xs)
  show ?case
  proof (cases "i = m")
    case True
    with Cons.IH [of "Suc m"] show ?thesis by simp
  next
    case False
    with Cons.IH [of "Suc m"] show ?thesis
      by (cases "m < i") (auto simp: Suc_diff_Suc [symmetric])
  qed
qed

text \<open>Removing the requirement at an index is \<open>take\<close> and \<open>drop\<close> around it.\<close>

lemma removeRequirement_take_drop:
  "requirements (of_offer (removeRequirement i st))
   = take i (requirements (of_offer st)) @ drop (Suc i) (requirements (of_offer st))"
  using filter_index_from [of i 0 "requirements (of_offer st)"]
  by (simp add: removeRequirement_def)

text \<open>Adding a requirement and removing it again by its index restores the list.\<close>

lemma add_remove_requirement:
  assumes "js_trim (of_newRequirement st) \<noteq> []"
  shows "requirements (of_offer (removeRequirement (length (requirements (of_offer st))) (addRequirement st)))
         = requirements (of_offer st)"
  using assms by (simp add: removeRequirement_take_drop addRequirement_def)

lemma addRequirement_appends:
  "js_trim (of_newRequirement st) \<noteq> [] \<Longrightarrow>
   requirements (of_offer (addRequirement st)) = requirements (of_offer st) @ [js_trim (of_newRequirement st)]
   \<and> of_newRequirement (addRequirement st) = []"
  by (simp add: addRequirement_def)

lemma addRequirement_blank: "js_trim (of_newRequirement st) = [] \<Longrightarrow> addRequirement st = st"
  by (simp add: addRequirement_def)

lemma offers_inv_run:
  "obj_wf db \<Longrightarrow> list_all coll_event_ok evs \<Longrightarrow> coll_inv (offers_run (coll_mount db) evs)"
  by (simp add: offers_run_def coll_inv_run coll_inv_mount)

end
