(* ===== verification/Staking.thy ===== *)
theory Staking
  imports Collections Json
begin

text \<open>
  Staking pools (\<open>src/src/pages/Distribution\<close>): the \<open>StakingPool\<close> and
  \<open>UserStake\<close> records of \<open>types.ts\<close>, the pool form of
  \<open>StakingPoolForm.tsx\<close>, and \<open>StakingDashboard.tsx\<close>: the pools page as an
  instance of the collection page of theory \<open>Collections\<close>, its second listener
  on \<open>userStakes\<close>, the status toggle, and the card it renders per pool. A
  numeric field of a pool is \<open>None\<close> when it holds no number: \<open>NaN\<close> in the
  form (the browser's validation keeps it out of a submission) or an absent field
  in the store (which the card shows as 0). The number formatting of
  \<open>toLocaleString\<close> is a parameter \<open>fmt\<close>.
\<close>

section \<open>Data\<close>

record staking_pool =
  pool_id :: string
  name :: string
  totalStaked :: "js_number option"
  apy :: "js_number option"
  minStakeAmount :: "js_number option"
  lockPeriod :: "int option"
  active :: bool
  startDate :: string
  endDate :: string

datatype stake_status = StakeActive | StakeCompleted | StakeWithdrawn

record user_stake =
  userId :: string
  poolId :: string
  amount :: js_number
  stake_startDate :: string
  stake_endDate :: string
  rewards :: js_number
  status :: stake_status

section \<open>The pool form\<close>

text \<open>\<open>useState(initialData || {id: crypto.randomUUID(), ...})\<close>; \<open>uuid\<close> is the generated id.\<close>

definition pool_form_init :: "string \<Rightarrow> staking_pool option \<Rightarrow> staking_pool" where
  "pool_form_init uuid d =
     (case d of
        Some p \<Rightarrow> p
      | None \<Rightarrow> \<lparr>pool_id = uuid, name = '''', totalStaked = Some 0, apy = Some 0, minStakeAmount = Some 0,
                 lockPeriod = Some 0, active = True, startDate = '''', endDate = ''''\<rparr>)"

datatype pool_input =
    PlName string | PlApy string | PlMinStake string | PlLockPeriod string
  | PlStartDate string | PlEndDate string | PlActive string

fun pool_form_input :: "pool_input \<Rightarrow> staking_pool \<Rightarrow> staking_pool" where
  "pool_form_input (PlName v) p = p\<lparr>name := v\<rparr>"
| "pool_form_input (PlApy v) p = p\<lparr>apy := parseFloat v\<rparr>"
| "pool_form_input (PlMinStake v) p = p\<lparr>minStakeAmount := parseFloat v\<rparr>"
| "pool_form_input (PlLockPeriod v) p = p\<lparr>lockPeriod := parseInt10 v\<rparr>"
| "pool_form_input (PlStartDate v) p = p\<lparr>startDate := v\<rparr>"
| "pool_form_input (PlEndDate v) p = p\<lparr>endDate := v\<rparr>"
| "pool_form_input (PlActive v) p = p\<lparr>active := (v = ''true'')\<rparr>"

text \<open>
  The browser's validation: six \<open>required\<close> controls, and \<open>min="0"\<close> on the
  three number inputs (their \<open>step\<close> is not modelled).
\<close>

definition pool_form_valid :: "staking_pool \<Rightarrow> bool" where
  "pool_form_valid p \<longleftrightarrow>
     name p \<noteq> [] \<and> pred_option (\<lambda>x. 0 \<le> x) (apy p) \<and> apy p \<noteq> None
     \<and> pred_option (\<lambda>x. 0 \<le> x) (minStakeAmount p) \<and> minStakeAmount p \<noteq> None
     \<and> pred_option (\<lambda>x. 0 \<le> x) (lockPeriod p) \<and> lockPeriod p \<noteq> None
     \<and> startDate p \<noteq> [] \<and> endDate p \<noteq> []"

definition pool_form_heading :: "bool \<Rightarrow> string \<times> string" where
  "pool_form_heading editing =
     (if editing then (''Edit Staking Pool'', ''Update Pool'') else (''Create New Staking Pool'', ''Create Pool''))"

section \<open>The dashboard\<close>

datatype pools_event =
    PoolEvent "(staking_pool, pool_input) coll_event"
  | TogglePool string bool bool   \<comment> \<open>key, the status the card shows, the write's outcome\<close>
  | StakesValue "user_stake js_object"

record pools_sys =
  ps_coll :: "(staking_pool, staking_pool) coll_sys"
  ps_stakes :: "user_stake js_object"
  ps_toggle_toast :: "string option"

text \<open>
  \<open>togglePoolStatus(id, currentStatus)\<close>: \<open>update\<close> of the single field
  \<open>active\<close> with the negation of the status the card showed. On a key that no
  longer exists the update creates an entry holding only that field.
\<close>

definition pool_only_active :: "bool \<Rightarrow> staking_pool" where
  "pool_only_active b =
     \<lparr>pool_id = '''', name = '''', totalStaked = None, apy = None, minStakeAmount = None,
      lockPeriod = None, active = b, startDate = '''', endDate = ''''\<rparr>"

definition togglePoolStatus :: "string \<Rightarrow> bool \<Rightarrow> staking_pool js_object \<Rightarrow> staking_pool js_object" where
  "togglePoolStatus k cur db =
     AList.update k (case map_of db k of Some p \<Rightarrow> p\<lparr>active := \<not> cur\<rparr> | None \<Rightarrow> pool_only_active (\<not> cur)) db"

definition toggle_toast :: "bool \<Rightarrow> bool \<Rightarrow> string" where
  "toggle_toast cur ok =
     (if ok then ''Pool '' @ (if cur then ''deactivated'' else ''activated'') @ '' successfully''
      else ''Failed to update pool status'')"

text \<open>One event; \<open>uuid\<close> is what \<open>crypto.randomUUID()\<close> returns if the event mounts a new form.\<close>

fun pools_step :: "string \<Rightarrow> pools_sys \<Rightarrow> pools_event \<Rightarrow> pools_sys" where
  "pools_step uuid s (PoolEvent e) =
     s\<lparr>ps_coll := coll_step (pool_form_init uuid) pool_form_input pool_form_valid (\<lambda>p. p) (ps_coll s) e\<rparr>"
| "pools_step uuid s (TogglePool k cur ok) =
     (if cp_form (cs_page (ps_coll s)) = None \<and> k \<in> fst ` set (cp_items (cs_page (ps_coll s))) then
        (let db' = (if ok then togglePoolStatus k cur (cs_db (ps_coll s)) else cs_db (ps_coll s))
         in s\<lparr>ps_coll := (ps_coll s)\<lparr>cs_db := db', cs_page := coll_on_value db' (cs_page (ps_coll s))\<rparr>,
              ps_toggle_toast := Some (toggle_toast cur ok)\<rparr>)
      else s)"
| "pools_step uuid s (StakesValue st) = s\<lparr>ps_stakes := st\<rparr>"

fun pool_toast :: "coll_toast \<Rightarrow> string" where
  "pool_toast (SaveToast Created) = ''Staking pool created successfully''"
| "pool_toast (SaveToast Updated) = ''Staking pool updated successfully''"
| "pool_toast (SaveToast SaveFailed) = ''Failed to save staking pool''"
| "pool_toast (DeleteToast b) =
     (if b then ''Staking pool deleted successfully'' else ''Failed to delete staking pool'')"

section \<open>The pool card\<close>

definition active_stakers :: "user_stake js_object \<Rightarrow> string \<Rightarrow> nat" where
  "active_stakers stakes k = length (filter (\<lambda>st. poolId st = k \<and> status st = StakeActive) (map snd stakes))"

record pool_card =
  pc_name :: string
  pc_status :: string
  pc_toggle_title :: string
  pc_apy :: string
  pc_total :: string
  pc_min :: string
  pc_lock :: string
  pc_start :: string
  pc_end :: string
  pc_stakers :: string

definition pool_card :: "(real \<Rightarrow> string) \<Rightarrow> user_stake js_object \<Rightarrow> string \<Rightarrow> staking_pool \<Rightarrow> pool_card" where
  "pool_card fmt stakes k p =
     \<lparr>pc_name = name p,
      pc_status = (if active p then ''Active'' else ''Inactive''),
      pc_toggle_title = (if active p then ''Deactivate Pool'' else ''Activate Pool''),
      pc_apy = fmt (case apy p of Some x \<Rightarrow> x | None \<Rightarrow> 0) @ ''%'',
      pc_total = fmt (case totalStaked p of Some x \<Rightarrow> x | None \<Rightarrow> 0) @ '' XLC'',
      pc_min = fmt (case minStakeAmount p of Some x \<Rightarrow> x | None \<Rightarrow> 0) @ '' XLC'',
      pc_lock = show_int (case lockPeriod p of Some x \<Rightarrow> x | None \<Rightarrow> 0) @ '' days'',
      pc_start = startDate p, pc_end = endDate p,
      pc_stakers = show_nat (active_stakers stakes k) @ '' active stakers''\<rparr>"

datatype pools_view = PoolsList "(string \<times> pool_card) list" | PoolFormShown "string \<times> string"

definition pools_view :: "(real \<Rightarrow> string) \<Rightarrow> pools_sys \<Rightarrow> pools_view" where
  "pools_view fmt s =
     (case cp_form (cs_page (ps_coll s)) of
        Some _ \<Rightarrow> PoolFormShown (pool_form_heading (cp_selected (cs_page (ps_coll s)) \<noteq> None))
      | None \<Rightarrow> PoolsList (map (\<lambda>(k, p). (k, pool_card fmt (ps_stakes s) k p)) (cp_items (cs_page (ps_coll s)))))"

section \<open>Lemmas\<close>

lemma pool_form_input_id [simp]: "pool_id (pool_form_input i p) = pool_id p"
  by (cases i) simp_all

lemma pool_form_inputs_id: "pool_id (foldl (\<lambda>p i. pool_form_input i p) p ins) = pool_id p"
  by (induction ins arbitrary: p) simp_all

lemma togglePoolStatus_listed:
  "map_of db k = Some p \<Longrightarrow>
   map_of (togglePoolStatus k (active p) db) = (map_of db)(k \<mapsto> p\<lparr>active := \<not> active p\<rparr>)"
  by (simp add: togglePoolStatus_def update_conv')

text \<open>A toggle that races with a deletion leaves a pool with no name and no figures.\<close>

lemma togglePoolStatus_deleted:
  "map_of db k = None \<Longrightarrow>
   map_of (togglePoolStatus k cur db) = (map_of db)(k \<mapsto> pool_only_active (\<not> cur))"
  by (simp add: togglePoolStatus_def update_conv')

lemma pools_inv_step:
  assumes "coll_inv (ps_coll s)" "\<And>c. e = PoolEvent c \<Longrightarrow> coll_event_ok c"
  shows "coll_inv (ps_coll (pools_step uuid s e))"
proof (cases e)
  case (PoolEvent c)
  with assms show ?thesis by (simp add: coll_inv_step)
qed (use assms(1) in \<open>auto simp: coll_inv_def togglePoolStatus_def coll_on_value_def Let_def\<close>)

lemma active_stakers_le: "active_stakers stakes k \<le> length stakes"
  unfolding active_stakers_def by (metis length_filter_le length_map)

text \<open>
  A pool created through the form is stored under the key \<open>push\<close> generates but
  carries, as its \<open>id\<close>, the UUID the form generated; stakes are matched to pools
  by key.
\<close>

lemma pool_created_id:
  fixes c :: "(staking_pool, staking_pool) coll_sys" and uuid :: string and ins :: "pool_input list"
  defines "f \<equiv> foldl (\<lambda>p i. pool_form_input i p) (pool_form_init uuid None) ins"
  assumes "cp_form (cs_page c) = Some f" "cp_selected (cs_page c) = None" "pool_form_valid f"
    "key \<notin> fst ` set (cs_db c)"
  shows "map_option pool_id (map_of (cs_db (coll_step init pool_form_input pool_form_valid (\<lambda>p. p) c
           (Submit key True))) key) = Some uuid"
  using coll_submit_map [of c f pool_form_valid key init pool_form_input "\<lambda>p. p", OF assms(2,4,5)] assms(3)
  by (simp add: f_def pool_form_inputs_id pool_form_init_def)

end
