(* ===== verification/Rewards.thy ===== *)
theory Rewards
  imports Prelude
begin

text \<open>
  The rewards tab of \<open>src/src/pages/Distribution\<close>
  (\<open>components/RewardsOverview.tsx\<close>) and the page's tab list
  (\<open>index.tsx\<close>). The rewards listener holds the \<open>rewards\<close> collection; the
  tab renders three figures (the total amount, the number of pending and of
  claimed rewards) and one row per reward. A reward's \<open>type\<close> and
  \<open>status\<close> are the strings the store holds, as the rendering capitalises them
  and falls back to a default icon for an unknown type. \<open>fmt\<close> is
  \<open>toLocaleString\<close> and \<open>ago\<close> is \<open>formatDistanceToNow\<close> of the timestamp,
  both library functions.
\<close>

section \<open>Data\<close>

record reward =
  rw_userId :: string
  rw_type :: string
  rw_amount :: js_number
  rw_timestamp :: string
  rw_status :: string
  rw_sourceId :: string

text \<open>\<open>charAt(0).toUpperCase() + slice(1)\<close> (ASCII letters).\<close>

definition ascii_upper :: "char \<Rightarrow> char" where
  "ascii_upper c = (if 97 \<le> (of_char c :: nat) \<and> (of_char c :: nat) \<le> 122 then char_of (of_char c - 32 :: nat) else c)"

definition js_capitalize :: "string \<Rightarrow> string" where
  "js_capitalize s = (case s of [] \<Rightarrow> [] | c # cs \<Rightarrow> ascii_upper c # cs)"

datatype reward_icon = ClockBlue | AwardGreen | AwardPurple | AwardGray

definition getRewardTypeIcon :: "string \<Rightarrow> reward_icon" where
  "getRewardTypeIcon t =
     (if t = ''staking'' then ClockBlue else if t = ''offer'' then AwardGreen
      else if t = ''referral'' then AwardPurple else AwardGray)"

section \<open>The tab\<close>

record reward_stats =
  st_total :: js_number
  st_pending :: nat
  st_claimed :: nat

definition reward_stats :: "reward js_object \<Rightarrow> reward_stats" where
  "reward_stats rs =
     \<lparr>st_total = js_sum_by rw_amount 0 (map snd rs),
      st_pending = length (filter (\<lambda>r. rw_status r = ''pending'') (map snd rs)),
      st_claimed = length (filter (\<lambda>r. rw_status r = ''claimed'') (map snd rs))\<rparr>"

record reward_row =
  rr_icon :: reward_icon
  rr_amount :: string
  rr_label :: string
  rr_badge_claimed :: bool
  rr_status :: string
  rr_when :: string
  rr_user :: string
  rr_source :: string

definition reward_row :: "(real \<Rightarrow> string) \<Rightarrow> (string \<Rightarrow> string) \<Rightarrow> reward \<Rightarrow> reward_row" where
  "reward_row fmt ago r =
     \<lparr>rr_icon = getRewardTypeIcon (rw_type r), rr_amount = fmt (rw_amount r) @ '' XLC'',
      rr_label = js_capitalize (rw_type r) @ '' Reward'',
      rr_badge_claimed = (rw_status r = ''claimed''), rr_status = js_capitalize (rw_status r),
      rr_when = ago (rw_timestamp r), rr_user = ''User ID: '' @ rw_userId r,
      rr_source = ''Source ID: '' @ rw_sourceId r\<rparr>"

record rewards_view =
  rv_total :: string
  rv_pending :: nat
  rv_claimed :: nat
  rv_rows :: "(string \<times> reward_row) list"

definition rewards_view :: "(real \<Rightarrow> string) \<Rightarrow> (string \<Rightarrow> string) \<Rightarrow> reward js_object \<Rightarrow> rewards_view" where
  "rewards_view fmt ago rs =
     (let s = reward_stats rs in
      \<lparr>rv_total = fmt (st_total s) @ '' XLC'', rv_pending = st_pending s, rv_claimed = st_claimed s,
       rv_rows = map (\<lambda>(k, r). (k, reward_row fmt ago r)) rs\<rparr>)"

text \<open>The rewards listener: an existing snapshot's value, or \<open>{}\<close>.\<close>

definition rewards_on_value :: "reward js_object option \<Rightarrow> reward js_object" where
  "rewards_on_value snap = (case snap of Some rs \<Rightarrow> rs | None \<Rightarrow> [])"

section \<open>The page's tabs\<close>

definition distribution_tabs :: "(string \<times> string) list" where
  "distribution_tabs = [(''offers'', ''Offers & Loyalty''), (''staking'', ''Staking''), (''rewards'', ''Rewards'')]"

definition distribution_default_tab :: string where
  "distribution_default_tab = ''offers''"

section \<open>Lemmas\<close>

lemma reward_counts_le:
  "st_pending (reward_stats rs) + st_claimed (reward_stats rs) \<le> length rs"
proof -
  have "length (filter (\<lambda>r. rw_status r = ''pending'') xs) + length (filter (\<lambda>r. rw_status r = ''claimed'') xs)
        \<le> length xs" for xs :: "reward list"
    by (induction xs) auto
  from this [of "map snd rs"] show ?thesis by (simp add: reward_stats_def del: filter_map)
qed

lemma reward_counts_exact:
  "list_all (\<lambda>(_, r). rw_status r = ''pending'' \<or> rw_status r = ''claimed'') rs \<Longrightarrow>
   st_pending (reward_stats rs) + st_claimed (reward_stats rs) = length rs"
  by (induction rs) (auto simp: reward_stats_def)

lemma reward_total_sum: "st_total (reward_stats rs) = sum_list (map (rw_amount \<circ> snd) rs)"
  by (simp add: reward_stats_def js_sum_by_sum_list)

lemma js_capitalize_length [simp]: "length (js_capitalize s) = length s"
  by (simp add: js_capitalize_def split: list.splits)
end
