(* ===== verification/ChainStats.thy ===== *)
theory ChainStats
  imports Wallet
begin

text \<open>
  On-chain figures. \<open>getTransactions\<close> of \<open>src/src/lib/web3/transactions.ts\<close>
  is a function of the clock, the limit, the chain's answers and the module-level
  30-second cache. The Transactions page (\<open>pages/Transactions\<close>) shows its
  result through a react-query query with initial data \<open>[]\<close>.
  \<open>getTokenHolderCount\<close> (\<open>lib/web3/stats.ts\<close>) counts addresses, and the
  Dashboard page (\<open>pages/Dashboard/index.tsx\<close>) renders three cards. The chain
  and its RPC calls are external: their answers are inputs (\<open>None\<close> when a call
  rejects). \<open>fromWei\<close> is web3's conversion of a wei amount to an ether
  decimal string.
\<close>

section \<open>Amounts\<close>

definition strip_trailing_zeros :: "string \<Rightarrow> string" where
  "strip_trailing_zeros s = rev (dropWhile (\<lambda>c. c = CHR ''0'') (rev s))"

text \<open>\<open>web3.utils.fromWei(v, 'ether')\<close>: whole part, then the 18-digit fraction without trailing zeros.\<close>

definition fromWei :: "nat \<Rightarrow> string" where
  "fromWei v =
     (let whole = v div 10 ^ 18; frac = v mod 10 ^ 18;
          fs = show_nat frac; padded = replicate (18 - length fs) CHR ''0'' @ fs
      in if frac = 0 then show_nat whole else show_nat whole @ ''.'' @ strip_trailing_zeros padded)"

section \<open>Transactions\<close>

record transaction =
  tx_hash :: string
  tx_from :: string
  tx_to :: string
  tx_amount :: string
  tx_timestamp :: int
  tx_blockNumber :: nat

text \<open>A \<open>Transfer\<close> event with the timestamp \<open>getBlock\<close> answers for its block (\<open>None\<close>: it rejected).\<close>

record transfer_event =
  ev_hash :: string
  ev_from :: string
  ev_to :: string
  ev_value :: nat
  ev_block :: nat
  ev_block_time :: "int option"

record tx_cache =
  cache_transactions :: "transaction list"
  cache_timestamp :: int

definition CACHE_DURATION :: int where
  "CACHE_DURATION = 30 * 1000"

definition tx_cache_init :: tx_cache where
  "tx_cache_init = \<lparr>cache_transactions = [], cache_timestamp = 0\<rparr>"

text \<open>One event's processing: the transaction, or \<open>null\<close> when its block could not be read.\<close>

definition event_to_tx :: "transfer_event \<Rightarrow> transaction option" where
  "event_to_tx e =
     (case ev_block_time e of
        None \<Rightarrow> None
      | Some t \<Rightarrow> Some \<lparr>tx_hash = ev_hash e, tx_from = ev_from e, tx_to = ev_to e,
                        tx_amount = fromWei (ev_value e), tx_timestamp = t * 1000,
                        tx_blockNumber = ev_block e\<rparr>)"

text \<open>\<open>sort((a, b) => b.timestamp - a.timestamp)\<close>: a stable sort, newest first.\<close>

definition sort_newest_first :: "transaction list \<Rightarrow> transaction list" where
  "sort_newest_first txs = sort_key (\<lambda>t. - tx_timestamp t) txs"

text \<open>
  \<open>getTransactions(limit)\<close> called at time \<open>now\<close> (the \<open>Date.now()\<close> of the
  freshness test). \<open>events\<close> is the answer of the block-number and
  \<open>getPastEvents\<close> calls over the last six blocks (\<open>None\<close>: one rejected), and
  \<open>now_end\<close> the \<open>Date.now()\<close> read after those calls settle, which stamps the
  new cache. The result and the new cache.
\<close>

definition getTransactions ::
  "int \<Rightarrow> int \<Rightarrow> nat \<Rightarrow> transfer_event list option \<Rightarrow> tx_cache \<Rightarrow> transaction list \<times> tx_cache" where
  "getTransactions now now_end limit events cache =
     (if now - cache_timestamp cache < CACHE_DURATION then (take limit (cache_transactions cache), cache)
      else (case events of
              None \<Rightarrow> ([], cache)
            | Some evs \<Rightarrow>
                (let sorted = take limit (sort_newest_first (List.map_filter event_to_tx evs))
                 in (sorted, \<lparr>cache_transactions = sorted, cache_timestamp = now_end\<rparr>))))"

section \<open>The Transactions page\<close>

text \<open>
  A react-query query: its data (present from the start when \<open>initialData\<close> is
  given) and whether the query function rejected (after its retries).
\<close>

record 'a query_state =
  q_data :: "'a option"
  q_error :: bool

definition q_isLoading :: "'a query_state \<Rightarrow> bool" where
  "q_isLoading q \<longleftrightarrow> q_data q = None \<and> \<not> q_error q"

definition q_resolve :: "'a option \<Rightarrow> 'a query_state \<Rightarrow> 'a query_state" where
  "q_resolve r q = (case r of Some d \<Rightarrow> q\<lparr>q_data := Some d, q_error := False\<rparr> | None \<Rightarrow> q\<lparr>q_error := True\<rparr>)"

text \<open>
  \<open>useTransactions(100)\<close>: initial data \<open>[]\<close>; each fetch calls
  \<open>getTransactions(100)\<close>, started at \<open>now\<close> and settling at \<open>now_end\<close>.
\<close>

definition useTransactions_init :: "transaction list query_state" where
  "useTransactions_init = \<lparr>q_data = Some [], q_error = False\<rparr>"

definition useTransactions_fetch ::
  "int \<Rightarrow> int \<Rightarrow> transfer_event list option \<Rightarrow> transaction list query_state \<times> tx_cache
   \<Rightarrow> transaction list query_state \<times> tx_cache" where
  "useTransactions_fetch now now_end events st =
     (let (q, cache) = st; (r, cache') = getTransactions now now_end 100 events cache
      in (q_resolve (Some r) q, cache'))"

record tx_row =
  row_hash :: string
  row_hash_link :: string
  row_from :: string
  row_from_link :: string
  row_to :: string
  row_to_link :: string
  row_amount :: string
  row_time :: string

definition tx_row :: "(int \<Rightarrow> string) \<Rightarrow> transaction \<Rightarrow> tx_row" where
  "tx_row date tx =
     \<lparr>row_hash = formatAddress (tx_hash tx), row_hash_link = ''https://bscscan.com/tx/'' @ tx_hash tx,
      row_from = formatAddress (tx_from tx), row_from_link = ''https://bscscan.com/address/'' @ tx_from tx,
      row_to = formatAddress (tx_to tx), row_to_link = ''https://bscscan.com/address/'' @ tx_to tx,
      row_amount = tx_amount tx @ '' XLC'', row_time = date (tx_timestamp tx)\<rparr>"

datatype tx_page_view =
    PleaseConnect | LoadingTransactions | ErrorLoading | NoTransactions | TransactionTable "tx_row list"

definition transactions_page :: "(int \<Rightarrow> string) \<Rightarrow> string option \<Rightarrow> transaction list query_state \<Rightarrow> tx_page_view" where
  "transactions_page date addr q =
     (if addr = None then PleaseConnect
      else if q_isLoading q then LoadingTransactions
      else if q_error q then ErrorLoading
      else (case q_data q of
              Some txs \<Rightarrow> (if txs \<noteq> [] then TransactionTable (map (tx_row date) txs) else NoTransactions)
            | None \<Rightarrow> NoTransactions))"

text \<open>\<open>TransactionList\<close>: the table's column headers and one row per transaction, in order.\<close>

definition transaction_list_headers :: "string list" where
  "transaction_list_headers = [''Transaction Hash'', ''From'', ''To'', ''Amount'', ''Time'']"

definition TransactionList :: "(int \<Rightarrow> string) \<Rightarrow> transaction list \<Rightarrow> string list \<times> tx_row list" where
  "TransactionList date txs = (transaction_list_headers, map (tx_row date) txs)"

section \<open>Holders and the Dashboard\<close>

text \<open>\<open>getTokenHolderCount\<close>: the distinct recipients of non-zero transfers in the window; 0 on error.\<close>

definition getTokenHolderCount :: "transfer_event list option \<Rightarrow> nat" where
  "getTokenHolderCount events =
     (case events of
        None \<Rightarrow> 0
      | Some evs \<Rightarrow> length (remdups (map ev_to (filter (\<lambda>e. ev_value e \<noteq> 0) evs))))"

record dashboard_cards =
  card_supply :: string
  card_balance :: "string option"
  card_holders :: string
  card_transactions :: string

text \<open>
  The Dashboard's three cards. \<open>supply\<close> is the \<open>totalSupply\<close> query (its
  function returns \<open>'N/A'\<close> when the call rejects), \<open>balance\<close> the connected
  account's balance query, \<open>holders\<close> the holder-count query; \<open>None\<close> while
  loading.
\<close>

definition dashboard_cards ::
  "nat option option \<Rightarrow> string option \<Rightarrow> nat option \<Rightarrow> dashboard_cards" where
  "dashboard_cards supply balance holders =
     \<lparr>card_supply = (case supply of
                      None \<Rightarrow> ''Loading...''
                    | Some r \<Rightarrow> (case r of Some v \<Rightarrow> fromWei v | None \<Rightarrow> ''N/A'') @ '' XLC''),
      card_balance = (case balance of Some b \<Rightarrow> if b \<noteq> [] then Some (''Your Balance: '' @ b @ '' XLC'') else None
                                   | None \<Rightarrow> None),
      card_holders = (case holders of None \<Rightarrow> ''Loading...'' | Some n \<Rightarrow> show_nat n),
      card_transactions = ''1,234''\<rparr>"

section \<open>Runs\<close>

text \<open>
  The module-level \<open>transactionCache\<close> is threaded through successive calls;
  \<open>calls\<close> gives each call's clock, limit and chain answers.
\<close>

definition getTransactions_calls :: "(int \<times> int \<times> nat \<times> transfer_event list option) list \<Rightarrow> tx_cache" where
  "getTransactions_calls calls =
     foldl (\<lambda>c (now, now_end, limit, events). snd (getTransactions now now_end limit events c)) tx_cache_init calls"

text \<open>The query's fetches (mount, and every 30 seconds) from its initial data and the initial cache.\<close>

definition useTransactions_run ::
  "(int \<times> int \<times> transfer_event list option) list \<Rightarrow> transaction list query_state \<times> tx_cache" where
  "useTransactions_run fetches =
     foldl (\<lambda>st (now, now_end, events). useTransactions_fetch now now_end events st)
       (useTransactions_init, tx_cache_init) fetches"

definition cache_sorted :: "tx_cache \<Rightarrow> bool" where
  "cache_sorted c \<longleftrightarrow> sorted (map (\<lambda>t. - tx_timestamp t) (cache_transactions c))"

definition tx_query_ok :: "transaction list query_state \<Rightarrow> bool" where
  "tx_query_ok q \<longleftrightarrow> q_data q \<noteq> None \<and> \<not> q_error q"

text \<open>A sample transfer in block \<open>n\<close> of \<open>n\<close> wei, mined at second \<open>n\<close>.\<close>

definition ev_demo :: "nat \<Rightarrow> transfer_event" where
  "ev_demo n = \<lparr>ev_hash = ''0xab'', ev_from = ''0x01'', ev_to = ''0x02'', ev_value = n,
                ev_block = n, ev_block_time = Some (int n)\<rparr>"

section \<open>Lemmas\<close>

lemma getTransactions_length: "length (fst (getTransactions now now_end limit events cache)) \<le> limit"
  by (simp add: getTransactions_def Let_def split: option.splits)

lemma getTransactions_miss:
  "\<not> now - cache_timestamp cache < CACHE_DURATION \<Longrightarrow> events = Some evs \<Longrightarrow>
   getTransactions now now_end limit events cache
   = (take limit (sort_newest_first (List.map_filter event_to_tx evs)),
      \<lparr>cache_transactions = take limit (sort_newest_first (List.map_filter event_to_tx evs)),
       cache_timestamp = now_end\<rparr>)"
  by (simp add: getTransactions_def Let_def)

lemma getTransactions_hit:
  "now - cache_timestamp cache < CACHE_DURATION \<Longrightarrow>
   getTransactions now now_end limit events cache = (take limit (cache_transactions cache), cache)"
  by (simp add: getTransactions_def Let_def)

lemma getTransactions_timestamp:
  "cache_timestamp (snd (getTransactions now now_end limit events cache)) \<in> {cache_timestamp cache, now_end}"
  by (simp add: getTransactions_def Let_def split: option.splits)

lemma sorted_take: "sorted (map f xs) \<Longrightarrow> sorted (map f (take n xs))"
  by (metis sorted_wrt_take take_map)

lemma getTransactions_sorted:
  assumes "cache_sorted cache"
  shows "sorted (map (\<lambda>t. - tx_timestamp t) (fst (getTransactions now now_end limit events cache)))
         \<and> cache_sorted (snd (getTransactions now now_end limit events cache))"
  using assms
  by (auto simp: getTransactions_def cache_sorted_def sort_newest_first_def Let_def sorted_take
      split: option.splits)

lemma getTransactions_calls_sorted: "cache_sorted (getTransactions_calls calls)"
proof (induction calls rule: rev_induct)
  case Nil
  then show ?case by (simp add: getTransactions_calls_def cache_sorted_def tx_cache_init_def)
next
  case (snoc x xs)
  then show ?case
    by (simp add: getTransactions_calls_def getTransactions_sorted split: prod.splits)
qed

text \<open>Transfers of the same second keep the order the chain reported them in.\<close>

lemma sort_newest_first_stable:
  "filter (\<lambda>t. tx_timestamp t = k) (sort_newest_first txs) = filter (\<lambda>t. tx_timestamp t = k) txs"
  using sort_key_stable [of "\<lambda>t. - tx_timestamp t" "- k" txs]
  by (simp add: sort_newest_first_def)

lemma useTransactions_run_snoc:
  "useTransactions_run (fs @ [(now, now_end, events)])
   = (q_resolve (Some (fst (getTransactions now now_end 100 events (snd (useTransactions_run fs)))))
        (fst (useTransactions_run fs)),
      snd (getTransactions now now_end 100 events (snd (useTransactions_run fs))))"
  by (simp add: useTransactions_run_def useTransactions_fetch_def split: prod.splits)

lemma tx_query_ok_run: "tx_query_ok (fst (useTransactions_run fetches))"
proof (induction fetches rule: rev_induct)
  case Nil
  then show ?case by (simp add: useTransactions_run_def useTransactions_init_def tx_query_ok_def)
next
  case (snoc x xs)
  then show ?case
    by (cases x) (auto simp: useTransactions_run_snoc tx_query_ok_def q_resolve_def)
qed

lemma useTransactions_run_timestamp:
  "list_all (\<lambda>(_, e, _). e \<le> b) fetches \<Longrightarrow> 0 \<le> b \<Longrightarrow>
   cache_timestamp (snd (useTransactions_run fetches)) \<le> b"
proof (induction fetches rule: rev_induct)
  case Nil
  then show ?case by (simp add: useTransactions_run_def tx_cache_init_def)
next
  case (snoc x xs)
  obtain t e ev where x: "x = (t, e, ev)" by (cases x) fastforce
  with snoc getTransactions_timestamp [of t e 100 ev "snd (useTransactions_run xs)"]
  show ?case by (auto simp: useTransactions_run_snoc)
qed

text \<open>
  The query refetches every 30 seconds from the start of the previous fetch, but
  the cache is stamped when that fetch settles: a refetch 30 seconds after a fetch
  that took any time at all still finds the cache fresh and serves the old list,
  whatever the chain now holds.
\<close>

lemma interval_refetch_serves_cache:
  assumes "\<not> t - cache_timestamp c < CACHE_DURATION" "0 < d"
  shows "fst (getTransactions (t + CACHE_DURATION) e' 100 evs' (snd (getTransactions t (t + d) 100 (Some evs) c)))
         = take 100 (sort_newest_first (List.map_filter event_to_tx evs))"
  using assms by (simp add: getTransactions_miss getTransactions_hit)

lemma transactions_page_ok:
  "tx_query_ok q \<Longrightarrow> transactions_page date addr q \<noteq> LoadingTransactions \<and> transactions_page date addr q \<noteq> ErrorLoading"
  by (auto simp: transactions_page_def tx_query_ok_def q_isLoading_def split: option.splits)

lemma holder_count_le: "getTokenHolderCount (Some evs) \<le> length (filter (\<lambda>e. ev_value e \<noteq> 0) evs)"
  by (simp add: getTokenHolderCount_def length_remdups_leq [THEN order_trans])

text \<open>
  C23. The Transactions page never shows its loading text or its error text, whatever
  the chain answers: \<open>getTransactions\<close> turns every failed call into \<open>[]\<close>, and
  the query starts from its initial data \<open>[]\<close>.
\<close>

theorem transactions_page_never_fails:
  "transactions_page date addr (fst (useTransactions_run fetches)) \<noteq> LoadingTransactions
   \<and> transactions_page date addr (fst (useTransactions_run fetches)) \<noteq> ErrorLoading"
  by (rule transactions_page_ok [OF tx_query_ok_run])

text \<open>
  C24. Whatever calls came before, \<open>getTransactions(limit)\<close> returns at most
  \<open>limit\<close> transactions, newest first.
\<close>

theorem getTransactions_newest_first:
  "sorted (map (\<lambda>t. - tx_timestamp t) (fst (getTransactions now now_end limit events (getTransactions_calls calls))))
   \<and> length (fst (getTransactions now now_end limit events (getTransactions_calls calls))) \<le> limit"
  using getTransactions_sorted [OF getTransactions_calls_sorted] getTransactions_length by blast

text \<open>
  C25. The cache keeps only the first \<open>limit\<close> transactions of a fetch: within
  30 seconds of the fetch settling, a call with a larger limit gets no more than
  the earlier limit.
\<close>

theorem getTransactions_cache_truncates:
  assumes "\<not> now - cache_timestamp cache < CACHE_DURATION" "now' - now_end < CACHE_DURATION"
  shows "fst (getTransactions now' now_end' limit' events' (snd (getTransactions now now_end limit (Some evs) cache)))
         = take (min limit limit') (sort_newest_first (List.map_filter event_to_tx evs))"
  using assms by (simp add: getTransactions_miss getTransactions_hit min.commute)

text \<open>
  C27. A fetch started 30 seconds or more after every earlier fetch settled, whose
  chain calls succeed, puts the current transfers on the page, newest first. The
  cache is stamped when a fetch settles, so the bound is on the earlier fetches'
  completion times, not on their starts.
\<close>

theorem useTransactions_refreshes:
  assumes "list_all (\<lambda>(_, e, _). e + CACHE_DURATION \<le> now) fetches" "CACHE_DURATION \<le> now"
  shows "transactions_page date (Some a) (fst (useTransactions_run (fetches @ [(now, now_end, Some evs)])))
         = (let txs = take 100 (sort_newest_first (List.map_filter event_to_tx evs))
            in if txs = [] then NoTransactions else TransactionTable (map (tx_row date) txs))"
proof -
  have "list_all (\<lambda>(_, e, _). e \<le> now - CACHE_DURATION) fetches"
    using assms(1) by (force simp: list_all_iff split_beta)
  then have "cache_timestamp (snd (useTransactions_run fetches)) \<le> now - CACHE_DURATION"
    using assms(2) by (intro useTransactions_run_timestamp) simp_all
  then show ?thesis
    by (simp add: useTransactions_run_snoc getTransactions_miss transactions_page_def
        q_resolve_def q_isLoading_def Let_def)
qed

theorem getTransactions_cache_truncates_witness:
  "length (fst (getTransactions 45000 45000 100 None
      (snd (getTransactions 40000 41000 3 (Some (map ev_demo [1, 2, 3, 4])) tx_cache_init)))) = 3"
  using getTransactions_cache_truncates [of 40000 tx_cache_init 45000 41000 45000 100 None 3 "map ev_demo [1, 2, 3, 4]"]
  by (simp add: tx_cache_init_def CACHE_DURATION_def ev_demo_def event_to_tx_def sort_newest_first_def)

theorem useTransactions_refreshes_witness:
  "transactions_page (\<lambda>_. ''t'') (Some ''0x02'') (fst (useTransactions_run [(0, 0, None), (30000, 30400, Some [])]))
   = NoTransactions"
  using useTransactions_refreshes [where fetches = "[(0, 0, None)]" and now = 30000 and now_end = 30400
      and date = "\<lambda>_. ''t''" and a = "''0x02''" and evs = "[]"]
  by (simp add: CACHE_DURATION_def sort_newest_first_def)

end
