(* ===== verification/Dashboard.thy ===== *)
theory Dashboard
  imports ChainStats
begin

text \<open>
  The web3 library modules and the Dashboard's balance queries.
  \<open>src/src/lib/web3/provider.ts\<close> chooses the provider, \<open>contract.ts\<close> checks
  the contract connection and reads balances, and \<open>wallet.ts\<close> is a second
  \<open>connectWallet\<close>. It returns the first account and does not touch the
  context's state. \<open>StatsOverview\<close> and \<open>useAccountBalance\<close>
  (\<open>pages/Dashboard\<close>) run \<open>getXLCBalance\<close> in react-query queries. The
  queries' retry loop is \<open>query_attempts\<close>. react-query calls the query
  function once and, while the call rejects, again up to \<open>retry\<close> more times.
  Its termination measure is the number of retries left.
\<close>

section \<open>The query's retry loop\<close>

text \<open>
  \<open>outs i\<close> is the answer of the \<open>i\<close>-th call of the query function (\<open>None\<close>:
  it rejected). The result is the first answer, or \<open>None\<close> when every allowed
  call rejected, together with the number of calls made.
\<close>

function query_attempts :: "nat \<Rightarrow> (nat \<Rightarrow> 'a option) \<Rightarrow> nat \<Rightarrow> 'a option \<times> nat" where
  "query_attempts retry outs i =
     (case outs i of
        Some d \<Rightarrow> (Some d, Suc i)
      | None \<Rightarrow> (if i < retry then query_attempts retry outs (Suc i) else (None, Suc i)))"
  by pat_completeness auto
termination
  by (relation "measure (\<lambda>(retry, outs, i). retry - i)") auto

declare query_attempts.simps [simp del]

text \<open>One fetch of a query: its retry loop, and the state react-query keeps.\<close>

definition query_fetch :: "nat \<Rightarrow> (nat \<Rightarrow> 'a option) \<Rightarrow> 'a query_state \<Rightarrow> 'a query_state" where
  "query_fetch retry outs q = q_resolve (fst (query_attempts retry outs 0)) q"

definition query_init :: "'a query_state" where
  "query_init = \<lparr>q_data = None, q_error = False\<rparr>"

text \<open>
  The fetches of an enabled query (mount, then every \<open>refetchInterval\<close>). A
  disabled query never fetches and stays idle. It has no data and no error, and
  unlike a pending query it is not loading.
\<close>

definition query_run :: "bool \<Rightarrow> nat \<Rightarrow> (nat \<Rightarrow> 'a option) list \<Rightarrow> 'a query_state" where
  "query_run enabled retry fetches =
     (if enabled then foldl (\<lambda>q outs. query_fetch retry outs q) query_init fetches else query_init)"

definition query_isLoading :: "bool \<Rightarrow> 'a query_state \<Rightarrow> bool" where
  "query_isLoading enabled q \<longleftrightarrow> enabled \<and> q_isLoading q"

section \<open>The web3 library\<close>

text \<open>\<open>getWeb3Provider\<close>: \<open>window.ethereum\<close> when present, else an HTTP provider with reconnection.\<close>

record reconnect_opts =
  rc_auto :: bool
  rc_delay :: nat
  rc_maxAttempts :: nat
  rc_onTimeout :: bool

datatype web3_provider = InjectedProvider | HttpProvider string nat reconnect_opts

definition BSC_RPC_URL :: string where
  "BSC_RPC_URL = ''https://bsc-dataseed1.binance.org''"

text \<open>\<open>eth\<close>: reading \<open>window.ethereum\<close> (\<open>None\<close>: the read threw; \<open>Some b\<close>: whether it is set).\<close>

definition getWeb3Provider :: "bool option \<Rightarrow> web3_provider" where
  "getWeb3Provider eth =
     (if eth = Some True then InjectedProvider
      else HttpProvider BSC_RPC_URL 30000
             \<lparr>rc_auto = True, rc_delay = 5000, rc_maxAttempts = 5, rc_onTimeout = False\<rparr>)"

datatype toast = ToastSuccess string | ToastError string

text \<open>\<open>verifyContractConnection\<close>: the \<open>name()\<close> call's answer (\<open>None\<close>: rejected).\<close>

definition verifyContractConnection :: "string option \<Rightarrow> bool \<times> toast" where
  "verifyContractConnection r =
     (case r of
        Some _ \<Rightarrow> (True, ToastSuccess ''Successfully connected to XLC contract'')
      | None \<Rightarrow> (False, ToastError ''Failed to connect to XLC contract''))"

text \<open>\<open>getXLCBalance\<close>: \<open>balanceOf\<close>'s answer in ether; \<open>'0'\<close> when the call rejected.\<close>

definition getXLCBalance :: "nat option \<Rightarrow> string" where
  "getXLCBalance r = (case r of Some b \<Rightarrow> fromWei b | None \<Rightarrow> ''0'')"

text \<open>
  \<open>connectWallet\<close> of \<open>lib/web3/wallet.ts\<close>. It requires \<open>isMetaMask\<close>,
  requests the accounts and always asks to switch to BNB Smart Chain, adding the
  chain on error 4902. It returns \<open>accounts[0]\<close> (\<open>None\<close>: \<open>undefined\<close>) or
  throws.
\<close>

definition lib_connectWallet :: "bool \<Rightarrow> connect_answers \<Rightarrow> wallet_error + string option" where
  "lib_connectWallet isMetaMask ans =
     (if \<not> isMetaMask then Inl metamask_missing
      else (case ans_accounts ans of
              Inl e \<Rightarrow> Inl e
            | Inr accts \<Rightarrow>
                (case ans_switch ans of
                   None \<Rightarrow> Inr (first_account accts)
                 | Some e \<Rightarrow>
                     (if err_code e = Some 4902 then
                        (case ans_add ans of None \<Rightarrow> Inr (first_account accts) | Some e' \<Rightarrow> Inl e')
                      else Inl e))))"

section \<open>The Dashboard's balance queries\<close>

text \<open>
  \<open>StatsOverview\<close>: the query \<open>['xlcBalance', address]\<close>, enabled when an address
  is connected, with \<open>retry: 1\<close>. Its function is \<open>getXLCBalance(address || '')\<close>.
  \<open>fetches\<close> gives, for each fetch, the \<open>balanceOf\<close> answer of each call.
\<close>

definition stats_balance_query :: "string option \<Rightarrow> (nat \<Rightarrow> nat option) list \<Rightarrow> string query_state" where
  "stats_balance_query addr fetches =
     query_run (addr \<noteq> None \<and> addr \<noteq> Some []) 1 (map (\<lambda>f i. Some (getXLCBalance (f i))) fetches)"

text \<open>The Total Supply card: \<open>displayValue\<close>, then \<open>' XLC'\<close> when there is no error and the balance is truthy.\<close>

definition stats_total_supply :: "bool \<Rightarrow> string query_state \<Rightarrow> string" where
  "stats_total_supply enabled q =
     (let truthy = (case q_data q of Some b \<Rightarrow> b \<noteq> [] | None \<Rightarrow> False);
          dv = (if q_error q then ''N/A''
                else if query_isLoading enabled q then ''Loading...''
                else if truthy then the (q_data q) else ''N/A'')
      in dv @ (if \<not> q_error q \<and> truthy then '' XLC'' else ''''))"

record stat_card =
  sc_title :: string
  sc_value :: string
  sc_change :: "real option"

definition StatsOverview :: "string option \<Rightarrow> (nat \<Rightarrow> nat option) list \<Rightarrow> stat_card list" where
  "StatsOverview addr fetches =
     [\<lparr>sc_title = ''Total Supply'',
       sc_value = stats_total_supply (addr \<noteq> None \<and> addr \<noteq> Some []) (stats_balance_query addr fetches),
       sc_change = None\<rparr>,
      \<lparr>sc_title = ''Active Users'', sc_value = ''2,345'', sc_change = Some 5.2\<rparr>,
      \<lparr>sc_title = ''24h Transactions'', sc_value = ''1,234'', sc_change = Some (-1.5)\<rparr>,
      \<lparr>sc_title = ''Tokens Burned'', sc_value = ''50,000 XLC'', sc_change = Some 3.2\<rparr>]"

text \<open>
  \<open>useAccountBalance\<close>: the same key, react-query's default of three retries,
  and the function \<open>address ? getXLCBalance(address) : '0'\<close>.
\<close>

definition useAccountBalance :: "string option \<Rightarrow> (nat \<Rightarrow> nat option) list \<Rightarrow> string query_state" where
  "useAccountBalance addr fetches =
     query_run (addr \<noteq> None \<and> addr \<noteq> Some []) 3
       (map (\<lambda>f i. Some (if addr \<noteq> None \<and> addr \<noteq> Some [] then getXLCBalance (f i) else ''0'')) fetches)"

section \<open>Lemmas\<close>

lemma query_attempts_Some: "outs i = Some d \<Longrightarrow> query_attempts retry outs i = (Some d, Suc i)"
  by (simp add: query_attempts.simps [of retry outs i])
lemma query_attempts_retry: "outs i = None \<Longrightarrow> i < retry \<Longrightarrow> query_attempts retry outs i = query_attempts retry outs (Suc i)"
  by (simp add: query_attempts.simps [of retry outs i])
lemma query_attempts_give_up: "outs i = None \<Longrightarrow> \<not> i < retry \<Longrightarrow> query_attempts retry outs i = (None, Suc i)"
  by (simp add: query_attempts.simps [of retry outs i])
lemma query_attempts_spec:
  "i \<le> retry \<Longrightarrow> query_attempts retry outs i = (r, n) \<Longrightarrow>
   i < n \<and> n \<le> Suc retry \<and> r = outs (n - 1) \<and> (\<forall>j \<in> {i..<n - 1}. outs j = None)
   \<and> (r = None \<longrightarrow> n = Suc retry)"
proof (induction retry outs i arbitrary: r n rule: query_attempts.induct)
  case (1 retry outs i)
  show ?case
  proof (cases "outs i")
    case (Some d)
    with "1.prems"(2) have "r = Some d" "n = Suc i" by (simp_all add: query_attempts_Some)
    with Some "1.prems"(1) show ?thesis by simp
  next
    case None
    show ?thesis
    proof (cases "i < retry")
      case True
      then have le: "Suc i \<le> retry" by simp
      from "1.prems"(2) None True have eq: "query_attempts retry outs (Suc i) = (r, n)"
        by (simp add: query_attempts_retry)
      from "1.IH" [OF None True le eq]
      have H: "Suc i < n" "n \<le> Suc retry" "r = outs (n - 1)"
        "\<forall>j \<in> {Suc i..<n - 1}. outs j = None" "r = None \<longrightarrow> n = Suc retry"
        by blast+
      have "\<forall>j \<in> {i..<n - 1}. outs j = None"
      proof
        fix j
        assume j: "j \<in> {i..<n - 1}"
        show "outs j = None"
        proof (cases "j = i")
          case True
          with None show ?thesis by simp
        next
          case False
          with j H(4) show ?thesis by simp
        qed
      qed
      with H(2,3,5) Suc_lessD [OF H(1)] show ?thesis by blast
    next
      case False
      from "1.prems"(2) None False have "r = None" "n = Suc i"
        by (simp_all add: query_attempts_give_up)
      with None False "1.prems"(1) show ?thesis by simp
    qed
  qed
qed
lemma query_run_resolving:
  assumes "\<forall>f \<in> set fetches. f 0 \<noteq> None"
  shows "query_run True retry fetches =
           \<lparr>q_data = (if fetches = [] then None else last fetches 0), q_error = False\<rparr>"
  using assms
proof (induction fetches rule: rev_induct)
  case Nil
  then show ?case by (simp add: query_run_def query_init_def)
next
  case (snoc f fs)
  then obtain d where d: "f 0 = Some d" by auto
  from snoc have "query_run True retry fs = \<lparr>q_data = (if fs = [] then None else last fs 0), q_error = False\<rparr>"
    by simp
  then have "query_run True retry (fs @ [f]) = q_resolve (Some d) \<lparr>q_data = (if fs = [] then None else last fs 0), q_error = False\<rparr>"
    by (simp add: query_run_def query_fetch_def query_attempts_Some [of f 0 d, OF d])
  with d show ?case by (simp add: q_resolve_def)
qed

lemma getXLCBalance_nonempty: "getXLCBalance r \<noteq> []"
  by (simp add: getXLCBalance_def fromWei_def show_nat_def base_digits_ne Let_def split: option.split)

lemma stats_balance_query_connected:
  "a \<noteq> [] \<Longrightarrow> stats_balance_query (Some a) fetches =
     \<lparr>q_data = (if fetches = [] then None else Some (getXLCBalance (last fetches 0))), q_error = False\<rparr>"
  by (simp add: stats_balance_query_def query_run_resolving last_map)
lemma query_attempts_first_answer:
  assumes rn: "query_attempts retry outs 0 = (r, n)"
  shows "r = (if \<exists>i \<le> retry. outs i \<noteq> None then outs (LEAST i. outs i \<noteq> None) else None)"
proof -
  from query_attempts_spec [OF _ rn] have H: "0 < n" "n \<le> Suc retry" "r = outs (n - 1)"
    "\<forall>j \<in> {0..<n - 1}. outs j = None" "r = None \<longrightarrow> n = Suc retry" by blast+
  show ?thesis
  proof (cases "\<exists>i \<le> retry. outs i \<noteq> None")
    case True
    then obtain i where i: "i \<le> retry" "outs i \<noteq> None" by blast
    have some: "r \<noteq> None"
    proof
      assume r: "r = None"
      with H(5) have n: "n = Suc retry" by (rule mp)
      have "outs j = None" if "j \<le> retry" for j
      proof (cases "j = retry")
        case True
        from n H(3) r have "outs retry = None" by simp
        with True show ?thesis by simp
      next
        case False
        with that n have "j \<in> {0..<n - 1}" by simp
        with H(4) show ?thesis by simp
      qed
      from this [OF i(1)] i(2) show False by simp
    qed
    have "(LEAST i. outs i \<noteq> None) = n - 1"
    proof (rule Least_equality)
      show "outs (n - 1) \<noteq> None" using some H(3) by simp
    next
      fix y
      assume "outs y \<noteq> None"
      with H(4) show "n - 1 \<le> y" by (meson atLeastLessThan_iff le0 not_le)
    qed
    with True H(3) show ?thesis by simp
  next
    case False
    from H(2) have "n - 1 \<le> retry" by simp
    with False H(3) have "r = None" by simp
    then show ?thesis by (simp only: if_not_P [OF False])
  qed
qed

lemma useAccountBalance_same_state:
  "useAccountBalance addr fetches = stats_balance_query addr fetches"
proof (cases "addr \<noteq> None \<and> addr \<noteq> Some []")
  case True
  then show ?thesis
    by (simp add: useAccountBalance_def stats_balance_query_def query_run_resolving last_map)
next
  case False
  then show ?thesis by (auto simp: useAccountBalance_def stats_balance_query_def query_run_def)
qed

section \<open>Properties\<close>

text \<open>
  The query's retry loop terminates: the query function is called at most
  \<open>retry + 1\<close> times, and the fetch ends with the first answer that resolved,
  or with an error when all \<open>retry + 1\<close> calls rejected.
\<close>

theorem query_attempts_settles:
  "snd (query_attempts retry outs 0) \<le> Suc retry
   \<and> fst (query_attempts retry outs 0)
       = (if \<exists>i \<le> retry. outs i \<noteq> None then outs (LEAST i. outs i \<noteq> None) else None)"
proof -
  obtain r n where rn: "query_attempts retry outs 0 = (r, n)" by fastforce
  from query_attempts_spec [OF _ rn] have "n \<le> Suc retry" by blast
  with rn query_attempts_first_answer [OF rn] show ?thesis by simp
qed

text \<open>
  C26. The Total Supply card of \<open>StatsOverview\<close>, for a connected address, shows
  "Loading..." before the first fetch and afterwards the last fetch's balance with
  " XLC". \<open>getXLCBalance\<close> answers \<open>'0'\<close> when \<open>balanceOf\<close> rejects, so the
  query never fails: a failed read shows "0 XLC" and the "N/A" branch is never taken.
\<close>

theorem stats_total_supply_connected:
  "a \<noteq> [] \<Longrightarrow>
   sc_value (hd (StatsOverview (Some a) fetches))
   = (if fetches = [] then ''Loading...'' else getXLCBalance (last fetches 0) @ '' XLC'')"
  by (simp add: StatsOverview_def stats_total_supply_def stats_balance_query_connected
      query_isLoading_def q_isLoading_def getXLCBalance_nonempty Let_def)

theorem stats_total_supply_connected_witness:
  "sc_value (hd (StatsOverview (Some ''0xA1'') [\<lambda>_. None])) = ''0 XLC''"
  using stats_total_supply_connected [of "''0xA1''" "[\<lambda>_. None]"] by (simp add: getXLCBalance_def)

text \<open>
  C21. The library's \<open>connectWallet\<close> and the wallet hook's agree: when the
  provider reports a chain other than BNB Smart Chain (or the switch request
  succeeds), the library throws exactly the error the hook stores, and otherwise
  returns the address the hook stores.
\<close>

theorem lib_connect_agrees_hook:
  "ans_chainId ans = Inr cid \<Longrightarrow> parseInt16 cid \<noteq> Some BSC_CHAIN_ID \<or> ans_switch ans = None \<Longrightarrow>
   lib_connectWallet True ans
   = (case error (connectWallet True ans st) of
        Some e \<Rightarrow> Inl e
      | None \<Rightarrow> Inr (address (connectWallet True ans st)))"
  by (auto simp: lib_connectWallet_def connectWallet_def Let_def
      split: sum.split option.split)

theorem lib_connect_agrees_hook_witness:
  "lib_connectWallet True \<lparr>ans_accounts = Inr [''0xA1''], ans_chainId = Inr ''0x1'', ans_switch = None,
       ans_add = None\<rparr> = Inr (Some ''0xA1'')"
proof -
  have "ans_switch \<lparr>ans_accounts = Inr [''0xA1''], ans_chainId = Inr ''0x1'', ans_switch = None,
       ans_add = None\<rparr> = None" by simp
  from lib_connect_agrees_hook [of _ "''0x1''", OF _ disjI2 [OF this], of initialState]
  show ?thesis by (simp add: connectWallet_def Let_def first_account_def initialState_def)
qed

end
