(* ===== verification/Users.thy ===== *)
theory Users
  imports Prelude "HOL-Library.Sublist" "HOL-Library.List_Lexorder" "HOL-Library.Char_ord"
begin

text \<open>
  The Users page (\<open>src/src/pages/Users\<close>) and the user statistics of
  \<open>services/dashboardService.ts\<close> and \<open>pages/Dashboard/api/stats.ts\<close>.
  \<open>fetchUsers\<close> reads the \<open>users\<close> node, through an \<open>equalTo\<close> query on
  \<open>status\<close> when a status is selected, spreads each stored record after its key,
  and filters by a search term; \<open>useUserFilters\<close> and the \<open>UserFilters\<close>
  controls hold the filters, and the page keeps one query per filter value.
  Firebase's query contract is modelled by the order of child values of the
  Realtime Database (\<open>null\<close>, then booleans, numbers and strings), a linear order
  on \<open>fb_val\<close>; \<open>startAt(v)\<close> and \<open>endAt(v)\<close> keep the children whose value
  lies at or above, at or below \<open>v\<close>. A stored user is what the database holds:
  every field may be absent. \<open>toLowerCase\<close> is taken on ASCII letters.
\<close>

section \<open>Firebase child values and their order\<close>

datatype fb_val = FNull | FBool bool | FNum real | FStr string

fun fb_rank :: "fb_val \<Rightarrow> nat" where
  "fb_rank FNull = 0"
| "fb_rank (FBool _) = 1"
| "fb_rank (FNum _) = 2"
| "fb_rank (FStr _) = 3"

instantiation fb_val :: linorder
begin

fun less_eq_fb_val :: "fb_val \<Rightarrow> fb_val \<Rightarrow> bool" where
  "less_eq_fb_val (FBool a) (FBool b) \<longleftrightarrow> a \<le> b"
| "less_eq_fb_val (FNum a) (FNum b) \<longleftrightarrow> a \<le> b"
| "less_eq_fb_val (FStr a) (FStr b) \<longleftrightarrow> a \<le> b"
| "less_eq_fb_val a b \<longleftrightarrow> fb_rank a \<le> fb_rank b \<and> (fb_rank a = fb_rank b \<longrightarrow> a = FNull)"

definition less_fb_val :: "fb_val \<Rightarrow> fb_val \<Rightarrow> bool" where
  "less_fb_val a b \<longleftrightarrow> a \<le> b \<and> \<not> b \<le> a"

instance
proof
  fix x y z :: fb_val
  show "x < y \<longleftrightarrow> x \<le> y \<and> \<not> y \<le> x" by (simp add: less_fb_val_def)
  show "x \<le> x" by (cases x) simp_all
  show "x \<le> y \<Longrightarrow> y \<le> z \<Longrightarrow> x \<le> z" by (cases x; cases y; cases z) auto
  show "x \<le> y \<Longrightarrow> y \<le> x \<Longrightarrow> x = y" by (cases x; cases y) auto
  show "x \<le> y \<or> y \<le> x" by (cases x; cases y) auto
qed

end

section \<open>Users\<close>

text \<open>A stored user record; \<open>None\<close> marks an absent field.\<close>

record user_data =
  ud_id :: "string option"
  ud_email :: "string option"
  ud_walletAddress :: "string option"
  ud_balance :: "string option"
  ud_status :: "string option"
  ud_createdAt :: fb_val

text \<open>The \<open>User\<close> of \<open>types/user.ts\<close> as \<open>fetchUsers\<close> builds it.\<close>

record user =
  user_id :: string
  email :: "string option"
  walletAddress :: "string option"
  balance :: "string option"
  user_status :: "string option"

text \<open>\<open>{id, ...data}\<close>: a stored \<open>id\<close> field overrides the key.\<close>

definition spread_user :: "string \<Rightarrow> user_data \<Rightarrow> user" where
  "spread_user k d =
     \<lparr>user_id = (case ud_id d of Some i \<Rightarrow> i | None \<Rightarrow> k), email = ud_email d,
      walletAddress = ud_walletAddress d, balance = ud_balance d, user_status = ud_status d\<rparr>"

record user_filters =
  search :: string
  status :: string

definition defaultFilters :: user_filters where
  "defaultFilters = \<lparr>search = '''', status = ''''\<rparr>"

text \<open>\<open>String.prototype.toLowerCase\<close> and \<open>includes\<close>.\<close>

definition ascii_lower :: "char \<Rightarrow> char" where
  "ascii_lower c = (if 65 \<le> (of_char c :: nat) \<and> (of_char c :: nat) \<le> 90 then char_of (of_char c + 32 :: nat) else c)"

definition js_toLowerCase :: "string \<Rightarrow> string" where
  "js_toLowerCase s = map ascii_lower s"

definition js_includes :: "string \<Rightarrow> string \<Rightarrow> bool" where
  "js_includes s t \<longleftrightarrow> sublist t s"

text \<open>
  The search predicate: \<open>undefined.toLowerCase()\<close> throws (\<open>None\<close>); the
  wallet address is read only when the e-mail does not match.
\<close>

definition user_matches :: "string \<Rightarrow> user \<Rightarrow> bool option" where
  "user_matches q u =
     (case email u of
        None \<Rightarrow> None
      | Some e \<Rightarrow>
          if js_includes (js_toLowerCase e) (js_toLowerCase q) then Some True
          else (case walletAddress u of
                  None \<Rightarrow> None
                | Some w \<Rightarrow> Some (js_includes (js_toLowerCase w) (js_toLowerCase q))))"

text \<open>\<open>Array.prototype.filter\<close> with a predicate that may throw.\<close>

fun js_filter_throw :: "('a \<Rightarrow> bool option) \<Rightarrow> 'a list \<Rightarrow> 'a list option" where
  "js_filter_throw p [] = Some []"
| "js_filter_throw p (x # xs) =
     (case p x of
        None \<Rightarrow> None
      | Some b \<Rightarrow> map_option (\<lambda>ys. if b then x # ys else ys) (js_filter_throw p xs))"

text \<open>\<open>query(usersRef, orderByChild('status'), equalTo(s))\<close>.\<close>

definition status_query :: "string \<Rightarrow> user_data js_object \<Rightarrow> user_data js_object" where
  "status_query s node = filter (\<lambda>(_, d). ud_status d = Some s) node"

text \<open>
  \<open>fetchUsers(filters)\<close>. \<open>signed_in\<close> is \<open>auth.currentUser\<close> being set;
  \<open>node\<close> is the answer of \<open>get\<close> (\<open>None\<close>: it rejected), an empty node
  being a snapshot that does not exist. Every exception is caught and gives \<open>[]\<close>.
\<close>

definition fetchUsers :: "bool \<Rightarrow> user_data js_object option \<Rightarrow> user_filters \<Rightarrow> user list" where
  "fetchUsers signed_in node filters =
     (if \<not> signed_in then []
      else (case node of
              None \<Rightarrow> []
            | Some n \<Rightarrow>
                (let users = map (\<lambda>(k, d). spread_user k d)
                               (if status filters \<noteq> [] then status_query (status filters) n else n)
                 in if search filters \<noteq> [] then
                      (case js_filter_throw (user_matches (search filters)) users of
                         None \<Rightarrow> [] | Some us \<Rightarrow> us)
                    else users)))"

section \<open>The filters and the page\<close>

text \<open>The \<open>UserFilters\<close> controls: each \<open>onChange\<close> spreads the filters and sets one field.\<close>

definition search_changed :: "string \<Rightarrow> user_filters \<Rightarrow> user_filters" where
  "search_changed v f = f\<lparr>search := v\<rparr>"

definition status_changed :: "string \<Rightarrow> user_filters \<Rightarrow> user_filters" where
  "status_changed v f = f\<lparr>status := v\<rparr>"

definition status_options :: "(string \<times> string) list" where
  "status_options = [('''', ''All Status''), (''active'', ''Active''), (''suspended'', ''Suspended'')]"

text \<open>
  The page: the filters of \<open>useUserFilters\<close> and the query cache of
  \<open>useQuery(['users', filters])\<close>, one entry per filter value that was fetched.
  A fetch runs for the filters current when it started and its result is stored
  under that key.
\<close>

record users_page =
  up_filters :: user_filters
  up_queries :: "(user_filters \<times> user list) list"

definition users_page_init :: users_page where
  "users_page_init = \<lparr>up_filters = defaultFilters, up_queries = []\<rparr>"

datatype users_event =
    SearchInput string
  | StatusSelect string
  | UsersFetched user_filters bool "user_data js_object option"

fun users_step :: "users_page \<Rightarrow> users_event \<Rightarrow> users_page" where
  "users_step s (SearchInput v) = s\<lparr>up_filters := search_changed v (up_filters s)\<rparr>"
| "users_step s (StatusSelect v) = s\<lparr>up_filters := status_changed v (up_filters s)\<rparr>"
| "users_step s (UsersFetched f signed_in node) =
     s\<lparr>up_queries := AList.update f (fetchUsers signed_in node f) (up_queries s)\<rparr>"

definition users_run :: "users_event list \<Rightarrow> users_page" where
  "users_run evs = foldl users_step users_page_init evs"

text \<open>What the page passes to \<open>UserList\<close>: \<open>users\<close> (\<open>None\<close>: undefined) and \<open>isLoading\<close>.\<close>

definition users_list_props :: "users_page \<Rightarrow> user list option \<times> bool" where
  "users_list_props s =
     (case map_of (up_queries s) (up_filters s) of Some us \<Rightarrow> (Some us, False) | None \<Rightarrow> (None, True))"

record user_row =
  ur_email :: string
  ur_id :: string
  ur_wallet :: string
  ur_balance :: string
  ur_badge_active :: bool
  ur_status :: string

text \<open>\<open>UserRow\<close>: an undefined field renders as nothing.\<close>

definition user_row :: "user \<Rightarrow> user_row" where
  "user_row u =
     \<lparr>ur_email = (case email u of Some e \<Rightarrow> e | None \<Rightarrow> ''''), ur_id = ''ID: '' @ user_id u,
      ur_wallet = (case walletAddress u of Some w \<Rightarrow> w | None \<Rightarrow> ''''),
      ur_balance = (case balance u of Some b \<Rightarrow> b | None \<Rightarrow> '''') @ '' XLC'',
      ur_badge_active = (user_status u = Some ''active''),
      ur_status = (case user_status u of Some t \<Rightarrow> t | None \<Rightarrow> '''')\<rparr>"

section \<open>User statistics\<close>

text \<open>\<open>query(node, orderByChild(c), startAt(v))\<close> and \<open>endAt(v)\<close>.\<close>

definition start_at :: "('v \<Rightarrow> fb_val) \<Rightarrow> fb_val \<Rightarrow> 'v js_object \<Rightarrow> 'v js_object" where
  "start_at c v node = filter (\<lambda>(_, x). v \<le> c x) node"

definition end_at :: "('v \<Rightarrow> fb_val) \<Rightarrow> fb_val \<Rightarrow> 'v js_object \<Rightarrow> 'v js_object" where
  "end_at c v node = filter (\<lambda>(_, x). c x \<le> v) node"

record fb_tx =
  ftx_timestamp :: fb_val
  ftx_fromAddress :: "string option"
  ftx_toAddress :: "string option"

record user_stats =
  totalUsers :: nat
  activeUsers :: nat
  newUsers :: nat
  change :: js_number

text \<open>
  The addresses one transaction adds to \<open>activeUserSet\<close>: \<open>fromAddress\<close> always
  (\<open>undefined\<close> included), \<open>toAddress\<close> when it is a non-empty string.
\<close>

definition tx_addresses :: "fb_tx \<Rightarrow> string option list" where
  "tx_addresses t =
     ftx_fromAddress t # (case ftx_toAddress t of Some a \<Rightarrow> if a \<noteq> [] then [Some a] else [] | None \<Rightarrow> [])"

text \<open>\<open>fetchUserStats()\<close>; \<open>since\<close> is \<open>thirtyDaysAgo.getTime()\<close>.\<close>

definition fetchUserStats :: "real \<Rightarrow> user_data js_object \<Rightarrow> fb_tx js_object \<Rightarrow> user_stats" where
  "fetchUserStats since users txs =
     (let total = length users;
          new = length (start_at ud_createdAt (FNum since) users);
          active = remdups (concat (map (tx_addresses \<circ> snd) (start_at ftx_timestamp (FNum since) txs)))
      in \<lparr>totalUsers = total, activeUsers = length active, newUsers = new,
          change = (if 0 < total then real new / real total * 100 else 0)\<rparr>)"

definition fetchActiveUsers :: "user_data js_object \<Rightarrow> nat \<times> js_number" where
  "fetchActiveUsers users = (length users, 5.2)"

text \<open>\<open>fetchDailyTransactions()\<close>; \<open>today\<close> is local midnight, \<open>now\<close> is \<open>Date.now()\<close>.\<close>

definition fetchDailyTransactions :: "real \<Rightarrow> real \<Rightarrow> fb_tx js_object \<Rightarrow> nat \<times> js_number" where
  "fetchDailyTransactions today now txs =
     (length (end_at ftx_timestamp (FNum now) (start_at ftx_timestamp (FNum today) txs)), -1.5)"

text \<open>The \<open>User\<close> type of \<open>types/user.ts\<close>: every field present, a declared status.\<close>

definition user_data_typed :: "user_data \<Rightarrow> bool" where
  "user_data_typed d \<longleftrightarrow>
     ud_email d \<noteq> None \<and> ud_walletAddress d \<noteq> None \<and> ud_balance d \<noteq> None
     \<and> ud_status d \<in> {Some ''active'', Some ''suspended''}"

definition user_typed :: "user \<Rightarrow> bool" where
  "user_typed u \<longleftrightarrow>
     email u \<noteq> None \<and> walletAddress u \<noteq> None \<and> balance u \<noteq> None
     \<and> user_status u \<in> {Some ''active'', Some ''suspended''}"

text \<open>The search on typed users, as a predicate that cannot throw.\<close>

definition matches_search :: "string \<Rightarrow> user \<Rightarrow> bool" where
  "matches_search q u \<longleftrightarrow>
     js_includes (js_toLowerCase (the (email u))) (js_toLowerCase q)
     \<or> js_includes (js_toLowerCase (the (walletAddress u))) (js_toLowerCase q)"

text \<open>What a listed user satisfies for the filters its query ran with.\<close>

definition listed_ok :: "user_filters \<Rightarrow> user \<Rightarrow> bool" where
  "listed_ok f u \<longleftrightarrow>
     (status f \<noteq> [] \<longrightarrow> user_status u = Some (status f))
     \<and> (search f \<noteq> [] \<longrightarrow> user_matches (search f) u = Some True)"

text \<open>Sample stored records: a user of the declared type, and one without e-mail.\<close>

definition user_alice :: user_data where
  "user_alice = \<lparr>ud_id = None, ud_email = Some ''Alice@xlc.io'', ud_walletAddress = Some ''0xA1'',
                  ud_balance = Some ''10'', ud_status = Some ''active'', ud_createdAt = FStr ''2024-05-01''\<rparr>"

definition user_no_email :: user_data where
  "user_no_email = \<lparr>ud_id = None, ud_email = None, ud_walletAddress = Some ''0xB2'',
                     ud_balance = None, ud_status = Some ''active'', ud_createdAt = FNull\<rparr>"

section \<open>Lemmas\<close>

lemma js_filter_throw_eq:
  "js_filter_throw p xs = (if list_all (\<lambda>x. p x \<noteq> None) xs then Some (filter (\<lambda>x. p x = Some True) xs) else None)"
  by (induction xs) (auto split: option.splits)

lemma js_filter_throw_subset: "js_filter_throw p xs = Some ys \<Longrightarrow> y \<in> set ys \<Longrightarrow> y \<in> set xs \<and> p y = Some True"
  by (auto simp: js_filter_throw_eq split: if_splits)

lemma user_matches_typed: "user_typed u \<Longrightarrow> user_matches q u = Some (matches_search q u)"
  by (auto simp: user_matches_def user_typed_def matches_search_def)

lemma spread_user_typed [simp]: "user_typed (spread_user k d) \<longleftrightarrow> user_data_typed d"
  by (simp add: spread_user_def user_typed_def user_data_typed_def)

lemma spread_user_status [simp]: "user_status (spread_user k d) = ud_status d"
  by (simp add: spread_user_def)

lemma spread_user_email [simp]: "email (spread_user k d) = ud_email d"
  by (simp add: spread_user_def)

lemma status_query_map:
  "map (\<lambda>(k, d). spread_user k d) (status_query s n)
   = filter (\<lambda>u. user_status u = Some s) (map (\<lambda>(k, d). spread_user k d) n)"
  by (induction n) (auto simp: status_query_def)

lemma fetchUsers_subset:
  "u \<in> set (fetchUsers signed_in node f) \<Longrightarrow> \<exists>n. node = Some n \<and> u \<in> (\<lambda>(k, d). spread_user k d) ` set n"
  by (auto simp: fetchUsers_def Let_def status_query_map dest!: js_filter_throw_subset split: option.splits if_splits)

lemma fetchUsers_listed_ok: "u \<in> set (fetchUsers signed_in node f) \<Longrightarrow> listed_ok f u"
  by (auto simp: fetchUsers_def Let_def status_query_map listed_ok_def dest!: js_filter_throw_subset
      split: option.splits if_splits)

lemma users_queries_ok:
  "\<forall>(f, us) \<in> set (up_queries (users_run evs)). \<forall>u \<in> set us. listed_ok f u"
proof (induction evs rule: rev_induct)
  case Nil
  then show ?case by (simp add: users_run_def users_page_init_def)
next
  case (snoc e evs)
  then show ?case
    by (cases e) (auto simp: users_run_def search_changed_def status_changed_def fetchUsers_listed_ok
        dest!: set_update_subset [THEN subsetD])
qed

lemma fb_num_le_str [simp]: "FNum x \<le> FStr s"
  by simp

lemma fb_num_le_rank3: "fb_rank v = 3 \<Longrightarrow> FNum x \<le> v"
  by (cases v) simp_all

lemma js_filter_throw_typed:
  "\<forall>u \<in> set us. user_typed u \<Longrightarrow> js_filter_throw (user_matches q) us = Some (filter (matches_search q) us)"
  by (induction us) (auto simp: user_matches_typed)

lemma start_at_length: "length (start_at c v node) \<le> length node"
  by (simp add: start_at_def)

text \<open>
  C28. Whatever the sequence of filter changes and query answers, every user the
  Users page hands to its list has the selected status and matches the search term
  of the filters currently shown: an answer is cached under the filters it was
  fetched for.
\<close>

theorem users_page_lists_match:
  assumes "fst (users_list_props (users_run evs)) = Some us" "u \<in> set us"
  shows "(status (up_filters (users_run evs)) \<noteq> [] \<longrightarrow> user_status u = Some (status (up_filters (users_run evs))))
         \<and> (search (up_filters (users_run evs)) \<noteq> [] \<longrightarrow>
              user_matches (search (up_filters (users_run evs))) u = Some True)"
proof -
  have "(up_filters (users_run evs), us) \<in> set (up_queries (users_run evs))"
    using assms(1) by (auto simp: users_list_props_def split: option.splits dest: map_of_SomeD)
  with users_queries_ok [of evs] assms(2) show ?thesis
    by (fastforce simp: listed_ok_def)
qed

text \<open>
  C29. On records of the declared \<open>User\<close> type, \<open>fetchUsers\<close> returns, in the
  node's order, exactly the users with the selected status (any, for \<open>''''\<close>)
  whose e-mail or wallet address contains the search term, ignoring ASCII case.
\<close>

theorem fetchUsers_filters:
  assumes "list_all (user_data_typed \<circ> snd) n"
  shows "fetchUsers True (Some n) f
         = filter (\<lambda>u. (status f = [] \<or> user_status u = Some (status f))
                      \<and> (search f = [] \<or> matches_search (search f) u))
                  (map (\<lambda>(k, d). spread_user k d) n)"
proof -
  have typed: "\<forall>u \<in> set (map (\<lambda>(k, d). spread_user k d) n). user_typed u"
    using assms by (auto simp: list_all_iff)
  then have "js_filter_throw (user_matches (search f)) (filter P (map (\<lambda>(k, d). spread_user k d) n))
             = Some (filter (matches_search (search f)) (filter P (map (\<lambda>(k, d). spread_user k d) n)))" for P
    by (intro js_filter_throw_typed) auto
  with typed show ?thesis
    by (cases "status f = []"; cases "search f = []")
       (simp_all add: fetchUsers_def Let_def status_query_map js_filter_throw_typed filter_filter conj_commute)
qed

text \<open>
  C30. With a search term, one stored user that passes the status query but has no
  \<open>email\<close> field makes \<open>fetchUsers\<close> return no users at all: \<open>toLowerCase\<close> of
  \<open>undefined\<close> throws inside \<open>filter\<close> and the \<open>catch\<close> answers \<open>[]\<close>.
\<close>

theorem fetchUsers_missing_email_empty:
  assumes "search f \<noteq> []" "(k, d) \<in> set n" "status f = [] \<or> ud_status d = Some (status f)"
    "ud_email d = None"
  shows "fetchUsers signed_in (Some n) f = []"
proof -
  have "spread_user k d \<in> set (map (\<lambda>(k, d). spread_user k d) (if status f \<noteq> [] then status_query (status f) n else n))"
    using assms(2,3) by (force simp: status_query_def)
  moreover have "user_matches (search f) (spread_user k d) = None"
    using assms(4) by (simp add: user_matches_def)
  ultimately have "\<not> list_all (\<lambda>u. user_matches (search f) u \<noteq> None)
          (map (\<lambda>(k, d). spread_user k d) (if status f \<noteq> [] then status_query (status f) n else n))"
    by (fastforce simp: list_all_iff)
  then show ?thesis
    using assms(1) by (simp add: fetchUsers_def Let_def js_filter_throw_eq)
qed

text \<open>
  \<open>fetchUsers\<close> hands the page only values of the declared \<open>User\<close> type when
  the stored records have it, whatever the filters, the sign-in state and the
  database's answer.
\<close>

theorem fetchUsers_typed:
  assumes "pred_option (list_all (user_data_typed \<circ> snd)) node"
  shows "list_all user_typed (fetchUsers signed_in node f)"
  using assms by (fastforce simp: list_all_iff dest: fetchUsers_subset)

text \<open>
  \<open>fetchUserStats\<close> counts every user as new when \<open>createdAt\<close> is the string
  \<open>types/user.ts\<close> declares: Firebase orders strings after numbers, so
  \<open>startAt(thirtyDaysAgo.getTime())\<close> keeps them all and the change is 100\%.
\<close>

theorem fetchUserStats_string_createdAt:
  assumes "users \<noteq> []" "list_all (\<lambda>(_, d). fb_rank (ud_createdAt d) = 3) users"
  shows "newUsers (fetchUserStats since users txs) = totalUsers (fetchUserStats since users txs)
         \<and> change (fetchUserStats since users txs) = 100"
proof -
  have "\<forall>x \<in> set users. FNum since \<le> ud_createdAt (snd x)"
    using assms(2) by (auto simp: list_all_iff fb_num_le_rank3)
  then have "start_at ud_createdAt (FNum since) users = users"
    by (simp add: start_at_def filter_id_conv split_beta)
  with assms(1) show ?thesis by (simp add: fetchUserStats_def Let_def)
qed

lemma fetchUserStats_change_bounds:
  "0 \<le> change (fetchUserStats since users txs) \<and> change (fetchUserStats since users txs) \<le> 100"
proof -
  have "real (length (start_at ud_createdAt (FNum since) users)) \<le> real (length users)"
    using start_at_length by simp
  then show ?thesis by (auto simp: fetchUserStats_def Let_def divide_le_eq)
qed

theorem users_page_lists_match_witness:
  "fst (users_list_props (users_run [StatusSelect ''active'',
      UsersFetched \<lparr>search = '''', status = ''active''\<rparr> True (Some [(''k1'', user_alice), (''k2'', user_no_email)])]))
     = Some [spread_user ''k1'' user_alice, spread_user ''k2'' user_no_email]
   \<and> user_status (spread_user ''k2'' user_no_email) = Some ''active''"
proof -
  have h: "fst (users_list_props (users_run [StatusSelect ''active'',
      UsersFetched \<lparr>search = '''', status = ''active''\<rparr> True (Some [(''k1'', user_alice), (''k2'', user_no_email)])]))
     = Some [spread_user ''k1'' user_alice, spread_user ''k2'' user_no_email]"
    by (simp add: users_run_def users_page_init_def defaultFilters_def status_changed_def users_list_props_def
        fetchUsers_def status_query_def user_alice_def user_no_email_def)
  from users_page_lists_match [OF h, of "spread_user ''k2'' user_no_email"] h show ?thesis
    by (simp add: users_run_def users_page_init_def defaultFilters_def status_changed_def)
qed

theorem fetchUsers_filters_witness:
  "fetchUsers True (Some [(''k1'', user_alice)]) \<lparr>search = '''', status = ''suspended''\<rparr> = []"
  using fetchUsers_filters [of "[(''k1'', user_alice)]" "\<lparr>search = '''', status = ''suspended''\<rparr>"]
  by (simp add: user_data_typed_def user_alice_def spread_user_def)

theorem fetchUsers_missing_email_empty_witness:
  "fetchUsers True (Some [(''k1'', user_alice), (''k2'', user_no_email)]) \<lparr>search = ''ali'', status = ''''\<rparr> = []"
  using fetchUsers_missing_email_empty [of "\<lparr>search = ''ali'', status = ''''\<rparr>" "''k2''" user_no_email
      "[(''k1'', user_alice), (''k2'', user_no_email)]" True]
  by (simp add: user_no_email_def)

theorem fetchUsers_typed_witness:
  "list_all user_typed (fetchUsers True (Some [(''k1'', user_alice)]) defaultFilters)"
  using fetchUsers_typed [of "Some [(''k1'', user_alice)]" True defaultFilters]
  by (simp add: user_data_typed_def user_alice_def)

theorem fetchUserStats_string_createdAt_witness:
  "change (fetchUserStats 1714521600000 [(''k1'', user_alice)] []) = 100"
  using fetchUserStats_string_createdAt [of "[(''k1'', user_alice)]" 1714521600000 "[]"]
  by (simp add: user_alice_def)

end
