(* ===== verification/Deploy.thy ===== *)
theory Deploy
  imports Json Rewards Users
begin

text \<open>
  The contract deployment page (\<open>src/src/pages/Deploy\<close>). Its data types are
  those of \<open>types.ts\<close>. The contract dashboard tab (\<open>ContractDashboard.tsx\<close>)
  mounts the template selector (\<open>TemplateSelector.tsx\<close>), the parameter form
  (\<open>ParameterConfig.tsx\<close>, rendered for the selected template) and the deployment
  list. All three are composed here as one step function \<open>deploy_step\<close> over
  their joint state. The parameter form's state lives as long as the dashboard,
  because React reuses the component when another template is selected. The
  regular-expression test \<open>new RegExp(pattern).test(value)\<close> is the parameter
  \<open>rx\<close>. The browser validates the \<open>min\<close>, \<open>max\<close> and \<open>pattern\<close>
  attributes of the form's inputs before a submission reaches \<open>handleSubmit\<close>;
  the \<open>step\<close> attribute is not modelled. The security controls and the contract
  registry are local state with a toggle and a search.
\<close>

section \<open>Data\<close>

datatype param_type = PTString | PTNumber | PTBoolean | PTAddress | PTArray

record param_validation =
  v_min :: "real option"
  v_max :: "real option"
  v_pattern :: "string option"

record contract_parameter =
  cp_name :: string
  cp_type :: param_type
  cp_description :: string
  cp_required :: bool
  cp_validation :: "param_validation option"

record contract_template =
  ct_id :: string
  ct_name :: string
  ct_description :: string
  ct_category :: string
  ct_version :: string
  ct_parameters :: "contract_parameter list"

datatype deploy_state = Pending | Deploying | Success | Failed

record deployment_status =
  ds_id :: string
  ds_contractName :: string
  ds_status :: deploy_state
  ds_address :: "string option"
  ds_txHash :: "string option"
  ds_timestamp :: string
  ds_error :: "string option"

section \<open>Parameter values and their validation\<close>

text \<open>
  A value held in \<open>parameters\<close>: a string, a number (\<open>None\<close> is \<open>NaN\<close>), a
  boolean or an array of lines. An absent key is \<open>undefined\<close>.
\<close>

datatype param_value = PStr string | PNum "real option" | PBool bool | PArr "string list"

text \<open>JavaScript truthiness, as \<open>!value\<close> tests it.\<close>

fun js_truthy :: "param_value option \<Rightarrow> bool" where
  "js_truthy None = False"
| "js_truthy (Some (PStr s)) = (s \<noteq> [])"
| "js_truthy (Some (PNum x)) = (case x of Some r \<Rightarrow> r \<noteq> 0 | None \<Rightarrow> False)"
| "js_truthy (Some (PBool b)) = b"
| "js_truthy (Some (PArr _)) = True"

datatype param_error = ErrRequired | ErrAtLeast real | ErrAtMost real | ErrFormat

fun param_error_text :: "(real \<Rightarrow> string) \<Rightarrow> param_error \<Rightarrow> string" where
  "param_error_text fmt ErrRequired = ''This field is required''"
| "param_error_text fmt (ErrAtLeast m) = ''Value must be at least '' @ fmt m"
| "param_error_text fmt (ErrAtMost m) = ''Value must be at most '' @ fmt m"
| "param_error_text fmt ErrFormat = ''Invalid format''"

text \<open>
  \<open>validateParameter(param, value)\<close>. The range checks apply to numbers
  (comparisons with \<open>NaN\<close> are false), and the pattern applies to strings when it
  is a non-empty string.
\<close>

definition validateParameter ::
  "(string \<Rightarrow> string \<Rightarrow> bool) \<Rightarrow> contract_parameter \<Rightarrow> param_value option \<Rightarrow> param_error option" where
  "validateParameter rx p v =
     (if cp_required p \<and> \<not> js_truthy v then Some ErrRequired
      else (case cp_validation p of
              None \<Rightarrow> None
            | Some c \<Rightarrow>
                (case v of
                   Some (PNum (Some x)) \<Rightarrow>
                     (let max_check = (case v_max c of Some m \<Rightarrow> if m < x then Some (ErrAtMost m) else None
                                                     | None \<Rightarrow> None)
                      in case v_min c of Some m \<Rightarrow> if x < m then Some (ErrAtLeast m) else max_check
                                       | None \<Rightarrow> max_check)
                 | Some (PStr s) \<Rightarrow>
                     (case v_pattern c of
                        Some pat \<Rightarrow> if pat \<noteq> [] \<and> \<not> rx pat s then Some ErrFormat else None
                      | None \<Rightarrow> None)
                 | _ \<Rightarrow> None)))"

text \<open>\<open>String.prototype.split('\n')\<close>.\<close>

fun js_split :: "char \<Rightarrow> string \<Rightarrow> string list" where
  "js_split c [] = [[]]"
| "js_split c (x # xs) = (if x = c then [] # js_split c xs else (let r = js_split c xs in (x # hd r) # tl r))"

abbreviation newline :: char where
  "newline \<equiv> CHR 0x0A"

text \<open>What a control passes to \<open>handleChange\<close>: its text, or for the textarea its lines.\<close>

datatype raw_input = RawStr string | RawArr "string list"

definition param_control_input :: "contract_parameter \<Rightarrow> string \<Rightarrow> raw_input" where
  "param_control_input p s = (if cp_type p = PTArray then RawArr (js_split newline s) else RawStr s)"

text \<open>
  The conversion in \<open>handleChange\<close>: a number input delivers \<open>''''\<close> or a valid
  floating-point number, which \<open>Number\<close> reads as \<open>parseFloat\<close> does. A number
  parameter never receives an array (only the textarea of an array parameter
  sends one); that case gives \<open>NaN\<close>.
\<close>

definition parse_input :: "contract_parameter \<Rightarrow> raw_input \<Rightarrow> param_value" where
  "parse_input p v =
     (case cp_type p of
        PTNumber \<Rightarrow> (case v of RawStr s \<Rightarrow> if s = [] then PStr [] else PNum (parseFloat s) | RawArr _ \<Rightarrow> PNum None)
      | PTBoolean \<Rightarrow> PBool (v = RawStr ''true'')
      | _ \<Rightarrow> (case v of RawStr s \<Rightarrow> PStr s | RawArr xs \<Rightarrow> PArr xs))"

record pc_state =
  pc_parameters :: "param_value js_object"
  pc_errors :: "param_error js_object"

definition pc_init :: pc_state where
  "pc_init = \<lparr>pc_parameters = [], pc_errors = []\<rparr>"

definition handleChange ::
  "(string \<Rightarrow> string \<Rightarrow> bool) \<Rightarrow> contract_parameter \<Rightarrow> raw_input \<Rightarrow> pc_state \<Rightarrow> pc_state" where
  "handleChange rx p v st =
     (let pv = parse_input p v
      in \<lparr>pc_parameters = AList.update (cp_name p) pv (pc_parameters st),
          pc_errors = (case validateParameter rx p (Some pv) of
                         Some e \<Rightarrow> AList.update (cp_name p) e (pc_errors st)
                       | None \<Rightarrow> AList.delete (cp_name p) (pc_errors st))\<rparr>)"

text \<open>The \<open>forEach\<close> of \<open>handleSubmit\<close>, collecting \<open>newErrors\<close>.\<close>

definition submit_errors ::
  "(string \<Rightarrow> string \<Rightarrow> bool) \<Rightarrow> contract_template \<Rightarrow> param_value js_object \<Rightarrow> param_error js_object" where
  "submit_errors rx t ps =
     foldl (\<lambda>es p. case validateParameter rx p (map_of ps (cp_name p)) of
                     Some e \<Rightarrow> AList.update (cp_name p) e es | None \<Rightarrow> es) [] (ct_parameters t)"

text \<open>The new state, the toast, and the argument of \<open>onDeploy\<close> when it is called.\<close>

definition handleSubmit ::
  "(string \<Rightarrow> string \<Rightarrow> bool) \<Rightarrow> contract_template \<Rightarrow> pc_state
   \<Rightarrow> pc_state \<times> string option \<times> param_value js_object option" where
  "handleSubmit rx t st =
     (let errs = submit_errors rx t (pc_parameters st)
      in if errs \<noteq> [] then (st\<lparr>pc_errors := errs\<rparr>, Some ''Please fix the errors before deploying'', None)
         else (st, None, Some (pc_parameters st)))"

text \<open>
  The browser's constraint validation of the rendered inputs. A number input shows
  \<open>parameters[name] || ''''\<close> and carries \<open>min\<close> and \<open>max\<close>; an address
  input carries \<open>pattern="^0x[a-fA-F0-9]{40}$"\<close>. Empty inputs satisfy both.
\<close>

definition is_hex_char :: "char \<Rightarrow> bool" where
  "is_hex_char c \<longleftrightarrow> is_digit c \<or> (97 \<le> (of_char c :: nat) \<and> (of_char c :: nat) \<le> 102)
                     \<or> (65 \<le> (of_char c :: nat) \<and> (of_char c :: nat) \<le> 70)"

definition is_hex_address :: "string \<Rightarrow> bool" where
  "is_hex_address s \<longleftrightarrow> length s = 42 \<and> take 2 s = ''0x'' \<and> list_all is_hex_char (drop 2 s)"

definition param_browser_valid :: "param_value js_object \<Rightarrow> contract_parameter \<Rightarrow> bool" where
  "param_browser_valid ps p =
     (case (cp_type p, map_of ps (cp_name p)) of
        (PTNumber, Some (PNum (Some x))) \<Rightarrow>
          x = 0 \<or> ((case cp_validation p of Some c \<Rightarrow> pred_option (\<lambda>m. m \<le> x) (v_min c) | None \<Rightarrow> True)
                   \<and> (case cp_validation p of Some c \<Rightarrow> pred_option (\<lambda>m. x \<le> m) (v_max c) | None \<Rightarrow> True))
      | (PTAddress, Some (PStr s)) \<Rightarrow> s = [] \<or> is_hex_address s
      | _ \<Rightarrow> True)"

definition deploy_form_browser_valid :: "contract_template \<Rightarrow> param_value js_object \<Rightarrow> bool" where
  "deploy_form_browser_valid t ps \<longleftrightarrow> list_all (param_browser_valid ps) (ct_parameters t)"

section \<open>The template selector\<close>

record template_selector =
  ts_templates :: "contract_template list"
  ts_loading :: bool
  ts_category :: string

definition ts_init :: template_selector where
  "ts_init = \<lparr>ts_templates = [], ts_loading = True, ts_category = ''all''\<rparr>"

text \<open>The distinct elements of a list in first-occurrence order, as \<open>[...new Set(xs)]\<close>.\<close>

definition js_set_list :: "'a list \<Rightarrow> 'a list" where
  "js_set_list xs = rev (remdups (rev xs))"

definition ts_categories :: "template_selector \<Rightarrow> string list" where
  "ts_categories ts = ''all'' # js_set_list (map ct_category (ts_templates ts))"

definition filteredTemplates :: "template_selector \<Rightarrow> contract_template list" where
  "filteredTemplates ts =
     (if ts_category ts = ''all'' then ts_templates ts
      else filter (\<lambda>t. ct_category t = ts_category ts) (ts_templates ts))"

record template_card =
  tc_name :: string
  tc_version :: string
  tc_description :: string
  tc_params :: "string list"
  tc_more :: "string option"
  tc_category :: string

definition template_card :: "contract_template \<Rightarrow> template_card" where
  "template_card t =
     \<lparr>tc_name = ct_name t, tc_version = ''v'' @ ct_version t, tc_description = ct_description t,
      tc_params = map cp_name (take 3 (ct_parameters t)),
      tc_more = (if 3 < length (ct_parameters t) then Some (''+'' @ show_nat (length (ct_parameters t) - 3) @ '' more'')
                 else None),
      tc_category = ct_category t\<rparr>"

datatype selector_view =
    TemplatesLoading
  | TemplateGrid "string list" "template_card list" bool  \<comment> \<open>button labels, cards, the empty-category notice\<close>

definition selector_view :: "template_selector \<Rightarrow> selector_view" where
  "selector_view ts =
     (if ts_loading ts then TemplatesLoading
      else TemplateGrid (map js_capitalize (ts_categories ts)) (map template_card (filteredTemplates ts))
             (filteredTemplates ts = []))"

section \<open>The contract dashboard\<close>

record deploy_dash =
  dd_selector :: template_selector
  dd_selected :: "contract_template option"
  dd_pc :: pc_state
  dd_deployments :: "deployment_status list"
  dd_toast :: "string option"
  dd_log :: "param_value js_object list"

definition dd_init :: deploy_dash where
  "dd_init = \<lparr>dd_selector = ts_init, dd_selected = None, dd_pc = pc_init, dd_deployments = [],
              dd_toast = None, dd_log = []\<rparr>"

text \<open>
  \<open>handleDeploy(parameters)\<close>: a new \<open>pending\<close> entry in front of the list, then
  the parameters are logged; \<open>uuid\<close> and \<open>now\<close> are \<open>crypto.randomUUID()\<close> and
  the ISO time.
\<close>

definition handleDeploy :: "string \<Rightarrow> string \<Rightarrow> param_value js_object \<Rightarrow> deploy_dash \<Rightarrow> deploy_dash" where
  "handleDeploy uuid now ps d =
     (case dd_selected d of
        None \<Rightarrow> d
      | Some t \<Rightarrow>
          d\<lparr>dd_deployments := \<lparr>ds_id = uuid, ds_contractName = ct_name t, ds_status = Pending,
                                ds_address = None, ds_txHash = None, ds_timestamp = now, ds_error = None\<rparr>
                              # dd_deployments d,
            dd_log := ps # dd_log d\<rparr>)"

text \<open>
  The dashboard's events: the templates' request settles (\<open>None\<close>: it failed), a
  category button or a template card is clicked (by its index among the cards), a
  parameter control changes (by its index among the selected template's
  parameters), and the form is submitted.
\<close>

datatype deploy_event =
    TemplatesLoaded "contract_template list option"
  | SelectCategory string
  | SelectTemplate nat
  | ParamInput nat string
  | SubmitParams string string

fun deploy_step :: "(string \<Rightarrow> string \<Rightarrow> bool) \<Rightarrow> deploy_dash \<Rightarrow> deploy_event \<Rightarrow> deploy_dash" where
  "deploy_step rx d (TemplatesLoaded r) =
     (if \<not> ts_loading (dd_selector d) then d
      else (case r of
              Some ts \<Rightarrow> d\<lparr>dd_selector := (dd_selector d)\<lparr>ts_templates := ts, ts_loading := False\<rparr>\<rparr>
            | None \<Rightarrow> d\<lparr>dd_selector := (dd_selector d)\<lparr>ts_loading := False\<rparr>,
                         dd_toast := Some ''Failed to load contract templates''\<rparr>))"
| "deploy_step rx d (SelectCategory c) =
     (if \<not> ts_loading (dd_selector d) \<and> c \<in> set (ts_categories (dd_selector d))
      then d\<lparr>dd_selector := (dd_selector d)\<lparr>ts_category := c\<rparr>\<rparr> else d)"
| "deploy_step rx d (SelectTemplate i) =
     (if \<not> ts_loading (dd_selector d) \<and> i < length (filteredTemplates (dd_selector d))
      then d\<lparr>dd_selected := Some (filteredTemplates (dd_selector d) ! i)\<rparr> else d)"
| "deploy_step rx d (ParamInput i s) =
     (case dd_selected d of
        None \<Rightarrow> d
      | Some t \<Rightarrow>
          if i < length (ct_parameters t) then
            d\<lparr>dd_pc := handleChange rx (ct_parameters t ! i) (param_control_input (ct_parameters t ! i) s) (dd_pc d)\<rparr>
          else d)"
| "deploy_step rx d (SubmitParams uuid now) =
     (case dd_selected d of
        None \<Rightarrow> d
      | Some t \<Rightarrow>
          if deploy_form_browser_valid t (pc_parameters (dd_pc d)) then
            (case handleSubmit rx t (dd_pc d) of
               (pc', msg, None) \<Rightarrow> d\<lparr>dd_pc := pc', dd_toast := msg\<rparr>
             | (pc', msg, Some ps) \<Rightarrow> handleDeploy uuid now ps (d\<lparr>dd_pc := pc'\<rparr>))
          else d)"

definition deploy_run :: "(string \<Rightarrow> string \<Rightarrow> bool) \<Rightarrow> deploy_event list \<Rightarrow> deploy_dash" where
  "deploy_run rx evs = foldl (deploy_step rx) dd_init evs"

section \<open>The token deployment form\<close>

text \<open>
  \<open>TokenDeployment.tsx\<close>: the configuration, with \<open>features\<close> and
  \<open>distribution\<close> as dictionaries in \<open>Object.entries\<close> order. \<open>decimals\<close> is
  read with \<open>parseInt\<close> and each share with \<open>parseFloat\<close> (\<open>None\<close>: \<open>NaN\<close>).
\<close>

record token_config =
  tc_name :: string
  tc_symbol :: string
  tc_decimals :: "int option"
  tc_totalSupply :: string
  tc_features :: "bool js_object"
  tc_distribution :: "real option js_object"

definition token_config_init :: token_config where
  "token_config_init =
     \<lparr>tc_name = '''', tc_symbol = '''', tc_decimals = Some 18, tc_totalSupply = '''',
      tc_features = [(''burnable'', False), (''mintable'', False), (''pausable'', False),
                     (''upgradeable'', False), (''accessControl'', False)],
      tc_distribution = [(''team'', Some 15), (''advisors'', Some 10), (''publicSale'', Some 40),
                         (''liquidity'', Some 25), (''marketing'', Some 10)]\<rparr>"

datatype token_input =
    TokName string | TokSymbol string | TokDecimals string | TokSupply string
  | TokFeature string bool | TokShare string string

fun token_onChange :: "token_input \<Rightarrow> token_config \<Rightarrow> token_config" where
  "token_onChange (TokName v) c = c\<lparr>tc_name := v\<rparr>"
| "token_onChange (TokSymbol v) c = c\<lparr>tc_symbol := v\<rparr>"
| "token_onChange (TokDecimals v) c = c\<lparr>tc_decimals := parseInt10 v\<rparr>"
| "token_onChange (TokSupply v) c = c\<lparr>tc_totalSupply := v\<rparr>"
| "token_onChange (TokFeature f b) c = c\<lparr>tc_features := AList.update f b (tc_features c)\<rparr>"
| "token_onChange (TokShare k v) c = c\<lparr>tc_distribution := AList.update k (parseFloat v) (tc_distribution c)\<rparr>"

text \<open>
  The browser's validation: four \<open>required\<close> controls (a \<open>NaN\<close> decimals input is
  empty), and \<open>min="0" max="100"\<close> on each share; \<open>step\<close> is not modelled.
\<close>

definition token_form_valid :: "token_config \<Rightarrow> bool" where
  "token_form_valid c \<longleftrightarrow>
     tc_name c \<noteq> [] \<and> tc_symbol c \<noteq> [] \<and> tc_decimals c \<noteq> None \<and> tc_totalSupply c \<noteq> []
     \<and> list_all (\<lambda>(_, v). pred_option (\<lambda>x. 0 \<le> x \<and> x \<le> 100) v) (tc_distribution c)"

text \<open>\<open>handleSubmit\<close>: it only logs the configuration.\<close>

definition token_submit :: "token_config \<Rightarrow> token_config list \<Rightarrow> token_config list" where
  "token_submit c sent = (if token_form_valid c then c # sent else sent)"

definition distribution_total :: "token_config \<Rightarrow> real" where
  "distribution_total c = sum_list (map (\<lambda>(_, v). case v of Some x \<Rightarrow> x | None \<Rightarrow> 0) (tc_distribution c))"

section \<open>Security controls and the registry\<close>

datatype control_type = CtlAccess | CtlApproval | CtlEmergency | CtlAudit

record security_control =
  sc_id :: string
  sc_type :: control_type
  sc_name :: string
  sc_description :: string
  sc_enabled :: bool
  sc_lastUpdated :: string
  sc_updatedBy :: string

definition initial_controls :: "string \<Rightarrow> security_control list" where
  "initial_controls now =
     [\<lparr>sc_id = ''1'', sc_type = CtlAccess, sc_name = ''Admin Access Control'',
       sc_description = ''Manage deployment permissions for admin users'', sc_enabled = True,
       sc_lastUpdated = now, sc_updatedBy = ''Admin''\<rparr>,
      \<lparr>sc_id = ''2'', sc_type = CtlApproval, sc_name = ''Multi-Signature Approval'',
       sc_description = ''Require multiple signatures for contract deployment'', sc_enabled = True,
       sc_lastUpdated = now, sc_updatedBy = ''Admin''\<rparr>,
      \<lparr>sc_id = ''3'', sc_type = CtlEmergency, sc_name = ''Emergency Pause'',
       sc_description = ''Pause all contract deployments in case of emergency'', sc_enabled = False,
       sc_lastUpdated = now, sc_updatedBy = ''Admin''\<rparr>,
      \<lparr>sc_id = ''4'', sc_type = CtlAudit, sc_name = ''Deployment Audit Log'',
       sc_description = ''Track all deployment activities and changes'', sc_enabled = True,
       sc_lastUpdated = now, sc_updatedBy = ''Admin''\<rparr>]"

definition handleToggleControl :: "string \<Rightarrow> string \<Rightarrow> security_control list \<Rightarrow> security_control list" where
  "handleToggleControl cid now cs =
     map (\<lambda>c. if sc_id c = cid then c\<lparr>sc_enabled := \<not> sc_enabled c, sc_lastUpdated := now\<rparr> else c) cs"

record registry_entry =
  re_id :: string
  re_name :: string
  re_address :: string
  re_network :: string
  re_version :: string
  re_features :: "string list"
  re_verified :: bool
  re_audited :: bool

text \<open>The registry's search: name, address or a feature contains the term, ignoring ASCII case.\<close>

definition registry_filter :: "string \<Rightarrow> registry_entry list \<Rightarrow> registry_entry list" where
  "registry_filter q cs =
     filter (\<lambda>c. js_includes (js_toLowerCase (re_name c)) (js_toLowerCase q)
                 \<or> js_includes (js_toLowerCase (re_address c)) (js_toLowerCase q)
                 \<or> list_ex (\<lambda>f. js_includes (js_toLowerCase f) (js_toLowerCase q)) (re_features c)) cs"

section \<open>What the parameter controls show\<close>

text \<open>\<open>String(value)\<close>; \<open>fmt\<close> is the number-to-string conversion.\<close>

fun js_to_string :: "(real \<Rightarrow> string) \<Rightarrow> param_value \<Rightarrow> string" where
  "js_to_string fmt (PStr s) = s"
| "js_to_string fmt (PNum (Some x)) = fmt x"
| "js_to_string fmt (PNum None) = ''NaN''"
| "js_to_string fmt (PBool b) = (if b then ''true'' else ''false'')"
| "js_to_string fmt (PArr xs) = join_with '','' xs"

text \<open>
  The \<open>value\<close> of a parameter's control (\<open>renderInput\<close>): the select shows
  \<open>value?.toString() || 'false'\<close>, the textarea \<open>value?.join('\n') || ''\<close>
  (\<open>None\<close>: \<open>join\<close> is not a function of a non-array value, a \<open>TypeError\<close>), the
  other inputs \<open>value || ''\<close>.
\<close>

definition param_control_value :: "(real \<Rightarrow> string) \<Rightarrow> contract_parameter \<Rightarrow> param_value option \<Rightarrow> string option" where
  "param_control_value fmt p v =
     (case cp_type p of
        PTBoolean \<Rightarrow> Some (case v of Some x \<Rightarrow> (let s = js_to_string fmt x in if s = [] then ''false'' else s)
                                 | None \<Rightarrow> ''false'')
      | PTArray \<Rightarrow> (case v of None \<Rightarrow> Some [] | Some (PArr xs) \<Rightarrow> Some (join_with [newline] xs) | Some _ \<Rightarrow> None)
      | _ \<Rightarrow> Some (if js_truthy v then js_to_string fmt (the v) else []))"

section \<open>The deployment monitor\<close>

fun deploy_state_text :: "deploy_state \<Rightarrow> string" where
  "deploy_state_text Pending = ''pending''"
| "deploy_state_text Deploying = ''deploying''"
| "deploy_state_text Success = ''success''"
| "deploy_state_text Failed = ''failed''"

fun getStatusColor :: "deploy_state \<Rightarrow> string" where
  "getStatusColor Success = ''bg-green-100 text-green-800''"
| "getStatusColor Failed = ''bg-red-100 text-red-800''"
| "getStatusColor Pending = ''bg-yellow-100 text-yellow-800''"
| "getStatusColor Deploying = ''bg-blue-100 text-blue-800''"

record deployment_card =
  dc_name :: string
  dc_status :: string
  dc_colour :: string
  dc_address :: "(string \<times> string) option"
  dc_tx :: "(string \<times> string) option"
  dc_error :: "string option"
  dc_actions :: bool

text \<open>One entry; absent and empty optional fields are not rendered, a hash is shortened.\<close>

definition deployment_card :: "deployment_status \<Rightarrow> deployment_card" where
  "deployment_card d =
     \<lparr>dc_name = ds_contractName d, dc_status = deploy_state_text (ds_status d),
      dc_colour = getStatusColor (ds_status d),
      dc_address = (case ds_address d of Some a \<Rightarrow> if a \<noteq> [] then Some (''https://bscscan.com/address/'' @ a, a) else None
                                     | None \<Rightarrow> None),
      dc_tx = (case ds_txHash d of
                 Some h \<Rightarrow> if h \<noteq> [] then Some (''https://bscscan.com/tx/'' @ h,
                                                take 10 h @ ''...'' @ drop (length h - 8) h) else None
               | None \<Rightarrow> None),
      dc_error = (case ds_error d of Some e \<Rightarrow> if e \<noteq> [] then Some (''Error: '' @ e) else None | None \<Rightarrow> None),
      dc_actions = (ds_status d = Success)\<rparr>"

datatype monitor_view = MonitorEmpty | MonitorList "deployment_card list"

definition monitor_view :: "deployment_status list \<Rightarrow> monitor_view" where
  "monitor_view ds = (if ds = [] then MonitorEmpty else MonitorList (map deployment_card ds))"

definition registry_contracts :: "string \<Rightarrow> string \<Rightarrow> string \<Rightarrow> (registry_entry \<times> string) list" where
  "registry_contracts d0 d1 d2 =
     [(\<lparr>re_id = ''1'', re_name = ''XLC Token'', re_address = ''0x1234567890abcdef1234567890abcdef12345678'',
        re_network = ''BSC Mainnet'', re_version = ''1.0.0'', re_features = [''ERC20'', ''Burnable'', ''Pausable''],
        re_verified = True, re_audited = True\<rparr>, d0),
      (\<lparr>re_id = ''2'', re_name = ''Staking Pool'', re_address = ''0xabcdef1234567890abcdef1234567890abcdef12'',
        re_network = ''BSC Mainnet'', re_version = ''1.1.0'', re_features = [''Staking'', ''Rewards'', ''Emergency Withdraw''],
        re_verified = True, re_audited = False\<rparr>, d1),
      (\<lparr>re_id = ''3'', re_name = ''Liquidity Pool'', re_address = ''0x7890abcdef1234567890abcdef1234567890abcd'',
        re_network = ''BSC Mainnet'', re_version = ''1.0.1'', re_features = [''AMM'', ''Fee Collection'', ''Emergency Pause''],
        re_verified = False, re_audited = False\<rparr>, d2)]"

text \<open>A sample template: one optional text parameter, and a template with a required boolean.\<close>

definition sample_name_param :: contract_parameter where
  "sample_name_param = \<lparr>cp_name = ''name'', cp_type = PTString, cp_description = ''Token name'',
                        cp_required = False, cp_validation = None\<rparr>"

definition sample_flag_param :: contract_parameter where
  "sample_flag_param = \<lparr>cp_name = ''pausable'', cp_type = PTBoolean, cp_description = '''',
                        cp_required = True, cp_validation = None\<rparr>"

definition sample_template :: "string \<Rightarrow> contract_parameter list \<Rightarrow> contract_template" where
  "sample_template n ps = \<lparr>ct_id = n, ct_name = n, ct_description = '''', ct_category = ''token'',
                           ct_version = ''1.0'', ct_parameters = ps\<rparr>"

section \<open>Lemmas\<close>

lemma submit_errors_foldl_Nil:
  "foldl (\<lambda>es p. case validateParameter rx p (map_of ps (cp_name p)) of
                   Some e \<Rightarrow> AList.update (cp_name p) e es | None \<Rightarrow> es) es0 qs = []
   \<longleftrightarrow> es0 = [] \<and> (\<forall>p \<in> set qs. validateParameter rx p (map_of ps (cp_name p)) = None)"
proof (induction qs arbitrary: es0)
  case Nil
  then show ?case by simp
next
  case (Cons q qs)
  have upd: "AList.update k v es \<noteq> []" for k v and es :: "param_error js_object"
    by (metis dom_update empty_iff insert_not_empty image_empty insert_is_Un list.set(1))
  show ?case using Cons.IH upd by (auto split: option.splits)
qed

lemma submit_errors_Nil:
  "submit_errors rx t ps = [] \<longleftrightarrow> (\<forall>p \<in> set (ct_parameters t). validateParameter rx p (map_of ps (cp_name p)) = None)"
  by (simp add: submit_errors_def submit_errors_foldl_Nil)

lemma handleSubmit_deploys:
  "handleSubmit rx t st = (st', msg, Some ps) \<longleftrightarrow>
   submit_errors rx t (pc_parameters st) = [] \<and> st' = st \<and> msg = None \<and> ps = pc_parameters st"
  by (auto simp: handleSubmit_def Let_def)

lemma handleSubmit_blocks:
  "handleSubmit rx t st = (st', msg, None) \<longleftrightarrow>
   submit_errors rx t (pc_parameters st) \<noteq> []
   \<and> st' = st\<lparr>pc_errors := submit_errors rx t (pc_parameters st)\<rparr>
   \<and> msg = Some ''Please fix the errors before deploying''"
  by (auto simp: handleSubmit_def Let_def)

lemma handleChange_param:
  "map_of (pc_parameters (handleChange rx p v st)) k
   = (if k = cp_name p then Some (parse_input p v) else map_of (pc_parameters st) k)"
  by (simp add: handleChange_def Let_def update_conv')

lemma js_split_nonempty [simp]: "js_split c s \<noteq> []"
  by (induction s) (auto simp: Let_def)

lemma join_split: "join_with [c] (js_split c s) = s"
proof (induction s)
  case Nil
  then show ?case by simp
next
  case (Cons x xs)
  then show ?case
    by (cases "js_split c xs" rule: list.exhaust; cases "tl (js_split c xs)") (auto simp: Let_def)
qed

lemma deploy_step_log_shape:
  "dd_log (deploy_step rx d e) = dd_log d \<or> dd_log (deploy_step rx d e) = pc_parameters (dd_pc d) # dd_log d"
  by (cases e) (auto simp: handleDeploy_def handleSubmit_deploys split: option.splits if_splits prod.splits)

lemma deploy_step_select_keeps [simp]:
  "dd_pc (deploy_step rx d (SelectTemplate j)) = dd_pc d \<and> dd_log (deploy_step rx d (SelectTemplate j)) = dd_log d"
  by simp

lemma deploy_step_input:
  "dd_selected d = Some t \<Longrightarrow> i < length (ct_parameters t) \<Longrightarrow>
   dd_selected (deploy_step rx d (ParamInput i s)) = Some t
   \<and> dd_log (deploy_step rx d (ParamInput i s)) = dd_log d
   \<and> dd_pc (deploy_step rx d (ParamInput i s))
     = handleChange rx (ct_parameters t ! i) (param_control_input (ct_parameters t ! i) s) (dd_pc d)"
  by simp

definition deploy_inv :: "deploy_dash \<Rightarrow> bool" where
  "deploy_inv d \<longleftrightarrow>
     (\<forall>x \<in> set (dd_deployments d). ds_status x = Pending \<and> ds_address x = None \<and> ds_txHash x = None)
     \<and> length (dd_deployments d) = length (dd_log d)"

lemma deploy_inv_step: "deploy_inv d \<Longrightarrow> deploy_inv (deploy_step rx d e)"
  by (cases e) (auto simp: deploy_inv_def handleDeploy_def split: option.splits if_splits prod.splits)

lemma deploy_inv_run: "deploy_inv (deploy_run rx evs)"
proof (induction evs rule: rev_induct)
  case Nil
  then show ?case by (simp add: deploy_run_def deploy_inv_def dd_init_def)
next
  case (snoc e evs)
  then show ?case by (simp add: deploy_run_def deploy_inv_step)
qed

text \<open>
  C31. The dashboard logs a parameter set (the stand-in for deploying) only when a
  template is selected, the browser accepted the form, and every parameter of the
  selected template passes \<open>validateParameter\<close>; what it logs is the form's
  parameters.
\<close>

theorem deploy_logs_only_valid:
  assumes "dd_log (deploy_step rx d e) \<noteq> dd_log d"
  shows "\<exists>t. dd_selected d = Some t
             \<and> dd_log (deploy_step rx d e) = pc_parameters (dd_pc d) # dd_log d
             \<and> deploy_form_browser_valid t (pc_parameters (dd_pc d))
             \<and> (\<forall>p \<in> set (ct_parameters t). validateParameter rx p (map_of (pc_parameters (dd_pc d)) (cp_name p)) = None)"
  using assms
  by (cases e) (auto simp: handleDeploy_def handleSubmit_deploys handleSubmit_blocks submit_errors_Nil
      split: option.splits if_splits prod.splits)

text \<open>
  C32. A required boolean parameter cannot be deployed as \<open>false\<close>: after its
  select is set to False, a submission deploys nothing, because
  \<open>validateParameter\<close> tests \<open>!value\<close> and \<open>false\<close> is falsy.
\<close>

theorem deploy_required_false_blocks:
  assumes "dd_selected d = Some t" "i < length (ct_parameters t)"
    "cp_required (ct_parameters t ! i)" "cp_type (ct_parameters t ! i) = PTBoolean"
  shows "dd_log (deploy_step rx (deploy_step rx d (ParamInput i ''false'')) (SubmitParams u now)) = dd_log d"
proof -
  let ?p = "ct_parameters t ! i"
  let ?d1 = "deploy_step rx d (ParamInput i ''false'')"
  have d1: "dd_selected ?d1 = Some t" "dd_log ?d1 = dd_log d"
    "map_of (pc_parameters (dd_pc ?d1)) (cp_name ?p) = Some (PBool False)"
    using assms deploy_step_input [OF assms(1,2)]
    by (simp_all add: handleChange_param parse_input_def param_control_input_def)
  have "validateParameter rx ?p (Some (PBool False)) = Some ErrRequired"
    using assms(3) by (simp add: validateParameter_def)
  then have v: "validateParameter rx ?p (map_of (pc_parameters (dd_pc ?d1)) (cp_name ?p)) \<noteq> None"
    by (simp only: d1(3)) simp
  have "submit_errors rx t (pc_parameters (dd_pc ?d1)) \<noteq> []"
    unfolding submit_errors_Nil using v nth_mem [OF assms(2)] by fastforce
  then show ?thesis
    using d1(1,2) by (auto simp: handleSubmit_def Let_def split: if_splits)
qed

text \<open>
  C33. Values entered for one template are deployed with the next: the parameter
  form keeps its state when another template is selected, so a submission after
  the switch carries the earlier template's value.
\<close>

theorem deploy_parameters_carry_over:
  assumes "dd_selected d = Some a" "i < length (ct_parameters a)"
    "dd_log (foldl (deploy_step rx) d [ParamInput i s, SelectTemplate j, SubmitParams u now]) \<noteq> dd_log d"
  shows "map_of (hd (dd_log (foldl (deploy_step rx) d [ParamInput i s, SelectTemplate j, SubmitParams u now])))
           (cp_name (ct_parameters a ! i))
         = Some (parse_input (ct_parameters a ! i) (param_control_input (ct_parameters a ! i) s))"
proof -
  let ?d1 = "deploy_step rx d (ParamInput i s)"
  let ?d2 = "deploy_step rx ?d1 (SelectTemplate j)"
  have d2: "dd_log ?d2 = dd_log d"
    "dd_pc ?d2 = handleChange rx (ct_parameters a ! i) (param_control_input (ct_parameters a ! i) s) (dd_pc d)"
    using deploy_step_input [OF assms(1,2)] by simp_all
  have eq: "foldl (deploy_step rx) d [ParamInput i s, SelectTemplate j, SubmitParams u now]
            = deploy_step rx ?d2 (SubmitParams u now)"
    by (simp only: foldl_Cons foldl_Nil)
  have "dd_log (deploy_step rx ?d2 (SubmitParams u now)) \<noteq> dd_log ?d2"
    using assms(3) unfolding eq d2(1) .
  then have log: "dd_log (deploy_step rx ?d2 (SubmitParams u now)) = pc_parameters (dd_pc ?d2) # dd_log ?d2"
    using deploy_step_log_shape [of rx ?d2 "SubmitParams u now"] by blast
  show ?thesis
    unfolding eq log
    by (simp add: d2(2) handleChange_param deploy_step_input [OF assms(1,2)] del: deploy_step.simps)
qed

text \<open>
  Every entry of the deployment list stays \<open>pending\<close>, with no address and
  no transaction hash, and there is one entry per logged deployment: no code path
  ever advances a deployment.
\<close>

theorem deploy_deployments_pending:
  "(\<forall>x \<in> set (dd_deployments (deploy_run rx evs)). ds_status x = Pending \<and> ds_address x = None \<and> ds_txHash x = None)
   \<and> length (dd_deployments (deploy_run rx evs)) = length (dd_log (deploy_run rx evs))"
  using deploy_inv_run [of rx evs] by (simp add: deploy_inv_def)

text \<open>
  C34. The text, address and array controls show back exactly what was typed: an
  array parameter stores the lines of the textarea and shows them joined by
  newlines.
\<close>

theorem param_control_shows_typed_text:
  assumes "cp_type p \<in> {PTString, PTAddress, PTArray}"
  shows "param_control_value fmt p (Some (parse_input p (param_control_input p s))) = Some s"
  using assms by (auto simp: param_control_value_def parse_input_def param_control_input_def join_split)

theorem deploy_logs_only_valid_witness:
  "\<exists>t. dd_selected (deploy_run (\<lambda>_ _. True) [TemplatesLoaded (Some [sample_template ''B'' []]), SelectTemplate 0])
         = Some t \<and> ct_name t = ''B''"
  using deploy_logs_only_valid [of "\<lambda>_ _. True"
      "deploy_run (\<lambda>_ _. True) [TemplatesLoaded (Some [sample_template ''B'' []]), SelectTemplate 0]"
      "SubmitParams ''u1'' ''2025-01-01T00:00:00Z''"]
  by (simp add: deploy_run_def dd_init_def ts_init_def pc_init_def filteredTemplates_def sample_template_def
      deploy_form_browser_valid_def handleSubmit_def submit_errors_def handleDeploy_def)

theorem deploy_required_false_blocks_witness:
  "dd_log (deploy_step (\<lambda>_ _. True)
      (deploy_step (\<lambda>_ _. True) (deploy_run (\<lambda>_ _. True) [TemplatesLoaded (Some [sample_template ''F'' [sample_flag_param]]),
         SelectTemplate 0]) (ParamInput 0 ''false'')) (SubmitParams ''u1'' ''2025-01-01T00:00:00Z'')) = []"
  using deploy_required_false_blocks [of
      "deploy_run (\<lambda>_ _. True) [TemplatesLoaded (Some [sample_template ''F'' [sample_flag_param]]), SelectTemplate 0]"
      "sample_template ''F'' [sample_flag_param]" 0 "\<lambda>_ _. True" "''u1''" "''2025-01-01T00:00:00Z''"]
  by (simp add: deploy_run_def dd_init_def ts_init_def filteredTemplates_def sample_template_def sample_flag_param_def)

theorem deploy_parameters_carry_over_witness:
  "map_of (hd (dd_log (foldl (deploy_step (\<lambda>_ _. True))
      (deploy_run (\<lambda>_ _. True) [TemplatesLoaded (Some [sample_template ''A'' [sample_name_param], sample_template ''B'' []]),
         SelectTemplate 0])
      [ParamInput 0 ''XLC'', SelectTemplate 1, SubmitParams ''u1'' ''2025-01-01T00:00:00Z'']))) ''name''
   = Some (PStr ''XLC'')"
proof -
  let ?rx = "\<lambda>_ _. True :: bool"
  let ?A = "sample_template ''A'' [sample_name_param]" and ?B = "sample_template ''B'' []"
  let ?d = "deploy_run ?rx [TemplatesLoaded (Some [?A, ?B]), SelectTemplate 0]"
  let ?d2 = "deploy_step ?rx (deploy_step ?rx ?d (ParamInput 0 ''XLC'')) (SelectTemplate 1)"
  have d: "dd_selected ?d = Some ?A" "dd_log ?d = []" "dd_selector ?d = \<lparr>ts_templates = [?A, ?B], ts_loading = False, ts_category = ''all''\<rparr>"
    by (simp_all add: deploy_run_def dd_init_def ts_init_def filteredTemplates_def)
  have d2: "dd_selected ?d2 = Some ?B" "dd_log ?d2 = []"
    using d by (simp_all add: filteredTemplates_def sample_template_def)
  have "dd_log (deploy_step ?rx ?d2 (SubmitParams ''u1'' ''2025-01-01T00:00:00Z'')) \<noteq> []"
    using d2 by (simp add: sample_template_def deploy_form_browser_valid_def handleSubmit_def submit_errors_def
        handleDeploy_def del: deploy_step.simps(1-4))
  then have logged: "dd_log (foldl (deploy_step ?rx) ?d [ParamInput 0 ''XLC'', SelectTemplate 1, SubmitParams ''u1'' ''2025-01-01T00:00:00Z''])
                \<noteq> dd_log ?d"
    by (simp only: foldl_Cons foldl_Nil d(2) not_False_eq_True)
  have len: "0 < length (ct_parameters ?A)" by (simp add: sample_template_def)
  have r: "parse_input (ct_parameters ?A ! 0) (param_control_input (ct_parameters ?A ! 0) ''XLC'') = PStr ''XLC''"
    "cp_name (ct_parameters ?A ! 0) = ''name''"
    by (simp_all add: sample_template_def sample_name_param_def parse_input_def param_control_input_def)
  from deploy_parameters_carry_over [OF d(1) len logged] show ?thesis
    by (simp only: r)
qed

theorem deploy_deployments_pending_witness:
  "ds_status (hd (dd_deployments (deploy_run (\<lambda>_ _. True)
      [TemplatesLoaded (Some [sample_template ''B'' []]), SelectTemplate 0, SubmitParams ''u1'' ''2025-01-01T00:00:00Z''])))
   = Pending"
  using deploy_deployments_pending [of "\<lambda>_ _. True"
      "[TemplatesLoaded (Some [sample_template ''B'' []]), SelectTemplate 0, SubmitParams ''u1'' ''2025-01-01T00:00:00Z'']"]
  by (simp add: deploy_run_def dd_init_def ts_init_def pc_init_def filteredTemplates_def sample_template_def
      deploy_form_browser_valid_def handleSubmit_def submit_errors_def handleDeploy_def)

theorem param_control_shows_typed_text_witness:
  "param_control_value (\<lambda>_. ''0'') sample_name_param
     (Some (parse_input sample_name_param (param_control_input sample_name_param ''XLC''))) = Some ''XLC''"
  using param_control_shows_typed_text [of sample_name_param "\<lambda>_. ''0''" "''XLC''"]
  by (simp add: sample_name_param_def)


lemma parseFloat_100: "parseFloat ''100'' = Some 100"
  by (simp add: parseFloat_def parse_sign_def js_space_def is_digit_def digit_val_def digits_value_def
      parse_exponent_def Let_def)

text \<open>
  The form's initial shares total 100, but nothing checks the total: five shares
  of 100 pass the browser's validation and are submitted.
\<close>

lemma token_distribution_unchecked:
  "distribution_total token_config_init = 100
   \<and> (let c = foldl (\<lambda>c i. token_onChange i c) token_config_init
              [TokName ''XLC'', TokSymbol ''XLC'', TokSupply ''1000000'', TokShare ''team'' ''100'',
               TokShare ''advisors'' ''100'', TokShare ''publicSale'' ''100'', TokShare ''liquidity'' ''100'',
               TokShare ''marketing'' ''100'']
      in distribution_total c = 500 \<and> token_submit c [] = [c])"
  by (simp add: distribution_total_def token_config_init_def token_submit_def token_form_valid_def
      parseFloat_100 Let_def)


text \<open>On the dashboard the monitor only ever shows pending entries, without links or actions.\<close>

lemma deploy_monitor_pending:
  "c \<in> set (map deployment_card (dd_deployments (deploy_run rx evs))) \<Longrightarrow>
   dc_status c = ''pending'' \<and> dc_address c = None \<and> dc_tx c = None \<and> \<not> dc_actions c"
  using deploy_inv_run [of rx evs] by (auto simp: deploy_inv_def deployment_card_def)

end
