(* ===== verification/ContractService.thy ===== *)
theory ContractService
  imports Auth Deploy
begin

text \<open>
  The HTTP client of the deployment pages. \<open>src/src/lib/api.ts\<close> creates one axios
  instance (base URL, timeout, JSON content type) with a request interceptor that
  adds the Authorization header (\<open>Auth.api_auth_header\<close>) and a response
  interceptor that toasts every failure (\<open>Auth.api_error_message\<close>) and rejects
  with it. \<open>src/src/services/contractService.ts\<close> wraps five endpoints; each
  returns \<open>response.data\<close>. The network is a parameter \<open>send\<close>: the sent request
  to the server's answer, \<open>Inl\<close> a failure and \<open>Inr\<close> the response's data.
  \<open>loadTemplates\<close> is the template selector's effect, which awaits
  \<open>fetchContractTemplates\<close> and settles the contract dashboard
  (\<open>Deploy.deploy_step\<close>).
\<close>

section \<open>The axios instance\<close>

datatype http_method = HttpGet | HttpPost

text \<open>The two request bodies the services send: a template's parameters, and \<open>{address, network}\<close>.\<close>

datatype request_body = ParamsBody "param_value js_object" | VerifyBody string string

record api_request =
  rq_method :: http_method
  rq_path :: string
  rq_body :: "request_body option"

record sent_request =
  sr_method :: http_method
  sr_url :: string
  sr_timeout :: nat
  sr_headers :: "(string \<times> string) list"
  sr_body :: "request_body option"

definition api_baseURL :: string where
  "api_baseURL = ''https://xlcapi.replit.app''"

definition api_timeout :: nat where
  "api_timeout = 30000"

definition api_headers :: "(string \<times> string) list" where
  "api_headers = [(''Content-Type'', ''application/json'')]"

text \<open>\<open>api.get(path)\<close> and \<open>api.post(path, body)\<close>.\<close>

definition api_get :: "string \<Rightarrow> api_request" where
  "api_get path = \<lparr>rq_method = HttpGet, rq_path = path, rq_body = None\<rparr>"

definition api_post :: "string \<Rightarrow> request_body \<Rightarrow> api_request" where
  "api_post path b = \<lparr>rq_method = HttpPost, rq_path = path, rq_body = Some b\<rparr>"

text \<open>
  The request as it leaves the client: the instance's defaults, and the request
  interceptor's Authorization header when a token is stored.
\<close>

definition api_prepare :: "local_storage \<Rightarrow> api_request \<Rightarrow> sent_request" where
  "api_prepare ls rq =
     \<lparr>sr_method = rq_method rq, sr_url = api_baseURL @ rq_path rq, sr_timeout = api_timeout,
      sr_headers = api_headers @ (case api_auth_header ls of None \<Rightarrow> [] | Some h \<Rightarrow> [(''Authorization'', h)]),
      sr_body = rq_body rq\<rparr>"

text \<open>
  One call through the instance: the settled result and the toast the response
  interceptor shows. A failure is toasted and passed on to the caller unchanged.
\<close>

definition api_call ::
  "(sent_request \<Rightarrow> api_failure + 'r) \<Rightarrow> local_storage \<Rightarrow> api_request \<Rightarrow> (api_failure + 'r) \<times> string option" where
  "api_call send ls rq =
     (case send (api_prepare ls rq) of
        Inl f \<Rightarrow> (Inl f, Some (api_error_message f))
      | Inr d \<Rightarrow> (Inr d, None))"

section \<open>The contract service\<close>

definition fetchContractTemplates ::
  "(sent_request \<Rightarrow> api_failure + 'r) \<Rightarrow> local_storage \<Rightarrow> (api_failure + 'r) \<times> string option" where
  "fetchContractTemplates send ls = api_call send ls (api_get ''/contract-templates'')"

definition deployContract ::
  "(sent_request \<Rightarrow> api_failure + 'r) \<Rightarrow> local_storage \<Rightarrow> string \<Rightarrow> param_value js_object
     \<Rightarrow> (api_failure + 'r) \<times> string option" where
  "deployContract send ls templateId parameters =
     api_call send ls (api_post (''/contract-templates/'' @ templateId @ ''/deploy'') (ParamsBody parameters))"

definition getDeploymentStatus ::
  "(sent_request \<Rightarrow> api_failure + 'r) \<Rightarrow> local_storage \<Rightarrow> string \<Rightarrow> (api_failure + 'r) \<times> string option" where
  "getDeploymentStatus send ls deploymentId = api_call send ls (api_get (''/deployments/'' @ deploymentId))"

definition verifyContract ::
  "(sent_request \<Rightarrow> api_failure + 'r) \<Rightarrow> local_storage \<Rightarrow> string \<Rightarrow> string \<Rightarrow> (api_failure + 'r) \<times> string option" where
  "verifyContract send ls address network = api_call send ls (api_post ''/contract/verify'' (VerifyBody address network))"

definition getContractRegistry ::
  "(sent_request \<Rightarrow> api_failure + 'r) \<Rightarrow> local_storage \<Rightarrow> (api_failure + 'r) \<times> string option" where
  "getContractRegistry send ls = api_call send ls (api_get ''/contract/registry'')"

section \<open>The template selector's request\<close>

text \<open>
  \<open>loadTemplates\<close>: the templates on success; on failure the \<open>catch\<close> toasts
  'Failed to load contract templates' (the dashboard's \<open>dd_toast\<close>); loading ends
  either way. The list is the toasts the interceptor showed first.
\<close>

definition loadTemplates ::
  "(sent_request \<Rightarrow> api_failure + contract_template list) \<Rightarrow> local_storage \<Rightarrow> (string \<Rightarrow> string \<Rightarrow> bool)
     \<Rightarrow> deploy_dash \<Rightarrow> deploy_dash \<times> string list" where
  "loadTemplates send ls rx d =
     (case fetchContractTemplates send ls of
        (r, t) \<Rightarrow> (deploy_step rx d (TemplatesLoaded (case r of Inl _ \<Rightarrow> None | Inr ts \<Rightarrow> Some ts)),
                   (case t of None \<Rightarrow> [] | Some m \<Rightarrow> [m])))"

section \<open>Lemmas\<close>

lemma api_call_result:
  "api_call send ls rq =
     (send (api_prepare ls rq), case send (api_prepare ls rq) of Inl f \<Rightarrow> Some (api_error_message f) | Inr _ \<Rightarrow> None)"
  by (simp add: api_call_def split: sum.split)

lemma api_prepare_authorization:
  "map_of (sr_headers (api_prepare ls rq)) ''Authorization'' = api_auth_header ls"
  by (simp add: api_prepare_def api_headers_def split: option.split)

lemma loadTemplates_settle:
  "loadTemplates send ls rx d =
     (deploy_step rx d (TemplatesLoaded
        (case send (api_prepare ls (api_get ''/contract-templates'')) of Inl _ \<Rightarrow> None | Inr ts \<Rightarrow> Some ts)),
      case send (api_prepare ls (api_get ''/contract-templates'')) of Inl f \<Rightarrow> [api_error_message f] | Inr _ \<Rightarrow> [])"
  by (simp add: loadTemplates_def fetchContractTemplates_def api_call_def split: sum.split)

lemma loadTemplates_success:
  "send (api_prepare ls (api_get ''/contract-templates'')) = Inr ts \<Longrightarrow>
   loadTemplates send ls rx dd_init = (dd_init\<lparr>dd_selector := ts_init\<lparr>ts_templates := ts, ts_loading := False\<rparr>\<rparr>, [])"
  by (simp add: loadTemplates_settle dd_init_def ts_init_def)

lemma loadTemplates_once:
  "\<not> ts_loading (dd_selector d) \<Longrightarrow> fst (loadTemplates send ls rx d) = d"
  by (simp add: loadTemplates_settle)

text \<open>
  C35. A failed template request is reported twice, by the interceptor's toast and
  by the selector's 'Failed to load contract templates', and the selector then
  shows the same grid as an empty catalogue: the single 'All' button, no card,
  and the empty-category notice.
\<close>

theorem loadTemplates_failure_shown_twice:
  assumes "send (api_prepare ls (api_get ''/contract-templates'')) = Inl f"
  shows "loadTemplates send ls rx dd_init =
           (dd_init\<lparr>dd_selector := ts_init\<lparr>ts_loading := False\<rparr>,
                    dd_toast := Some ''Failed to load contract templates''\<rparr>, [api_error_message f])
         \<and> selector_view (dd_selector (fst (loadTemplates send ls rx dd_init))) = TemplateGrid [''All''] [] True"
proof -
  have l: "loadTemplates send ls rx dd_init =
           (dd_init\<lparr>dd_selector := ts_init\<lparr>ts_loading := False\<rparr>,
                    dd_toast := Some ''Failed to load contract templates''\<rparr>, [api_error_message f])"
    using assms by (simp add: loadTemplates_def fetchContractTemplates_def api_call_def dd_init_def ts_init_def)
  have "selector_view (ts_init\<lparr>ts_loading := False\<rparr>) = TemplateGrid [''All''] [] True"
    by code_simp
  with l show ?thesis by (simp add: dd_init_def)
qed

text \<open>
  C15. After a successful login, \<open>deployContract\<close> posts the parameters to the
  template's deploy endpoint under the base URL, as JSON, with an Authorization
  header that is Bearer followed by the whole stored JSON text of the token
  object, never Bearer followed by the token the server issued.
\<close>

theorem deployContract_request_after_login:
  "let sr = api_prepare (sys_ls (auth_step x (LoginEnd now (LoginOk tok uid r))))
                (api_post (''/contract-templates/'' @ tid @ ''/deploy'') (ParamsBody ps))
   in fst (deployContract send (sys_ls (auth_step x (LoginEnd now (LoginOk tok uid r)))) tid ps) = send sr
   \<and> sr_method sr = HttpPost
   \<and> sr_url sr = ''https://xlcapi.replit.app/contract-templates/'' @ tid @ ''/deploy''
   \<and> sr_body sr = Some (ParamsBody ps)
   \<and> map_of (sr_headers sr) ''Content-Type'' = Some ''application/json''
   \<and> map_of (sr_headers sr) ''Authorization''
       = Some (''Bearer '' @ render_json (json_of_token \<lparr>token = tok, expiresAt = now + session_ms, refreshToken = None\<rparr>))
   \<and> map_of (sr_headers sr) ''Authorization'' \<noteq> Some (''Bearer '' @ tok)"
proof -
  define sr where "sr = api_prepare (sys_ls (auth_step x (LoginEnd now (LoginOk tok uid r))))
               (api_post (''/contract-templates/'' @ tid @ ''/deploy'') (ParamsBody ps))"
  let ?ls = "sys_ls (auth_step x (LoginEnd now (LoginOk tok uid r)))"
  have a: "map_of (sr_headers sr) ''Authorization'' = api_auth_header ?ls"
    using sr_def by (simp add: api_prepare_authorization)
  have c: "map_of (sr_headers sr) ''Content-Type'' = Some ''application/json''"
    using sr_def by (simp add: api_prepare_def api_headers_def)
  have d: "fst (deployContract send ?ls tid ps) = send sr"
    using sr_def by (simp add: deployContract_def api_call_result)
  have m: "sr_method sr = HttpPost \<and> sr_url sr = ''https://xlcapi.replit.app/contract-templates/'' @ tid @ ''/deploy''
           \<and> sr_body sr = Some (ParamsBody ps)"
    using sr_def by (simp add: api_prepare_def api_post_def api_baseURL_def)
  have h: "map_of (sr_headers sr) ''Authorization''
             = Some (''Bearer '' @ render_json (json_of_token \<lparr>token = tok, expiresAt = now + session_ms, refreshToken = None\<rparr>))
           \<and> map_of (sr_headers sr) ''Authorization'' \<noteq> Some (''Bearer '' @ tok)"
    unfolding a by (rule api_header_not_bearer_token)
  from d m c h show ?thesis unfolding Let_def sr_def [symmetric] by blast
qed

theorem loadTemplates_failure_shown_twice_witness:
  "loadTemplates (\<lambda>_. Inl NoResponse) empty_storage (\<lambda>_ _. True) dd_init =
     (dd_init\<lparr>dd_selector := ts_init\<lparr>ts_loading := False\<rparr>,
              dd_toast := Some ''Failed to load contract templates''\<rparr>,
      [''Network error. Please check your connection.''])"
  using loadTemplates_failure_shown_twice [of "\<lambda>_. Inl NoResponse" empty_storage NoResponse "\<lambda>_ _. True"]
  by (simp add: api_error_message_def)

end
