(* ===== verification/WalletRequests.thy ===== *)
theory WalletRequests
  imports Dashboard
begin

text \<open>
  The requests the two wallet connectors send to the injected provider, and the
  chain configurations they send. \<open>src/src/web3/constants.ts\<close> (used by the
  wallet hook and the context) and \<open>src/src/lib/web3/constants.ts\<close> (used by
  \<open>lib/web3/wallet.ts\<close> and the contract) each describe BNB Smart Chain.
  \<open>connectWallet_requests\<close> and \<open>lib_connectWallet_requests\<close> are the
  provider requests of the hook's \<open>connectWallet\<close> (\<open>Wallet.connectWallet\<close>) and
  of the library's (\<open>Dashboard.lib_connectWallet\<close>) in the order they are sent,
  under the same answers that decide their control flow.
\<close>

section \<open>Chain configurations\<close>

record chain_config =
  cc_chainId :: string
  cc_chainName :: string
  cc_currencyName :: string
  cc_currencySymbol :: string
  cc_decimals :: nat
  cc_rpcUrls :: "string list"
  cc_blockExplorerUrls :: "string list"

text \<open>\<open>web3/constants.ts\<close>.\<close>

definition BSC_TESTNET_CHAIN_ID :: int where
  "BSC_TESTNET_CHAIN_ID = 97"

definition BSC_CHAIN_CONFIG :: chain_config where
  "BSC_CHAIN_CONFIG =
     \<lparr>cc_chainId = BSC_CHAIN_CONFIG_chainId, cc_chainName = ''BNB Smart Chain'',
      cc_currencyName = ''BNB'', cc_currencySymbol = ''BNB'', cc_decimals = 18,
      cc_rpcUrls = [''https://bsc-dataseed.binance.org/''],
      cc_blockExplorerUrls = [''https://bscscan.com/'']\<rparr>"

text \<open>\<open>lib/web3/constants.ts\<close>: here the chain id is the hexadecimal string itself.\<close>

definition XLC_CONTRACT_ADDRESS :: string where
  "XLC_CONTRACT_ADDRESS = ''0xa151c4500d99D1E1C325c4C83bfa8f7d312aF88e''"

definition lib_BSC_CHAIN_ID :: string where
  "lib_BSC_CHAIN_ID = ''0x38''"

definition BSCSCAN_API_URL :: string where
  "BSCSCAN_API_URL = ''https://api.bscscan.com/api''"

definition BSC_NETWORK_CONFIG :: chain_config where
  "BSC_NETWORK_CONFIG =
     \<lparr>cc_chainId = lib_BSC_CHAIN_ID, cc_chainName = ''BNB Smart Chain'',
      cc_currencyName = ''BNB'', cc_currencySymbol = ''BNB'', cc_decimals = 18,
      cc_rpcUrls = [BSC_RPC_URL],
      cc_blockExplorerUrls = [''https://bscscan.com'']\<rparr>"

section \<open>Provider requests\<close>

datatype provider_request =
    EthRequestAccounts
  | EthChainId
  | SwitchEthereumChain string      \<comment> \<open>\<open>params: [{ chainId }]\<close>\<close>
  | AddEthereumChain chain_config   \<comment> \<open>\<open>params: [config]\<close>\<close>
  | RequestPermissions              \<comment> \<open>\<open>params: [{ eth_accounts: {} }]\<close>\<close>
  | EthAccounts

text \<open>
  The hook's \<open>connectWallet\<close>: every request it awaits, stopping at the first that
  rejects. Without \<open>window.ethereum\<close> it sends nothing.
\<close>

definition connectWallet_requests :: "bool \<Rightarrow> connect_answers \<Rightarrow> provider_request list" where
  "connectWallet_requests has_eth ans =
     (if \<not> has_eth then []
      else (case ans_accounts ans of
              Inl _ \<Rightarrow> [EthRequestAccounts]
            | Inr _ \<Rightarrow>
                (case ans_chainId ans of
                   Inl _ \<Rightarrow> [EthRequestAccounts, EthChainId]
                 | Inr cid \<Rightarrow>
                     if parseInt16 cid \<noteq> Some BSC_CHAIN_ID then
                       [EthRequestAccounts, EthChainId, SwitchEthereumChain (cc_chainId BSC_CHAIN_CONFIG)]
                       @ (case ans_switch ans of
                            Some e \<Rightarrow> if err_code e = Some 4902 then [AddEthereumChain BSC_CHAIN_CONFIG] else []
                          | None \<Rightarrow> [])
                     else [EthRequestAccounts, EthChainId])))"

text \<open>The library's \<open>connectWallet\<close>: it never reads the chain id and always asks to switch.\<close>

definition lib_connectWallet_requests :: "bool \<Rightarrow> connect_answers \<Rightarrow> provider_request list" where
  "lib_connectWallet_requests isMetaMask ans =
     (if \<not> isMetaMask then []
      else (case ans_accounts ans of
              Inl _ \<Rightarrow> [EthRequestAccounts]
            | Inr _ \<Rightarrow>
                [EthRequestAccounts, SwitchEthereumChain lib_BSC_CHAIN_ID]
                @ (case ans_switch ans of
                     Some e \<Rightarrow> if err_code e = Some 4902 then [AddEthereumChain BSC_NETWORK_CONFIG] else []
                   | None \<Rightarrow> [])))"

text \<open>\<open>switchAccount\<close> and \<open>addAccount\<close> (both connectors): a permission request, then \<open>eth_accounts\<close> if it was granted.\<close>

definition account_requests :: "bool \<Rightarrow> provider_request list" where
  "account_requests granted = RequestPermissions # (if granted then [EthAccounts] else [])"

section \<open>Lemmas\<close>

lemma BSC_CHAIN_CONFIG_chainId_hex: "BSC_CHAIN_CONFIG_chainId = ''0x38''"
  by code_simp

text \<open>
  The two constant modules name the same chain id, but their configurations
  differ in the RPC endpoint and the explorer URL's trailing slash: the chain a
  wallet adds depends on which connector added it.
\<close>

lemma chain_configs_differ:
  "cc_chainId BSC_CHAIN_CONFIG = cc_chainId BSC_NETWORK_CONFIG
   \<and> BSC_NETWORK_CONFIG = BSC_CHAIN_CONFIG\<lparr>cc_rpcUrls := [''https://bsc-dataseed1.binance.org''],
                                            cc_blockExplorerUrls := [''https://bscscan.com'']\<rparr>
   \<and> cc_rpcUrls BSC_NETWORK_CONFIG \<noteq> cc_rpcUrls BSC_CHAIN_CONFIG"
  by (simp add: BSC_CHAIN_CONFIG_def BSC_NETWORK_CONFIG_def BSC_CHAIN_CONFIG_chainId_hex lib_BSC_CHAIN_ID_def
      BSC_RPC_URL_def)

text \<open>
  Off BNB Smart Chain the library sends the hook's requests without
  \<open>eth_chainId\<close>, with the same switch, and with its own configuration when it
  adds the chain.
\<close>

lemma connect_requests_off_chain:
  assumes "ans_accounts ans = Inr accts" "ans_chainId ans = Inr cid" "parseInt16 cid \<noteq> Some BSC_CHAIN_ID"
  shows "lib_connectWallet_requests True ans
           = map (\<lambda>r. case r of AddEthereumChain _ \<Rightarrow> AddEthereumChain BSC_NETWORK_CONFIG | _ \<Rightarrow> r)
               (filter (\<lambda>r. r \<noteq> EthChainId) (connectWallet_requests True ans))"
  using assms
  by (simp add: lib_connectWallet_requests_def connectWallet_requests_def BSC_CHAIN_CONFIG_def
      BSC_CHAIN_CONFIG_chainId_hex lib_BSC_CHAIN_ID_def split: option.split)

text \<open>On BNB Smart Chain the hook sends no switch request, the library still does.\<close>

lemma connect_requests_on_chain:
  assumes "ans_accounts ans = Inr accts" "ans_chainId ans = Inr cid" "parseInt16 cid = Some BSC_CHAIN_ID"
  shows "connectWallet_requests True ans = [EthRequestAccounts, EthChainId]
         \<and> take 2 (lib_connectWallet_requests True ans) = [EthRequestAccounts, SwitchEthereumChain ''0x38'']"
  using assms by (simp add: lib_connectWallet_requests_def connectWallet_requests_def lib_BSC_CHAIN_ID_def)

end
