(* ===== verification/Integration.thy ===== *)
theory Integration
  imports Deploy Wallet
begin

text \<open>
  The remaining tabs of the contract deployment page (\<open>src/src/pages/Deploy\<close>).
  \<open>XLCIntegration\<close> is a fixed feature list with its status badges, security
  colours, audit figures and registry links. \<open>ContractRegistry\<close> is the list of
  registered contracts behind its search box. \<open>SecurityControls\<close> holds the
  control cards with their toggles. \<open>index.tsx\<close> holds the page's tabs.
  Date formatting is a parameter, and icons are named by the component they
  render.
\<close>

section \<open>XLC integration\<close>

datatype feature_status = FPending | FMapped | FVerified

text \<open>The status union has three values, so properties over all of them evaluate by \<open>simp\<close>.\<close>

instantiation feature_status :: enum
begin

definition "enum_feature_status = [FPending, FMapped, FVerified]"
definition "enum_all_feature_status P \<longleftrightarrow> P FPending \<and> P FMapped \<and> P FVerified"
definition "enum_ex_feature_status P \<longleftrightarrow> P FPending \<or> P FMapped \<or> P FVerified"

instance
proof
  have U: "UNIV = {FPending, FMapped, FVerified}"
    using feature_status.exhaust by auto
  show "UNIV = set (enum_class.enum :: feature_status list)"
    by (simp add: U enum_feature_status_def)
  show "distinct (enum_class.enum :: feature_status list)"
    by (simp add: enum_feature_status_def)
  show "\<And>P. (enum_class.enum_all :: (feature_status \<Rightarrow> bool) \<Rightarrow> bool) P = Ball UNIV P"
    by (simp add: U enum_all_feature_status_def)
  show "\<And>P. (enum_class.enum_ex :: (feature_status \<Rightarrow> bool) \<Rightarrow> bool) P = Bex UNIV P"
    by (simp add: U enum_ex_feature_status_def)
qed

end

definition feature_status_text :: "feature_status \<Rightarrow> string" where
  "feature_status_text s = (case s of FPending \<Rightarrow> ''pending'' | FMapped \<Rightarrow> ''mapped'' | FVerified \<Rightarrow> ''verified'')"

record xlc_feature =
  xf_id :: string
  xf_name :: string
  xf_description :: string
  xf_status :: feature_status
  xf_securityScore :: int

definition xlc_features :: "xlc_feature list" where
  "xlc_features =
     [\<lparr>xf_id = ''1'', xf_name = ''Token Transfer'', xf_description = ''Standard ERC20 transfer functionality'',
       xf_status = FVerified, xf_securityScore = 95\<rparr>,
      \<lparr>xf_id = ''2'', xf_name = ''Liquidity Pool'', xf_description = ''Automated market maker pool integration'',
       xf_status = FMapped, xf_securityScore = 85\<rparr>,
      \<lparr>xf_id = ''3'', xf_name = ''Staking Mechanism'', xf_description = ''Token staking and rewards distribution'',
       xf_status = FPending, xf_securityScore = 75\<rparr>]"

datatype status_icon = CheckCircle2 | Link2 | AlertTriangle

definition getStatusIcon :: "feature_status \<Rightarrow> status_icon \<times> string" where
  "getStatusIcon s =
     (case s of
        FVerified \<Rightarrow> (CheckCircle2, ''h-5 w-5 text-green-500'')
      | FMapped \<Rightarrow> (Link2, ''h-5 w-5 text-blue-500'')
      | FPending \<Rightarrow> (AlertTriangle, ''h-5 w-5 text-yellow-500''))"

definition xlc_getStatusColor :: "feature_status \<Rightarrow> string" where
  "xlc_getStatusColor s =
     (case s of
        FVerified \<Rightarrow> ''bg-green-100 text-green-800''
      | FMapped \<Rightarrow> ''bg-blue-100 text-blue-800''
      | FPending \<Rightarrow> ''bg-yellow-100 text-yellow-800'')"

definition getSecurityColor :: "int \<Rightarrow> string" where
  "getSecurityColor score =
     (if score \<ge> 90 then ''text-green-600'' else if score \<ge> 70 then ''text-yellow-600'' else ''text-red-600'')"

record feature_row =
  fr_icon :: "status_icon \<times> string"
  fr_name :: string
  fr_description :: string
  fr_badge :: "string \<times> string"      \<comment> \<open>status text and its colour classes\<close>
  fr_security :: "string \<times> string"   \<comment> \<open>\<open>'95% secure'\<close> and its colour class\<close>

definition feature_row :: "xlc_feature \<Rightarrow> feature_row" where
  "feature_row f =
     \<lparr>fr_icon = getStatusIcon (xf_status f), fr_name = xf_name f, fr_description = xf_description f,
      fr_badge = (feature_status_text (xf_status f), xlc_getStatusColor (xf_status f)),
      fr_security = (show_int (xf_securityScore f) @ ''% secure'', getSecurityColor (xf_securityScore f))\<rparr>"

text \<open>The Security Audit cards: title, figure and remark, written into the markup.\<close>

definition xlc_audit_cards :: "(string \<times> string \<times> string) list" where
  "xlc_audit_cards =
     [(''Access Control'', ''98%'', ''All checks passed''),
      (''Vulnerability Scan'', ''85%'', ''2 minor issues found''),
      (''Code Quality'', ''92%'', ''High quality code'')]"

text \<open>The Registry Management entries: title, description and a button without a handler.\<close>

definition xlc_registry_items :: "(string \<times> string \<times> string) list" where
  "xlc_registry_items =
     [(''Contract Registry'', ''Manage contract addresses and versions'', ''View Registry''),
      (''Feature Registry'', ''Manage feature mappings and dependencies'', ''View Features''),
      (''Version Control'', ''Manage contract versions and upgrades'', ''View Versions'')]"

definition XLCIntegration_view ::
  "feature_row list \<times> (string \<times> string \<times> string) list \<times> (string \<times> string \<times> string) list" where
  "XLCIntegration_view = (map feature_row xlc_features, xlc_audit_cards, xlc_registry_items)"

section \<open>Contract registry\<close>

record registry_card =
  rc_name :: string
  rc_link :: string
  rc_short_address :: string
  rc_details :: "string list"        \<comment> \<open>network and version\<close>
  rc_verified :: bool                \<comment> \<open>whether the Verified mark shows\<close>
  rc_audit :: string
  rc_features :: "string list"
  rc_deployed :: string

definition registry_card :: "(string \<Rightarrow> string) \<Rightarrow> registry_entry \<times> string \<Rightarrow> registry_card" where
  "registry_card date cd =
     (let (c, deployedAt) = cd in
      \<lparr>rc_name = re_name c, rc_link = ''https://bscscan.com/address/'' @ re_address c,
       rc_short_address = formatAddress (re_address c), rc_details = [re_network c, ''v'' @ re_version c],
       rc_verified = re_verified c, rc_audit = (if re_audited c then ''Audited'' else ''Unaudited''),
       rc_features = re_features c, rc_deployed = ''Deployed: '' @ date deployedAt\<rparr>)"

text \<open>The list under the search box: the contracts \<open>registry_filter\<close> keeps, in order.\<close>

definition registry_view ::
  "(string \<Rightarrow> string) \<Rightarrow> string \<Rightarrow> (registry_entry \<times> string) list \<Rightarrow> registry_card list" where
  "registry_view date q rows = map (registry_card date) (filter (\<lambda>(c, d). registry_filter q [c] \<noteq> []) rows)"

section \<open>Security controls\<close>

datatype control_icon = KeyIcon | ShieldIcon | AlertIcon | FileTextIcon

definition getIcon :: "control_type \<Rightarrow> control_icon" where
  "getIcon t = (case t of CtlAccess \<Rightarrow> KeyIcon | CtlApproval \<Rightarrow> ShieldIcon | CtlEmergency \<Rightarrow> AlertIcon | CtlAudit \<Rightarrow> FileTextIcon)"

record control_card =
  cc_icon :: control_icon
  cc_highlighted :: bool
  cc_name :: string
  cc_description :: string
  cc_checked :: bool
  cc_footer :: string

definition control_card :: "(string \<Rightarrow> string) \<Rightarrow> security_control \<Rightarrow> control_card" where
  "control_card datetime c =
     \<lparr>cc_icon = getIcon (sc_type c), cc_highlighted = sc_enabled c, cc_name = sc_name c,
      cc_description = sc_description c, cc_checked = sc_enabled c,
      cc_footer = ''Last updated: '' @ datetime (sc_lastUpdated c) @ '' by '' @ sc_updatedBy c\<rparr>"

text \<open>The panel after a sequence of checkbox clicks, each with its clock reading.\<close>

definition security_controls_run :: "string \<Rightarrow> (string \<times> string) list \<Rightarrow> security_control list" where
  "security_controls_run now0 clicks = foldl (\<lambda>cs (cid, now). handleToggleControl cid now cs) (initial_controls now0) clicks"

definition SecurityControls_view ::
  "(string \<Rightarrow> string) \<Rightarrow> string \<Rightarrow> (string \<times> string) list \<Rightarrow> control_card list" where
  "SecurityControls_view datetime now0 clicks = map (control_card datetime) (security_controls_run now0 clicks)"

section \<open>The page's tabs\<close>

datatype deploy_tab = TabContractDashboard | TabXLCIntegration | TabTokenDeployment | TabContractRegistry
  | TabSecurityControls

definition deploy_tab_triggers :: "(string \<times> string) list" where
  "deploy_tab_triggers =
     [(''dashboard'', ''Contract Dashboard''), (''xlc'', ''XLC Integration''), (''token'', ''Token Deployment''),
      (''registry'', ''Contract Registry''), (''security'', ''Security Controls'')]"

definition deploy_tab_contents :: "(string \<times> deploy_tab) list" where
  "deploy_tab_contents =
     [(''dashboard'', TabContractDashboard), (''xlc'', TabXLCIntegration), (''token'', TabTokenDeployment),
      (''registry'', TabContractRegistry), (''security'', TabSecurityControls)]"

definition deploy_default_tab :: string where
  "deploy_default_tab = ''dashboard''"

section \<open>Lemmas\<close>
lemma getSecurityColor_bands:
  "getSecurityColor s \<in> {''text-green-600'', ''text-yellow-600'', ''text-red-600''}
   \<and> (s \<le> t \<longrightarrow> getSecurityColor s = ''text-green-600'' \<longrightarrow> getSecurityColor t = ''text-green-600'')
   \<and> (s \<le> t \<longrightarrow> getSecurityColor t = ''text-red-600'' \<longrightarrow> getSecurityColor s = ''text-red-600'')"
  by (simp add: getSecurityColor_def)

text \<open>For every status the icon and the badge use the same colour family.\<close>

lemma status_icon_badge_agree:
  "\<forall>s. (snd (getStatusIcon s) = ''h-5 w-5 text-green-500'' \<longleftrightarrow> xlc_getStatusColor s = ''bg-green-100 text-green-800'')
       \<and> (snd (getStatusIcon s) = ''h-5 w-5 text-blue-500'' \<longleftrightarrow> xlc_getStatusColor s = ''bg-blue-100 text-blue-800'')"
proof
  fix s
  show "(snd (getStatusIcon s) = ''h-5 w-5 text-green-500'' \<longleftrightarrow> xlc_getStatusColor s = ''bg-green-100 text-green-800'')
       \<and> (snd (getStatusIcon s) = ''h-5 w-5 text-blue-500'' \<longleftrightarrow> xlc_getStatusColor s = ''bg-blue-100 text-blue-800'')"
    by (cases s) (simp_all add: getStatusIcon_def xlc_getStatusColor_def)
qed

lemma xlc_feature_rows:
  "map (fr_security \<circ> feature_row) xlc_features =
     [(''95% secure'', ''text-green-600''), (''85% secure'', ''text-yellow-600''), (''75% secure'', ''text-yellow-600'')]"
  by (simp add: xlc_features_def feature_row_def getSecurityColor_def show_int_def show_nat_def
      base_digits.simps digit_char_def)

lemma registry_filter_empty_search: "registry_filter [] cs = cs"
  by (simp add: registry_filter_def js_includes_def js_toLowerCase_def)

lemma registry_view_empty_search: "registry_view date [] rows = map (registry_card date) rows"
  by (simp add: registry_view_def registry_filter_empty_search case_prod_unfold)

lemma handleToggleControl_twice:
  "map sc_enabled (handleToggleControl i n2 (handleToggleControl i n1 cs)) = map sc_enabled cs"
  by (induction cs) (simp_all add: handleToggleControl_def)

lemma handleToggleControl_updatedBy: "map sc_updatedBy (handleToggleControl i n cs) = map sc_updatedBy cs"
  by (induction cs) (simp_all add: handleToggleControl_def)

lemma security_controls_run_snoc:
  "security_controls_run now0 (clicks @ [(i, n)]) = handleToggleControl i n (security_controls_run now0 clicks)"
  by (simp add: security_controls_run_def)

lemma security_controls_updatedBy:
  "map sc_updatedBy (security_controls_run now0 clicks) = [''Admin'', ''Admin'', ''Admin'', ''Admin'']"
proof (induction clicks rule: rev_induct)
  case Nil
  then show ?case by (simp add: security_controls_run_def initial_controls_def)
next
  case (snoc c cs)
  then show ?case
    by (cases c) (simp only: security_controls_run_snoc handleToggleControl_updatedBy)
qed

lemma deploy_tabs_match:
  "map fst deploy_tab_triggers = map fst deploy_tab_contents \<and> map_of deploy_tab_contents deploy_default_tab = Some TabContractDashboard"
  by (simp add: deploy_tab_triggers_def deploy_tab_contents_def deploy_default_tab_def)

end
