(* ===== verification/APIManagement.thy ===== *)
theory APIManagement
  imports Deploy "HOL-Library.Sublist"
begin

text \<open>
  The API management page (\<open>src/src/pages/APIManagement\<close>). Its panels read mock
  data through simulated requests. Here are their figures and filters, and the
  settings form with its one-time initialisation from the fetched configuration.
  \<open>StatCard\<close> and \<open>ErrorBoundary\<close> are not in the repository. The records
  follow the fields the panels read. The unions of \<open>types.ts\<close> are predicates in
  \<open>APIPanels\<close>. Times
  of the mock data (\<open>new Date(...).toISOString()\<close>) are parameters. So are
  \<open>toLocaleString\<close> (\<open>fmt\<close>) and \<open>toFixed\<close> (\<open>fixed\<close>).
\<close>

section \<open>The dashboard tab\<close>

record api_activity =
  act_type :: string
  act_message :: string
  act_timestamp :: string

record api_metrics =
  health :: string
  healthChange :: js_number
  requestVolume :: js_number
  volumeChange :: js_number
  errorRate :: js_number
  errorChange :: js_number
  am_activeUsers :: js_number
  userChange :: js_number
  successRate :: js_number
  successChange :: js_number
  cacheHitRate :: js_number
  cacheChange :: js_number
  recentActivity :: "api_activity list"

text \<open>\<open>getSystemMetrics()\<close>; \<open>t0\<close>, \<open>t5\<close>, \<open>t10\<close> are now, five and ten minutes ago.\<close>

definition getSystemMetrics :: "string \<Rightarrow> string \<Rightarrow> string \<Rightarrow> api_metrics" where
  "getSystemMetrics t0 t5 t10 =
     \<lparr>health = ''Healthy'', healthChange = 0, requestVolume = 15234, volumeChange = 12.5,
      errorRate = 0.5, errorChange = -2.3, am_activeUsers = 1250, userChange = 5.7,
      successRate = 99.5, successChange = 0.2, cacheHitRate = 85.3, cacheChange = 3.1,
      recentActivity =
        [\<lparr>act_type = ''success'', act_message = ''API rate limit updated successfully'', act_timestamp = t0\<rparr>,
         \<lparr>act_type = ''warning'', act_message = ''High request volume detected'', act_timestamp = t5\<rparr>,
         \<lparr>act_type = ''error'', act_message = ''Failed authentication attempt from unauthorized IP'',
          act_timestamp = t10\<rparr>]\<rparr>"

text \<open>The six cards' values: \<open>'Loading...'\<close> while loading, else the metric or its default.\<close>

definition api_dashboard_cards :: "(real \<Rightarrow> string) \<Rightarrow> bool \<Rightarrow> api_metrics option \<Rightarrow> string list" where
  "api_dashboard_cards fmt loading m =
     (if loading then replicate 6 ''Loading...''
      else (let num = (\<lambda>f. case m of Some x \<Rightarrow> f x | None \<Rightarrow> 0) in
            [(case m of Some x \<Rightarrow> if health x \<noteq> [] then health x else ''Healthy'' | None \<Rightarrow> ''Healthy''),
             (case m of Some x \<Rightarrow> fmt (requestVolume x) | None \<Rightarrow> ''0''),
             fmt (num errorRate) @ ''%'',
             (case m of Some x \<Rightarrow> fmt (am_activeUsers x) | None \<Rightarrow> ''0''),
             fmt (num successRate) @ ''%'',
             fmt (num cacheHitRate) @ ''%'']))"

datatype badge_colour = BadgeRed | BadgeYellow | BadgeGreen

definition activity_badge :: "string \<Rightarrow> badge_colour" where
  "activity_badge t = (if t = ''error'' then BadgeRed else if t = ''warning'' then BadgeYellow else BadgeGreen)"

section \<open>The transactions tab\<close>

record api_transaction =
  atx_id :: string
  atx_userId :: string
  atx_type :: string
  atx_status :: string
  atx_amount :: js_number
  atx_timestamp :: string
  atx_endpoint :: string
  atx_method :: string
  atx_responseTime :: js_number
  atx_error :: "string option"

text \<open>\<open>fetchTransactions()\<close>; the arguments are the three timestamps.\<close>

definition fetchTransactions_mock :: "string \<Rightarrow> string \<Rightarrow> string \<Rightarrow> api_transaction list" where
  "fetchTransactions_mock t5 t10 t15 =
     [\<lparr>atx_id = ''1'', atx_userId = ''user_123'', atx_type = ''API_CALL'', atx_status = ''success'', atx_amount = 1000,
       atx_timestamp = t5, atx_endpoint = ''/api/v1/balance'', atx_method = ''GET'', atx_responseTime = 123,
       atx_error = None\<rparr>,
      \<lparr>atx_id = ''2'', atx_userId = ''user_456'', atx_type = ''TOKEN_TRANSFER'', atx_status = ''pending'',
       atx_amount = 500, atx_timestamp = t10, atx_endpoint = ''/api/v1/transfer'', atx_method = ''POST'',
       atx_responseTime = 245, atx_error = None\<rparr>,
      \<lparr>atx_id = ''3'', atx_userId = ''user_789'', atx_type = ''STAKE'', atx_status = ''failed'', atx_amount = 2500,
       atx_timestamp = t15, atx_endpoint = ''/api/v1/stake'', atx_method = ''POST'', atx_responseTime = 89,
       atx_error = Some ''Insufficient balance''\<rparr>]"

definition api_tx_matches :: "string \<Rightarrow> string \<Rightarrow> api_transaction \<Rightarrow> bool" where
  "api_tx_matches q st tx \<longleftrightarrow>
     (q = [] \<or> js_includes (js_toLowerCase (atx_id tx)) (js_toLowerCase q)
             \<or> js_includes (js_toLowerCase (atx_userId tx)) (js_toLowerCase q)
             \<or> js_includes (js_toLowerCase (atx_type tx)) (js_toLowerCase q))
     \<and> (st = ''all'' \<or> atx_status tx = st)"

text \<open>\<open>transactions?.filter(...)\<close>: undefined while there is no data.\<close>

definition api_filteredTransactions ::
  "string \<Rightarrow> string \<Rightarrow> api_transaction list option \<Rightarrow> api_transaction list option" where
  "api_filteredTransactions q st txs = map_option (filter (api_tx_matches q st)) txs"

datatype api_tx_view =
    TxPanelError
  | TxPanelLoading
  | TxPanelTable "(api_transaction \<times> bool) list"   \<comment> \<open>each row with whether it has a retry button\<close>

definition api_tx_panel_view :: "bool \<Rightarrow> bool \<Rightarrow> string \<Rightarrow> string \<Rightarrow> api_transaction list option \<Rightarrow> api_tx_view" where
  "api_tx_panel_view err loading q st txs =
     (if err then TxPanelError
      else if loading then TxPanelLoading
      else TxPanelTable (map (\<lambda>tx. (tx, atx_status tx = ''failed''))
                             (case api_filteredTransactions q st txs of Some l \<Rightarrow> l | None \<Rightarrow> [])))"

section \<open>The liquidity tab\<close>

record pool_token =
  tk_symbol :: string
  tk_amount :: js_number
  tk_value :: js_number

record liquidity_pool =
  lp_id :: string
  lp_name :: string
  lp_token0 :: pool_token
  lp_token1 :: pool_token
  lp_tvl :: js_number
  lp_volume24h :: js_number
  lp_fees24h :: js_number
  lp_apy :: js_number
  lp_priceImpact :: js_number
  lp_lastUpdated :: string

definition fetchLiquidityPools_mock :: "string \<Rightarrow> liquidity_pool list" where
  "fetchLiquidityPools_mock now =
     [\<lparr>lp_id = ''1'', lp_name = ''XLC/USDT'',
       lp_token0 = \<lparr>tk_symbol = ''XLC'', tk_amount = 1000000, tk_value = 1000000\<rparr>,
       lp_token1 = \<lparr>tk_symbol = ''USDT'', tk_amount = 1000000, tk_value = 1000000\<rparr>,
       lp_tvl = 2000000, lp_volume24h = 150000, lp_fees24h = 450, lp_apy = 24.5, lp_priceImpact = 0.15,
       lp_lastUpdated = now\<rparr>,
      \<lparr>lp_id = ''2'', lp_name = ''XLC/BUSD'',
       lp_token0 = \<lparr>tk_symbol = ''XLC'', tk_amount = 500000, tk_value = 500000\<rparr>,
       lp_token1 = \<lparr>tk_symbol = ''BUSD'', tk_amount = 500000, tk_value = 500000\<rparr>,
       lp_tvl = 1000000, lp_volume24h = 75000, lp_fees24h = 225, lp_apy = 18.75, lp_priceImpact = 0.25,
       lp_lastUpdated = now\<rparr>]"

text \<open>
  The four overview figures, rendered outside the loading branch: while there is no
  data, \<open>pools?.reduce(...)?.toLocaleString()\<close> is \<open>undefined\<close> (nothing after
  the dollar sign) and the average is \<open>undefined / 1\<close>, that is \<open>NaN\<close>.
\<close>

definition liquidity_overview ::
  "(real \<Rightarrow> string) \<Rightarrow> (real \<Rightarrow> string) \<Rightarrow> liquidity_pool list option \<Rightarrow> string list" where
  "liquidity_overview fmt fixed pools =
     (let total = (\<lambda>f. case pools of Some ps \<Rightarrow> fmt (js_sum_by f 0 ps) | None \<Rightarrow> [])
      in [''$'' @ total lp_tvl, ''$'' @ total lp_volume24h, ''$'' @ total lp_fees24h,
          (case pools of
             Some ps \<Rightarrow> fixed (js_sum_by lp_priceImpact 0 ps / real (if ps = [] then 1 else length ps))
           | None \<Rightarrow> ''NaN'') @ ''%''])"

text \<open>The price line \<open>1 A = (value1 / value0).toFixed(4) B\<close>; division by 0 gives \<open>Infinity\<close> or \<open>NaN\<close>.\<close>

definition js_div_text :: "(real \<Rightarrow> string) \<Rightarrow> real \<Rightarrow> real \<Rightarrow> string" where
  "js_div_text fixed x y =
     (if y \<noteq> 0 then fixed (x / y) else if x = 0 then ''NaN'' else if 0 < x then ''Infinity'' else ''-Infinity'')"

definition pool_price_line :: "(real \<Rightarrow> string) \<Rightarrow> liquidity_pool \<Rightarrow> string" where
  "pool_price_line fixed p =
     ''1 '' @ tk_symbol (lp_token0 p) @ '' = '' @ js_div_text fixed (tk_value (lp_token1 p)) (tk_value (lp_token0 p))
     @ '' '' @ tk_symbol (lp_token1 p)"

section \<open>The users and staking tabs\<close>

record api_user =
  au_id :: string
  au_name :: string
  au_email :: string
  au_apiKey :: string
  au_status :: string
  au_requests :: int
  au_period :: string
  au_createdAt :: string
  au_lastActive :: string

definition fetchAPIUsers_mock :: "string \<Rightarrow> string \<Rightarrow> string \<Rightarrow> string \<Rightarrow> api_user list" where
  "fetchAPIUsers_mock c1 a1 c2 a2 =
     [\<lparr>au_id = ''1'', au_name = ''Trading Bot A'', au_email = ''bot.a@example.com'', au_apiKey = ''xlc_key_123456789'',
       au_status = ''active'', au_requests = 1000, au_period = ''1m'', au_createdAt = c1, au_lastActive = a1\<rparr>,
      \<lparr>au_id = ''2'', au_name = ''Exchange Integration'', au_email = ''exchange@example.com'',
       au_apiKey = ''xlc_key_987654321'', au_status = ''active'', au_requests = 5000, au_period = ''1m'',
       au_createdAt = c2, au_lastActive = a2\<rparr>]"

text \<open>
  A user's row: rate limit, status badge, and the status button's title and the
  status it would request. Every action handler only logs.
\<close>

definition api_user_row :: "api_user \<Rightarrow> string \<times> bool \<times> string \<times> string" where
  "api_user_row u =
     (show_int (au_requests u) @ '' req/'' @ au_period u, au_status u = ''active'',
      (if au_status u = ''active'' then ''Suspend User'' else ''Activate User''),
      (if au_status u = ''active'' then ''suspended'' else ''active''))"

record api_staking_pool =
  asp_id :: string
  asp_name :: string
  asp_totalStaked :: js_number
  asp_apy :: js_number
  asp_minStakeAmount :: js_number
  asp_lockPeriod :: int
  asp_active :: bool
  asp_startDate :: string
  asp_endDate :: string

definition fetchStakingPools_mock :: "string \<Rightarrow> string \<Rightarrow> string \<Rightarrow> api_staking_pool list" where
  "fetchStakingPools_mock now end90 end180 =
     [\<lparr>asp_id = ''1'', asp_name = ''Standard Pool'', asp_totalStaked = 1000000, asp_apy = 12.5,
       asp_minStakeAmount = 1000, asp_lockPeriod = 30, asp_active = True, asp_startDate = now, asp_endDate = end90\<rparr>,
      \<lparr>asp_id = ''2'', asp_name = ''Premium Pool'', asp_totalStaked = 5000000, asp_apy = 18.75,
       asp_minStakeAmount = 5000, asp_lockPeriod = 90, asp_active = True, asp_startDate = now, asp_endDate = end180\<rparr>]"

definition api_pool_card :: "(real \<Rightarrow> string) \<Rightarrow> api_staking_pool \<Rightarrow> string list" where
  "api_pool_card fmt p =
     [asp_name p, (if asp_active p then ''Active'' else ''Inactive''),
      (if asp_active p then ''Deactivate Pool'' else ''Activate Pool''),
      fmt (asp_apy p) @ ''%'', fmt (asp_totalStaked p) @ '' XLC'', fmt (asp_minStakeAmount p) @ '' XLC'',
      show_int (asp_lockPeriod p) @ '' days'']"

section \<open>The settings tab\<close>

text \<open>Numbers read with \<open>parseInt\<close>; \<open>None\<close> is \<open>NaN\<close>.\<close>

record rate_limits =
  rl_default :: "int option"
  rl_premium :: "int option"
  rl_period :: string

record security_cfg =
  sec_ipWhitelist :: "string list"
  sec_webhookUrl :: string
  sec_apiKeyExpiration :: "int option"

record caching_cfg =
  cache_enabled :: bool
  cache_ttl :: "int option"
  cache_maxSize :: "int option"

record system_config =
  cfg_rateLimits :: rate_limits
  cfg_security :: security_cfg
  cfg_caching :: caching_cfg

definition fetchSystemConfig_mock :: system_config where
  "fetchSystemConfig_mock =
     \<lparr>cfg_rateLimits = \<lparr>rl_default = Some 1000, rl_premium = Some 5000, rl_period = ''1m''\<rparr>,
      cfg_security = \<lparr>sec_ipWhitelist = [''192.168.1.1'', ''10.0.0.1''],
                      sec_webhookUrl = ''https://api.example.com/webhook'', sec_apiKeyExpiration = Some 90\<rparr>,
      cfg_caching = \<lparr>cache_enabled = True, cache_ttl = Some 300, cache_maxSize = Some 1000\<rparr>\<rparr>"

datatype settings_tab = TabRateLimits | TabSecurity | TabCaching

text \<open>One control's \<open>onChange\<close>, with the raw value it reads.\<close>

datatype settings_input =
    SetDefault string | SetPremium string | SetPeriod string
  | SetIpWhitelist string | SetWebhook string | SetExpiration string
  | SetCachingEnabled bool | SetTtl string | SetMaxSize string

fun settings_input_tab :: "settings_input \<Rightarrow> settings_tab" where
  "settings_input_tab (SetDefault _) = TabRateLimits"
| "settings_input_tab (SetPremium _) = TabRateLimits"
| "settings_input_tab (SetPeriod _) = TabRateLimits"
| "settings_input_tab (SetIpWhitelist _) = TabSecurity"
| "settings_input_tab (SetWebhook _) = TabSecurity"
| "settings_input_tab (SetExpiration _) = TabSecurity"
| "settings_input_tab (SetCachingEnabled _) = TabCaching"
| "settings_input_tab (SetTtl _) = TabCaching"
| "settings_input_tab (SetMaxSize _) = TabCaching"

text \<open>\<open>handleInputChange(section, field, value)\<close>: one field of one section replaced.\<close>

fun handleInputChange :: "settings_input \<Rightarrow> system_config \<Rightarrow> system_config" where
  "handleInputChange (SetDefault v) c = c\<lparr>cfg_rateLimits := (cfg_rateLimits c)\<lparr>rl_default := parseInt10 v\<rparr>\<rparr>"
| "handleInputChange (SetPremium v) c = c\<lparr>cfg_rateLimits := (cfg_rateLimits c)\<lparr>rl_premium := parseInt10 v\<rparr>\<rparr>"
| "handleInputChange (SetPeriod v) c = c\<lparr>cfg_rateLimits := (cfg_rateLimits c)\<lparr>rl_period := v\<rparr>\<rparr>"
| "handleInputChange (SetIpWhitelist v) c =
     c\<lparr>cfg_security := (cfg_security c)\<lparr>sec_ipWhitelist := js_split newline v\<rparr>\<rparr>"
| "handleInputChange (SetWebhook v) c = c\<lparr>cfg_security := (cfg_security c)\<lparr>sec_webhookUrl := v\<rparr>\<rparr>"
| "handleInputChange (SetExpiration v) c =
     c\<lparr>cfg_security := (cfg_security c)\<lparr>sec_apiKeyExpiration := parseInt10 v\<rparr>\<rparr>"
| "handleInputChange (SetCachingEnabled b) c = c\<lparr>cfg_caching := (cfg_caching c)\<lparr>cache_enabled := b\<rparr>\<rparr>"
| "handleInputChange (SetTtl v) c = c\<lparr>cfg_caching := (cfg_caching c)\<lparr>cache_ttl := parseInt10 v\<rparr>\<rparr>"
| "handleInputChange (SetMaxSize v) c = c\<lparr>cfg_caching := (cfg_caching c)\<lparr>cache_maxSize := parseInt10 v\<rparr>\<rparr>"

text \<open>
  The panel: the query's data and error, \<open>formData\<close>, the active tab, the last
  toast and what \<open>handleSubmit\<close> logged. The effect on \<open>[config]\<close> copies the
  configuration into the form only while the form is empty.
\<close>

record settings_panel =
  sp_config :: "system_config option"
  sp_error :: bool
  sp_form :: "system_config option"
  sp_tab :: settings_tab
  sp_toast :: "string option"
  sp_log :: "system_config list"

definition settings_init :: settings_panel where
  "settings_init = \<lparr>sp_config = None, sp_error = False, sp_form = None, sp_tab = TabRateLimits,
                    sp_toast = None, sp_log = []\<rparr>"

text \<open>The form is rendered when there is no error, the query is not loading and the form is set.\<close>

definition settings_form_shown :: "settings_panel \<Rightarrow> bool" where
  "settings_form_shown s \<longleftrightarrow> \<not> sp_error s \<and> sp_config s \<noteq> None \<and> sp_form s \<noteq> None"

datatype settings_event =
    ConfigFetched system_config
  | ConfigFailed
  | SettingsInput settings_input
  | SettingsTab settings_tab
  | SettingsSubmit

fun settings_step :: "settings_panel \<Rightarrow> settings_event \<Rightarrow> settings_panel" where
  "settings_step s (ConfigFetched c) =
     s\<lparr>sp_config := Some c, sp_error := False,
       sp_form := (if sp_form s = None then Some c else sp_form s)\<rparr>"
| "settings_step s ConfigFailed = s\<lparr>sp_error := True\<rparr>"
| "settings_step s (SettingsInput i) =
     (if settings_form_shown s \<and> sp_tab s = settings_input_tab i
      then s\<lparr>sp_form := map_option (handleInputChange i) (sp_form s)\<rparr> else s)"
| "settings_step s (SettingsTab t) = (if settings_form_shown s then s\<lparr>sp_tab := t\<rparr> else s)"
| "settings_step s SettingsSubmit =
     (if settings_form_shown s
      then s\<lparr>sp_log := the (sp_form s) # sp_log s, sp_toast := Some ''Settings updated successfully''\<rparr> else s)"

definition settings_run :: "settings_event list \<Rightarrow> settings_panel" where
  "settings_run evs = foldl settings_step settings_init evs"

text \<open>The configuration of the first successful fetch.\<close>

fun first_config :: "settings_event list \<Rightarrow> system_config option" where
  "first_config [] = None"
| "first_config (ConfigFetched c # _) = Some c"
| "first_config (_ # evs) = first_config evs"

text \<open>The values the user entered, in order, whether or not they reached the form.\<close>

definition settings_inputs :: "settings_event list \<Rightarrow> settings_input list" where
  "settings_inputs evs = concat (map (\<lambda>e. case e of SettingsInput i \<Rightarrow> [i] | _ \<Rightarrow> []) evs)"

section \<open>Lemmas\<close>

lemma subseq_snoc_right: "subseq xs ys \<Longrightarrow> subseq xs (ys @ zs)"
  by (metis append_Nil2 list_emb_Nil list_emb_append_mono)

lemma first_config_snoc:
  "first_config (evs @ [e]) = (case first_config evs of Some c \<Rightarrow> Some c | None \<Rightarrow> first_config [e])"
  by (induction evs rule: first_config.induct) (simp_all split: option.splits)

lemma settings_run_snoc: "settings_run (evs @ [e]) = settings_step (settings_run evs) e"
  by (simp add: settings_run_def)

lemma settings_form_none_iff: "sp_form (settings_run evs) = None \<longleftrightarrow> first_config evs = None"
proof (induction evs rule: rev_induct)
  case Nil
  then show ?case by (simp add: settings_run_def settings_init_def)
next
  case (snoc e evs)
  then show ?case
    by (cases e) (auto simp: settings_run_snoc first_config_snoc settings_form_shown_def split: option.splits)
qed

text \<open>The transactions table: no search and no status filter show every transaction.\<close>

lemma api_filter_all: "api_filteredTransactions [] ''all'' txs = txs"
  by (cases txs) (simp_all add: api_filteredTransactions_def api_tx_matches_def)

lemma api_tx_retry_iff_failed:
  "api_tx_panel_view False False q st (Some txs) = TxPanelTable rows \<Longrightarrow> (tx, b) \<in> set rows \<Longrightarrow>
   b \<longleftrightarrow> atx_status tx = ''failed''"
  by (auto simp: api_tx_panel_view_def api_filteredTransactions_def)

text \<open>While the pools load, the overview shows a bare dollar sign and \<open>NaN%\<close>.\<close>

lemma liquidity_overview_loading: "liquidity_overview fmt fixed None = [''$'', ''$'', ''$'', ''NaN%'']"
  by (simp add: liquidity_overview_def)

lemma liquidity_average_bounds:
  assumes "ps \<noteq> []"
  shows "Min (lp_priceImpact ` set ps) \<le> js_sum_by lp_priceImpact 0 ps / real (length ps)
         \<and> js_sum_by lp_priceImpact 0 ps / real (length ps) \<le> Max (lp_priceImpact ` set ps)"
proof -
  have "sum_list (map lp_priceImpact ps) \<le> real (length ps) * Max (lp_priceImpact ` set ps)"
    using sum_list_mono [of ps lp_priceImpact "\<lambda>_. Max (lp_priceImpact ` set ps)"] by (simp add: sum_list_triv)
  moreover have "real (length ps) * Min (lp_priceImpact ` set ps) \<le> sum_list (map lp_priceImpact ps)"
    using sum_list_mono [of ps "\<lambda>_. Min (lp_priceImpact ` set ps)" lp_priceImpact] by (simp add: sum_list_triv)
  moreover have "0 < real (length ps)" using assms by simp
  ultimately show ?thesis
    by (simp add: js_sum_by_sum_list pos_divide_le_eq pos_le_divide_eq mult.commute)
qed

text \<open>
  C36. The settings form holds the configuration of the first successful fetch
  with some of the user's own entries applied in the order they were made,
  whatever the later fetches returned: the effect fills the form only while it is
  empty, so a refetch never reaches it and a save sends the old values.
\<close>

theorem settings_form_first_config:
  "\<exists>ins. subseq ins (settings_inputs evs)
         \<and> sp_form (settings_run evs) = map_option (\<lambda>c. foldl (\<lambda>c i. handleInputChange i c) c ins) (first_config evs)"
proof (induction evs rule: rev_induct)
  case Nil
  show ?case by (intro exI [of _ "[]"]) (simp add: settings_run_def settings_init_def settings_inputs_def)
next
  case (snoc e evs)
  then obtain ins where sub: "subseq ins (settings_inputs evs)" and ih:
    "sp_form (settings_run evs) = map_option (\<lambda>c. foldl (\<lambda>c i. handleInputChange i c) c ins) (first_config evs)"
    by blast
  have keep: "subseq ins (settings_inputs (evs @ [e]))"
    using sub by (simp add: settings_inputs_def subseq_snoc_right)
  show ?case
  proof (cases e)
    case (ConfigFetched c)
    show ?thesis
    proof (cases "first_config evs")
      case None
      then have "sp_form (settings_run evs) = None" by (simp add: settings_form_none_iff)
      with None ConfigFetched show ?thesis
        by (intro exI [of _ "[]"]) (simp add: settings_run_snoc first_config_snoc)
    next
      case (Some c0)
      with ih keep ConfigFetched show ?thesis
        by (intro exI [of _ ins]) (simp add: settings_run_snoc first_config_snoc)
    qed
  next
    case (SettingsInput i)
    have ext: "subseq (ins @ [i]) (settings_inputs (evs @ [e]))"
      using sub SettingsInput by (simp add: settings_inputs_def)
    with ih keep SettingsInput show ?thesis
      by (intro exI [of _ "if settings_form_shown (settings_run evs) \<and> sp_tab (settings_run evs) = settings_input_tab i
                          then ins @ [i] else ins"])
         (auto simp: settings_run_snoc first_config_snoc option.map_comp comp_def split: option.splits)
  qed (use ih keep in \<open>auto simp: settings_run_snoc first_config_snoc split: option.splits\<close>)
qed

end
