(* ===== verification/APIPanels.thy ===== *)
theory APIPanels
  imports APIManagement
begin

text \<open>
  The list panels of the API management page (\<open>components/LiquidityPanel.tsx\<close>,
  \<open>StakingPanel.tsx\<close>, \<open>UsersPanel.tsx\<close>), the page's tabs (\<open>index.tsx\<close>) and
  the string unions of \<open>types.ts\<close>. The three panels have one shape: a react-query
  list query, an optional \<open>selected\<close> item, and handlers that only log. Their
  render is the error text when the query failed, else a loading text while there
  is no data, else one card per item. \<open>'a list_panel\<close> is that shape over the
  item type. Each panel gives its cards, texts and handlers. A settled fetch
  (mount or Refresh, after react-query's retries) is \<open>PanelSettled\<close>. \<open>None\<close>
  means it failed, and react-query keeps the last data. A log line is the
  arguments of \<open>console.log\<close> joined by spaces. Date formatting
  (\<open>toLocaleString\<close>, \<open>toLocaleDateString\<close>) and number formatting are
  parameters.
\<close>

section \<open>The list panels' shared shape\<close>

record 'a list_panel =
  lpn_data :: "'a list option"
  lpn_error :: bool
  lpn_selected :: "'a option"
  lpn_log :: "string list"

datatype 'a panel_event =
    PanelSettled "'a list option"
  | PanelSelect 'a string      \<comment> \<open>a handler that sets the selected item and logs\<close>
  | PanelAction string         \<comment> \<open>a handler that only logs\<close>

definition list_panel_init :: "'a list_panel" where
  "list_panel_init = \<lparr>lpn_data = None, lpn_error = False, lpn_selected = None, lpn_log = []\<rparr>"

fun list_panel_step :: "'a list_panel \<Rightarrow> 'a panel_event \<Rightarrow> 'a list_panel" where
  "list_panel_step s (PanelSettled (Some xs)) = s\<lparr>lpn_data := Some xs, lpn_error := False\<rparr>"
| "list_panel_step s (PanelSettled None) = s\<lparr>lpn_error := True\<rparr>"
| "list_panel_step s (PanelSelect x msg) = s\<lparr>lpn_selected := Some x, lpn_log := lpn_log s @ [msg]\<rparr>"
| "list_panel_step s (PanelAction msg) = s\<lparr>lpn_log := lpn_log s @ [msg]\<rparr>"

definition list_panel_run :: "'a panel_event list \<Rightarrow> 'a list_panel" where
  "list_panel_run evs = foldl list_panel_step list_panel_init evs"

datatype 'b panel_body = BodyError string | BodyLoading string | BodyItems "'b list"

definition list_panel_body :: "string \<Rightarrow> string \<Rightarrow> ('a \<Rightarrow> 'b) \<Rightarrow> 'a list_panel \<Rightarrow> 'b panel_body" where
  "list_panel_body err load item s =
     (if lpn_error s then BodyError err
      else (case lpn_data s of None \<Rightarrow> BodyLoading load | Some xs \<Rightarrow> BodyItems (map item xs)))"

text \<open>The answer of the last settled fetch, if any.\<close>

fun last_settled :: "'a panel_event list \<Rightarrow> 'a list option option" where
  "last_settled [] = None"
| "last_settled (PanelSettled r # evs) = (case last_settled evs of None \<Rightarrow> Some r | s \<Rightarrow> s)"
| "last_settled (PanelSelect x m # evs) = last_settled evs"
| "last_settled (PanelAction m # evs) = last_settled evs"

section \<open>The dashboard tab\<close>

text \<open>
  The Recent Activity list: the loading text, else one row per activity (its type,
  badge colour, message and time). The query's \<open>error\<close> is not read.
\<close>

definition api_activity_list ::
  "(string \<Rightarrow> string) \<Rightarrow> bool \<Rightarrow> api_metrics option \<Rightarrow> string + (string \<times> badge_colour \<times> string \<times> string) list" where
  "api_activity_list date loading m =
     (if loading then Inl ''Loading activity...''
      else Inr (case m of
                  None \<Rightarrow> []
                | Some x \<Rightarrow> map (\<lambda>a. (act_type a, activity_badge (act_type a), act_message a, date (act_timestamp a)))
                              (recentActivity x)))"

definition api_dashboard_view ::
  "(real \<Rightarrow> string) \<Rightarrow> (string \<Rightarrow> string) \<Rightarrow> bool \<Rightarrow> api_metrics option
   \<Rightarrow> string list \<times> (string + (string \<times> badge_colour \<times> string \<times> string) list)" where
  "api_dashboard_view fmt date loading m = (api_dashboard_cards fmt loading m, api_activity_list date loading m)"

section \<open>The liquidity panel\<close>

text \<open>A pool's card; \<open>fixed2\<close> and \<open>fixed4\<close> are \<open>toFixed(2)\<close> and \<open>toFixed(4)\<close>.\<close>

definition liquidity_card ::
  "(real \<Rightarrow> string) \<Rightarrow> (real \<Rightarrow> string) \<Rightarrow> (real \<Rightarrow> string) \<Rightarrow> (string \<Rightarrow> string) \<Rightarrow> liquidity_pool
   \<Rightarrow> string list" where
  "liquidity_card fmt fixed2 fixed4 date p =
     [lp_name p, ''Last updated: '' @ date (lp_lastUpdated p),
      fmt (tk_amount (lp_token0 p)) @ '' '' @ tk_symbol (lp_token0 p),
      fmt (tk_amount (lp_token1 p)) @ '' '' @ tk_symbol (lp_token1 p),
      ''$'' @ fmt (lp_tvl p), ''$'' @ fmt (lp_volume24h p), fixed2 (lp_apy p) @ ''%'',
      ''$'' @ fmt (lp_fees24h p), fixed2 (lp_priceImpact p) @ ''%'', pool_price_line fixed4 p]"

definition liquidity_handleViewDetails :: "liquidity_pool \<Rightarrow> liquidity_pool panel_event" where
  "liquidity_handleViewDetails p = PanelSelect p (''Viewing pool details: '' @ lp_id p)"

text \<open>The panel: the error text alone, or the overview figures and the pool list.\<close>

definition LiquidityPanel_view ::
  "(real \<Rightarrow> string) \<Rightarrow> (real \<Rightarrow> string) \<Rightarrow> (real \<Rightarrow> string) \<Rightarrow> (string \<Rightarrow> string)
   \<Rightarrow> liquidity_pool list_panel \<Rightarrow> string + string list \<times> string list panel_body" where
  "LiquidityPanel_view fmt fixed2 fixed4 date s =
     (if lpn_error s then Inl ''Error loading liquidity pools''
      else Inr (liquidity_overview fmt fixed2 (lpn_data s),
                list_panel_body [] ''Loading liquidity pools...'' (liquidity_card fmt fixed2 fixed4 date) s))"

section \<open>The staking panel\<close>

definition staking_card :: "(real \<Rightarrow> string) \<Rightarrow> (string \<Rightarrow> string) \<Rightarrow> api_staking_pool \<Rightarrow> string list" where
  "staking_card fmt date p =
     api_pool_card fmt p @ [''Start Date'', date (asp_startDate p), ''End Date'', date (asp_endDate p),
                            ''View Details'', ''View Stakers'']"

definition staking_handleCreatePool :: "api_staking_pool panel_event" where
  "staking_handleCreatePool = PanelAction ''Creating new staking pool''"

definition staking_handleEditPool :: "api_staking_pool \<Rightarrow> api_staking_pool panel_event" where
  "staking_handleEditPool p = PanelSelect p (''Editing pool: '' @ asp_id p)"

definition staking_handleDeletePool :: "string \<Rightarrow> api_staking_pool panel_event" where
  "staking_handleDeletePool i = PanelAction (''Deleting pool: '' @ i)"

definition staking_handleTogglePool :: "string \<Rightarrow> bool \<Rightarrow> api_staking_pool panel_event" where
  "staking_handleTogglePool i cur =
     PanelAction (''Toggling pool status: '' @ i @ '' to: '' @ (if \<not> cur then ''true'' else ''false''))"

text \<open>The two buttons at the foot of a card.\<close>

definition staking_card_buttons :: "api_staking_pool \<Rightarrow> api_staking_pool panel_event list" where
  "staking_card_buttons p =
     [PanelAction (''View pool details: '' @ asp_id p), PanelAction (''View stakers: '' @ asp_id p)]"

definition StakingPanel_view ::
  "(real \<Rightarrow> string) \<Rightarrow> (string \<Rightarrow> string) \<Rightarrow> api_staking_pool list_panel \<Rightarrow> string + string list panel_body" where
  "StakingPanel_view fmt date s =
     (if lpn_error s then Inl ''Error loading staking pools''
      else Inr (list_panel_body [] ''Loading staking pools...'' (staking_card fmt date) s))"

section \<open>The users panel\<close>

definition users_handleRegenerateKey :: "string \<Rightarrow> api_user panel_event" where
  "users_handleRegenerateKey i = PanelAction (''Regenerating API key for user: '' @ i)"

definition users_handleUpdateStatus :: "string \<Rightarrow> string \<Rightarrow> api_user panel_event" where
  "users_handleUpdateStatus i st = PanelAction (''Updating status for user: '' @ i @ '' to: '' @ st)"

definition users_handleUpdateRateLimits :: "string \<Rightarrow> api_user panel_event" where
  "users_handleUpdateRateLimits i = PanelAction (''Updating rate limits for user: '' @ i)"

text \<open>A user's row: name, e-mail, key, the rate-limit and status cells, and the last activity.\<close>

definition users_row :: "(string \<Rightarrow> string) \<Rightarrow> api_user \<Rightarrow> string list \<times> (string \<times> bool \<times> string \<times> string)" where
  "users_row date u = ([au_name u, au_email u, au_apiKey u, date (au_lastActive u)], api_user_row u)"

text \<open>The row's three action buttons: rate limits, key, and status (with the status the row offers).\<close>

definition users_row_actions :: "api_user \<Rightarrow> api_user panel_event list" where
  "users_row_actions u =
     [users_handleUpdateRateLimits (au_id u), users_handleRegenerateKey (au_id u),
      users_handleUpdateStatus (au_id u) (if au_status u = ''active'' then ''suspended'' else ''active'')]"

definition UsersPanel_view ::
  "(string \<Rightarrow> string) \<Rightarrow> api_user list_panel
   \<Rightarrow> string + (string list \<times> (string \<times> bool \<times> string \<times> string)) panel_body" where
  "UsersPanel_view date s =
     (if lpn_error s then Inl ''Error loading API users''
      else Inr (list_panel_body [] ''Loading users...'' (users_row date) s))"

section \<open>The page's tabs\<close>

datatype api_panel = PDashboard | PUsers | PTransactions | PStaking | PLiquidity | PSettings

definition api_tab_triggers :: "(string \<times> string) list" where
  "api_tab_triggers =
     [(''dashboard'', ''Dashboard''), (''users'', ''Users''), (''transactions'', ''Transactions''),
      (''staking'', ''Staking''), (''liquidity'', ''Liquidity''), (''settings'', ''Settings'')]"

definition api_tab_contents :: "(string \<times> api_panel) list" where
  "api_tab_contents =
     [(''dashboard'', PDashboard), (''users'', PUsers), (''transactions'', PTransactions),
      (''staking'', PStaking), (''liquidity'', PLiquidity), (''settings'', PSettings)]"

definition api_default_tab :: string where
  "api_default_tab = ''dashboard''"

text \<open>The panel the page shows for the selected tab value.\<close>

definition api_tab_panel :: "string \<Rightarrow> api_panel option" where
  "api_tab_panel v = map_of api_tab_contents v"

section \<open>The declared unions of types.ts\<close>

definition activity_typed :: "api_activity \<Rightarrow> bool" where
  "activity_typed a \<longleftrightarrow> act_type a \<in> {''success'', ''warning'', ''error''}"

definition api_metrics_typed :: "api_metrics \<Rightarrow> bool" where
  "api_metrics_typed m \<longleftrightarrow> list_all activity_typed (recentActivity m)"

definition api_user_typed :: "api_user \<Rightarrow> bool" where
  "api_user_typed u \<longleftrightarrow> au_status u \<in> {''active'', ''suspended'', ''pending''}"

definition api_tx_typed :: "api_transaction \<Rightarrow> bool" where
  "api_tx_typed t \<longleftrightarrow> atx_status t \<in> {''success'', ''pending'', ''failed''}"

section \<open>Lemmas\<close>
lemma last_settled_snoc:
  "last_settled (evs @ [e]) =
     (case e of PanelSettled r \<Rightarrow> Some r | PanelSelect x m \<Rightarrow> last_settled evs | PanelAction m \<Rightarrow> last_settled evs)"
  by (induction evs rule: last_settled.induct) (auto split: panel_event.splits option.splits)

lemma list_panel_run_snoc: "list_panel_run (evs @ [e]) = list_panel_step (list_panel_run evs) e"
  by (simp add: list_panel_run_def)

text \<open>What the shared state holds after any events: the error flag and the data follow the last settled fetch.\<close>

lemma list_panel_run_state:
  "lpn_error (list_panel_run evs) = (last_settled evs = Some None)
   \<and> (last_settled evs = None \<longrightarrow> lpn_data (list_panel_run evs) = None)
   \<and> (\<forall>xs. last_settled evs = Some (Some xs) \<longrightarrow> lpn_data (list_panel_run evs) = Some xs)"
proof (induction evs rule: rev_induct)
  case Nil
  then show ?case by (simp add: list_panel_run_def list_panel_init_def)
next
  case (snoc e evs)
  then show ?case
  proof (cases e)
    case (PanelSettled r)
    then show ?thesis by (cases r) (simp_all add: list_panel_run_snoc last_settled_snoc)
  qed (simp_all add: list_panel_run_snoc last_settled_snoc)
qed

lemma fetchAPIUsers_typed: "list_all api_user_typed (fetchAPIUsers_mock c1 a1 c2 a2)"
  by (simp add: fetchAPIUsers_mock_def api_user_typed_def)

lemma getSystemMetrics_typed: "api_metrics_typed (getSystemMetrics t0 t5 t10)"
  by (simp add: getSystemMetrics_def api_metrics_typed_def activity_typed_def)

lemma api_tabs_match: "map fst api_tab_triggers = map fst api_tab_contents \<and> api_tab_panel api_default_tab = Some PDashboard"
  by (simp add: api_tab_triggers_def api_tab_contents_def api_tab_panel_def api_default_tab_def)
text \<open>A failed metrics request shows the system as Healthy with zero figures and no activity.\<close>

lemma api_dashboard_failed_fetch:
  "api_dashboard_view fmt date False None
   = ([''Healthy'', ''0'', fmt 0 @ ''%'', ''0'', fmt 0 @ ''%'', fmt 0 @ ''%''], Inr [])"
  by (simp add: api_dashboard_view_def api_dashboard_cards_def api_activity_list_def)

lemma fetchTransactions_typed: "list_all api_tx_typed (fetchTransactions_mock t5 t10 t15)"
  by (simp add: fetchTransactions_mock_def api_tx_typed_def)

lemma list_panel_view_after_failure:
  "lpn_error (list_panel_run (evs @ [PanelSettled None]))"
  by (simp add: list_panel_run_snoc)

lemma panel_views_after_failure:
  "LiquidityPanel_view fmt fixed2 fixed4 date (list_panel_run (evs @ [PanelSettled None]))
     = Inl ''Error loading liquidity pools''"
  "StakingPanel_view fmt date (list_panel_run (evs' @ [PanelSettled None])) = Inl ''Error loading staking pools''"
  "UsersPanel_view date (list_panel_run (evs'' @ [PanelSettled None])) = Inl ''Error loading API users''"
  by (simp_all add: LiquidityPanel_view_def StakingPanel_view_def UsersPanel_view_def list_panel_view_after_failure)

section \<open>Properties\<close>

text \<open>
  C37. What a list panel shows depends only on the last settled fetch. It shows
  the loading text before any fetch settled, the error text when the last one
  failed (even if an earlier one returned data, which react-query still holds),
  and otherwise one card per item of the last successful answer. The Details,
  Edit, Delete, Toggle and user-action buttons change nothing on screen.
\<close>

theorem list_panel_shows_last_fetch:
  "list_panel_body err load item (list_panel_run evs)
   = (case last_settled evs of
        None \<Rightarrow> BodyLoading load
      | Some None \<Rightarrow> BodyError err
      | Some (Some xs) \<Rightarrow> BodyItems (map item xs))"
  using list_panel_run_state [of evs] by (auto simp: list_panel_body_def split: option.splits)

end
