(* ===== verification/Shell.thy ===== *)
theory Shell
  imports Users
begin

text \<open>
  The application shell: the routes of \<open>src/src/App.tsx\<close>, the sidebar's
  navigation and contract-owner line (\<open>components/Sidebar.tsx\<close>), and the
  notifications bell (\<open>hooks/useNotifications.ts\<close>,
  \<open>components/Header/NotificationsMenu.tsx\<close>). The notifications listener keeps
  the unread notifications; Firebase's \<open>equalTo(false)\<close> on \<open>read\<close> keeps the
  children whose \<open>read\<close> value is the boolean \<open>false\<close>. \<open>Layout\<close> and
  \<open>SearchBar\<close> are not in the repository.
\<close>

section \<open>Routes and navigation\<close>

datatype app_page =
    PageLogin | PageDashboard | PageUsers | PageTransactions | PageAPIManagement
  | PageTokenOperations | PageDistribution | PageDeploy | PageTokenomics

text \<open>The routes; all but \<open>/login\<close> are children of the protected layout.\<close>

definition app_routes :: "(string \<times> app_page \<times> bool) list" where
  "app_routes =
     [(''/login'', PageLogin, False), (''/'', PageDashboard, True), (''/users'', PageUsers, True),
      (''/transactions'', PageTransactions, True), (''/api-management'', PageAPIManagement, True),
      (''/token-operations'', PageTokenOperations, True), (''/distribution'', PageDistribution, True),
      (''/deploy'', PageDeploy, True), (''/tokenomics'', PageTokenomics, True)]"

definition app_route :: "string \<Rightarrow> (app_page \<times> bool) option" where
  "app_route path = map_of app_routes path"

definition navigation :: "(string \<times> string) list" where
  "navigation =
     [(''Dashboard'', ''/''), (''Users'', ''/users''), (''Transactions'', ''/transactions''),
      (''Token Operations'', ''/token-operations''), (''API Management'', ''/api-management''),
      (''Distribution'', ''/distribution''), (''Deploy'', ''/deploy''), (''Tokenomics'', ''/tokenomics''),
      (''Settings'', ''/settings'')]"

text \<open>The sidebar's owner line: the result of \<open>owner()\<close> (\<open>None\<close>: the call failed, with a toast).\<close>

definition sidebar_owner :: "string option \<Rightarrow> string option \<times> string option" where
  "sidebar_owner r =
     (case r of
        Some o' \<Rightarrow> (if o' \<noteq> [] then Some o' else None, None)
      | None \<Rightarrow> (None, Some ''Failed to fetch contract owner''))"

section \<open>Notifications\<close>

record notif_data =
  nd_id :: "string option"
  nd_type :: "string option"
  nd_message :: "string option"
  nd_read :: fb_val
  nd_createdAt :: "string option"

record notification =
  notif_id :: string
  notif_type :: "string option"
  notif_message :: "string option"
  notif_read :: fb_val
  notif_createdAt :: "string option"

definition spread_notification :: "string \<Rightarrow> notif_data \<Rightarrow> notification" where
  "spread_notification k d =
     \<lparr>notif_id = (case nd_id d of Some i \<Rightarrow> i | None \<Rightarrow> k), notif_type = nd_type d,
      notif_message = nd_message d, notif_read = nd_read d, notif_createdAt = nd_createdAt d\<rparr>"

definition unread_query :: "notif_data js_object \<Rightarrow> notif_data js_object" where
  "unread_query node = filter (\<lambda>(_, d). nd_read d = FBool False) node"

text \<open>The \<open>onValue\<close> callback on the unread query; an empty result is a missing snapshot.\<close>

definition notifications_on_value :: "notif_data js_object \<Rightarrow> notification list" where
  "notifications_on_value node = map (\<lambda>(k, d). spread_notification k d) (unread_query node)"

record notif_menu =
  nm_open :: bool
  nm_notifications :: "notification list"

definition notif_menu_init :: notif_menu where
  "notif_menu_init = \<lparr>nm_open = False, nm_notifications = []\<rparr>"

datatype notif_event = NotifSnapshot "notif_data js_object" | BellClick

fun notif_step :: "notif_menu \<Rightarrow> notif_event \<Rightarrow> notif_menu" where
  "notif_step s (NotifSnapshot node) = s\<lparr>nm_notifications := notifications_on_value node\<rparr>"
| "notif_step s BellClick = s\<lparr>nm_open := \<not> nm_open s\<rparr>"

definition notif_run :: "notif_event list \<Rightarrow> notif_menu" where
  "notif_run evs = foldl notif_step notif_menu_init evs"

text \<open>What the menu renders: the bell and, when there are notifications, the red dot.\<close>

definition notif_badge :: "notif_menu \<Rightarrow> bool" where
  "notif_badge s \<longleftrightarrow> nm_notifications s \<noteq> []"

text \<open>The node of the last snapshot the listener received.\<close>

fun last_snapshot :: "notif_event list \<Rightarrow> notif_data js_object option" where
  "last_snapshot [] = None"
| "last_snapshot (NotifSnapshot n # evs) = (case last_snapshot evs of None \<Rightarrow> Some n | r \<Rightarrow> r)"
| "last_snapshot (BellClick # evs) = last_snapshot evs"

section \<open>The sidebar's links and the header\<close>

text \<open>
  \<open>NavLink\<close>'s \<open>isActive\<close> (react-router 6, \<open>end\<close> unset, case-insensitive):
  the location is the link's path or lies below it.
\<close>

definition navlink_active :: "string \<Rightarrow> string \<Rightarrow> bool" where
  "navlink_active to loc \<longleftrightarrow>
     (let t = js_toLowerCase to; l = js_toLowerCase loc
      in l = t \<or> (prefix t l \<and> length t < length l \<and> l ! length t = CHR ''/''))"

definition navlink_class :: "bool \<Rightarrow> string" where
  "navlink_class active =
     ''flex items-center px-4 py-2 text-sm font-medium rounded-md ''
     @ (if active then ''bg-indigo-50 text-indigo-600'' else ''text-gray-600 hover:bg-gray-50'')"

text \<open>The sidebar at location \<open>loc\<close> with owner state \<open>owner\<close>: its links (name, target, active) and owner line.\<close>

definition sidebar_view :: "string \<Rightarrow> string \<Rightarrow> (string \<times> string \<times> bool) list \<times> string option" where
  "sidebar_view loc owner =
     (map (\<lambda>(n, h). (n, h, navlink_active h loc)) navigation, if owner \<noteq> [] then Some owner else None)"

record user_menu =
  um_open :: bool
  um_location :: string

datatype user_menu_event = UMToggle | UMSettings | UMSignOut bool   \<comment> \<open>whether \<open>auth.signOut()\<close> resolved\<close>

text \<open>\<open>UserMenu\<close>: the avatar toggles the menu; Settings and a resolved sign-out navigate.\<close>

fun user_menu_step :: "user_menu \<Rightarrow> user_menu_event \<Rightarrow> user_menu" where
  "user_menu_step s UMToggle = s\<lparr>um_open := \<not> um_open s\<rparr>"
| "user_menu_step s UMSettings = (if um_open s then s\<lparr>um_location := ''/settings''\<rparr> else s)"
| "user_menu_step s (UMSignOut ok) = (if um_open s \<and> ok then s\<lparr>um_location := ''/login''\<rparr> else s)"

datatype header_item = HSearchBar | HWalletConnect | HNotificationsMenu | HUserMenu

definition header_items :: "header_item list" where
  "header_items = [HSearchBar, HWalletConnect, HNotificationsMenu, HUserMenu]"

section \<open>Lemmas\<close>

text \<open>The sidebar's Settings link matches no route; every other link reaches a protected page.\<close>

lemma navigation_routes:
  "\<forall>(n, h) \<in> set navigation. (app_route h = None \<longleftrightarrow> n = ''Settings'')
                               \<and> (n \<noteq> ''Settings'' \<longrightarrow> (\<exists>p. app_route h = Some (p, True)))"
  by (auto simp: navigation_def app_route_def app_routes_def)

lemma login_unprotected: "app_route ''/login'' = Some (PageLogin, False)"
  by (simp add: app_route_def app_routes_def)

lemma last_snapshot_snoc:
  "last_snapshot (evs @ [e]) = (case e of NotifSnapshot n \<Rightarrow> Some n | BellClick \<Rightarrow> last_snapshot evs)"
  by (induction evs rule: last_snapshot.induct) (auto split: notif_event.splits option.splits)

text \<open>
  The bell's dot is shown exactly when the last snapshot holds a notification whose
  \<open>read\<close> is the boolean \<open>false\<close>; clicking the bell toggles a flag that nothing
  renders.
\<close>

lemma notif_badge_run:
  "notif_badge (notif_run evs)
   \<longleftrightarrow> (case last_snapshot evs of None \<Rightarrow> False | Some n \<Rightarrow> (\<exists>(k, d) \<in> set n. nd_read d = FBool False))"
proof (induction evs rule: rev_induct)
  case Nil
  then show ?case by (simp add: notif_run_def notif_menu_init_def notif_badge_def)
next
  case (snoc e evs)
  then show ?case
    by (cases e) (auto simp: notif_run_def notif_badge_def last_snapshot_snoc notifications_on_value_def
        unread_query_def filter_empty_conv)
qed

lemma notif_string_false_unread:
  "notifications_on_value [(k, d)] = [] \<longleftrightarrow> nd_read d \<noteq> FBool False"
  by (simp add: notifications_on_value_def unread_query_def)
lemma sidebar_active_counts:
  "map (\<lambda>(p, _). length (filter (\<lambda>(n, h, a). a) (fst (sidebar_view p own)))) app_routes = [0, 1, 1, 1, 1, 1, 1, 1, 1]"
  by (simp add: sidebar_view_def navigation_def app_routes_def navlink_active_def js_toLowerCase_def
      ascii_lower_def)

end
