(* ===== verification/Spec2Isabelle.thy ===== *)
theory Spec2Isabelle
  imports TokenOps Auth Wallet WalletRace Tokenomics Offers Staking Rewards ChainStats Dashboard Users Deploy ContractService WalletRequests Integration APIManagement APIPanels Shell
begin

text \<open>
  \<^bold>\<open>A verification library for the xlC administrator dashboard.\<close>

  The repository (TypeScript and React, under \<open>src/src\<close>) is an administrative
  front end for a token project. Pages keep their state in React hooks. They read
  and write a Firebase Realtime Database through small service functions and
  \<open>onValue\<close> listeners, read a BNB Smart Chain token contract through web3, and
  log in against a remote HTTP endpoint. Its computational core is the
  rates-and-weights engine (\<open>lib/ratesAndWeights.ts\<close>). It turns metric readings
  and percentage weights into a daily rate. The forms of
  \<open>components/RatesAndWeights\<close> and the page \<open>pages/TokenOperations\<close> feed it
  and persist its inputs.

  \<^bold>\<open>Conventions\<close> (theory \<open>Prelude\<close>). A JavaScript number is a \<open>real\<close>:
  finite doubles without rounding. Where a state can hold \<open>NaN\<close> or
  \<open>undefined\<close> the model says so with an option or the datatype \<open>js_val\<close>. A
  JavaScript object used as a dictionary is an association list in
  \<open>Object.entries\<close> order with distinct keys (\<open>obj_wf\<close>). Writing a key is
  \<open>AList.update\<close> and deleting one is \<open>AList.delete\<close>. \<open>reduce\<close> is a left
  fold (\<open>js_sum_by\<close>). The database drops empty objects and arrays, so a child
  that became empty reads back as \<open>undefined\<close>. A page is a step function (or an
  inductive step relation) over its state, the part of the database it touches and
  the last toast. The outcome of a database write is a parameter of the event.
  Browser constraint validation (\<open>required\<close>, \<open>min\<close>, \<open>max\<close>) is the guard
  that lets a submit event reach its handler.

  \<^bold>\<open>Theories and what they prove.\<close> Claims are named by their theorems.
  \<^item> \<open>RatesWeights\<close>, the engine (\<open>lib/ratesAndWeights.ts\<close> lines 7--40,
    \<open>types/ratesAndWeights.ts\<close>). It defines \<open>normalizeValue\<close>,
    \<open>calculateDailyRate\<close> (its \<open>forEach\<close> as the recursion
    \<open>daily_rate_loop\<close>) and \<open>validateWeights\<close>. It proves the normaliser's bound,
    end points and clamping, and its behaviour on an inverted range
    (\<open>normalizeValue_*\<close>). It proves that the loop equals a sum of per-entry terms
    and refines an abstract rate over maps, and that orphaned weights and metrics
    without a reading are skipped. It bounds the rate by the baseline and the weight
    total, and shows that the weight check is independent of entry order. The specification's examples and scenarios are
    evaluated as lemmas.
  \<^item> \<open>RatesStore\<close>, the persisted aggregate and its writes (\<open>fetchRatesAndWeights\<close>,
    \<open>saveMetric\<close>, \<open>saveWeight\<close>, \<open>updateBaselineRate\<close>, \<open>deleteMetric\<close>,
    and the initial setup). Its invariant is that keys match ids and every weight
    names a metric. Guarded writes keep it (\<open>store_run_keeps_inv\<close>), deletion
    cascades, a save round-trips through a fetch, and a well-formed aggregate yields
    a rate. \<open>saveWeight\<close> keeps the invariant exactly when its metric is stored,
    and it does not check (\<open>saveWeight_unguarded_breaks_inv\<close>).
  \<^item> \<open>WeightForm\<close> and \<open>MetricForm\<close>, the two forms of
    \<open>components/RatesAndWeights\<close>: their state, change handlers, the browser's
    validation, the submit handlers with every error branch, and what they render.
    The outcome of the awaited \<open>saveWeight\<close> is a parameter of the submit. The
    running-total guard keeps the stored total at most 100, and a submission is
    refused exactly when it would exceed 100 or the write is rejected. The weight
    input's maximum exceeds the guard's.
  \<^item> \<open>TokenOps\<close>, the page \<open>pages/TokenOperations/index.tsx\<close> with both forms
    mounted on its rates tab. Every handler is an event of \<open>tokenops_step\<close>.
    \<open>tokenops_render\<close> is the render, which fails with a \<open>TypeError\<close> on a
    partial node and unmounts the application. \<open>tokenops_reachable\<close> is the
    inductive set of reachable states. It proves that from an empty store the first
    metric added through the form crashes the page, and that in every reachable
    state the rate shown depends on the \<open>initial\<close> metric alone, because metrics
    created by the form never carry a reading (rule induction).
  \<^item> \<open>Json\<close>, the text \<open>JSON.stringify\<close> produces for the stored session, and
    the number parsers \<open>parseFloat\<close>, \<open>parseInt10\<close> and the decimal printer with
    its round trip.
  \<^item> \<open>Auth\<close>, the session layer (\<open>auth/authService.ts\<close>, \<open>AuthContext\<close>,
    \<open>ProtectedRoute\<close>, the login hook, the user menu and the request interceptor
    of \<open>lib/api.ts\<close>). It is a state machine \<open>auth_reachable\<close> whose events are
    page loads, the context's login and logout, \<open>useLogin\<close>'s login on the login
    page (the page's \<open>LoginForm\<close> is not in the repository, so both login paths
    are events) and the menu's sign-out. Its invariant keeps service and storage in
    step, and the context's user, when set, is the service's. The protected route
    renders only for an authenticated service (\<open>protected_route_sound\<close>). A
    \<open>useLogin\<close> login authenticates the service but not the context, so the user
    stays on the login page until a reload (\<open>hook_login_not_routed\<close>). Logout
    clears everything, but the menu's sign-out does not. Storage round-trips and
    expires. The login error messages and the default role are as written.
  \<^item> \<open>Wallet\<close>, the wallet state of \<open>web3/WalletContext.tsx\<close> and
    \<open>web3/hooks/useWallet.ts\<close> with the components that show it, and
    hexadecimal chain ids. The address is always the first account. A chain switch
    leaves the old chain id in the state. The account selector reads a separate hook
    instance, and its unmount removes the context's listeners: after a Disconnect
    while it is mounted, no later provider event changes the context
    (\<open>listeners_lost_after_disconnect\<close>). Chain ids round-trip through hexadecimal.
  \<^item> \<open>WalletRace\<close>, the wallet widget with requests in flight.
    \<open>connectWallet\<close> is split at its first \<open>await\<close> into \<open>connect_begin\<close> and
    \<open>connect_settle\<close>; run back to back they are the atomic model of \<open>Wallet\<close>
    (lemma \<open>connectWallet_halves\<close>). In \<open>async_step\<close>, clicks (guarded by
    what \<open>WalletConnect\<close> renders), provider events and settling requests
    interleave freely. The address invariant holds in every interleaving
    (\<open>async_run_address_ok\<close>). A Disconnect click during a pending connect is
    undone when the request settles, and the context is left deaf
    (\<open>disconnect_during_connect_reconnects\<close>). An error locks the widget until a
    provider disconnect (\<open>error_locks_widget\<close>). The context's and the hook's
    account requests are separate copies of the same code
    (\<open>account_request_copies\<close>).
  \<^item> \<open>Tokenomics\<close>, the tokenomics form and live display. The form never loads
    the stored record, so saving it writes empty strings into every field not
    edited. The display follows the store. The form's inputs are its five sections
    (supply, market, tax, liquidity, price) in the order they are rendered.
  \<^item> \<open>Collections\<close>, the list-and-form page shared by the offers and staking
    dashboards, stated over the record type. It proves the effect of create, edit
    and delete on the stored map, the invariant that the list shows the store, and
    that an edit racing with a deletion recreates the entry. \<open>Offers\<close> and
    \<open>Staking\<close> instantiate it with their records, forms, cards and extra events
    (the requirement list, the pool status toggle, the stakes listener).
    \<open>Rewards\<close> holds the rewards tab's figures and rows.
  \<^item> \<open>ChainStats\<close>, on-chain figures: \<open>lib/web3/transactions.ts\<close> with its
    module-level 30-second cache threaded through calls (\<open>getTransactions_calls\<close>;
    each call has the clock at its start, for the freshness test, and at its end,
    which stamps the cache),
    the \<open>useTransactions\<close> query as a sequence of fetches
    (\<open>useTransactions_run\<close>), the Transactions page, \<open>lib/web3/stats.ts\<close> and the
    Dashboard's cards. The page never shows its loading or error text
    (\<open>transactions_page_never_fails\<close>), results are newest first and within the
    limit, the cache serves a truncated list to a larger limit, and a fetch 30
    seconds after the last one settled shows the chain's current transfers
    (\<open>useTransactions_refreshes\<close>). Because the stamp is taken when a fetch
    settles, a refetch 30 seconds after the previous one started serves the cache
    (lemma \<open>interval_refetch_serves_cache\<close>).
    \<open>TransactionList\<close> is the unused table component with its headers and rows.
  \<^item> \<open>Dashboard\<close>, the web3 library modules (\<open>lib/web3/provider.ts\<close>,
    \<open>contract.ts\<close>, \<open>wallet.ts\<close>) and the Dashboard's balance queries
    (\<open>components/StatsOverview.tsx\<close>, \<open>hooks/useAccountBalance.ts\<close>; no page
    uses either). A react-query query is \<open>query_run\<close>: a sequence of fetches, each
    running the retry loop \<open>query_attempts\<close>. That loop is a \<open>function\<close>
    whose termination measure is the number of retries left. It calls the query
    function at most \<open>retry + 1\<close> times and ends with the first answer that
    resolved (\<open>query_attempts_settles\<close>). \<open>getXLCBalance\<close> turns a rejected
    \<open>balanceOf\<close> into \<open>'0'\<close>, so the Total Supply card never shows its
    \<open>N/A\<close> branch for a connected wallet and shows a failed read as "0 XLC"
    (\<open>stats_total_supply_connected\<close>). Both queries share the key
    \<open>['xlcBalance', address]\<close> and, since their function never rejects, reach
    the same state whatever their retry counts. \<open>query_attempts\<close> models
    react-query's behaviour, a library, as far as these two queries use it. The library's
    \<open>connectWallet\<close> agrees with the wallet hook's whenever the hook also
    switches chains (\<open>lib_connect_agrees_hook\<close>).
  \<^item> \<open>Users\<close>, the Users page (\<open>pages/Users\<close>: \<open>fetchUsers\<close>, the filter hook
    and controls, the row, and the page's query cache keyed by filters as the step
    function \<open>users_step\<close>) and the unused statistics services
    (\<open>services/dashboardService.ts\<close>, \<open>pages/Dashboard/api/stats.ts\<close>).
    Firebase's \<open>startAt\<close>, \<open>endAt\<close> and \<open>equalTo\<close> are filters in the
    database's order of child values, a \<open>linorder\<close> instance on \<open>fb_val\<close>.
    Every listed user matches the filters on screen (\<open>users_page_lists_match\<close>);
    on typed records \<open>fetchUsers\<close> is a status-and-search filter
    (\<open>fetchUsers_filters\<close>) and returns typed users (\<open>fetchUsers_typed\<close>); one
    record without e-mail empties any search (\<open>fetchUsers_missing_email_empty\<close>);
    string \<open>createdAt\<close> values make every user new
    (lemma \<open>fetchUserStats_string_createdAt\<close>), and the change stays within 0--100.
  \<^item> \<open>Deploy\<close>, the contract deployment page: its types, \<open>ParameterConfig\<close>
    (\<open>validateParameter\<close>, \<open>handleChange\<close>, \<open>handleSubmit\<close>, the controls'
    values and the browser's \<open>min\<close>/\<open>max\<close>/\<open>pattern\<close> checks),
    \<open>TemplateSelector\<close> and \<open>ContractDashboard\<close> composed as the step function
    \<open>deploy_step\<close>, the security toggles and the registry search. Parameters reach
    \<open>onDeploy\<close> only after validation (\<open>deploy_logs_only_valid\<close>); a required
    boolean cannot be deployed as false (\<open>deploy_required_false_blocks\<close>); values
    entered for one template are deployed with the next
    (\<open>deploy_parameters_carry_over\<close>); every deployment stays pending
    (\<open>deploy_deployments_pending\<close>); text and array controls show what was typed
    (\<open>param_control_shows_typed_text\<close>, through \<open>split\<close> and \<open>join\<close>). The token
    deployment form accepts shares that do not total 100, and the deployment
    monitor shows only pending entries.
  \<^item> \<open>ContractService\<close>, the HTTP client (\<open>lib/api.ts\<close>: the axios instance's
    base URL, timeout and headers as \<open>api_prepare\<close>, the response interceptor as
    \<open>api_call\<close>) and the five wrappers of \<open>services/contractService.ts\<close>, over a
    parameter \<open>send\<close> that answers each sent request. After a login the deploy
    request carries the stored JSON text after Bearer, not the token
    (\<open>deployContract_request_after_login\<close>, with \<open>Auth\<close>'s login). The
    selector's \<open>loadTemplates\<close> settles \<open>deploy_step\<close>; a failed request is
    toasted twice and looks like an empty catalogue
    (\<open>loadTemplates_failure_shown_twice\<close>). Only \<open>fetchContractTemplates\<close> has a
    caller in the application.
  \<^item> \<open>WalletRequests\<close>, the two chain configurations (\<open>web3/constants.ts\<close>,
    \<open>lib/web3/constants.ts\<close>) and the provider requests of the hook's and the
    library's \<open>connectWallet\<close> in the order they are sent. The configurations
    share the chain id \<open>0x38\<close> but differ in RPC and explorer URLs
    (\<open>chain_configs_differ\<close>). Off BNB Smart Chain the library sends the hook's
    requests without \<open>eth_chainId\<close> and with its own configuration; on it, only
    the library asks to switch.
  \<^item> \<open>Integration\<close>, the other tabs of the deployment page:
    \<open>XLCIntegration\<close>'s feature rows with their status icons, badges and security
    colours (a \<open>feature_status\<close> enumeration with an \<open>enum\<close> instance), its fixed
    audit figures and registry links, the registry's cards behind its search (an
    empty search shows every contract), the security control cards (toggling twice
    restores the flags, and the footer always names Admin), and the page's tabs.
  \<^item> \<open>APIManagement\<close>, the API management panels: the mock requests, the
    dashboard cards, the transactions filter and table, the liquidity figures (which
    show \<open>NaN%\<close> while loading), the users and staking rows, and the settings panel
    as the step function \<open>settings_step\<close>. The settings form holds the first fetched
    configuration with some of the user's own inputs applied in order, whatever
    later fetches return (\<open>settings_form_first_config\<close>, by induction over the
    event sequence).
  \<^item> \<open>APIPanels\<close>, the liquidity, staking and users panels as one list-panel
    state \<open>'a list_panel\<close> over the item type, with each panel's cards, handlers
    and render, the page's tabs, and the string unions of \<open>types.ts\<close> as predicates
    that the mock data satisfy. What a panel shows depends only on the last settled
    fetch (\<open>list_panel_shows_last_fetch\<close>). A failed Refresh hides the data
    loaded before, and no other button changes the screen. The API dashboard tab
    shows a healthy system with zero figures when its fetch fails
    (\<open>api_dashboard_failed_fetch\<close>).
  \<^item> \<open>Shell\<close>, the route table of \<open>App.tsx\<close>, the sidebar's navigation (its
    Settings link matches no route) and the notifications bell, whose dot shows
    exactly when the last snapshot holds a notification with \<open>read\<close> false.
    The sidebar's links use \<open>NavLink\<close>'s active test (exact, or below the path
    at a \<open>/\<close> boundary, ignoring case); on every route of the application exactly
    one link is active, and none on \<open>/login\<close> (\<open>sidebar_active_counts\<close>). The user
    menu's toggle and navigation and the header's items are modelled with it.

  \<^bold>\<open>Not modelled.\<close> The Firebase, web3 and HTTP libraries are external
  collaborators: their results enter the model as inputs (write outcomes, fetched
  values, UUIDs and push keys). So are \<open>toLocaleString\<close> and date formatting, as
  parameters. Modules the sources import but the repository does not contain
  (\<open>lib/firebase\<close>, \<open>components/Layout\<close>, \<open>components/ui/Tabs\<close>,
  \<open>components/ErrorBoundary\<close>) are not modelled. Also not modelled: markup and
  styling beyond the texts and figures a view shows, and IEEE rounding. The
  header and layout markup is listed as a component of the manifest with its
  status. The Users page imports
  \<open>./components/UserList\<close> and \<open>../types\<close>, which the repository does not
  contain; the list is modelled by the props it receives and the user type by
  \<open>types/user.ts\<close>.
\<close>

end
